(* ===== verification/Prelude.thy ===== *)
theory Prelude
  imports Main "HOL-Library.List_Lexorder" "HOL-Library.Char_ord" "HOL-Library.Sublist"
begin

text \<open>
  Shared material of the development: errors as values, the Python string
  operations the sources use, decimal integers, and keyed tables (the rows of a
  SQLite table with a primary key).

  A Python string is an Isabelle \<open>string\<close> whose characters are the code points
  U+0000 to U+00FF; the string operations below are the ones of Python on these code
  points. Code points above U+00FF are outside the model.
\<close>

named_theorems table_simps \<open>lookups and updates of keyed tables\<close>
named_theorems result_simps \<open>the error monad\<close>

section \<open>Errors as values\<close>

datatype py_error =
    ValueError string
  | KeyError string
  | TypeError string
  | AttributeError string
  | PermissionError string
  | RuntimeError string
  | IntegrityError string
  | ConcurrentAppendError string
  | ProgrammingError string
  | OverflowError string
  | UnicodeEncodeError string
  | IndexError string
  | AssertionError string
  | NotImplementedError string
  | NotSupportedError string
  | VectorDimensionError string
  | HTTPException int string string \<comment> \<open>status, OAuth error code, description\<close>
  | OAuthClientQuotaExceeded string
  | OAuthProviderStateQuotaExceeded string

type_synonym 'a result = "py_error + 'a"

fun bind_result :: "'a result \<Rightarrow> ('a \<Rightarrow> 'b result) \<Rightarrow> 'b result" where
  "bind_result (Inl e) f = Inl e"
| "bind_result (Inr x) f = f x"

definition guard_result :: "bool \<Rightarrow> py_error \<Rightarrow> unit result" where
  "guard_result b e = (if b then Inr () else Inl e)"

fun map_result :: "('a \<Rightarrow> 'b result) \<Rightarrow> 'a list \<Rightarrow> 'b list result" where
  "map_result f [] = Inr []"
| "map_result f (x # xs) =
     bind_result (f x) (\<lambda>y. bind_result (map_result f xs) (\<lambda>ys. Inr (y # ys)))"

lemma bind_result_Inr_iff [result_simps]:
  "bind_result m f = Inr y \<longleftrightarrow> (\<exists>x. m = Inr x \<and> f x = Inr y)"
  by (cases m) auto

lemma bind_result_Inl_iff [result_simps]:
  "bind_result m f = Inl e \<longleftrightarrow> m = Inl e \<or> (\<exists>x. m = Inr x \<and> f x = Inl e)"
  by (cases m) auto

lemma case_option_Inr_iff [result_simps]:
  "(case m of None \<Rightarrow> a | Some x \<Rightarrow> f x) = Inr y \<longleftrightarrow>
     (m = None \<and> a = Inr y) \<or> (\<exists>x. m = Some x \<and> f x = Inr y)"
  by (cases m) auto

lemma if_Inr_iff [result_simps]:
  "(if b then x else y) = Inr z \<longleftrightarrow> (b \<and> x = Inr z) \<or> (\<not> b \<and> y = Inr z)"
  by auto

lemma case_prod_Inr_iff [result_simps]:
  "(case p of (a, b) \<Rightarrow> f a b) = Inr y \<longleftrightarrow> (\<exists>a b. p = (a, b) \<and> f a b = Inr y)"
  by (cases p) auto

lemma guard_result_Inr_iff [result_simps]: "guard_result b e = Inr u \<longleftrightarrow> b"
  by (simp add: guard_result_def)

lemma guard_result_Inl_iff [result_simps]: "guard_result b e = Inl e' \<longleftrightarrow> \<not> b \<and> e' = e"
  by (auto simp: guard_result_def)

lemma guard_result_simps [simp]: "guard_result True e = Inr ()" "guard_result False e = Inl e"
  by (simp_all add: guard_result_def)

text \<open>A loop whose body can raise: the state is threaded through the elements.\<close>

fun fold_result :: "('a \<Rightarrow> 's \<Rightarrow> 's result) \<Rightarrow> 'a list \<Rightarrow> 's \<Rightarrow> 's result" where
  "fold_result f [] s = Inr s"
| "fold_result f (x # xs) s = bind_result (f x s) (\<lambda>s'. fold_result f xs s')"

lemma fold_result_invariant:
  assumes "fold_result f xs s = Inr t" "P s"
    and "\<And>x s t. x \<in> set xs \<Longrightarrow> P s \<Longrightarrow> f x s = Inr t \<Longrightarrow> P t"
  shows "P t"
  using assms by (induction xs arbitrary: s) (auto simp: bind_result_Inr_iff)

lemma fold_result_append:
  "fold_result f (xs @ ys) s = bind_result (fold_result f xs s) (fold_result f ys)"
proof (induction xs arbitrary: s)
  case (Cons x xs)
  then show ?case by (cases "f x s") auto
qed simp

lemma map_result_Inr_length: "map_result f xs = Inr ys \<Longrightarrow> length ys = length xs"
  by (induction xs arbitrary: ys) (auto simp: result_simps)

lemma map_result_Inr_list_all2: "map_result f xs = Inr ys \<longleftrightarrow> list_all2 (\<lambda>x y. f x = Inr y) xs ys"
proof (induction xs arbitrary: ys)
  case Nil
  then show ?case by (cases ys) auto
next
  case (Cons x xs)
  then show ?case by (cases ys) (auto simp: result_simps)
qed

section \<open>Strings\<close>

definition chr_in :: "nat \<Rightarrow> nat \<Rightarrow> char \<Rightarrow> bool" where
  "chr_in lo hi c \<longleftrightarrow> lo \<le> of_char c \<and> (of_char c :: nat) \<le> hi"

text \<open>\<open>str.isspace\<close> on one character: TAB to CR, FS to US, space, NEL and NBSP.\<close>

definition py_space :: "char \<Rightarrow> bool" where
  "py_space c \<longleftrightarrow> chr_in 9 13 c \<or> chr_in 28 32 c \<or> chr_in 133 133 c \<or> chr_in 160 160 c"

text \<open>\<open>str.lower\<close>: A to Z, and U+00C0 to U+00DE except the multiplication sign.\<close>

definition py_lower_char :: "char \<Rightarrow> char" where
  "py_lower_char c =
     (if chr_in 65 90 c \<or> (chr_in 192 222 c \<and> \<not> chr_in 215 215 c)
      then char_of (of_char c + 32 :: nat) else c)"

definition py_lower :: "string \<Rightarrow> string" where
  "py_lower s = map py_lower_char s"

definition strip_chars :: "(char \<Rightarrow> bool) \<Rightarrow> string \<Rightarrow> string" where
  "strip_chars p s = rev (dropWhile p (rev (dropWhile p s)))"

definition py_strip :: "string \<Rightarrow> string" where
  "py_strip s = strip_chars py_space s"

text \<open>\<open>str.isdigit\<close>: the decimal digits and the superscripts two, three and one.\<close>

definition ascii_digit :: "char \<Rightarrow> bool" where
  "ascii_digit c \<longleftrightarrow> chr_in 48 57 c"

definition py_isdigit_char :: "char \<Rightarrow> bool" where
  "py_isdigit_char c \<longleftrightarrow> ascii_digit c \<or> chr_in 178 179 c \<or> chr_in 185 185 c"

definition py_isdigit :: "string \<Rightarrow> bool" where
  "py_isdigit s \<longleftrightarrow> s \<noteq> [] \<and> list_all py_isdigit_char s"

definition ascii_lower :: "char \<Rightarrow> bool" where
  "ascii_lower c \<longleftrightarrow> chr_in 97 122 c"

definition ascii_alnum :: "char \<Rightarrow> bool" where
  "ascii_alnum c \<longleftrightarrow> chr_in 48 57 c \<or> chr_in 65 90 c \<or> chr_in 97 122 c"

text \<open>\<open>len(s.encode("utf-8"))\<close>.\<close>

definition utf8_length :: "string \<Rightarrow> nat" where
  "utf8_length s = sum_list (map (\<lambda>c. if chr_in 0 127 c then 1 else 2) s)"

text \<open>\<open>s.split(sep)\<close> for a one-character separator, and \<open>s.split()\<close>.\<close>

fun split_on :: "char \<Rightarrow> string \<Rightarrow> string list" where
  "split_on sep [] = [ [] ]"
| "split_on sep (c # cs) =
     (if c = sep then [] # split_on sep cs
      else (case split_on sep cs of [] \<Rightarrow> [ [c] ] | w # ws \<Rightarrow> (c # w) # ws))"

fun split_ws_aux :: "string \<Rightarrow> string \<Rightarrow> string list" where
  "split_ws_aux acc [] = (if acc = [] then [] else [rev acc])"
| "split_ws_aux acc (c # cs) =
     (if py_space c then (if acc = [] then split_ws_aux [] cs else rev acc # split_ws_aux [] cs)
      else split_ws_aux (c # acc) cs)"

definition split_ws :: "string \<Rightarrow> string list" where
  "split_ws s = split_ws_aux [] s"

fun join_with :: "string \<Rightarrow> string list \<Rightarrow> string" where
  "join_with sep [] = []"
| "join_with sep [w] = w"
| "join_with sep (w # ws) = w @ sep @ join_with sep ws"

fun has_sub :: "string \<Rightarrow> string \<Rightarrow> bool" where
  "has_sub needle [] = (needle = [])"
| "has_sub needle (c # cs) = (take (length needle) (c # cs) = needle \<or> has_sub needle cs)"

text \<open>\<open>s.replace(old, new)\<close> for a non-empty \<open>old\<close>: left to right, without overlap.\<close>

function replace_sub :: "string \<Rightarrow> string \<Rightarrow> string \<Rightarrow> string" where
  "replace_sub old new [] = []"
| "replace_sub old new (c # cs) =
     (if old \<noteq> [] \<and> take (length old) (c # cs) = old
      then new @ replace_sub old new (drop (length old) (c # cs))
      else c # replace_sub old new cs)"
  by pat_completeness auto
termination
  by (relation "measure (\<lambda>(old, new, s). length s)") auto

text \<open>\<open>dict.fromkeys\<close>-style order-preserving removal of later duplicates.\<close>

fun unique_in_order :: "'a list \<Rightarrow> 'a list \<Rightarrow> 'a list" where
  "unique_in_order seen [] = []"
| "unique_in_order seen (x # xs) =
     (if x \<in> set seen then unique_in_order seen xs
      else x # unique_in_order (x # seen) xs)"

lemma set_unique_in_order: "set (unique_in_order seen xs) = set xs - set seen"
  by (induction seen xs rule: unique_in_order.induct) auto

lemma distinct_unique_in_order: "distinct (unique_in_order seen xs)"
  by (induction seen xs rule: unique_in_order.induct) (auto simp: set_unique_in_order)

lemma unique_in_order_distinct:
  "distinct xs \<Longrightarrow> set xs \<inter> set seen = {} \<Longrightarrow> unique_in_order seen xs = xs"
  by (induction seen xs rule: unique_in_order.induct) auto

lemma split_on_not_Nil [simp]: "split_on sep s \<noteq> []"
  by (induction s) (auto split: list.splits)

lemma split_on_no_sep: "sep \<notin> set s \<Longrightarrow> split_on sep s = [s]"
  by (induction s) auto

lemma split_on_append: "sep \<notin> set s \<Longrightarrow> split_on sep (s @ sep # t) = s # split_on sep t"
  by (induction s) auto

lemma dropWhile_idem_last:
  "dropWhile p (rev (dropWhile p (rev (dropWhile p s)))) = rev (dropWhile p (rev (dropWhile p s)))"
proof (cases "dropWhile p s")
  case Nil
  then show ?thesis by (simp only: rev.simps dropWhile.simps)
next
  case (Cons c cs)
  then have c: "\<not> p c"
    by (metis hd_dropWhile list.distinct(1) list.sel(1))
  have "rev (dropWhile p (rev (c # cs))) = c # rev (dropWhile p (rev cs))"
    using c by (simp add: dropWhile_append)
  then show ?thesis
    using Cons c by simp
qed

lemma py_strip_idem [simp]: "py_strip (py_strip s) = py_strip s"
  by (simp add: py_strip_def strip_chars_def dropWhile_idem_last)

lemma set_strip_subset: "set (strip_chars p s) \<subseteq> set s"
  unfolding strip_chars_def
  by (metis (no_types, lifting) order_trans set_dropWhileD set_rev subsetI)

section \<open>Decimal integers\<close>

definition digit_char :: "nat \<Rightarrow> char" where
  "digit_char d = char_of (48 + d)"

definition digit_val :: "char \<Rightarrow> nat" where
  "digit_val c = of_char c - 48"

fun nat_str :: "nat \<Rightarrow> string" where
  "nat_str n = (if n < 10 then [digit_char n] else nat_str (n div 10) @ [digit_char (n mod 10)])"

declare nat_str.simps [simp del]

definition int_str :: "int \<Rightarrow> string" where
  "int_str i = (if i < 0 then CHR ''-'' # nat_str (nat (- i)) else nat_str (nat i))"

definition digits_val :: "string \<Rightarrow> nat" where
  "digits_val s = foldl (\<lambda>acc c. 10 * acc + digit_val c) 0 s"

lemma digit_char_digit: "d < 10 \<Longrightarrow> ascii_digit (digit_char d) \<and> digit_val (digit_char d) = d"
  by (simp add: ascii_digit_def chr_in_def digit_char_def digit_val_def)

lemma nat_str_digits: "list_all ascii_digit (nat_str n)"
proof (induction n rule: nat_str.induct)
  case (1 n)
  then show ?case
    by (subst nat_str.simps) (auto simp: digit_char_digit)
qed

lemma nat_str_not_Nil [simp]: "nat_str n \<noteq> []"
  by (subst nat_str.simps) auto

lemma digits_val_nat_str [simp]: "digits_val (nat_str n) = n"
proof (induction n rule: nat_str.induct)
  case (1 n)
  then show ?case
    by (subst nat_str.simps) (auto simp: digits_val_def digit_char_digit)
qed

lemma nat_str_inj [simp]: "nat_str m = nat_str n \<longleftrightarrow> m = n"
  by (metis digits_val_nat_str)

lemma nat_str_isdigit [simp]: "py_isdigit (nat_str n)"
  using nat_str_digits [of n]
  by (auto simp: py_isdigit_def py_isdigit_char_def list_all_iff)

lemma colon_not_in_nat_str [simp]: "CHR '':'' \<notin> set (nat_str n)"
proof -
  have "\<not> ascii_digit (CHR '':'')"
    by (simp add: ascii_digit_def chr_in_def)
  then show ?thesis
    using nat_str_digits [of n] by (auto simp: list_all_iff)
qed

text \<open>
  \<open>int(s)\<close> for a string: optional surrounding white space, an optional sign, then
  decimal digits with single underscores between digits, at most 4300 of them (the default
  limit of the interpreter); anything else raises.
\<close>

fun digit_groups :: "bool \<Rightarrow> string \<Rightarrow> string option" where
  "digit_groups after_digit [] = (if after_digit then Some [] else None)"
| "digit_groups after_digit (c # cs) =
     (if ascii_digit c then map_option (Cons c) (digit_groups True cs)
      else if c = CHR ''_'' \<and> after_digit then digit_groups False cs
      else None)"

definition int_of_str :: "string \<Rightarrow> int result" where
  "int_of_str s =
     (let t = py_strip s;
          neg = (t \<noteq> [] \<and> hd t = CHR ''-'');
          body = (if t \<noteq> [] \<and> (hd t = CHR ''-'' \<or> hd t = CHR ''+'') then tl t else t)
      in case digit_groups False body of
           None \<Rightarrow> Inl (ValueError ''invalid literal for int() with base 10'')
         | Some ds \<Rightarrow>
             if length ds > 4300
               then Inl (ValueError ''Exceeds the limit (4300 digits) for integer string conversion'')
             else Inr (if neg then - int (digits_val ds) else int (digits_val ds)))"

section \<open>Keyed tables\<close>

text \<open>
  A table is the list of its rows in insertion order. \<open>tbl_upsert\<close> is
  \<open>INSERT ... ON CONFLICT(key) DO UPDATE\<close>: the second argument merges the stored row
  with the excluded one. \<open>tbl_insert\<close> is a plain \<open>INSERT\<close>, which fails on a key that
  is already present. \<open>tbl_update\<close> is \<open>UPDATE ... WHERE\<close>.
\<close>

definition tbl_get :: "('r \<Rightarrow> 'k) \<Rightarrow> 'k \<Rightarrow> 'r list \<Rightarrow> 'r option" where
  "tbl_get key k rows = find (\<lambda>r. key r = k) rows"

fun tbl_upsert :: "('r \<Rightarrow> 'k) \<Rightarrow> ('r \<Rightarrow> 'r \<Rightarrow> 'r) \<Rightarrow> 'r \<Rightarrow> 'r list \<Rightarrow> 'r list" where
  "tbl_upsert key mg new [] = [new]"
| "tbl_upsert key mg new (r # rs) =
     (if key r = key new then mg r new # rs else r # tbl_upsert key mg new rs)"

definition tbl_insert :: "('r \<Rightarrow> 'k) \<Rightarrow> 'r \<Rightarrow> 'r list \<Rightarrow> 'r list option" where
  "tbl_insert key new rows =
     (if key new \<in> set (map key rows) then None else Some (rows @ [new]))"

definition tbl_update :: "('r \<Rightarrow> bool) \<Rightarrow> ('r \<Rightarrow> 'r) \<Rightarrow> 'r list \<Rightarrow> 'r list" where
  "tbl_update p f rows = map (\<lambda>r. if p r then f r else r) rows"

definition tbl_count :: "('r \<Rightarrow> bool) \<Rightarrow> 'r list \<Rightarrow> nat" where
  "tbl_count p rows = length (filter p rows)"

lemma tbl_get_Nil [table_simps]: "tbl_get key k [] = None"
  by (simp add: tbl_get_def)

lemma tbl_get_Cons [table_simps]:
  "tbl_get key k (r # rs) = (if key r = k then Some r else tbl_get key k rs)"
  by (simp add: tbl_get_def)

lemma tbl_get_Some_key: "tbl_get key k rows = Some r \<Longrightarrow> key r = k \<and> r \<in> set rows"
  by (auto simp: tbl_get_def find_Some_iff)

lemma tbl_get_None_iff: "tbl_get key k rows = None \<longleftrightarrow> k \<notin> key ` set rows"
  by (auto simp: tbl_get_def find_None_iff)

lemma tbl_get_append:
  "tbl_get key k (xs @ ys) = (case tbl_get key k xs of None \<Rightarrow> tbl_get key k ys | Some r \<Rightarrow> Some r)"
  by (induction xs) (auto simp: table_simps)

lemma tbl_insert_Some_iff:
  "tbl_insert key new rows = Some rows' \<longleftrightarrow> key new \<notin> key ` set rows \<and> rows' = rows @ [new]"
  by (auto simp: tbl_insert_def)

lemma tbl_insert_None_iff: "tbl_insert key new rows = None \<longleftrightarrow> key new \<in> key ` set rows"
  by (auto simp: tbl_insert_def)

lemma map_key_tbl_update:
  "(\<And>r. key (f r) = key r) \<Longrightarrow> map key (tbl_update p f rows) = map key rows"
  by (simp add: tbl_update_def)

lemma tbl_get_tbl_update:
  "(\<And>r. key (f r) = key r) \<Longrightarrow>
     tbl_get key k (tbl_update p f rows) =
       map_option (\<lambda>r. if p r then f r else r) (tbl_get key k rows)"
  by (induction rows) (auto simp: tbl_update_def tbl_get_def)

lemma set_tbl_update: "set (tbl_update p f rows) = (\<lambda>r. if p r then f r else r) ` set rows"
  by (simp add: tbl_update_def)

lemma distinct_key_get:
  "distinct (map key rows) \<Longrightarrow> r \<in> set rows \<Longrightarrow> tbl_get key (key r) rows = Some r"
  by (induction rows) (auto simp: table_simps)

text \<open>
  The contract of a table whose \<open>ON CONFLICT DO UPDATE\<close> clause never rewrites the
  primary key: what a lookup sees after an upsert, and that keys stay unique.
\<close>

locale keyed_table =
  fixes key :: "'r \<Rightarrow> 'k"
    and mg :: "'r \<Rightarrow> 'r \<Rightarrow> 'r"
  assumes key_mg: "key (mg old new) = key old"
begin

lemma get_upsert:
  "tbl_get key k (tbl_upsert key mg new rows) =
     (if k = key new
      then Some (case tbl_get key k rows of None \<Rightarrow> new | Some old \<Rightarrow> mg old new)
      else tbl_get key k rows)"
  by (induction rows) (auto simp: table_simps key_mg)

lemma keys_upsert: "key ` set (tbl_upsert key mg new rows) = insert (key new) (key ` set rows)"
  by (induction rows) (auto simp: key_mg)

lemma distinct_upsert:
  "distinct (map key rows) \<Longrightarrow> distinct (map key (tbl_upsert key mg new rows))"
proof (induction rows)
  case (Cons r rs)
  have "key ` set (tbl_upsert key mg new rs) = insert (key new) (key ` set rs)"
    by (rule keys_upsert)
  then show ?case using Cons by (auto simp: key_mg)
qed simp

lemma upsert_rows:
  "r \<in> set (tbl_upsert key mg new rows) \<Longrightarrow>
     r \<in> set rows \<or> r = new \<or> (\<exists>old \<in> set rows. key old = key new \<and> r = mg old new)"
  by (induction rows) (auto split: if_splits)

lemma upsert_keeps:
  "r \<in> set rows \<Longrightarrow> key r \<noteq> key new \<Longrightarrow> r \<in> set (tbl_upsert key mg new rows)"
  by (induction rows) auto

end

end
