(* ===== verification/PyValue.thy ===== *)
theory PyValue
  imports Prelude
begin

text \<open>
  The dynamically typed values the Python code passes around: everything that
  \<open>json.loads\<close> can return. A dictionary is its list of items in insertion order with
  string keys, as in Python; a float is represented by its \<open>repr\<close>, since the modelled
  code only moves floats around.
\<close>

named_theorems dict_simps \<open>dictionary reads after dictionary writes\<close>

datatype pyval =
    PNone
  | PBool bool
  | PInt int
  | PFloat string
  | PStr string
  | PList "pyval list"
  | PDict "(string \<times> pyval) list"

type_synonym pydict = "(string \<times> pyval) list"

section \<open>Dictionaries\<close>

definition dget :: "pydict \<Rightarrow> string \<Rightarrow> pyval option" where
  "dget d k = map_of d k"

definition dget_or :: "pydict \<Rightarrow> string \<Rightarrow> pyval \<Rightarrow> pyval" where
  "dget_or d k v = (case dget d k of None \<Rightarrow> v | Some w \<Rightarrow> w)"

text \<open>\<open>d.get(k)\<close>: a missing key reads as \<open>None\<close>.\<close>

definition dget_none :: "pydict \<Rightarrow> string \<Rightarrow> pyval" where
  "dget_none d k = dget_or d k PNone"

definition dhas :: "pydict \<Rightarrow> string \<Rightarrow> bool" where
  "dhas d k \<longleftrightarrow> dget d k \<noteq> None"

text \<open>\<open>d[k]\<close> raises on a missing key.\<close>

definition ditem :: "pydict \<Rightarrow> string \<Rightarrow> pyval result" where
  "ditem d k = (case dget d k of None \<Rightarrow> Inl (KeyError k) | Some v \<Rightarrow> Inr v)"

text \<open>\<open>d[k] = v\<close> keeps the position of a present key and appends a new one.\<close>

fun dset :: "pydict \<Rightarrow> string \<Rightarrow> pyval \<Rightarrow> pydict" where
  "dset [] k v = [(k, v)]"
| "dset ((k', v') # d) k v = (if k' = k then (k, v) # d else (k', v') # dset d k v)"

definition dpop :: "pydict \<Rightarrow> string \<Rightarrow> pydict" where
  "dpop d k = filter (\<lambda>(k', v). k' \<noteq> k) d"

definition dsetdefault :: "pydict \<Rightarrow> string \<Rightarrow> pyval \<Rightarrow> pydict" where
  "dsetdefault d k v = (if dhas d k then d else dset d k v)"

definition dupdate :: "pydict \<Rightarrow> pydict \<Rightarrow> pydict" where
  "dupdate d upd = foldl (\<lambda>acc (k, v). dset acc k v) d upd"

definition dpop_all :: "pydict \<Rightarrow> string list \<Rightarrow> pydict" where
  "dpop_all d ks = foldl dpop d ks"

lemma dget_dset [dict_simps, simp]: "dget (dset d k v) k' = (if k' = k then Some v else dget d k')"
  by (induction d k v rule: dset.induct) (auto simp: dget_def)

lemma dget_Nil [simp]: "dget [] k = None"
  by (simp add: dget_def)

lemma dget_Cons [simp]: "dget ((k', v) # d) k = (if k' = k then Some v else dget d k)"
  by (simp add: dget_def)

lemma dget_dpop [dict_simps, simp]: "dget (dpop d k) k' = (if k' = k then None else dget d k')"
  by (induction d) (auto simp: dget_def dpop_def)

lemma dget_dsetdefault [dict_simps, simp]:
  "dget (dsetdefault d k v) k' =
     (if k' = k \<and> dget d k = None then Some v else dget d k')"
  by (auto simp: dsetdefault_def dhas_def)

lemma dget_dpop_all: "dget (dpop_all d ks) k = (if k \<in> set ks then None else dget d k)"
  by (induction ks arbitrary: d) (auto simp: dpop_all_def)

lemma dset_idem [simp]: "dset (dset d k v) k w = dset d k w"
  by (induction d k v rule: dset.induct) auto

lemma dset_same: "dget d k = Some v \<Longrightarrow> dset d k v = d"
  by (induction d) (auto simp: dget_def split: if_splits)

lemma dpop_absent: "dget d k = None \<Longrightarrow> dpop d k = d"
  by (induction d) (auto simp: dpop_def split: if_splits)

lemma keys_dset: "fst ` set (dset d k v) = insert k (fst ` set d)"
  by (induction d k v rule: dset.induct) auto

text \<open>The keys of a Python dictionary are pairwise distinct.\<close>

definition dict_ok :: "pydict \<Rightarrow> bool" where
  "dict_ok d \<longleftrightarrow> distinct (map fst d)"

lemma dict_ok_dset: "dict_ok d \<Longrightarrow> dict_ok (dset d k v)"
proof (induction d k v rule: dset.induct)
  case (2 k' v' d k v)
  then show ?case
    using keys_dset [of d k v] by (auto simp: dict_ok_def)
qed (simp add: dict_ok_def)

lemma dict_ok_dpop: "dict_ok d \<Longrightarrow> dict_ok (dpop d k)"
  by (simp add: dict_ok_def dpop_def distinct_map_filter)

section \<open>Truth values, text and JSON\<close>

fun truthy :: "pyval \<Rightarrow> bool" where
  "truthy PNone = False"
| "truthy (PBool b) = b"
| "truthy (PInt i) = (i \<noteq> 0)"
| "truthy (PFloat r) = (r \<noteq> ''0.0'' \<and> r \<noteq> ''-0.0'')"
| "truthy (PStr s) = (s \<noteq> [])"
| "truthy (PList xs) = (xs \<noteq> [])"
| "truthy (PDict d) = (d \<noteq> [])"

definition hex_digit :: "nat \<Rightarrow> char" where
  "hex_digit d = (if d < 10 then char_of (48 + d) else char_of (87 + d))"

definition hex2 :: "nat \<Rightarrow> string" where
  "hex2 n = [hex_digit (n div 16), hex_digit (n mod 16)]"

definition backslash :: char where
  "backslash = CHR 0x5C"

definition repr_char :: "char \<Rightarrow> char \<Rightarrow> string" where
  "repr_char quote c =
     (if c = backslash \<or> c = quote then [backslash, c]
      else if c = CHR 0x0A then [backslash, CHR ''n'']
      else if c = CHR 0x0D then [backslash, CHR ''r'']
      else if c = CHR 0x09 then [backslash, CHR ''t'']
      else if chr_in 0 31 c \<or> chr_in 127 160 c \<or> chr_in 173 173 c
        then [backslash, CHR ''x''] @ hex2 (of_char c)
      else [c])"

definition repr_str :: "string \<Rightarrow> string" where
  "repr_str s =
     (let quote = (if CHR 0x27 \<in> set s \<and> CHR 0x22 \<notin> set s then CHR 0x22 else CHR 0x27)
      in [quote] @ concat (map (repr_char quote) s) @ [quote])"

fun py_repr :: "pyval \<Rightarrow> string" where
  "py_repr PNone = ''None''"
| "py_repr (PBool b) = (if b then ''True'' else ''False'')"
| "py_repr (PInt i) = int_str i"
| "py_repr (PFloat r) = r"
| "py_repr (PStr s) = repr_str s"
| "py_repr (PList xs) = ''['' @ join_with '', '' (map py_repr xs) @ '']''"
| "py_repr (PDict d) =
     ''{'' @ join_with '', '' (map (\<lambda>(k, v). repr_str k @ '': '' @ py_repr v) d) @ ''}''"

definition py_str :: "pyval \<Rightarrow> string" where
  "py_str v = (case v of PStr s \<Rightarrow> s | _ \<Rightarrow> py_repr v)"

lemma py_str_PStr [simp]: "py_str (PStr s) = s"
  by (simp add: py_str_def)

definition json_char :: "char \<Rightarrow> string" where
  "json_char c =
     (if c = CHR 0x22 \<or> c = backslash then [backslash, c]
      else if c = CHR 0x0A then [backslash, CHR ''n'']
      else if c = CHR 0x0D then [backslash, CHR ''r'']
      else if c = CHR 0x09 then [backslash, CHR ''t'']
      else if c = CHR 0x0C then [backslash, CHR ''f'']
      else if c = CHR 0x08 then [backslash, CHR ''b'']
      else if chr_in 0 31 c then [backslash, CHR ''u'', CHR ''0'', CHR ''0''] @ hex2 (of_char c)
      else [c])"

definition json_str :: "string \<Rightarrow> string" where
  "json_str s = [CHR 0x22] @ concat (map json_char s) @ [CHR 0x22]"

text \<open>\<open>json.dumps(v, separators=(",", ":"), ensure_ascii=False)\<close>.\<close>

fun json_dumps :: "pyval \<Rightarrow> string" where
  "json_dumps PNone = ''null''"
| "json_dumps (PBool b) = (if b then ''true'' else ''false'')"
| "json_dumps (PInt i) = int_str i"
| "json_dumps (PFloat r) = r"
| "json_dumps (PStr s) = json_str s"
| "json_dumps (PList xs) = ''['' @ join_with '','' (map json_dumps xs) @ '']''"
| "json_dumps (PDict d) =
     ''{'' @ join_with '','' (map (\<lambda>(k, v). json_str k @ '':'' @ json_dumps v) d) @ ''}''"

lemma json_str_not_Nil [simp]: "json_str s \<noteq> []"
  by (simp add: json_str_def)

section \<open>Accessors the code writes with \<open>isinstance\<close>\<close>

definition as_dict :: "pyval \<Rightarrow> pydict option" where
  "as_dict v = (case v of PDict d \<Rightarrow> Some d | _ \<Rightarrow> None)"

definition as_list :: "pyval \<Rightarrow> pyval list option" where
  "as_list v = (case v of PList xs \<Rightarrow> Some xs | _ \<Rightarrow> None)"

definition as_str :: "pyval \<Rightarrow> string option" where
  "as_str v = (case v of PStr s \<Rightarrow> Some s | _ \<Rightarrow> None)"

lemma as_dict_simps [simp]:
  "as_dict (PDict d) = Some d" "as_dict PNone = None" "as_dict (PStr s) = None"
  "as_dict (PList xs) = None" "as_dict (PInt i) = None" "as_dict (PBool b) = None"
  "as_dict (PFloat r) = None"
  by (simp_all add: as_dict_def)

lemma as_list_simps [simp]:
  "as_list (PDict d) = None" "as_list PNone = None" "as_list (PStr s) = None"
  "as_list (PList xs) = Some xs" "as_list (PInt i) = None" "as_list (PBool b) = None"
  "as_list (PFloat r) = None"
  by (simp_all add: as_list_def)

lemma as_str_simps [simp]:
  "as_str (PDict d) = None" "as_str PNone = None" "as_str (PStr s) = Some s"
  "as_str (PList xs) = None" "as_str (PInt i) = None" "as_str (PBool b) = None"
  "as_str (PFloat r) = None"
  by (simp_all add: as_str_def)

lemma as_dict_Some_iff: "as_dict v = Some d \<longleftrightarrow> v = PDict d"
  by (cases v) auto

lemma as_list_Some_iff: "as_list v = Some xs \<longleftrightarrow> v = PList xs"
  by (cases v) auto

lemma as_str_Some_iff: "as_str v = Some s \<longleftrightarrow> v = PStr s"
  by (cases v) auto

text \<open>\<open>str(v) if v is not None else None\<close>.\<close>

definition opt_str :: "pyval \<Rightarrow> string option" where
  "opt_str v = (if v = PNone then None else Some (py_str v))"

lemma opt_str_simps [simp]: "opt_str PNone = None" "opt_str (PStr s) = Some s"
  by (simp_all add: opt_str_def)

text \<open>A column or field that is text or NULL, as a Python value.\<close>

definition of_opt :: "string option \<Rightarrow> pyval" where
  "of_opt x = (case x of None \<Rightarrow> PNone | Some s \<Rightarrow> PStr s)"

text \<open>
  \<open>int(x)\<close> for a float given by its \<open>repr\<close>. Below \<open>1e16\<close> the \<open>repr\<close> has no exponent
  and its integer part is the result; with a negative exponent the result is zero; with
  a positive one the float is the integer nearest to the decimal among the 53-bit ones.
\<close>

definition half_even :: "nat \<Rightarrow> nat \<Rightarrow> nat" where
  "half_even n d =
     (let q = n div d; r = n mod d
      in if 2 * r > d \<or> (2 * r = d \<and> odd q) then q + 1 else q)"

function pow2_scale :: "nat \<Rightarrow> nat \<Rightarrow> nat" where
  "pow2_scale n s = (if n < 2 ^ 53 * s \<or> s = 0 then s else pow2_scale n (2 * s))"
  by pat_completeness auto
termination
  by (relation "measure (\<lambda>(n, s). n - s)") auto

declare pow2_scale.simps [simp del]

definition nearest_53 :: "nat \<Rightarrow> nat" where
  "nearest_53 n = (let s = pow2_scale n 1 in half_even n s * s)"

definition float_int :: "string \<Rightarrow> int result" where
  "float_int r =
     (let neg = (r \<noteq> [] \<and> hd r = CHR ''-'');
          body = (if neg then tl r else r);
          mant = takeWhile (\<lambda>c. c \<noteq> CHR ''e'') body;
          ex = drop (length mant + 1) body;
          whole = takeWhile (\<lambda>c. c \<noteq> CHR ''.'') mant;
          frac = drop (length whole + 1) mant;
          sign = (\<lambda>n. if neg then - int n else int n)
      in if body = ''nan'' then Inl (ValueError ''cannot convert float NaN to integer'')
         else if body = ''inf'' then Inl (OverflowError ''cannot convert float infinity to integer'')
         else if ex = [] then Inr (sign (digits_val whole))
         else if hd ex = CHR ''-'' then Inr 0
         else Inr (sign (nearest_53
                (digits_val (whole @ frac) * 10 ^ (digits_val (tl ex) - length frac)))))"

text \<open>\<open>int(v)\<close> for the values the code converts; containers and \<open>None\<close> raise.\<close>

definition int_of_pyval :: "pyval \<Rightarrow> int result" where
  "int_of_pyval v =
     (case v of
        PInt i \<Rightarrow> Inr i
      | PBool b \<Rightarrow> Inr (if b then 1 else 0)
      | PFloat r \<Rightarrow> float_int r
      | PStr s \<Rightarrow> int_of_str s
      | _ \<Rightarrow> Inl (TypeError ''int() argument must be a string or a real number''))"

text \<open>The \<open>metadata\<close> dictionary of a conversation, when it is one.\<close>

definition metadata_of :: "pydict \<Rightarrow> pydict option" where
  "metadata_of c = as_dict (dget_or c ''metadata'' (PDict []))"

end
