(* ===== verification/StoreValidators.thy ===== *)
theory StoreValidators
  imports PyValue
begin

text \<open>
  The validators and identifier helpers at the end of
  \<^verbatim>\<open>memory/backend/metadata_store.py\<close>. They are shared by every table of the SQLite
  metadata store. Hash functions, the hash secret of the process environment and the
  decoder of a JWT segment are inputs, collected in \<open>store_env\<close>.
\<close>

record store_env =
  env_pbkdf2 :: "string \<Rightarrow> string \<Rightarrow> string" \<comment> \<open>password, salt: hex digest, 32 bytes\<close>
  env_pbkdf2_16 :: "string \<Rightarrow> string \<Rightarrow> string" \<comment> \<open>password, salt: hex digest, 16 bytes\<close>
  env_sha256 :: "string \<Rightarrow> string" \<comment> \<open>hex digest\<close>
  env_hash_secret :: "string option" \<comment> \<open>AMH_TOKEN_HASH_SECRET\<close>
  env_jwt_segment :: "string \<Rightarrow> pyval option" \<comment> \<open>base64url and JSON decoding, None when it raises\<close>
  env_iso_datetime :: "string \<Rightarrow> bool" \<comment> \<open>whether datetime.fromisoformat accepts the text\<close>

definition LOCAL_DEFAULT_PROJECT_ID :: string where
  "LOCAL_DEFAULT_PROJECT_ID = ''local-default''"

section \<open>Bounded identifiers\<close>

definition validate_token_lookup :: "string \<Rightarrow> string result" where
  "validate_token_lookup token_id =
     (let value = py_strip token_id in
      if value = [] then Inl (ValueError ''token_id must be non-empty'')
      else if length value > 128 then Inl (ValueError ''token_id exceeds max length 128'')
      else Inr value)"

definition validate_owner_id :: "string \<Rightarrow> string result" where
  "validate_owner_id owner_id =
     (let value = py_strip owner_id in
      if value = [] then Inl (ValueError ''owner_id must be non-empty'')
      else if length value > 128 then Inl (ValueError ''owner_id exceeds max length 128'')
      else Inr value)"

definition provider_char :: "char \<Rightarrow> bool" where
  "provider_char c \<longleftrightarrow>
     chr_in 97 122 c \<or> chr_in 48 57 c \<or> c = CHR ''_'' \<or> c = CHR ''-''"

definition validate_oauth_provider :: "string \<Rightarrow> string result" where
  "validate_oauth_provider provider =
     (let value = py_lower (py_strip provider) in
      if value = [] then Inl (ValueError ''oauth provider must be non-empty'')
      else if length value > 64 then Inl (ValueError ''oauth provider exceeds max length 64'')
      else if \<not> ((chr_in 97 122 (hd value) \<or> chr_in 48 57 (hd value)) \<and> list_all provider_char (tl value))
        then Inl (ValueError ''oauth provider contains unsupported characters'')
      else Inr value)"

definition validate_oauth_subject :: "string \<Rightarrow> string result" where
  "validate_oauth_subject provider_subject =
     (let value = py_strip provider_subject in
      if value = [] then Inl (ValueError ''oauth provider subject must be non-empty'')
      else if length value > 255
        then Inl (ValueError ''oauth provider subject exceeds max length 255'')
      else Inr value)"

definition normalize_email :: "string option \<Rightarrow> string option" where
  "normalize_email email =
     (case email of
        None \<Rightarrow> None
      | Some e \<Rightarrow> (let value = py_lower (py_strip e) in if value = [] then None else Some value))"

definition hex_char :: "char \<Rightarrow> bool" where
  "hex_char c \<longleftrightarrow> chr_in 97 102 c \<or> chr_in 48 57 c"

definition secret_hash_body :: "string \<Rightarrow> string \<Rightarrow> bool" where
  "secret_hash_body pfx value \<longleftrightarrow>
     take (length pfx) value = pfx
     \<and> length value = length pfx + 64
     \<and> list_all hex_char (drop (length pfx) value)"

definition validate_secret_hash :: "string \<Rightarrow> string \<Rightarrow> string result" where
  "validate_secret_hash field_name value =
     (let normalized = py_strip value in
      if normalized = [] then Inl (ValueError (field_name @ '' must be non-empty''))
      else if length normalized > 255
        then Inl (ValueError (field_name @ '' exceeds max length 255''))
      else if \<not> list_ex (\<lambda>p. secret_hash_body p normalized)
             [''pbkdf2-sha256:'', ''hmac-sha256:'', ''sha256:'']
        then Inl (ValueError (field_name @ '' must be a supported secret hash''))
      else Inr normalized)"

definition project_id_char :: "char \<Rightarrow> bool" where
  "project_id_char c \<longleftrightarrow>
     ascii_alnum c \<or> c = CHR ''.'' \<or> c = CHR ''_'' \<or> c = CHR '':'' \<or> c = CHR ''-''"

definition project_id_re :: "string \<Rightarrow> bool" where
  "project_id_re value \<longleftrightarrow>
     value \<noteq> [] \<and> ascii_alnum (hd value) \<and> list_all project_id_char (tl value)
     \<and> length value \<le> 128"

definition validate_project_id :: "string \<Rightarrow> string result" where
  "validate_project_id project_id =
     (let value = py_strip project_id in
      if value = [] then Inl (ValueError ''project_id must be non-empty'')
      else if length value > 128 then Inl (ValueError ''project_id exceeds max length 128'')
      else if \<not> project_id_re value
        then Inl (ValueError (''project_id must start with an alphanumeric character and contain only ''
                    @ ''alphanumeric characters, dots, underscores, colons, or hyphens''))
      else Inr value)"

text \<open>\<open>PROJECT_ROLE_ORDER\<close>; a role outside the dictionary has no rank.\<close>

definition project_role_order :: "string \<Rightarrow> nat option" where
  "project_role_order role =
     (if role = ''reader'' then Some 1
      else if role = ''writer'' then Some 2
      else if role = ''admin'' then Some 3
      else None)"

definition validate_project_role :: "string \<Rightarrow> string result" where
  "validate_project_role role =
     (let value = py_lower (py_strip role) in
      if project_role_order value = None
        then Inl (ValueError ''project role must be one of: admin, writer, reader'')
      else Inr value)"

section \<open>UUID and audit fields\<close>

text \<open>\<open>int(s, 16)\<close> accepts an optional sign, an optional \<open>0x\<close> prefix and single underscores.\<close>

definition py_hex_digit :: "char \<Rightarrow> bool" where
  "py_hex_digit c \<longleftrightarrow> chr_in 48 57 c \<or> chr_in 65 70 c \<or> chr_in 97 102 c"

fun hex_groups :: "bool \<Rightarrow> string \<Rightarrow> bool" where
  "hex_groups after_digit [] = after_digit"
| "hex_groups after_digit (c # cs) =
     (if py_hex_digit c then hex_groups True cs
      else c = CHR ''_'' \<and> after_digit \<and> hex_groups False cs)"

definition py_int16_ok :: "string \<Rightarrow> bool" where
  "py_int16_ok s =
     (let t = py_strip s;
          u = (if t \<noteq> [] \<and> (hd t = CHR ''-'' \<or> hd t = CHR ''+'') then tl t else t)
      in if take 2 u = ''0x'' \<or> take 2 u = ''0X''
         then hex_groups False (let v = drop 2 u in if v \<noteq> [] \<and> hd v = CHR ''_'' then tl v else v)
         else hex_groups False u)"

definition py_uuid_ok :: "string \<Rightarrow> bool" where
  "py_uuid_ok value =
     (let h = replace_sub ''uuid:'' [] (replace_sub ''urn:'' [] value);
          h' = replace_sub ''-'' [] (strip_chars (\<lambda>c. c = CHR ''{'' \<or> c = CHR ''}'') h)
      in length h' = 32 \<and> py_int16_ok h')"

definition validate_uuid_field :: "string \<Rightarrow> pyval \<Rightarrow> string result" where
  "validate_uuid_field field_name value =
     (let text = py_strip (py_str value) in
      if py_uuid_ok text then Inr text
      else Inl (ValueError (field_name @ '' must be a valid UUID'')))"

definition audit_event_char :: "char \<Rightarrow> bool" where
  "audit_event_char c \<longleftrightarrow>
     ascii_lower c \<or> ascii_digit c \<or> c = CHR ''_'' \<or> c = CHR ''.'' \<or> c = CHR '':'' \<or> c = CHR ''-''"

definition audit_event_re :: "string \<Rightarrow> bool" where
  "audit_event_re text \<longleftrightarrow>
     text \<noteq> [] \<and> ascii_lower (hd text) \<and> list_all audit_event_char (tl text) \<and> length text \<le> 128"

definition validate_audit_token :: "string \<Rightarrow> pyval \<Rightarrow> string result" where
  "validate_audit_token field_name value =
     (let text = py_strip (py_str value) in
      if text = [] then Inl (ValueError (field_name @ '' must be non-empty''))
      else if \<not> audit_event_re text
        then Inl (ValueError (field_name @ '' must start with a lowercase letter and contain only ''
                    @ ''lowercase letters, digits, dots, underscores, colons, or hyphens''))
      else Inr text)"

definition validate_optional_audit_field :: "string \<Rightarrow> pyval \<Rightarrow> string option result" where
  "validate_optional_audit_field field_name value =
     (if value = PNone then Inr None
      else let text = py_strip (py_str value) in
        if text = [] then Inr None
        else if length text > 128 then Inl (ValueError (field_name @ '' exceeds max length 128''))
        else if CHR 0x0D \<in> set text \<or> CHR 0x0A \<in> set text
          then Inl (ValueError (field_name @ '' must not contain newlines''))
        else Inr (Some text))"

definition validate_audit_timestamp :: "store_env \<Rightarrow> string \<Rightarrow> pyval \<Rightarrow> string result" where
  "validate_audit_timestamp env now_z value =
     (if value = PNone then Inr now_z
      else let text = py_strip (py_str value) in
        if length text > 128 then Inl (ValueError ''created_at exceeds max length 128'')
        else if \<not> env_iso_datetime env (replace_sub ''Z'' ''+00:00'' text)
          then Inl (ValueError ''created_at must be an ISO-8601 datetime'')
        else Inr text)"

definition validate_audit_limit :: "int \<Rightarrow> int result" where
  "validate_audit_limit limit =
     (if limit < 1 \<or> limit > 1000
      then Inl (ValueError ''audit event limit must be between 1 and 1000'')
      else Inr limit)"

section \<open>Token hashes and scopes\<close>

definition hash_bearer_token :: "store_env \<Rightarrow> string \<Rightarrow> string result" where
  "hash_bearer_token env token =
     (if token = [] then Inl (ValueError ''bearer token must be a non-empty string'')
      else let secret = (case env_hash_secret env of None \<Rightarrow> [] | Some s \<Rightarrow> s);
               salt = ''ai-memory-hub:bearer-token:'' @ (if secret = [] then ''default'' else secret)
           in Inr (''pbkdf2-sha256:'' @ env_pbkdf2 env token salt))"

definition hash_oauth_ephemeral_secret :: "store_env \<Rightarrow> string \<Rightarrow> string \<Rightarrow> string result" where
  "hash_oauth_ephemeral_secret env purpose token =
     (if token = [] then Inl (ValueError ''OAuth ephemeral secret must be a non-empty string'')
      else let s = (case env_hash_secret env of None \<Rightarrow> [] | Some s \<Rightarrow> s);
               secret = (if s = [] then ''default'' else s)
           in Inr (''sha256:'' @ env_sha256 env
                (''ai-memory-hub:oauth:'' @ purpose @ '':'' @ secret @ '':'' @ token)))"

definition token_id_from_bearer_token :: "store_env \<Rightarrow> string \<Rightarrow> string option" where
  "token_id_from_bearer_token env token =
     (case split_on (CHR ''.'') token of
        [_, seg, _] \<Rightarrow>
          (case env_jwt_segment env seg of
             Some (PDict payload) \<Rightarrow>
               (case dget payload ''jti'' of
                  Some (PStr jti) \<Rightarrow>
                    (if take 4 jti = ''tok_'' \<and> length jti \<le> 128 then Some jti else None)
                | _ \<Rightarrow> None)
           | _ \<Rightarrow> None)
      | _ \<Rightarrow> None)"

definition token_prefix :: "string \<Rightarrow> string" where
  "token_prefix token = take 12 token"

definition normalize_token_scopes :: "string list option \<Rightarrow> string list result" where
  "normalize_token_scopes scopes =
     (let values = (case scopes of None \<Rightarrow> [''memory:read'', ''memory:write''] | Some xs \<Rightarrow> xs);
          normalized = sort (remdups (filter (\<lambda>s. s \<noteq> []) (map py_strip values)))
      in if normalized = [] then Inl (ValueError ''token scopes must not be empty'')
         else Inr normalized)"

text \<open>
  The \<open>scopes\<close> column is NULL (rows from before the column) or the JSON text of a list of
  strings, which is what every \<open>INSERT\<close> of the store writes.
\<close>

definition parse_token_scopes :: "string list option \<Rightarrow> string list result" where
  "parse_token_scopes column =
     (case column of
        None \<Rightarrow> Inr [''memory:read'', ''memory:write'']
      | Some xs \<Rightarrow> normalize_token_scopes (Some xs))"

definition default_project_id :: "store_env \<Rightarrow> string \<Rightarrow> string" where
  "default_project_id env owner_id =
     ''private-'' @ env_pbkdf2_16 env owner_id ''ai-memory-hub:default-project-id''"

definition oauth_user_id :: "store_env \<Rightarrow> string \<Rightarrow> string \<Rightarrow> string" where
  "oauth_user_id env provider provider_subject =
     ''user_'' @ env_pbkdf2_16 env provider_subject (''ai-memory-hub:oauth-user-id:'' @ provider)"

section \<open>What the validators accept\<close>

lemma validate_owner_id_Inr_iff:
  "validate_owner_id x = Inr v \<longleftrightarrow> v = py_strip x \<and> v \<noteq> [] \<and> length v \<le> 128"
  by (auto simp: validate_owner_id_def Let_def)

lemma validate_token_lookup_Inr_iff:
  "validate_token_lookup x = Inr v \<longleftrightarrow> v = py_strip x \<and> v \<noteq> [] \<and> length v \<le> 128"
  by (auto simp: validate_token_lookup_def Let_def)

lemma validate_project_id_Inr_iff:
  "validate_project_id x = Inr v \<longleftrightarrow> v = py_strip x \<and> project_id_re v"
  by (auto simp: validate_project_id_def Let_def project_id_re_def)

lemma validate_owner_id_idem: "validate_owner_id x = Inr v \<Longrightarrow> validate_owner_id v = Inr v"
  by (auto simp: validate_owner_id_Inr_iff)

lemma validate_project_id_idem: "validate_project_id x = Inr v \<Longrightarrow> validate_project_id v = Inr v"
  by (auto simp: validate_project_id_Inr_iff)

lemma validate_project_role_Inr:
  "validate_project_role x = Inr v \<Longrightarrow> project_role_order v \<noteq> None"
  by (auto simp: validate_project_role_def Let_def split: if_splits)

lemma normalize_token_scopes_Inr:
  assumes "normalize_token_scopes xs = Inr ys"
  shows "ys \<noteq> [] \<and> sorted ys \<and> distinct ys \<and> list_all (\<lambda>s. py_strip s = s \<and> s \<noteq> []) ys"
  using assms by (auto simp: normalize_token_scopes_def Let_def list_all_iff split: if_splits)

text \<open>Parsing what was stored gives it back: normalised scopes are a fixed point.\<close>

lemma parse_stored_scopes:
  assumes "normalize_token_scopes xs = Inr ys"
  shows "parse_token_scopes (Some ys) = Inr ys"
proof -
  have f: "ys \<noteq> []" "sorted ys" "distinct ys" and st: "list_all (\<lambda>s. py_strip s = s \<and> s \<noteq> []) ys"
    using normalize_token_scopes_Inr [OF assms] by auto
  have "map py_strip ys = ys"
    using st by (simp add: list_all_iff map_idI)
  moreover have "filter (\<lambda>s. s \<noteq> []) ys = ys"
    using st by (simp add: list_all_iff filter_id_conv)
  ultimately show ?thesis
    using f by (simp add: parse_token_scopes_def normalize_token_scopes_def Let_def
        remdups_id_iff_distinct [THEN iffD2] sorted_sort_id)
qed

end
