(* ===== verification/StoreTables.thy ===== *)
theory StoreTables
  imports StoreValidators
begin

text \<open>
  The tables of the SQLite metadata store that hold accounts, credentials, OAuth state
  and projects, one record per \<open>CREATE TABLE\<close> of \<open>_init_db\<close>
  (\<^verbatim>\<open>memory/backend/metadata_store.py\<close>), and their uniqueness constraints. A nullable
  column is an option; \<open>DEFAULT CURRENT_TIMESTAMP\<close> is filled from the clock by the
  operation that inserts. Foreign keys are declared but SQLite does not enforce them on
  a connection that leaves the \<open>foreign_keys\<close> pragma off, as the store does.
\<close>

type_synonym clock = string
type_synonym secret = string

record user_row =
  u_id :: string
  u_display_name :: "string option"
  u_created_at :: string
  u_disabled_at :: "string option"

record token_row =
  t_hash :: string
  t_id :: "string option"
  t_owner :: string
  t_display_name :: "string option"
  t_prefix :: "string option"
  t_scopes :: "string list option"
  t_created_at :: string
  t_last_used_at :: "string option"
  t_expires_at :: "string option"
  t_revoked_at :: "string option"

record identity_row =
  i_provider :: string
  i_subject :: string
  i_user_id :: string
  i_username :: "string option"
  i_email :: "string option"
  i_display_name :: "string option"
  i_created_at :: string
  i_last_login_at :: string

record session_row =
  s_hash :: string
  s_user_id :: string
  s_csrf_hash :: string
  s_created_at :: string
  s_last_seen_at :: string
  s_expires_at :: string
  s_revoked_at :: "string option"

record client_row =
  c_id :: string
  c_name :: string
  c_redirect_uris :: "string list"
  c_created_at :: string
  c_expires_at :: string
  c_revoked_at :: "string option"

record refresh_row =
  r_hash :: string
  r_family :: string
  r_client :: string
  r_owner :: string
  r_scopes :: "string list option"
  r_resource :: string
  r_access_token_id :: "string option"
  r_created_at :: string
  r_expires_at :: string
  r_consumed_at :: "string option"
  r_revoked_at :: "string option"

record family_row =
  f_id :: string
  f_revoked_at :: string

record code_row =
  k_hash :: string
  k_client_id :: string
  k_owner_id :: string
  k_redirect_uri :: string
  k_challenge :: string
  k_resource :: string
  k_scope :: string
  k_created_at :: string
  k_expires_at :: string
  k_consumed_at :: "string option"

record pstate_row =
  p_hash :: string
  p_provider :: string
  p_browser_hash :: string
  p_nonce :: string
  p_verifier :: string
  p_data :: pyval
  p_created_at :: string
  p_expires_at :: string
  p_consumed_at :: "string option"

record project_row =
  pr_id :: string
  pr_owner :: "string option"
  pr_name :: string
  pr_description :: "string option"
  pr_is_default :: bool
  pr_created_at :: string
  pr_updated_at :: string
  pr_archived_at :: "string option"

record member_row =
  m_project :: string
  m_user :: string
  m_role :: string
  m_created_at :: string
  m_updated_at :: string

record auth_db =
  users :: "user_row list"
  auth_tokens :: "token_row list"
  oauth_identities :: "identity_row list"
  web_sessions :: "session_row list"
  oauth_clients :: "client_row list"
  oauth_refresh_tokens :: "refresh_row list"
  oauth_refresh_token_families :: "family_row list"
  oauth_authorization_codes :: "code_row list"
  oauth_provider_states :: "pstate_row list"
  projects :: "project_row list"
  project_memberships :: "member_row list"

definition empty_auth_db :: auth_db where
  "empty_auth_db = \<lparr>users = [], auth_tokens = [], oauth_identities = [], web_sessions = [],
     oauth_clients = [], oauth_refresh_tokens = [], oauth_refresh_token_families = [],
     oauth_authorization_codes = [], oauth_provider_states = [], projects = [],
     project_memberships = []\<rparr>"

section \<open>Uniqueness constraints\<close>

text \<open>\<open>idx_auth_tokens_token_id\<close>: the token ids that are not NULL are pairwise distinct.\<close>

definition token_ids_unique :: "token_row list \<Rightarrow> bool" where
  "token_ids_unique rows \<longleftrightarrow> distinct (List.map_filter t_id rows)"

text \<open>\<open>idx_projects_default_owner\<close> and \<open>idx_projects_default_local\<close>.\<close>

definition default_projects_unique :: "project_row list \<Rightarrow> bool" where
  "default_projects_unique rows \<longleftrightarrow>
     distinct (List.map_filter (\<lambda>p. if pr_is_default p then pr_owner p else None) rows)
     \<and> length (filter (\<lambda>p. pr_is_default p \<and> pr_owner p = None) rows) \<le> 1"

definition member_key :: "member_row \<Rightarrow> string \<times> string" where
  "member_key m = (m_project m, m_user m)"

definition identity_key :: "identity_row \<Rightarrow> string \<times> string" where
  "identity_key i = (i_provider i, i_subject i)"

text \<open>What a \<open>scopes\<close> column holds: NULL, or normalised scopes.\<close>

definition scopes_ok :: "string list option \<Rightarrow> bool" where
  "scopes_ok column \<longleftrightarrow>
     (case column of None \<Rightarrow> True | Some xs \<Rightarrow> normalize_token_scopes (Some xs) = Inr xs)"

text \<open>
  The primary keys, the unique indexes, the role check of \<open>project_memberships\<close>, and that
  stored scopes are normalised (so reading a row back never raises).
\<close>

definition auth_db_ok :: "auth_db \<Rightarrow> bool" where
  "auth_db_ok db \<longleftrightarrow>
     distinct (map u_id (users db))
     \<and> distinct (map t_hash (auth_tokens db)) \<and> token_ids_unique (auth_tokens db)
     \<and> list_all (\<lambda>t. scopes_ok (t_scopes t)) (auth_tokens db)
     \<and> distinct (map identity_key (oauth_identities db))
     \<and> distinct (map s_hash (web_sessions db))
     \<and> distinct (map c_id (oauth_clients db))
     \<and> distinct (map r_hash (oauth_refresh_tokens db))
     \<and> list_all (\<lambda>r. scopes_ok (r_scopes r)) (oauth_refresh_tokens db)
     \<and> distinct (map f_id (oauth_refresh_token_families db))
     \<and> distinct (map k_hash (oauth_authorization_codes db))
     \<and> distinct (map p_hash (oauth_provider_states db))
     \<and> distinct (map pr_id (projects db)) \<and> default_projects_unique (projects db)
     \<and> distinct (map member_key (project_memberships db))
     \<and> list_all (\<lambda>m. project_role_order (m_role m) \<noteq> None) (project_memberships db)"

lemma auth_db_ok_empty: "auth_db_ok empty_auth_db"
  by (simp add: auth_db_ok_def empty_auth_db_def token_ids_unique_def default_projects_unique_def)

text \<open>\<open>COALESCE(a, b)\<close>.\<close>

definition coalesce :: "'a option \<Rightarrow> 'a option \<Rightarrow> 'a option" where
  "coalesce a b = (case a of None \<Rightarrow> b | Some x \<Rightarrow> Some x)"

lemma coalesce_simps [simp]: "coalesce None b = b" "coalesce (Some x) b = Some x"
  by (simp_all add: coalesce_def)

end
