(* ===== verification/AuthStore.thy ===== *)
theory AuthStore
  imports StoreTables
begin

text \<open>
  Accounts, bearer tokens, web sessions, OAuth clients, authorization codes, provider
  states and refresh tokens of \<open>SQLiteMetadataStore\<close>. Every operation takes the clock
  reading \<open>now\<close> that SQLite's \<open>CURRENT_TIMESTAMP\<close> returns (\<open>YYYY-MM-DD HH:MM:SS\<close>, UTC) and
  the database, and returns the error that leaves the transaction rolled back, or the
  result with the new database. \<open>expires_at > CURRENT_TIMESTAMP\<close> compares the two
  columns as TEXT, so the model compares strings in code-point order.
\<close>

type_synonym 'a db_result = "('a \<times> auth_db) result"

definition after :: "string \<Rightarrow> string \<Rightarrow> bool" where
  "after expires_at now \<longleftrightarrow> now < expires_at"

section \<open>Users, projects and memberships behind the credentials\<close>

definition user_merge_name :: "user_row \<Rightarrow> user_row \<Rightarrow> user_row" where
  "user_merge_name old new =
     old\<lparr>u_display_name := coalesce (u_display_name new) (u_display_name old)\<rparr>"

definition user_merge_enable :: "user_row \<Rightarrow> user_row \<Rightarrow> user_row" where
  "user_merge_enable old new =
     old\<lparr>u_display_name := coalesce (u_display_name new) (u_display_name old), u_disabled_at := None\<rparr>"

definition keep_old :: "'r \<Rightarrow> 'r \<Rightarrow> 'r" where
  "keep_old old new = old"

definition new_user :: "clock \<Rightarrow> string \<Rightarrow> string option \<Rightarrow> user_row" where
  "new_user now user_id display_name =
     \<lparr>u_id = user_id, u_display_name = display_name, u_created_at = now, u_disabled_at = None\<rparr>"

definition member_merge :: "member_row \<Rightarrow> member_row \<Rightarrow> member_row" where
  "member_merge old new = old\<lparr>m_role := m_role new, m_updated_at := m_updated_at new\<rparr>"

definition upsert_project_membership ::
    "clock \<Rightarrow> string \<Rightarrow> string \<Rightarrow> string \<Rightarrow> auth_db \<Rightarrow> auth_db" where
  "upsert_project_membership now project_id user_id role db =
     db\<lparr>project_memberships := tbl_upsert member_key member_merge
          \<lparr>m_project = project_id, m_user = user_id, m_role = role, m_created_at = now,
            m_updated_at = now\<rparr> (project_memberships db)\<rparr>"

definition project_merge_default :: "clock \<Rightarrow> project_row \<Rightarrow> project_row \<Rightarrow> project_row" where
  "project_merge_default now old new = old\<lparr>pr_is_default := True, pr_updated_at := now\<rparr>"

definition default_project_row :: "clock \<Rightarrow> string \<Rightarrow> string option \<Rightarrow> string \<Rightarrow> project_row" where
  "default_project_row now project_id owner name =
     \<lparr>pr_id = project_id, pr_owner = owner, pr_name = name, pr_description = None,
       pr_is_default = True, pr_created_at = now, pr_updated_at = now, pr_archived_at = None\<rparr>"

definition upsert_default_project ::
    "clock \<Rightarrow> project_row \<Rightarrow> auth_db \<Rightarrow> auth_db result" where
  "upsert_default_project now row db =
     (let rows = tbl_upsert pr_id (project_merge_default now) row (projects db) in
      if default_projects_unique rows then Inr (db\<lparr>projects := rows\<rparr>)
      else Inl (IntegrityError ''UNIQUE constraint failed: projects''))"

definition ensure_default_project_row ::
    "store_env \<Rightarrow> clock \<Rightarrow> string option \<Rightarrow> auth_db \<Rightarrow> string db_result" where
  "ensure_default_project_row env now owner_id db =
     (case owner_id of
        None \<Rightarrow>
          bind_result (upsert_default_project now
              (default_project_row now LOCAL_DEFAULT_PROJECT_ID None ''Local Default'') db)
            (\<lambda>db'. Inr (LOCAL_DEFAULT_PROJECT_ID, db'))
      | Some owner \<Rightarrow>
          (let db1 = db\<lparr>users := tbl_upsert u_id keep_old (new_user now owner (Some owner)) (users db)\<rparr>
           in case find (\<lambda>p. pr_owner p = Some owner \<and> pr_is_default p \<and> pr_archived_at p = None)
                     (projects db1) of
                Some row \<Rightarrow> Inr (pr_id row, upsert_project_membership now (pr_id row) owner ''admin'' db1)
              | None \<Rightarrow>
                  (let project_id = default_project_id env owner in
                   bind_result (upsert_default_project now
                       (default_project_row now project_id (Some owner) ''Private Default'') db1)
                     (\<lambda>db2. Inr (project_id,
                        upsert_project_membership now project_id owner ''admin'' db2)))))"

definition user_from_row :: "user_row \<Rightarrow> pydict" where
  "user_from_row row =
     [(''id'', PStr (u_id row)),
      (''display_name'', of_opt (u_display_name row)),
      (''created_at'', PStr (u_created_at row)),
      (''disabled_at'', of_opt (u_disabled_at row))]"

definition create_user ::
    "store_env \<Rightarrow> clock \<Rightarrow> string \<Rightarrow> string option \<Rightarrow> auth_db \<Rightarrow> pydict db_result" where
  "create_user env now user_id display_name db =
     bind_result (validate_owner_id user_id) (\<lambda>owner.
     let db1 = db\<lparr>users := tbl_upsert u_id user_merge_enable (new_user now owner display_name) (users db)\<rparr> in
     bind_result (ensure_default_project_row env now (Some owner) db1) (\<lambda>(_, db2).
     case tbl_get u_id owner (users db2) of
       None \<Rightarrow> Inl (RuntimeError ''user could not be created'')
     | Some row \<Rightarrow> Inr (user_from_row row, db2)))"

definition list_users :: "auth_db \<Rightarrow> pydict list" where
  "list_users db = map user_from_row (sort_key u_id (users db))"

section \<open>Bearer tokens\<close>

definition token_from_row :: "token_row \<Rightarrow> pydict result" where
  "token_from_row row =
     bind_result (parse_token_scopes (t_scopes row)) (\<lambda>scopes. Inr
       [(''token_id'', PStr (py_str (of_opt (t_id row)))),
        (''owner_id'', PStr (t_owner row)),
        (''display_name'', of_opt (t_display_name row)),
        (''token_prefix'', of_opt (t_prefix row)),
        (''created_at'', PStr (t_created_at row)),
        (''expires_at'', of_opt (t_expires_at row)),
        (''revoked_at'', of_opt (t_revoked_at row)),
        (''scopes'', PList (map PStr scopes)),
        (''last_used_at'', of_opt (t_last_used_at row))])"

definition token_merge :: "token_row \<Rightarrow> token_row \<Rightarrow> token_row" where
  "token_merge old new =
     old\<lparr>t_id := coalesce (t_id old) (t_id new), t_owner := t_owner new,
         t_display_name := t_display_name new, t_prefix := t_prefix new, t_scopes := t_scopes new,
         t_expires_at := t_expires_at new, t_revoked_at := None\<rparr>"

definition create_auth_token ::
    "store_env \<Rightarrow> clock \<Rightarrow> string \<Rightarrow> string \<Rightarrow> secret \<Rightarrow> string option \<Rightarrow> string option \<Rightarrow>
     string option \<Rightarrow> string list option \<Rightarrow> auth_db \<Rightarrow> pydict db_result" where
  "create_auth_token env now new_token_id owner_id token display_name token_display_name expires_at
       scopes db =
     bind_result (validate_owner_id owner_id) (\<lambda>owner.
     bind_result (hash_bearer_token env token) (\<lambda>token_hash.
     let token_id = (case token_id_from_bearer_token env token of None \<Rightarrow> new_token_id | Some i \<Rightarrow> i) in
     bind_result (normalize_token_scopes scopes) (\<lambda>scopes_json.
     let db1 = db\<lparr>users := tbl_upsert u_id user_merge_name (new_user now owner display_name) (users db)\<rparr> in
     bind_result (ensure_default_project_row env now (Some owner) db1) (\<lambda>(_, db2).
     let rows = tbl_upsert t_hash token_merge
           \<lparr>t_hash = token_hash, t_id = Some token_id, t_owner = owner,
             t_display_name = token_display_name, t_prefix = Some (token_prefix token),
             t_scopes = Some scopes_json, t_created_at = now, t_last_used_at = None,
             t_expires_at = expires_at, t_revoked_at = None\<rparr> (auth_tokens db2) in
     if \<not> token_ids_unique rows
       then Inl (IntegrityError ''UNIQUE constraint failed: auth_tokens.token_id'')
     else case tbl_get t_hash token_hash rows of
       None \<Rightarrow> Inl (RuntimeError ''auth token could not be created'')
     | Some row \<Rightarrow>
         bind_result (token_from_row row) (\<lambda>d. Inr (d, db2\<lparr>auth_tokens := rows\<rparr>))))))"

text \<open>The row a bearer token authenticates with: the \<open>WHERE\<close> clause of the lookup.\<close>

definition token_live :: "string \<Rightarrow> auth_db \<Rightarrow> token_row \<Rightarrow> bool" where
  "token_live now db row \<longleftrightarrow>
     t_revoked_at row = None
     \<and> list_ex (\<lambda>u. u_id u = t_owner row \<and> u_disabled_at u = None) (users db)
     \<and> (case t_expires_at row of None \<Rightarrow> True | Some e \<Rightarrow> after e now)"

definition auth_context_for_token ::
    "store_env \<Rightarrow> clock \<Rightarrow> secret \<Rightarrow> auth_db \<Rightarrow> pydict option db_result" where
  "auth_context_for_token env now token db =
     bind_result (hash_bearer_token env token) (\<lambda>token_hash.
     case find (\<lambda>t. t_hash t = token_hash \<and> token_live now db t) (auth_tokens db) of
       None \<Rightarrow> Inr (None, db)
     | Some row \<Rightarrow>
         bind_result (parse_token_scopes (t_scopes row)) (\<lambda>scopes.
         Inr (Some [(''owner_id'', PStr (t_owner row)), (''token_id'', of_opt (t_id row)),
                    (''scopes'', PList (map PStr scopes))],
              db\<lparr>auth_tokens := tbl_update (\<lambda>t. t_hash t = token_hash)
                    (\<lambda>t. t\<lparr>t_last_used_at := Some now\<rparr>) (auth_tokens db)\<rparr>)))"

definition owner_for_token :: "store_env \<Rightarrow> clock \<Rightarrow> secret \<Rightarrow> auth_db \<Rightarrow> string option db_result" where
  "owner_for_token env now token db =
     bind_result (auth_context_for_token env now token db) (\<lambda>(context, db').
       Inr ((case context of None \<Rightarrow> None | Some d \<Rightarrow> opt_str (dget_none d ''owner_id'')), db'))"

definition list_auth_tokens :: "string \<Rightarrow> auth_db \<Rightarrow> pydict list result" where
  "list_auth_tokens owner_id db =
     bind_result (validate_owner_id owner_id) (\<lambda>owner.
     map_result token_from_row
       (rev (sort_key t_created_at (rev (sort_key (\<lambda>t. case t_id t of None \<Rightarrow> [] | Some i \<Rightarrow> i)
          (filter (\<lambda>t. t_owner t = owner) (auth_tokens db)))))))"

definition revoke_auth_token :: "clock \<Rightarrow> string \<Rightarrow> auth_db \<Rightarrow> pydict option db_result" where
  "revoke_auth_token now token_id db =
     bind_result (validate_token_lookup token_id) (\<lambda>handle.
     case find (\<lambda>t. t_id t = Some handle) (auth_tokens db) of
       None \<Rightarrow> Inr (None, db)
     | Some row \<Rightarrow>
         let rows = tbl_update (\<lambda>t. t_hash t = t_hash row) (\<lambda>t. t\<lparr>t_revoked_at := Some now\<rparr>)
               (auth_tokens db) in
         (case tbl_get t_hash (t_hash row) rows of
            None \<Rightarrow> Inr (None, db\<lparr>auth_tokens := rows\<rparr>)
          | Some row' \<Rightarrow>
              bind_result (token_from_row row') (\<lambda>d. Inr (Some d, db\<lparr>auth_tokens := rows\<rparr>))))"

section \<open>OAuth identities and web sessions\<close>

definition identity_merge :: "clock \<Rightarrow> identity_row \<Rightarrow> identity_row \<Rightarrow> identity_row" where
  "identity_merge now old new =
     old\<lparr>i_username := coalesce (i_username new) (i_username old),
         i_email := coalesce (i_email new) (i_email old),
         i_display_name := coalesce (i_display_name new) (i_display_name old),
         i_last_login_at := now\<rparr>"

definition identity_from_row :: "identity_row \<Rightarrow> pydict" where
  "identity_from_row row =
     [(''provider'', PStr (i_provider row)),
      (''provider_subject'', PStr (i_subject row)),
      (''user_id'', PStr (i_user_id row)),
      (''username'', of_opt (i_username row)),
      (''email'', of_opt (i_email row)),
      (''display_name'', of_opt (i_display_name row)),
      (''created_at'', PStr (i_created_at row)),
      (''last_login_at'', PStr (i_last_login_at row))]"

text \<open>\<open>a or b\<close> on optional strings.\<close>

definition or_opt :: "string option \<Rightarrow> string option \<Rightarrow> string option" where
  "or_opt a b = (case a of Some (c # cs) \<Rightarrow> Some (c # cs) | _ \<Rightarrow> b)"

definition find_or_create_oauth_identity ::
    "store_env \<Rightarrow> clock \<Rightarrow> string \<Rightarrow> string \<Rightarrow> string option \<Rightarrow> string option \<Rightarrow> string option \<Rightarrow>
     string option \<Rightarrow> auth_db \<Rightarrow> pydict db_result" where
  "find_or_create_oauth_identity env now provider provider_subject user_id username email
       display_name db =
     bind_result (validate_oauth_provider provider) (\<lambda>provider_name.
     bind_result (validate_oauth_subject provider_subject) (\<lambda>subject.
     let normalized_email = normalize_email email in
     bind_result (case user_id of Some u \<Rightarrow> validate_owner_id u
                  | None \<Rightarrow> Inr (oauth_user_id env provider_name subject)) (\<lambda>owner_id.
     let db1 = db\<lparr>users := tbl_upsert u_id user_merge_name
           (new_user now owner_id (or_opt display_name (or_opt username normalized_email)))
           (users db)\<rparr> in
     bind_result (ensure_default_project_row env now (Some owner_id) db1) (\<lambda>(_, db2).
     let rows = tbl_upsert identity_key (identity_merge now)
           \<lparr>i_provider = provider_name, i_subject = subject, i_user_id = owner_id,
             i_username = username, i_email = normalized_email, i_display_name = display_name,
             i_created_at = now, i_last_login_at = now\<rparr> (oauth_identities db2) in
     case tbl_get identity_key (provider_name, subject) rows of
       None \<Rightarrow> Inl (RuntimeError ''oauth identity could not be created'')
     | Some row \<Rightarrow> Inr (identity_from_row row, db2\<lparr>oauth_identities := rows\<rparr>)))))"

definition session_from_row :: "session_row \<Rightarrow> pydict" where
  "session_from_row row =
     [(''session_id_hash'', PStr (s_hash row)),
      (''user_id'', PStr (s_user_id row)),
      (''csrf_token_hash'', PStr (s_csrf_hash row)),
      (''created_at'', PStr (s_created_at row)),
      (''last_seen_at'', PStr (s_last_seen_at row)),
      (''expires_at'', PStr (s_expires_at row)),
      (''revoked_at'', of_opt (s_revoked_at row))]"

definition session_merge :: "session_row \<Rightarrow> session_row \<Rightarrow> session_row" where
  "session_merge old new =
     old\<lparr>s_user_id := s_user_id new, s_csrf_hash := s_csrf_hash new,
         s_expires_at := s_expires_at new, s_revoked_at := None\<rparr>"

definition create_web_session ::
    "clock \<Rightarrow> string \<Rightarrow> string \<Rightarrow> string \<Rightarrow> clock \<Rightarrow> auth_db \<Rightarrow> pydict db_result" where
  "create_web_session now session_id_hash user_id csrf_token_hash expires_at db =
     bind_result (validate_secret_hash ''session_id_hash'' session_id_hash) (\<lambda>session_hash.
     bind_result (validate_secret_hash ''csrf_token_hash'' csrf_token_hash) (\<lambda>csrf_hash.
     bind_result (validate_owner_id user_id) (\<lambda>owner.
     let rows = tbl_upsert s_hash session_merge
           \<lparr>s_hash = session_hash, s_user_id = owner, s_csrf_hash = csrf_hash, s_created_at = now,
             s_last_seen_at = now, s_expires_at = expires_at, s_revoked_at = None\<rparr>
           (web_sessions db) in
     case tbl_get s_hash session_hash rows of
       None \<Rightarrow> Inl (RuntimeError ''web session could not be created'')
     | Some row \<Rightarrow> Inr (session_from_row row, db\<lparr>web_sessions := rows\<rparr>))))"

definition session_live :: "string \<Rightarrow> session_row \<Rightarrow> bool" where
  "session_live now row \<longleftrightarrow> s_revoked_at row = None \<and> after (s_expires_at row) now"

definition web_session_for_hash :: "clock \<Rightarrow> string \<Rightarrow> auth_db \<Rightarrow> pydict option db_result" where
  "web_session_for_hash now session_id_hash db =
     bind_result (validate_secret_hash ''session_id_hash'' session_id_hash) (\<lambda>session_hash.
     case find (\<lambda>s. s_hash s = session_hash \<and> session_live now s) (web_sessions db) of
       None \<Rightarrow> Inr (None, db)
     | Some row \<Rightarrow>
         Inr (Some (session_from_row row),
              db\<lparr>web_sessions := tbl_update (\<lambda>s. s_hash s = session_hash)
                    (\<lambda>s. s\<lparr>s_last_seen_at := now\<rparr>) (web_sessions db)\<rparr>))"

definition revoke_web_session :: "clock \<Rightarrow> string \<Rightarrow> auth_db \<Rightarrow> bool db_result" where
  "revoke_web_session now session_id_hash db =
     bind_result (validate_secret_hash ''session_id_hash'' session_id_hash) (\<lambda>session_hash.
     let p = (\<lambda>s. s_hash s = session_hash \<and> s_revoked_at s = None) in
     Inr (0 < tbl_count p (web_sessions db),
          db\<lparr>web_sessions := tbl_update p (\<lambda>s. s\<lparr>s_revoked_at := Some now\<rparr>) (web_sessions db)\<rparr>))"

end
