(* ===== verification/OAuthStore.thy ===== *)
theory OAuthStore
  imports AuthStore
begin

text \<open>
  Dynamic OAuth clients, authorization codes, provider states and rotating refresh
  tokens of \<open>SQLiteMetadataStore\<close>. The conventions are those of \<open>AuthStore\<close>.
\<close>

section \<open>Clients\<close>

definition client_from_row :: "client_row \<Rightarrow> pydict" where
  "client_from_row row =
     [(''client_id'', PStr (c_id row)),
      (''client_name'', PStr (c_name row)),
      (''redirect_uris'', PList (map PStr (c_redirect_uris row))),
      (''created_at'', PStr (c_created_at row)),
      (''expires_at'', PStr (c_expires_at row)),
      (''revoked_at'', of_opt (c_revoked_at row))]"

definition client_live :: "string \<Rightarrow> client_row \<Rightarrow> bool" where
  "client_live now row \<longleftrightarrow> c_revoked_at row = None \<and> after (c_expires_at row) now"

definition client_merge :: "client_row \<Rightarrow> client_row \<Rightarrow> client_row" where
  "client_merge old new =
     old\<lparr>c_name := c_name new, c_redirect_uris := c_redirect_uris new,
         c_expires_at := c_expires_at new, c_revoked_at := None\<rparr>"

definition create_oauth_client ::
    "clock \<Rightarrow> string \<Rightarrow> string \<Rightarrow> string list \<Rightarrow> clock \<Rightarrow> nat \<Rightarrow> auth_db \<Rightarrow> pydict db_result" where
  "create_oauth_client now client_id client_name redirect_uris expires_at max_active_clients db =
     bind_result (validate_token_lookup client_id) (\<lambda>handle.
     if tbl_count (client_live now) (oauth_clients db) \<ge> max_active_clients
       then Inl (OAuthClientQuotaExceeded ''active OAuth client quota exceeded'')
     else
       let rows = tbl_upsert c_id client_merge
             \<lparr>c_id = handle, c_name = (if client_name = [] then ''MCP client'' else client_name),
               c_redirect_uris = redirect_uris, c_created_at = now, c_expires_at = expires_at,
               c_revoked_at = None\<rparr> (oauth_clients db) in
       case tbl_get c_id handle rows of
         None \<Rightarrow> Inl (RuntimeError ''oauth client could not be created'')
       | Some row \<Rightarrow> Inr (client_from_row row, db\<lparr>oauth_clients := rows\<rparr>))"

definition oauth_client :: "clock \<Rightarrow> string \<Rightarrow> auth_db \<Rightarrow> pydict option result" where
  "oauth_client now client_id db =
     bind_result (validate_token_lookup client_id) (\<lambda>handle.
     Inr (map_option client_from_row
       (find (\<lambda>c. c_id c = handle \<and> client_live now c) (oauth_clients db))))"

section \<open>Authorization codes\<close>

definition create_oauth_authorization_code ::
    "store_env \<Rightarrow> clock \<Rightarrow> secret \<Rightarrow> string \<Rightarrow> string \<Rightarrow> string \<Rightarrow> secret \<Rightarrow> string \<Rightarrow> string \<Rightarrow>
     clock \<Rightarrow> auth_db \<Rightarrow> unit db_result" where
  "create_oauth_authorization_code env now code client_id owner_id redirect_uri code_challenge
       resource scope expires_at db =
     bind_result (hash_bearer_token env code) (\<lambda>code_hash.
     bind_result (validate_token_lookup client_id) (\<lambda>client.
     bind_result (validate_owner_id owner_id) (\<lambda>owner.
     case tbl_insert k_hash
         \<lparr>k_hash = code_hash, k_client_id = client, k_owner_id = owner, k_redirect_uri = redirect_uri,
           k_challenge = code_challenge, k_resource = resource, k_scope = scope, k_created_at = now,
           k_expires_at = expires_at, k_consumed_at = None\<rparr> (oauth_authorization_codes db) of
       None \<Rightarrow> Inl (IntegrityError ''UNIQUE constraint failed: oauth_authorization_codes.code_hash'')
     | Some rows \<Rightarrow> Inr ((), db\<lparr>oauth_authorization_codes := rows\<rparr>))))"

definition code_matches ::
    "string \<Rightarrow> string \<Rightarrow> string \<Rightarrow> string \<Rightarrow> string \<Rightarrow> code_row \<Rightarrow> bool" where
  "code_matches now code_hash client_id redirect_uri code_challenge row \<longleftrightarrow>
     k_hash row = code_hash \<and> k_client_id row = client_id \<and> k_redirect_uri row = redirect_uri
     \<and> k_challenge row = code_challenge \<and> k_consumed_at row = None \<and> after (k_expires_at row) now"

definition code_returning :: "code_row \<Rightarrow> pydict" where
  "code_returning row =
     [(''client_id'', PStr (k_client_id row)), (''owner_id'', PStr (k_owner_id row)),
      (''redirect_uri'', PStr (k_redirect_uri row)), (''code_challenge'', PStr (k_challenge row)),
      (''resource'', PStr (k_resource row)), (''scope'', PStr (k_scope row)),
      (''created_at'', PStr (k_created_at row)), (''expires_at'', PStr (k_expires_at row))]"

definition consume_oauth_authorization_code ::
    "store_env \<Rightarrow> clock \<Rightarrow> secret \<Rightarrow> string \<Rightarrow> string \<Rightarrow> secret \<Rightarrow> auth_db \<Rightarrow>
     pydict option db_result" where
  "consume_oauth_authorization_code env now code client_id redirect_uri code_challenge db =
     bind_result (hash_bearer_token env code) (\<lambda>code_hash.
     let p = code_matches now code_hash client_id redirect_uri code_challenge in
     Inr (map_option code_returning (find p (oauth_authorization_codes db)),
          db\<lparr>oauth_authorization_codes :=
               tbl_update p (\<lambda>k. k\<lparr>k_consumed_at := Some now\<rparr>) (oauth_authorization_codes db)\<rparr>))"

section \<open>Provider states\<close>

definition pstate_active :: "string \<Rightarrow> pstate_row \<Rightarrow> bool" where
  "pstate_active now row \<longleftrightarrow> p_consumed_at row = None \<and> after (p_expires_at row) now"

definition create_oauth_provider_state ::
    "store_env \<Rightarrow> clock \<Rightarrow> secret \<Rightarrow> string \<Rightarrow> secret \<Rightarrow> secret \<Rightarrow> secret \<Rightarrow> pyval \<Rightarrow> clock \<Rightarrow>
     nat \<Rightarrow> nat \<Rightarrow> auth_db \<Rightarrow> unit db_result" where
  "create_oauth_provider_state env now state provider browser_session_id nonce code_verifier
       state_data expires_at max_active_states max_global_active_states db =
     bind_result (hash_oauth_ephemeral_secret env ''state'' state) (\<lambda>state_hash.
     bind_result (hash_oauth_ephemeral_secret env ''browser-session'' browser_session_id) (\<lambda>browser_hash.
     let live = filter (\<lambda>p. \<not> (p_consumed_at p \<noteq> None \<or> p_expires_at p \<le> now))
                  (oauth_provider_states db) in
     if tbl_count (pstate_active now) live \<ge> max_global_active_states
       then Inl (OAuthProviderStateQuotaExceeded ''global active OAuth provider state quota exceeded'')
     else if tbl_count (\<lambda>p. p_browser_hash p = browser_hash \<and> pstate_active now p) live
             \<ge> max_active_states
       then Inl (OAuthProviderStateQuotaExceeded ''active OAuth provider state quota exceeded'')
     else case tbl_insert p_hash
         \<lparr>p_hash = state_hash, p_provider = provider, p_browser_hash = browser_hash, p_nonce = nonce,
           p_verifier = code_verifier, p_data = state_data, p_created_at = now,
           p_expires_at = expires_at, p_consumed_at = None\<rparr> live of
       None \<Rightarrow> Inl (IntegrityError ''UNIQUE constraint failed: oauth_provider_states.state_hash'')
     | Some rows \<Rightarrow> Inr ((), db\<lparr>oauth_provider_states := rows\<rparr>)))"

definition pstate_matches :: "string \<Rightarrow> string \<Rightarrow> string \<Rightarrow> string \<Rightarrow> pstate_row \<Rightarrow> bool" where
  "pstate_matches now state_hash provider browser_hash row \<longleftrightarrow>
     p_hash row = state_hash \<and> p_provider row = provider \<and> p_browser_hash row = browser_hash
     \<and> p_consumed_at row = None \<and> after (p_expires_at row) now"

definition pstate_returning :: "pstate_row \<Rightarrow> pydict option" where
  "pstate_returning row =
     (case p_data row of
        PDict state_data \<Rightarrow>
          Some (dupdate state_data
            [(''nonce'', PStr (p_nonce row)), (''code_verifier'', PStr (p_verifier row)),
             (''created_at'', PStr (p_created_at row)), (''expires_at'', PStr (p_expires_at row))])
      | _ \<Rightarrow> None)"

definition consume_oauth_provider_state ::
    "store_env \<Rightarrow> clock \<Rightarrow> secret \<Rightarrow> string \<Rightarrow> secret \<Rightarrow> auth_db \<Rightarrow> pydict option db_result" where
  "consume_oauth_provider_state env now state provider browser_session_id db =
     bind_result (hash_oauth_ephemeral_secret env ''state'' state) (\<lambda>state_hash.
     bind_result (hash_oauth_ephemeral_secret env ''browser-session'' browser_session_id) (\<lambda>browser_hash.
     let p = pstate_matches now state_hash provider browser_hash in
     Inr (Option.bind (find p (oauth_provider_states db)) pstate_returning,
          db\<lparr>oauth_provider_states :=
               tbl_update p (\<lambda>s. s\<lparr>p_consumed_at := Some now\<rparr>) (oauth_provider_states db)\<rparr>)))"

section \<open>Refresh tokens\<close>

definition refresh_from_row :: "refresh_row \<Rightarrow> pydict result" where
  "refresh_from_row row =
     bind_result (parse_token_scopes (r_scopes row)) (\<lambda>scopes. Inr
       [(''refresh_token_hash'', PStr (r_hash row)),
        (''token_family_id'', PStr (r_family row)),
        (''client_id'', PStr (r_client row)),
        (''owner_id'', PStr (r_owner row)),
        (''scopes'', PList (map PStr scopes)),
        (''resource'', PStr (r_resource row)),
        (''access_token_id'', of_opt (r_access_token_id row)),
        (''created_at'', PStr (r_created_at row)),
        (''expires_at'', PStr (r_expires_at row)),
        (''consumed_at'', of_opt (r_consumed_at row)),
        (''revoked_at'', of_opt (r_revoked_at row))])"

text \<open>\<open>now_iso\<close> is \<open>datetime.now(UTC).isoformat()\<close>, the only timestamp not taken from SQLite.\<close>

definition create_oauth_refresh_token ::
    "store_env \<Rightarrow> clock \<Rightarrow> clock \<Rightarrow> secret \<Rightarrow> string \<Rightarrow> string \<Rightarrow> string \<Rightarrow> string list option \<Rightarrow>
     string \<Rightarrow> string option \<Rightarrow> clock \<Rightarrow> auth_db \<Rightarrow> pydict db_result" where
  "create_oauth_refresh_token env now now_iso refresh_token token_family_id client_id owner_id
       scopes resource access_token_id expires_at db =
     bind_result (hash_bearer_token env refresh_token) (\<lambda>token_hash.
     bind_result (validate_token_lookup token_family_id) (\<lambda>family_id.
     bind_result (validate_token_lookup client_id) (\<lambda>client.
     bind_result (validate_owner_id owner_id) (\<lambda>owner.
     bind_result (normalize_token_scopes scopes) (\<lambda>scopes_json.
     let db1 = db\<lparr>users := tbl_upsert u_id keep_old (new_user now owner (Some owner)) (users db)\<rparr> in
     bind_result (ensure_default_project_row env now (Some owner) db1) (\<lambda>(_, db2).
     let family_revoked = family_id \<in> set (map f_id (oauth_refresh_token_families db2)) in
     case tbl_insert r_hash
         \<lparr>r_hash = token_hash, r_family = family_id, r_client = client, r_owner = owner,
           r_scopes = Some scopes_json, r_resource = resource, r_access_token_id = access_token_id,
           r_created_at = now, r_expires_at = expires_at, r_consumed_at = None,
           r_revoked_at = (if family_revoked then Some now_iso else None)\<rparr>
         (oauth_refresh_tokens db2) of
       None \<Rightarrow> Inl (IntegrityError ''UNIQUE constraint failed: oauth_refresh_tokens.refresh_token_hash'')
     | Some rows \<Rightarrow>
         let tokens = (if family_revoked \<and> access_token_id \<noteq> None \<and> access_token_id \<noteq> Some []
               then tbl_update (\<lambda>t. t_id t = access_token_id) (\<lambda>t. t\<lparr>t_revoked_at := Some now\<rparr>)
                      (auth_tokens db2)
               else auth_tokens db2) in
         (case tbl_get r_hash token_hash rows of
            None \<Rightarrow> Inl (RuntimeError ''oauth refresh token could not be created'')
          | Some row \<Rightarrow>
              bind_result (refresh_from_row row) (\<lambda>d.
              Inr (d, db2\<lparr>oauth_refresh_tokens := rows, auth_tokens := tokens\<rparr>)))))))))"

definition oauth_refresh_token :: "store_env \<Rightarrow> secret \<Rightarrow> auth_db \<Rightarrow> pydict option result" where
  "oauth_refresh_token env refresh_token db =
     bind_result (hash_bearer_token env refresh_token) (\<lambda>token_hash.
     case tbl_get r_hash token_hash (oauth_refresh_tokens db) of
       None \<Rightarrow> Inr None
     | Some row \<Rightarrow> bind_result (refresh_from_row row) (\<lambda>d. Inr (Some d)))"

definition refresh_live :: "string \<Rightarrow> refresh_row \<Rightarrow> bool" where
  "refresh_live now row \<longleftrightarrow>
     r_consumed_at row = None \<and> r_revoked_at row = None \<and> after (r_expires_at row) now"

definition consume_oauth_refresh_token ::
    "store_env \<Rightarrow> clock \<Rightarrow> secret \<Rightarrow> auth_db \<Rightarrow> pydict option db_result" where
  "consume_oauth_refresh_token env now refresh_token db =
     bind_result (hash_bearer_token env refresh_token) (\<lambda>token_hash.
     let p = (\<lambda>r. r_hash r = token_hash \<and> refresh_live now r);
         rows = tbl_update p (\<lambda>r. r\<lparr>r_consumed_at := Some now\<rparr>) (oauth_refresh_tokens db) in
     case find p (oauth_refresh_tokens db) of
       None \<Rightarrow> Inr (None, db\<lparr>oauth_refresh_tokens := rows\<rparr>)
     | Some row \<Rightarrow>
         bind_result (refresh_from_row (row\<lparr>r_consumed_at := Some now\<rparr>)) (\<lambda>d.
         Inr (Some d, db\<lparr>oauth_refresh_tokens := rows\<rparr>)))"

text \<open>The access tokens that a family's refresh tokens were issued with.\<close>

definition family_access_ids :: "(refresh_row \<Rightarrow> bool) \<Rightarrow> auth_db \<Rightarrow> string list" where
  "family_access_ids p db =
     List.map_filter r_access_token_id (filter p (oauth_refresh_tokens db))"

definition token_id_in :: "string list \<Rightarrow> token_row \<Rightarrow> bool" where
  "token_id_in ids t \<longleftrightarrow> (case t_id t of None \<Rightarrow> False | Some i \<Rightarrow> i \<in> set ids)"

definition revoke_oauth_refresh_token_family ::
    "clock \<Rightarrow> string \<Rightarrow> auth_db \<Rightarrow> bool db_result" where
  "revoke_oauth_refresh_token_family now token_family_id db =
     bind_result (validate_token_lookup token_family_id) (\<lambda>family_id.
     let families = tbl_upsert f_id keep_old \<lparr>f_id = family_id, f_revoked_at = now\<rparr>
           (oauth_refresh_token_families db);
         ids = family_access_ids (\<lambda>r. r_family r = family_id) db;
         tokens = tbl_update (token_id_in ids) (\<lambda>t. t\<lparr>t_revoked_at := Some now\<rparr>) (auth_tokens db);
         p = (\<lambda>r. r_family r = family_id \<and> r_revoked_at r = None) in
     Inr (0 < tbl_count p (oauth_refresh_tokens db),
          db\<lparr>oauth_refresh_token_families := families, auth_tokens := tokens,
             oauth_refresh_tokens :=
               tbl_update p (\<lambda>r. r\<lparr>r_revoked_at := Some now\<rparr>) (oauth_refresh_tokens db)\<rparr>))"

definition revoke_oauth_authorization_for_access_token ::
    "store_env \<Rightarrow> clock \<Rightarrow> secret \<Rightarrow> auth_db \<Rightarrow> bool db_result" where
  "revoke_oauth_authorization_for_access_token env now access_token db =
     bind_result (hash_bearer_token env access_token) (\<lambda>token_hash.
     case tbl_get t_hash token_hash (auth_tokens db) of
       None \<Rightarrow> Inr (False, db)
     | Some row \<Rightarrow>
         let token_id = py_str (of_opt (t_id row)) in
         if \<not> list_ex (\<lambda>r. r_access_token_id r = Some token_id) (oauth_refresh_tokens db)
           then Inr (False, db)
         else
           let tokens1 = tbl_update (\<lambda>t. t_hash t = token_hash \<and> t_revoked_at t = None)
                 (\<lambda>t. t\<lparr>t_revoked_at := Some now\<rparr>) (auth_tokens db);
               family_ids = map r_family (filter (\<lambda>r. r_access_token_id r = Some token_id)
                 (oauth_refresh_tokens db));
               ids = family_access_ids (\<lambda>r. r_family r \<in> set family_ids) db;
               tokens2 = tbl_update (\<lambda>t. token_id_in ids t \<and> t_revoked_at t = None)
                 (\<lambda>t. t\<lparr>t_revoked_at := Some now\<rparr>) tokens1 in
           Inr (True, db\<lparr>auth_tokens := tokens2, oauth_refresh_tokens :=
                 tbl_update (\<lambda>r. r_family r \<in> set family_ids \<and> r_revoked_at r = None)
                   (\<lambda>r. r\<lparr>r_revoked_at := Some now\<rparr>) (oauth_refresh_tokens db)\<rparr>))"

definition revoke_oauth_refresh_token :: "store_env \<Rightarrow> clock \<Rightarrow> secret \<Rightarrow> auth_db \<Rightarrow> bool db_result" where
  "revoke_oauth_refresh_token env now refresh_token db =
     bind_result (oauth_refresh_token env refresh_token db) (\<lambda>record.
     case record of
       None \<Rightarrow> Inr (False, db)
     | Some d \<Rightarrow> revoke_oauth_refresh_token_family now (py_str (dget_none d ''token_family_id'')) db)"

end
