(* ===== verification/ProjectStore.thy ===== *)
theory ProjectStore
  imports OAuthStore
begin

text \<open>
  Projects and their members (\<open>SQLiteMetadataStore.ensure_default_project\<close> to
  \<open>list_projects\<close>).
\<close>

definition project_from_row :: "string option \<Rightarrow> project_row \<Rightarrow> pydict" where
  "project_from_row role row =
     [(''id'', PStr (pr_id row)),
      (''owner_id'', of_opt (pr_owner row)),
      (''name'', PStr (pr_name row)),
      (''description'', of_opt (pr_description row)),
      (''is_default'', PBool (pr_is_default row)),
      (''created_at'', PStr (pr_created_at row)),
      (''updated_at'', PStr (pr_updated_at row)),
      (''archived_at'', of_opt (pr_archived_at row)),
      (''role'', of_opt role)]"

definition member_from_row :: "string option \<Rightarrow> member_row \<Rightarrow> pydict" where
  "member_from_row display_name row =
     [(''project_id'', PStr (m_project row)),
      (''user_id'', PStr (m_user row)),
      (''role'', PStr (m_role row)),
      (''created_at'', PStr (m_created_at row)),
      (''updated_at'', PStr (m_updated_at row)),
      (''display_name'', of_opt display_name)]"

definition get_project_row :: "string \<Rightarrow> auth_db \<Rightarrow> pydict option" where
  "get_project_row project_id db =
     map_option (project_from_row None)
       (find (\<lambda>p. pr_id p = project_id \<and> pr_archived_at p = None) (projects db))"

definition ensure_default_project ::
    "store_env \<Rightarrow> clock \<Rightarrow> string option \<Rightarrow> auth_db \<Rightarrow> pydict db_result" where
  "ensure_default_project env now owner_id db =
     bind_result (case owner_id of None \<Rightarrow> Inr None
                  | Some o' \<Rightarrow> bind_result (validate_owner_id o') (\<lambda>v. Inr (Some v))) (\<lambda>owner.
     bind_result (ensure_default_project_row env now owner db) (\<lambda>(project_id, db').
     case get_project_row project_id db' of
       None \<Rightarrow> Inl (RuntimeError ''default project could not be resolved'')
     | Some project \<Rightarrow> Inr (project, db')))"

definition project_merge_all :: "clock \<Rightarrow> project_row \<Rightarrow> project_row \<Rightarrow> project_row" where
  "project_merge_all now old new =
     old\<lparr>pr_owner := pr_owner new, pr_name := pr_name new, pr_description := pr_description new,
         pr_is_default := pr_is_default new, pr_updated_at := now\<rparr>"

definition create_project ::
    "clock \<Rightarrow> string \<Rightarrow> string \<Rightarrow> string option \<Rightarrow> string option \<Rightarrow> bool \<Rightarrow> auth_db \<Rightarrow>
     pydict db_result" where
  "create_project now project_id owner_id name description is_default db =
     bind_result (validate_project_id project_id) (\<lambda>project.
     bind_result (validate_owner_id owner_id) (\<lambda>owner.
     let db1 = db\<lparr>users := tbl_upsert u_id keep_old (new_user now owner (Some owner)) (users db)\<rparr>;
         rows = tbl_upsert pr_id (project_merge_all now)
           \<lparr>pr_id = project, pr_owner = Some owner,
             pr_name = (case name of Some (c # cs) \<Rightarrow> c # cs | _ \<Rightarrow> project),
             pr_description = description, pr_is_default = is_default, pr_created_at = now,
             pr_updated_at = now, pr_archived_at = None\<rparr> (projects db1) in
     if \<not> default_projects_unique rows
       then Inl (IntegrityError ''UNIQUE constraint failed: projects'')
     else
       let db2 = upsert_project_membership now project owner ''admin'' (db1\<lparr>projects := rows\<rparr>) in
       case get_project_row project db2 of
         None \<Rightarrow> Inl (RuntimeError ''project could not be created'')
       | Some row \<Rightarrow> Inr (row, db2)))"

definition add_project_member ::
    "clock \<Rightarrow> string \<Rightarrow> string \<Rightarrow> string \<Rightarrow> auth_db \<Rightarrow> unit db_result" where
  "add_project_member now project_id user_id role db =
     bind_result (validate_project_id project_id) (\<lambda>project.
     bind_result (validate_owner_id user_id) (\<lambda>user.
     bind_result (validate_project_role role) (\<lambda>normalized_role.
     let db1 = db\<lparr>users := tbl_upsert u_id keep_old (new_user now user (Some user)) (users db)\<rparr> in
     Inr ((), upsert_project_membership now project user normalized_role db1))))"

text \<open>The rows of \<open>project_memberships JOIN projects\<close> whose project is not archived.\<close>

definition project_open :: "auth_db \<Rightarrow> string \<Rightarrow> bool" where
  "project_open db project_id \<longleftrightarrow>
     list_ex (\<lambda>p. pr_id p = project_id \<and> pr_archived_at p = None) (projects db)"

definition list_project_members :: "string \<Rightarrow> auth_db \<Rightarrow> pydict list result" where
  "list_project_members project_id db =
     bind_result (validate_project_id project_id) (\<lambda>project.
     Inr (List.map_filter
       (\<lambda>m. map_option (\<lambda>u. member_from_row (u_display_name u) m) (tbl_get u_id (m_user m) (users db)))
       (sort_key m_role (sort_key m_user
         (filter (\<lambda>m. m_project m = project \<and> project_open db project) (project_memberships db))))))"

definition project_has_role :: "string \<Rightarrow> string option \<Rightarrow> string \<Rightarrow> auth_db \<Rightarrow> bool result" where
  "project_has_role project_id user_id role db =
     bind_result (validate_project_id project_id) (\<lambda>project.
     bind_result (validate_project_role role) (\<lambda>required.
     case user_id of
       None \<Rightarrow> Inr (project = LOCAL_DEFAULT_PROJECT_ID)
     | Some u \<Rightarrow>
         bind_result (validate_owner_id u) (\<lambda>user.
         case find (\<lambda>m. m_project m = project \<and> m_user m = user \<and> project_open db project)
                (project_memberships db) of
           None \<Rightarrow> Inr False
         | Some row \<Rightarrow>
             (case (project_role_order (m_role row), project_role_order required) of
                (Some have, Some need) \<Rightarrow> Inr (need \<le> have)
              | (None, _) \<Rightarrow> Inl (KeyError (m_role row))
              | (_, None) \<Rightarrow> Inl (KeyError required)))))"

text \<open>\<open>ORDER BY projects.is_default DESC, projects.name ASC\<close>.\<close>

definition project_order :: "('a \<Rightarrow> project_row) \<Rightarrow> 'a list \<Rightarrow> 'a list" where
  "project_order f rows =
     sort_key (\<lambda>r. if pr_is_default (f r) then (0::nat) else 1) (sort_key (\<lambda>r. pr_name (f r)) rows)"

definition list_projects :: "string option \<Rightarrow> auth_db \<Rightarrow> pydict list result" where
  "list_projects user_id db =
     (case user_id of
        None \<Rightarrow>
          Inr (map (project_from_row None) (project_order (\<lambda>p. p)
            (filter (\<lambda>p. pr_id p = LOCAL_DEFAULT_PROJECT_ID \<and> pr_archived_at p = None)
              (projects db))))
      | Some u \<Rightarrow>
          bind_result (validate_owner_id u) (\<lambda>user.
          Inr (map (\<lambda>(p, role). project_from_row (Some role) p) (project_order fst
            (concat (map (\<lambda>p. map (\<lambda>m. (p, m_role m))
                (filter (\<lambda>m. m_project m = pr_id p \<and> m_user m = user) (project_memberships db)))
              (filter (\<lambda>p. pr_archived_at p = None) (projects db))))))))"

end
