(* ===== verification/ConversationStore.thy ===== *)
theory ConversationStore
  imports ProjectStore
begin

text \<open>
  Conversations, their messages and their index chunks in \<open>SQLiteMetadataStore\<close>
  (\<^verbatim>\<open>memory/backend/metadata_store.py\<close>): inserting, appending, looking up, and the state
  of the index chunks in the table and in the stored payload. The \<open>payload\<close> column holds the
  JSON text of the conversation; the model stores the value that \<open>json.loads\<close> gives back.
\<close>

section \<open>Tables\<close>

record conv_row =
  cv_id :: string
  cv_source :: string
  cv_timestamp :: string
  cv_title :: pyval
  cv_hash :: "string option"
  cv_project :: "string option"
  cv_upstream :: "string option"
  cv_session :: "string option"
  cv_payload :: pydict
  cv_created_at :: string

record message_row =
  g_conv :: string
  g_index :: nat
  g_role :: string
  g_text :: string
  g_hash :: string

record chunk_row =
  h_id :: string
  h_conv :: string
  h_index :: int
  h_message_hash :: string
  h_role :: string
  h_text :: string
  h_state :: string

record mem_db =
  accounts :: auth_db
  conversations :: "conv_row list"
  messages :: "message_row list"
  chunks :: "chunk_row list"

type_synonym 'a mem_result = "('a \<times> mem_db) result"

definition empty_mem_db :: mem_db where
  "empty_mem_db = \<lparr>accounts = empty_auth_db, conversations = [], messages = [], chunks = []\<rparr>"

text \<open>
  \<open>idx_conversations_project_hash\<close> and \<open>idx_conversations_project_imported_session\<close>: SQLite
  treats NULL columns of a unique index as distinct.
\<close>

definition project_key :: "(conv_row \<Rightarrow> string option) \<Rightarrow> conv_row \<Rightarrow> (string \<times> string) option" where
  "project_key f row =
     (case (cv_project row, f row) of (Some p, Some x) \<Rightarrow> Some (p, x) | _ \<Rightarrow> None)"

definition conv_unique :: "conv_row list \<Rightarrow> bool" where
  "conv_unique rows \<longleftrightarrow>
     distinct (List.map_filter (project_key cv_hash) rows)
     \<and> distinct (List.map_filter (project_key cv_session) rows)"

section \<open>Fields of a conversation\<close>

definition validate_memory_id :: "pyval \<Rightarrow> string result" where
  "validate_memory_id memory_id =
     (let value = py_str memory_id in
      if py_uuid_ok value then Inr value
      else Inl (ValueError ''memory_id must be a valid UUID''))"

definition validate_field_lengths :: "string \<Rightarrow> string \<Rightarrow> pyval \<Rightarrow> unit result" where
  "validate_field_lengths source timestamp title =
     (if length source > 128 then Inl (ValueError ''source exceeds max length 128'')
      else if length timestamp > 128 then Inl (ValueError ''timestamp exceeds max length 128'')
      else if title \<noteq> PNone \<and> length (py_str title) > 1024
        then Inl (ValueError ''title exceeds max length 1024'')
      else Inr ())"

text \<open>A text field of the metadata, \<open>None\<close> when the metadata is not a dictionary.\<close>

definition meta_str :: "pydict \<Rightarrow> string \<Rightarrow> string option" where
  "meta_str c k = (case metadata_of c of None \<Rightarrow> None | Some m \<Rightarrow> opt_str (dget_none m k))"

definition conversation_hash :: "pydict \<Rightarrow> string option" where
  "conversation_hash c = meta_str c ''conversation_hash''"

definition upstream_thread_id :: "pydict \<Rightarrow> string option" where
  "upstream_thread_id c = meta_str c ''upstream_thread_id''"

definition imported_session_identity :: "pydict \<Rightarrow> string option" where
  "imported_session_identity c = meta_str c ''imported_session_identity''"

definition payload_project_id :: "pydict \<Rightarrow> string option" where
  "payload_project_id c = meta_str c ''project_id''"

definition owner_id_from_payload :: "pydict \<Rightarrow> string option" where
  "owner_id_from_payload c = meta_str c ''owner_id''"

definition stamp_project_id :: "pydict \<Rightarrow> string \<Rightarrow> pydict" where
  "stamp_project_id c project_id =
     (let metadata = (case dget_none c ''metadata'' of PDict m \<Rightarrow> m | _ \<Rightarrow> []) in
      dset c ''metadata'' (PDict (dset metadata ''project_id'' (PStr project_id))))"

text \<open>The validated project and the conversation, which the code stamps in place.\<close>

definition ensure_payload_project :: "store_env \<Rightarrow> pydict \<Rightarrow> (string \<times> pydict) result" where
  "ensure_payload_project env c =
     (case payload_project_id c of
        Some p \<Rightarrow> bind_result (validate_project_id p) (\<lambda>v. Inr (v, c))
      | None \<Rightarrow>
          let project_id = (case owner_id_from_payload c of
                Some (x # xs) \<Rightarrow> default_project_id env (x # xs)
              | _ \<Rightarrow> LOCAL_DEFAULT_PROJECT_ID)
          in Inr (project_id, stamp_project_id c project_id))"

definition ensure_project_for_payload ::
    "store_env \<Rightarrow> string \<Rightarrow> pydict \<Rightarrow> mem_db \<Rightarrow> mem_db result" where
  "ensure_project_for_payload env now c db =
     bind_result (ensure_default_project_row env now (owner_id_from_payload c) (accounts db))
       (\<lambda>(_, acc). Inr (db\<lparr>accounts := acc\<rparr>))"

section \<open>Child rows\<close>

text \<open>\<open>message[key]\<close> on a JSON value: only a dictionary can be indexed by a string.\<close>

definition message_item :: "pyval \<Rightarrow> string \<Rightarrow> pyval result" where
  "message_item m k =
     (case m of PDict d \<Rightarrow> ditem d k | _ \<Rightarrow> Inl (TypeError ''indices must be integers''))"

definition message_list :: "pydict \<Rightarrow> pyval list" where
  "message_list c = (case dget_or c ''messages'' (PList []) of PList ms \<Rightarrow> ms | _ \<Rightarrow> [])"

definition fallback_chunk :: "pydict \<Rightarrow> nat \<times> pyval \<Rightarrow> pydict result" where
  "fallback_chunk c im =
     (let (index, message) = im in
      bind_result (message_item message ''hash'') (\<lambda>h.
      bind_result (ditem c ''id'') (\<lambda>cid.
      bind_result (message_item message ''role'') (\<lambda>role.
      bind_result (message_item message ''text'') (\<lambda>text.
      Inr [(''chunk_id'', PStr (py_str cid @ '':'' @ nat_str index @ '':'' @ py_str h)),
           (''chunk_index'', PInt (int index)),
           (''message_hash'', PStr (py_str h)),
           (''role'', PStr (py_str role)),
           (''text'', PStr (py_str text)),
           (''index_state'', PStr ''pending_index'')])))))"

definition index_chunks :: "pydict \<Rightarrow> pydict list result" where
  "index_chunks c =
     (let stored = (case metadata_of c of
            Some m \<Rightarrow> (case dget_none m ''index_chunks'' of
                PList xs \<Rightarrow> (if list_all (\<lambda>x. as_dict x \<noteq> None) xs
                           then Some (List.map_filter as_dict xs) else None)
              | _ \<Rightarrow> None)
          | None \<Rightarrow> None)
      in case stored of
           Some xs \<Rightarrow> Inr xs
         | None \<Rightarrow> map_result (fallback_chunk c) (List.enumerate 0 (message_list c)))"

definition sqlite_int :: "int \<Rightarrow> int result" where
  "sqlite_int i =
     (if - (2 ^ 63) \<le> i \<and> i < 2 ^ 63 then Inr i
      else Inl (OverflowError ''Python int too large to convert to SQLite INTEGER''))"

text \<open>\<open>INSERT OR IGNORE INTO messages\<close>.\<close>

definition insert_message :: "string \<Rightarrow> nat \<times> pyval \<Rightarrow> mem_db \<Rightarrow> mem_db result" where
  "insert_message conversation_id im db =
     (let (index, message) = im in
      bind_result (message_item message ''hash'') (\<lambda>h.
      bind_result (message_item message ''role'') (\<lambda>role.
      bind_result (message_item message ''text'') (\<lambda>text.
      let new = \<lparr>g_conv = conversation_id, g_index = index, g_role = py_str role,
                  g_text = py_str text, g_hash = py_str h\<rparr> in
      if list_ex (\<lambda>g. g_conv g = conversation_id \<and> (g_index g = index \<or> g_hash g = py_str h))
           (messages db)
        then Inr db
      else Inr (db\<lparr>messages := messages db @ [new]\<rparr>)))))"

definition index_states :: "string list" where
  "index_states = [''pending_index'', ''indexed'', ''indexing_failed'']"

text \<open>\<open>INSERT OR REPLACE INTO chunks\<close>: rows with the same id, or the same position, go.\<close>

definition insert_chunk :: "string \<Rightarrow> pydict \<Rightarrow> mem_db \<Rightarrow> mem_db result" where
  "insert_chunk conversation_id chunk db =
     bind_result (ditem chunk ''chunk_id'') (\<lambda>cid.
     bind_result (bind_result (ditem chunk ''chunk_index'') int_of_pyval) (\<lambda>idx.
     bind_result (ditem chunk ''message_hash'') (\<lambda>h.
     bind_result (ditem chunk ''role'') (\<lambda>role.
     bind_result (ditem chunk ''text'') (\<lambda>text.
     let state = py_str (dget_or chunk ''index_state'' (PStr ''pending_index'')) in
     bind_result (sqlite_int idx) (\<lambda>i.
     if state \<notin> set index_states then Inl (IntegrityError ''CHECK constraint failed: index_state'')
     else
       let new = \<lparr>h_id = py_str cid, h_conv = conversation_id, h_index = i, h_message_hash = py_str h,
                   h_role = py_str role, h_text = py_str text, h_state = state\<rparr> in
       Inr (db\<lparr>chunks := filter (\<lambda>r. h_id r \<noteq> py_str cid
              \<and> \<not> (h_conv r = conversation_id \<and> h_index r = i)) (chunks db) @ [new]\<rparr>)))))))"

definition replace_child_rows :: "pydict \<Rightarrow> mem_db \<Rightarrow> mem_db result" where
  "replace_child_rows c db =
     bind_result (bind_result (ditem c ''id'') validate_memory_id) (\<lambda>conversation_id.
     let db1 = db\<lparr>messages := filter (\<lambda>g. g_conv g \<noteq> conversation_id) (messages db),
                  chunks := filter (\<lambda>h. h_conv h \<noteq> conversation_id) (chunks db)\<rparr> in
     bind_result (fold_result (insert_message conversation_id) (List.enumerate 0 (message_list c)) db1)
       (\<lambda>db2.
     bind_result (index_chunks c) (\<lambda>cs.
     fold_result (insert_chunk conversation_id) cs db2)))"

section \<open>Writing conversations\<close>

text \<open>The types \<open>sqlite3\<close> can bind to a parameter.\<close>

definition bind_param :: "pyval \<Rightarrow> unit result" where
  "bind_param v =
     (case v of
        PInt i \<Rightarrow> bind_result (sqlite_int i) (\<lambda>_. Inr ())
      | PList _ \<Rightarrow> Inl (ProgrammingError ''Error binding parameter'')
      | PDict _ \<Rightarrow> Inl (ProgrammingError ''Error binding parameter'')
      | _ \<Rightarrow> Inr ())"

text \<open>The validated columns of a conversation, shared by every write.\<close>

definition conv_columns :: "store_env \<Rightarrow> string \<Rightarrow> pydict \<Rightarrow> (conv_row \<times> pydict) result" where
  "conv_columns env now c =
     bind_result (bind_result (ditem c ''id'') validate_memory_id) (\<lambda>memory_id.
     let source = py_str (dget_or c ''source'' (PStr []));
         timestamp = py_str (dget_or c ''timestamp'' (PStr []));
         title = dget_none c ''title'' in
     bind_result (validate_field_lengths source timestamp title) (\<lambda>_.
     bind_result (ensure_payload_project env c) (\<lambda>(project_id, c').
     Inr (\<lparr>cv_id = memory_id, cv_source = source, cv_timestamp = timestamp, cv_title = title,
            cv_hash = conversation_hash c', cv_project = Some project_id,
            cv_upstream = upstream_thread_id c', cv_session = imported_session_identity c',
            cv_payload = c', cv_created_at = now\<rparr>, c'))))"

definition conv_merge :: "conv_row \<Rightarrow> conv_row \<Rightarrow> conv_row" where
  "conv_merge old new = new\<lparr>cv_id := cv_id old, cv_created_at := cv_created_at old\<rparr>"

definition write_conversations :: "conv_row list \<Rightarrow> mem_db \<Rightarrow> mem_db result" where
  "write_conversations rows db =
     (if conv_unique rows then Inr (db\<lparr>conversations := rows\<rparr>)
      else Inl (IntegrityError ''UNIQUE constraint failed: conversations''))"

definition insert_conv :: "store_env \<Rightarrow> string \<Rightarrow> pydict \<Rightarrow> mem_db \<Rightarrow> (string \<times> pydict) mem_result" where
  "insert_conv env now c db =
     bind_result (conv_columns env now c) (\<lambda>(row, c').
     bind_result (ensure_project_for_payload env now c' db) (\<lambda>db1.
     bind_result (bind_param (cv_title row)) (\<lambda>_.
     bind_result (write_conversations (tbl_upsert cv_id conv_merge row (conversations db1)) db1) (\<lambda>db2.
     bind_result (replace_child_rows c' db2) (\<lambda>db3. Inr ((cv_id row, c'), db3))))))"

text \<open>The first row of a query \<open>ORDER BY created_at ASC LIMIT 1\<close>.\<close>

definition oldest_payload :: "conv_row list \<Rightarrow> pydict option" where
  "oldest_payload rows =
     (case sort_key cv_created_at rows of [] \<Rightarrow> None | r # _ \<Rightarrow> Some (cv_payload r))"

definition get_by_conversation_hash :: "string option \<Rightarrow> string option \<Rightarrow> mem_db \<Rightarrow> pydict option" where
  "get_by_conversation_hash h project_id db =
     (if h = None \<or> h = Some [] then None
      else map_option cv_payload (find (\<lambda>r. cv_hash r = h
             \<and> (project_id = None \<or> cv_project r = project_id)) (conversations db)))"

definition get_by_upstream_thread ::
    "string \<Rightarrow> string \<Rightarrow> string option \<Rightarrow> mem_db \<Rightarrow> pydict option" where
  "get_by_upstream_thread source thread_id project_id db =
     oldest_payload (filter (\<lambda>r. cv_source r = source \<and> cv_upstream r = Some thread_id
       \<and> (project_id = None \<or> cv_project r = project_id)) (conversations db))"

definition get_by_imported_session :: "string \<Rightarrow> string \<Rightarrow> mem_db \<Rightarrow> pydict option result" where
  "get_by_imported_session identity project_id db =
     bind_result (validate_project_id project_id) (\<lambda>p.
     Inr (oldest_payload (filter (\<lambda>r. cv_session r = Some identity \<and> cv_project r = Some p)
       (conversations db))))"

definition get_conv :: "pyval \<Rightarrow> mem_db \<Rightarrow> pydict option result" where
  "get_conv memory_id db =
     bind_result (validate_memory_id memory_id) (\<lambda>v.
     Inr (map_option cv_payload (tbl_get cv_id v (conversations db))))"

definition resolve_insert_new_conflict ::
    "string \<Rightarrow> string option \<Rightarrow> string option \<Rightarrow> string option \<Rightarrow> mem_db \<Rightarrow> (string \<times> bool) result" where
  "resolve_insert_new_conflict memory_id h identity project_id db =
     bind_result
       (case get_by_conversation_hash h project_id db of
          Some e \<Rightarrow> Inr (Some e)
        | None \<Rightarrow>
            bind_result
              (case (identity, project_id) of
                 (Some (x # xs), Some (y # ys)) \<Rightarrow> get_by_imported_session (x # xs) (y # ys) db
               | _ \<Rightarrow> Inr None) (\<lambda>found.
            case found of
              Some e \<Rightarrow> Inr (Some e)
            | None \<Rightarrow> get_conv (PStr memory_id) db)) (\<lambda>existing.
     case existing of
       None \<Rightarrow> Inl (IntegrityError ''conversation insert conflict could not be resolved'')
     | Some e \<Rightarrow>
         let same = (identity \<noteq> None \<and> imported_session_identity e = identity) in
         if same \<and> conversation_hash e \<noteq> h
           then Inl (ValueError ''imported_session_conflict: snapshot reconciliation required'')
         else if conversation_hash e \<noteq> h
           then Inl (ValueError ''unauthorized_update: conversation id already exists'')
         else if payload_project_id e \<noteq> project_id
           then Inl (ValueError ''unauthorized_update: conversation id already exists'')
         else bind_result (ditem e ''id'') (\<lambda>i. Inr (py_str i, False)))"

definition insert_new_row :: "store_env \<Rightarrow> string \<Rightarrow> conv_row \<Rightarrow> pydict \<Rightarrow> mem_db \<Rightarrow> mem_db result" where
  "insert_new_row env now row c db =
     bind_result (ensure_project_for_payload env now c db) (\<lambda>db1.
     bind_result (bind_param (cv_title row)) (\<lambda>_.
     case tbl_insert cv_id row (conversations db1) of
       None \<Rightarrow> Inl (IntegrityError ''UNIQUE constraint failed: conversations.id'')
     | Some rows \<Rightarrow>
         bind_result (write_conversations rows db1) (\<lambda>db2. replace_child_rows c db2)))"

definition insert_new ::
    "store_env \<Rightarrow> string \<Rightarrow> pydict \<Rightarrow> mem_db \<Rightarrow> ((string \<times> bool) \<times> pydict) mem_result" where
  "insert_new env now c db =
     bind_result (conv_columns env now c) (\<lambda>(row, c').
     case insert_new_row env now row c' db of
       Inr db' \<Rightarrow> Inr (((cv_id row, True), c'), db')
     | Inl (IntegrityError m) \<Rightarrow>
         bind_result (resolve_insert_new_conflict (cv_id row) (cv_hash row) (cv_session row)
             (cv_project row) db) (\<lambda>r. Inr ((r, c'), db))
     | Inl e \<Rightarrow> Inl e)"

text \<open>The compare-and-swap of \<open>append_messages\<close>.\<close>

definition append_messages ::
    "store_env \<Rightarrow> string \<Rightarrow> pydict \<Rightarrow> string option \<Rightarrow> mem_db \<Rightarrow> (string \<times> pydict) mem_result" where
  "append_messages env now c expected db =
     (case expected of
        None \<Rightarrow> insert_conv env now c db
      | Some h \<Rightarrow>
          bind_result (conv_columns env now c) (\<lambda>(row, c').
          bind_result (ensure_project_for_payload env now c' db) (\<lambda>db1.
          bind_result (bind_param (cv_title row)) (\<lambda>_.
          let p = (\<lambda>r. cv_id r = cv_id row \<and> cv_hash r = Some h);
              rows = tbl_update p
                (\<lambda>r. r\<lparr>cv_source := cv_source row, cv_timestamp := cv_timestamp row,
                        cv_title := cv_title row, cv_hash := cv_hash row, cv_project := cv_project row,
                        cv_upstream := cv_upstream row, cv_payload := c'\<rparr>) (conversations db1) in
          bind_result (write_conversations rows db1) (\<lambda>db2.
          if tbl_count p (conversations db1) \<noteq> 1
            then Inl (ConcurrentAppendError ''conversation changed during append'')
          else bind_result (replace_child_rows c' db2) (\<lambda>db3. Inr ((cv_id row, c'), db3)))))))"

definition batch_insert ::
    "store_env \<Rightarrow> string \<Rightarrow> pydict list \<Rightarrow> mem_db \<Rightarrow> string list mem_result" where
  "batch_insert env now cs db =
     fold_result (\<lambda>c (ids, db). bind_result (insert_conv env now c db)
        (\<lambda>((mid, _), db'). Inr (ids @ [mid], db'))) cs ([], db)"

section \<open>Reading conversations\<close>

definition get_many :: "pyval list \<Rightarrow> mem_db \<Rightarrow> (string \<times> pydict) list result" where
  "get_many ids db =
     (if ids = [] then Inr []
      else if length ids > 500
        then Inl (ValueError (''Too many ids requested: '' @ nat_str (length ids) @ '' > 500''))
      else bind_result (map_result validate_memory_id ids) (\<lambda>vs.
        Inr (map (\<lambda>r. (cv_id r, cv_payload r))
          (sort_key cv_id (filter (\<lambda>r. cv_id r \<in> set vs) (conversations db))))))"

text \<open>\<open>LIMIT\<close>: a negative limit is no limit.\<close>

definition sql_limit :: "int \<Rightarrow> 'a list \<Rightarrow> 'a list" where
  "sql_limit n xs = (if n < 0 then xs else take (nat n) xs)"

definition list_conversations :: "int option \<Rightarrow> string option \<Rightarrow> mem_db \<Rightarrow> pydict list result" where
  "list_conversations limit project_id db =
     bind_result (case project_id of None \<Rightarrow> Inr None
                  | Some p \<Rightarrow> bind_result (validate_project_id p) (\<lambda>v. Inr (Some v))) (\<lambda>project.
     let rows = sort_key cv_created_at (sort_key cv_id
           (filter (\<lambda>r. project = None \<or> cv_project r = project) (conversations db)))
     in Inr (map cv_payload (case limit of None \<Rightarrow> rows | Some n \<Rightarrow> sql_limit n rows)))"

text \<open>Maximal runs of \<^verbatim>\<open>[A-Za-z0-9][A-Za-z0-9_-]*\<close>.\<close>

definition keyword_char :: "char \<Rightarrow> bool" where
  "keyword_char c \<longleftrightarrow> ascii_alnum c \<or> c = CHR ''_'' \<or> c = CHR ''-''"

function keyword_runs :: "string \<Rightarrow> string list" where
  "keyword_runs [] = []"
| "keyword_runs (c # cs) =
     (if ascii_alnum c then (c # takeWhile keyword_char cs) # keyword_runs (dropWhile keyword_char cs)
      else keyword_runs cs)"
  by pat_completeness auto
termination
  by (relation "measure length") (auto simp: length_dropWhile_le le_imp_less_Suc)

definition keyword_tokens :: "string \<Rightarrow> string list" where
  "keyword_tokens query = take 8 (map py_lower (filter (\<lambda>t. 2 \<le> length t) (keyword_runs query)))"

text \<open>\<open>LIKE\<close> with the wildcards \<open>%\<close> and \<open>_\<close>, which ignores the case of ASCII letters.\<close>

definition ascii_fold :: "char \<Rightarrow> char" where
  "ascii_fold c = (if chr_in 65 90 c then char_of (of_char c + 32 :: nat) else c)"

fun sql_like :: "string \<Rightarrow> string \<Rightarrow> bool" where
  "sql_like [] [] = True"
| "sql_like [] (c # cs) = False"
| "sql_like (p # ps) [] = (p = CHR ''%'' \<and> sql_like ps [])"
| "sql_like (p # ps) (c # cs) =
     (if p = CHR ''%'' then sql_like ps (c # cs) \<or> sql_like (p # ps) cs
      else if p = CHR ''_'' then sql_like ps cs
      else ascii_fold p = ascii_fold c \<and> sql_like ps cs)"

definition search_text :: "string \<Rightarrow> int \<Rightarrow> string option \<Rightarrow> mem_db \<Rightarrow> pydict list" where
  "search_text query limit project_id db =
     (let tokens = keyword_tokens query in
      if tokens = [] then []
      else map cv_payload (sql_limit limit
        (rev (sort_key cv_created_at (rev
          (filter (\<lambda>r. list_all (\<lambda>t. sql_like (''%'' @ t @ ''%'')
                      (map ascii_fold (json_dumps (PDict (cv_payload r))))) tokens
                    \<and> (project_id = None \<or> cv_project r = project_id)) (conversations db)))))))"

end
