(* ===== verification/FactStore.thy ===== *)
theory FactStore
  imports ConversationStore "HOL-Library.Option_ord"
begin

text \<open>
  Facts and graph relationships of \<open>SQLiteMetadataStore\<close>
  (\<^verbatim>\<open>memory/backend/metadata_store.py\<close>): upserts, confirmation, supersession by
  corrections and by conflicts, and the filtered reads. The JSON columns hold the value that
  \<open>json.loads\<close> gives back.
\<close>

section \<open>Text columns\<close>

text \<open>
  What a TEXT column stores for a bound Python value: SQLite converts numbers to their decimal
  text (taken here as the \<open>repr\<close> of a float), and the driver refuses containers.
\<close>

definition text_column :: "pyval \<Rightarrow> string option result" where
  "text_column v =
     (case v of
        PNone \<Rightarrow> Inr None
      | PStr s \<Rightarrow> Inr (Some s)
      | PBool b \<Rightarrow> Inr (Some (if b then ''1'' else ''0''))
      | PInt i \<Rightarrow> bind_result (sqlite_int i) (\<lambda>n. Inr (Some (int_str n)))
      | PFloat r \<Rightarrow> Inr (Some r)
      | _ \<Rightarrow> Inl (ProgrammingError ''Error binding parameter''))"

definition str_item :: "pydict \<Rightarrow> string \<Rightarrow> string result" where
  "str_item d k = bind_result (ditem d k) (\<lambda>v. Inr (py_str v))"

definition text_item :: "pydict \<Rightarrow> string \<Rightarrow> string option result" where
  "text_item d k = text_column (dget_none d k)"

section \<open>Facts\<close>

record fact_row =
  ft_id :: string
  ft_subject :: string
  ft_predicate :: string
  ft_object :: string
  ft_qualifiers :: pyval
  ft_confidence :: string
  ft_source_conversation :: string
  ft_owner :: "string option"
  ft_project :: "string option"
  ft_source_indexes :: pyval
  ft_created_at :: string
  ft_updated_at :: string
  ft_superseded_by :: "string option"
  ft_superseded_at :: "string option"
  ft_source_quality :: "string option"
  ft_confidence_reason :: "string option"
  ft_last_confirmed_at :: "string option"
  ft_object_raw :: "string option"
  ft_object_normalized :: "string option"
  ft_deleted_at :: "string option"

definition fact_from_dict :: "pydict \<Rightarrow> fact_row result" where
  "fact_from_dict fct =
     bind_result (str_item fct ''id'') (\<lambda>fid.
     bind_result (str_item fct ''subject'') (\<lambda>subject.
     bind_result (str_item fct ''predicate'') (\<lambda>predicate.
     bind_result (str_item fct ''object'') (\<lambda>obj.
     bind_result (str_item fct ''source_conversation_id'') (\<lambda>conv.
     bind_result (str_item fct ''created_at'') (\<lambda>created.
     bind_result (str_item fct ''updated_at'') (\<lambda>updated.
     bind_result (text_item fct ''owner_id'') (\<lambda>owner.
     bind_result (text_item fct ''project_id'') (\<lambda>project.
     bind_result (text_item fct ''superseded_by'') (\<lambda>sby.
     bind_result (text_item fct ''superseded_at'') (\<lambda>sat.
     bind_result (text_item fct ''source_quality'') (\<lambda>quality.
     bind_result (text_item fct ''confidence_reason'') (\<lambda>reason.
     bind_result (text_item fct ''last_confirmed_at'') (\<lambda>confirmed.
     bind_result (text_column (dget_or fct ''object_raw'' (dget_none fct ''object''))) (\<lambda>raw.
     bind_result (text_column (dget_or fct ''object_normalized'' (dget_none fct ''object''))) (\<lambda>norm.
     bind_result (text_item fct ''deleted_at'') (\<lambda>deleted.
     Inr \<lparr>ft_id = fid, ft_subject = subject, ft_predicate = predicate, ft_object = obj,
          ft_qualifiers = dget_or fct ''qualifiers'' (PDict []),
          ft_confidence = py_str (dget_or fct ''confidence'' (PStr ''medium'')),
          ft_source_conversation = conv, ft_owner = owner, ft_project = project,
          ft_source_indexes = dget_or fct ''source_message_indexes'' (PList []),
          ft_created_at = created, ft_updated_at = updated, ft_superseded_by = sby,
          ft_superseded_at = sat, ft_source_quality = quality, ft_confidence_reason = reason,
          ft_last_confirmed_at = confirmed, ft_object_raw = raw, ft_object_normalized = norm,
          ft_deleted_at = deleted\<rparr>)))))))))))))))))"

definition fact_to_dict :: "fact_row \<Rightarrow> pydict" where
  "fact_to_dict r =
     [(''id'', PStr (ft_id r)), (''subject'', PStr (ft_subject r)),
      (''predicate'', PStr (ft_predicate r)), (''object'', PStr (ft_object r)),
      (''qualifiers'', ft_qualifiers r), (''confidence'', PStr (ft_confidence r)),
      (''source_conversation_id'', PStr (ft_source_conversation r)),
      (''owner_id'', of_opt (ft_owner r)), (''project_id'', of_opt (ft_project r)),
      (''source_message_indexes'', ft_source_indexes r),
      (''created_at'', PStr (ft_created_at r)), (''updated_at'', PStr (ft_updated_at r)),
      (''superseded_by'', of_opt (ft_superseded_by r)),
      (''superseded_at'', of_opt (ft_superseded_at r)),
      (''source_quality'', of_opt (ft_source_quality r)),
      (''confidence_reason'', of_opt (ft_confidence_reason r)),
      (''last_confirmed_at'', of_opt (ft_last_confirmed_at r)),
      (''object_raw'', of_opt (ft_object_raw r)),
      (''object_normalized'', of_opt (ft_object_normalized r)),
      (''deleted_at'', of_opt (ft_deleted_at r))]"

definition fact_active :: "fact_row \<Rightarrow> bool" where
  "fact_active r \<longleftrightarrow> ft_superseded_by r = None \<and> ft_deleted_at r = None"

text \<open>The facts of the same subject, predicate, owner and project.\<close>

definition same_scope ::
    "string \<Rightarrow> string \<Rightarrow> string option \<Rightarrow> string option \<Rightarrow> fact_row \<Rightarrow> bool" where
  "same_scope subject predicate owner project r \<longleftrightarrow>
     ft_subject r = subject \<and> ft_predicate r = predicate \<and> ft_owner r = owner \<and> ft_project r = project"

definition supersede_corrected_facts :: "pydict \<Rightarrow> fact_row list \<Rightarrow> fact_row list result" where
  "supersede_corrected_facts fct rows =
     (let corrects = (case dget_or fct ''qualifiers'' (PDict []) of
            PDict q \<Rightarrow> dget_none q ''corrects'' | _ \<Rightarrow> PNone) in
      if \<not> truthy corrects then Inr rows
      else
        bind_result (str_item fct ''id'') (\<lambda>fid.
        bind_result (str_item fct ''updated_at'') (\<lambda>updated.
        bind_result (str_item fct ''subject'') (\<lambda>subject.
        bind_result (str_item fct ''predicate'') (\<lambda>predicate.
        bind_result (text_item fct ''owner_id'') (\<lambda>owner.
        bind_result (text_item fct ''project_id'') (\<lambda>project.
        Inr (tbl_update
          (\<lambda>r. same_scope subject predicate owner project r \<and> fact_active r
               \<and> sql_like (''%'' @ py_lower (py_str corrects) @ ''%'') (map ascii_fold (ft_object r)))
          (\<lambda>r. r\<lparr>ft_superseded_by := Some fid, ft_superseded_at := Some updated,
                  ft_updated_at := updated\<rparr>) rows))))))))"

definition refresh_matching_fact_confirmation :: "pydict \<Rightarrow> fact_row list \<Rightarrow> fact_row list result" where
  "refresh_matching_fact_confirmation fct rows =
     (if dget_none fct ''source_quality'' \<noteq> PStr ''direct_user_statement'' then Inr rows
      else
        bind_result (str_item fct ''last_confirmed_at'') (\<lambda>confirmed.
        bind_result (str_item fct ''updated_at'') (\<lambda>updated.
        bind_result (str_item fct ''subject'') (\<lambda>subject.
        bind_result (str_item fct ''predicate'') (\<lambda>predicate.
        bind_result (str_item fct ''object'') (\<lambda>obj.
        bind_result (text_item fct ''owner_id'') (\<lambda>owner.
        bind_result (text_item fct ''project_id'') (\<lambda>project.
        Inr (tbl_update
          (\<lambda>r. same_scope subject predicate owner project r \<and> fact_active r \<and> ft_object r = obj)
          (\<lambda>r. r\<lparr>ft_last_confirmed_at := Some confirmed, ft_updated_at := updated\<rparr>) rows)))))))))"

definition fact_merge :: "fact_row \<Rightarrow> fact_row \<Rightarrow> fact_row" where
  "fact_merge old new = new\<lparr>ft_id := ft_id old, ft_created_at := ft_created_at old\<rparr>"

definition insert_fact :: "pydict \<Rightarrow> fact_row list \<Rightarrow> fact_row list result" where
  "insert_fact fct rows =
     bind_result (refresh_matching_fact_confirmation fct rows) (\<lambda>rows1.
     bind_result (supersede_corrected_facts fct rows1) (\<lambda>rows2.
     bind_result (fact_from_dict fct) (\<lambda>row. Inr (tbl_upsert ft_id fact_merge row rows2))))"

definition insert_facts :: "pydict list \<Rightarrow> fact_row list \<Rightarrow> fact_row list result" where
  "insert_facts facts rows = fold_result insert_fact facts rows"

definition search_facts ::
    "string option \<Rightarrow> string option \<Rightarrow> bool \<Rightarrow> string option \<Rightarrow> fact_row list \<Rightarrow> pydict list" where
  "search_facts subject predicate include_superseded project_id rows =
     map fact_to_dict (rev (sort_key ft_updated_at (rev (sort_key ft_id
       (filter (\<lambda>r. ft_deleted_at r = None
            \<and> (subject = None \<or> Some (ft_subject r) = subject)
            \<and> (predicate = None \<or> Some (ft_predicate r) = predicate)
            \<and> (project_id = None \<or> ft_project r = project_id)
            \<and> (include_superseded \<or> ft_superseded_by r = None)) rows)))))"

definition profile_get :: "string \<Rightarrow> string option \<Rightarrow> fact_row list \<Rightarrow> pydict" where
  "profile_get subject project_id rows =
     [(''subject'', PStr subject),
      (''facts'', PList (map PDict (search_facts (Some subject) None False project_id rows)))]"

definition supersede_fact ::
    "string \<Rightarrow> string \<Rightarrow> string \<Rightarrow> string option \<Rightarrow> fact_row list \<Rightarrow> bool \<times> fact_row list" where
  "supersede_fact now fact_id superseded_by project_id rows =
     (let p = (\<lambda>r. ft_id r = fact_id \<and> ft_deleted_at r = None
                 \<and> (project_id = None \<or> ft_project r = project_id))
      in (0 < tbl_count p rows,
          tbl_update p (\<lambda>r. r\<lparr>ft_superseded_by := Some superseded_by, ft_superseded_at := Some now,
                              ft_updated_at := now\<rparr>) rows))"

section \<open>Graph relationships\<close>

record rel_row =
  gr_id :: string
  gr_subject :: string
  gr_predicate :: string
  gr_object :: string
  gr_owner :: "string option"
  gr_project :: "string option"
  gr_review_status :: string
  gr_superseded_by :: "string option"
  gr_conflict_group :: "string option"
  gr_payload :: pydict
  gr_updated_at :: "string option"

definition rel_from_dict :: "pydict \<Rightarrow> rel_row result" where
  "rel_from_dict d =
     bind_result (str_item d ''id'') (\<lambda>rid.
     bind_result (str_item d ''subject'') (\<lambda>subject.
     bind_result (str_item d ''predicate'') (\<lambda>predicate.
     bind_result (str_item d ''object'') (\<lambda>obj.
     bind_result (text_item d ''owner_id'') (\<lambda>owner.
     bind_result (text_item d ''project_id'') (\<lambda>project.
     bind_result (text_item d ''superseded_by'') (\<lambda>sby.
     bind_result (text_item d ''conflict_group'') (\<lambda>grp.
     bind_result (text_item d ''updated_at'') (\<lambda>updated.
     Inr \<lparr>gr_id = rid, gr_subject = subject, gr_predicate = predicate, gr_object = obj,
          gr_owner = owner, gr_project = project,
          gr_review_status = py_str (dget_or d ''review_status'' (PStr ''active'')),
          gr_superseded_by = sby, gr_conflict_group = grp, gr_payload = d,
          gr_updated_at = updated\<rparr>)))))))))"

definition rel_merge :: "rel_row \<Rightarrow> rel_row \<Rightarrow> rel_row" where
  "rel_merge old new = new\<lparr>gr_id := gr_id old\<rparr>"

definition supersede_conflicting :: "pydict \<Rightarrow> rel_row list \<Rightarrow> rel_row list result" where
  "supersede_conflicting d rows =
     (let grp = dget_none d ''conflict_group'' in
      if \<not> truthy grp then Inr rows
      else
        bind_result (str_item d ''id'') (\<lambda>rid.
        bind_result (text_item d ''updated_at'') (\<lambda>updated.
        bind_result (str_item d ''object'') (\<lambda>obj.
        bind_result (text_item d ''owner_id'') (\<lambda>owner.
        bind_result (text_item d ''project_id'') (\<lambda>project.
        Inr (tbl_update
          (\<lambda>r. gr_conflict_group r = Some (py_str grp) \<and> gr_id r \<noteq> rid \<and> gr_superseded_by r = None
               \<and> gr_object r \<noteq> obj
               \<and> coalesce (gr_owner r) (Some []) = coalesce owner (Some [])
               \<and> coalesce (gr_project r) (Some []) = coalesce project (Some []))
          (\<lambda>r. r\<lparr>gr_superseded_by := Some rid, gr_updated_at := updated\<rparr>) rows)))))))"

definition upsert_relationships :: "pydict list \<Rightarrow> rel_row list \<Rightarrow> rel_row list result" where
  "upsert_relationships ds rows =
     bind_result (fold_result (\<lambda>d rows. bind_result (rel_from_dict d) (\<lambda>row.
         Inr (tbl_upsert gr_id rel_merge row rows))) ds rows) (\<lambda>rows1.
     fold_result supersede_conflicting ds rows1)"

definition search_graph_relationships ::
    "string option \<Rightarrow> string option \<Rightarrow> string option \<Rightarrow> string option \<Rightarrow> bool \<Rightarrow> rel_row list \<Rightarrow>
     pydict list" where
  "search_graph_relationships subject predicate owner_id project_id include_superseded rows =
     map (\<lambda>r. dset (gr_payload r) ''superseded_by'' (of_opt (gr_superseded_by r)))
       (rev (sort_key gr_updated_at (rev (sort_key gr_id
         (filter (\<lambda>r. (subject = None \<or> Some (gr_subject r) = subject)
              \<and> (predicate = None \<or> Some (gr_predicate r) = predicate)
              \<and> (owner_id = None \<or> gr_owner r = owner_id)
              \<and> (project_id = None \<or> gr_project r = project_id)
              \<and> (include_superseded \<or> (gr_superseded_by r = None
                  \<and> gr_review_status r \<in> set [''active'', ''approved'', ''needs_review''])))
           rows)))))"

section \<open>Lemmas\<close>

interpretation fact_up: keyed_table ft_id fact_merge
  by unfold_locales (simp add: fact_merge_def)

interpretation rel_up: keyed_table gr_id rel_merge
  by unfold_locales (simp add: rel_merge_def)

lemma refresh_rows:
  "refresh_matching_fact_confirmation fct rows = Inr rows' \<Longrightarrow>
     \<exists>p f. rows' = tbl_update p f rows \<and> (\<forall>r. ft_id (f r) = ft_id r
       \<and> ft_superseded_by (f r) = ft_superseded_by r \<and> ft_deleted_at (f r) = ft_deleted_at r
       \<and> ft_object (f r) = ft_object r
       \<and> (\<forall>s q w j. same_scope s q w j (f r) = same_scope s q w j r))"
  apply (auto simp: refresh_matching_fact_confirmation_def Let_def result_simps)
   apply (rule exI [of _ "\<lambda>r. False"], rule exI [of _ "\<lambda>r. r"], simp add: tbl_update_def)
  apply (rule exI, rule exI, rule conjI, rule refl, simp add: same_scope_def)
  done

end
