(* ===== verification/FactProperties.thy ===== *)
theory FactProperties
  imports FactStore
begin

text \<open>
  The properties of the fact table: a correction retires what it corrects, facts of different
  projects do not interfere, and a stored fact is found again.
\<close>

section \<open>What inserting one fact does\<close>

lemma confirmation_rows:
  assumes "refresh_matching_fact_confirmation f rows = Inr rows'"
  obtains "rows' = rows"
  | cf u s q obj w j where "text_item f ''owner_id'' = Inr w" "text_item f ''project_id'' = Inr j"
    "str_item f ''subject'' = Inr s" "str_item f ''predicate'' = Inr q"
    "rows' = tbl_update (\<lambda>r. same_scope s q w j r \<and> fact_active r \<and> ft_object r = obj)
       (\<lambda>r. r\<lparr>ft_last_confirmed_at := Some cf, ft_updated_at := u\<rparr>) rows"
  using assms unfolding refresh_matching_fact_confirmation_def
  by (auto simp: result_simps)

lemma correction_rows:
  assumes "supersede_corrected_facts f rows = Inr rows'"
  obtains "rows' = rows" "\<not> truthy (case dget_or f ''qualifiers'' (PDict []) of
            PDict q \<Rightarrow> dget_none q ''corrects'' | _ \<Rightarrow> PNone)"
  | qs fid u s q w j where "dget_or f ''qualifiers'' (PDict []) = PDict qs" "str_item f ''id'' = Inr fid"
    "text_item f ''owner_id'' = Inr w" "text_item f ''project_id'' = Inr j"
    "str_item f ''subject'' = Inr s" "str_item f ''predicate'' = Inr q"
    "rows' = tbl_update (\<lambda>r. same_scope s q w j r \<and> fact_active r
         \<and> sql_like (''%'' @ py_lower (py_str (dget_none qs ''corrects'')) @ ''%'') (map ascii_fold (ft_object r)))
       (\<lambda>r. r\<lparr>ft_superseded_by := Some fid, ft_superseded_at := Some u, ft_updated_at := u\<rparr>) rows"
  using assms unfolding supersede_corrected_facts_def Let_def
  by (cases "dget_or f ''qualifiers'' (PDict [])") (auto simp: result_simps)

lemma fact_from_dict_Inr:
  assumes "fact_from_dict f = Inr new"
  shows "str_item f ''id'' = Inr (ft_id new)" "str_item f ''subject'' = Inr (ft_subject new)"
    "str_item f ''predicate'' = Inr (ft_predicate new)" "text_item f ''owner_id'' = Inr (ft_owner new)"
    "text_item f ''project_id'' = Inr (ft_project new)"
  using assms unfolding fact_from_dict_def by (clarsimp simp: result_simps)+

lemma insert_fact_cases:
  assumes "insert_fact f rows = Inr rows'"
  obtains new rows1 rows2 where "fact_from_dict f = Inr new"
    "refresh_matching_fact_confirmation f rows = Inr rows1" "supersede_corrected_facts f rows1 = Inr rows2"
    "rows' = tbl_upsert ft_id fact_merge new rows2"
  using assms by (auto simp: insert_fact_def result_simps)

text \<open>The facts in the scope of a new fact that its correction names.\<close>

definition corrected_by :: "fact_row \<Rightarrow> string \<Rightarrow> fact_row \<Rightarrow> bool" where
  "corrected_by new c r \<longleftrightarrow>
     same_scope (ft_subject new) (ft_predicate new) (ft_owner new) (ft_project new) r
     \<and> sql_like (''%'' @ py_lower c @ ''%'') (map ascii_fold (ft_object r))"

lemma upsert_other:
  "r \<in> set (tbl_upsert ft_id fact_merge new rows) \<Longrightarrow> ft_id r \<noteq> ft_id new \<Longrightarrow> r \<in> set rows"
  by (drule fact_up.upsert_rows) (auto simp: fact_merge_def)

lemma same_scope_confirmed [simp]:
  "same_scope s q w j (r\<lparr>ft_last_confirmed_at := a, ft_updated_at := b\<rparr>) = same_scope s q w j r"
  "same_scope s q w j (r\<lparr>ft_superseded_by := x, ft_superseded_at := a, ft_updated_at := b\<rparr>) = same_scope s q w j r"
  by (simp_all add: same_scope_def)

text \<open>
  C32. A correction retires exactly what it corrects: after a fact that corrects a text is
  inserted, no other active fact of the same subject, predicate, owner and project mentions that
  text, and every fact outside that scope is still stored unchanged.
\<close>

theorem correction_retires_corrected:
  assumes "insert_fact f rows = Inr rows'" "fact_from_dict f = Inr new"
    and "dget_or f ''qualifiers'' (PDict []) = PDict qs" "dget qs ''corrects'' = Some (PStr c)" "c \<noteq> []"
  shows "(\<forall>r \<in> set rows'. ft_id r \<noteq> ft_id new \<and> corrected_by new c r \<longrightarrow> \<not> fact_active r)
    \<and> (\<forall>r \<in> set rows. ft_id r \<noteq> ft_id new
         \<and> \<not> same_scope (ft_subject new) (ft_predicate new) (ft_owner new) (ft_project new) r
         \<longrightarrow> r \<in> set rows')"
proof -
  from assms(1) obtain rows1 rows2 where 1: "refresh_matching_fact_confirmation f rows = Inr rows1"
    and 2: "supersede_corrected_facts f rows1 = Inr rows2"
    and 3: "rows' = tbl_upsert ft_id fact_merge new rows2"
    using assms(2) by (auto elim: insert_fact_cases)
  note cols = fact_from_dict_Inr [OF assms(2)]
  have cor: "dget_none qs ''corrects'' = PStr c"
    using assms(4) by (simp add: dget_none_def dget_or_def)
  let ?hit = "\<lambda>r. same_scope (ft_subject new) (ft_predicate new) (ft_owner new) (ft_project new) r \<and> fact_active r
      \<and> sql_like (''%'' @ py_lower c @ ''%'') (map ascii_fold (ft_object r))"
  obtain u where rows2: "rows2 = tbl_update ?hit
      (\<lambda>r. r\<lparr>ft_superseded_by := Some (ft_id new), ft_superseded_at := Some u, ft_updated_at := u\<rparr>) rows1"
    by (rule correction_rows [OF 2]) (use cols cor assms(3,5) in auto)
  have "\<not> fact_active r" if r: "r \<in> set rows'" "ft_id r \<noteq> ft_id new" "corrected_by new c r" for r
  proof -
    have "r \<in> set rows2" using r 3 upsert_other by simp
    then obtain r0 where "r = (if ?hit r0 then r0\<lparr>ft_superseded_by := Some (ft_id new),
        ft_superseded_at := Some u, ft_updated_at := u\<rparr> else r0)"
      unfolding rows2 set_tbl_update by blast
    then show ?thesis
      using r(3) by (auto simp: corrected_by_def fact_active_def split: if_splits)
  qed
  moreover have "r \<in> set rows'" if r: "r \<in> set rows" "ft_id r \<noteq> ft_id new"
    "\<not> same_scope (ft_subject new) (ft_predicate new) (ft_owner new) (ft_project new) r" for r
  proof -
    have keep: "r \<in> set (tbl_update p g xs)" if "r \<in> set xs" "\<not> p r" for p g xs
      using that by (force simp: set_tbl_update)
    have "r \<in> set rows1"
      by (rule confirmation_rows [OF 1]) (use r cols in \<open>auto intro: keep\<close>)
    then have "r \<in> set rows2" unfolding rows2 by (rule keep) (use r in blast)
    then show ?thesis unfolding 3 by (rule fact_up.upsert_keeps) (rule r(2))
  qed
  ultimately show ?thesis by blast
qed

definition demo_fact :: "string \<Rightarrow> string \<Rightarrow> string \<Rightarrow> pydict \<Rightarrow> pydict" where
  "demo_fact fid project obj qualifiers =
     [(''id'', PStr fid), (''subject'', PStr ''user''), (''predicate'', PStr ''likes''), (''object'', PStr obj),
      (''qualifiers'', PDict qualifiers), (''source_conversation_id'', PStr ''c''),
      (''project_id'', PStr project), (''created_at'', PStr ''t0''), (''updated_at'', PStr ''t0'')]"

definition demo_facts :: "fact_row list" where
  "demo_facts = (case insert_facts [demo_fact ''f1'' ''p1'' ''Green tea'' [], demo_fact ''f2'' ''p2'' ''Green tea'' []] [] of
     Inr rows \<Rightarrow> rows | Inl _ \<Rightarrow> [])"

definition demo_correction :: pydict where
  "demo_correction = demo_fact ''f3'' ''p1'' ''Coffee'' [(''corrects'', PStr ''TEA'')]"

theorem correction_retires_corrected_witness:
  "\<exists>rows' new. insert_fact demo_correction demo_facts = Inr rows' \<and> fact_from_dict demo_correction = Inr new
     \<and> map (\<lambda>r. (ft_id r, fact_active r)) rows' = [(''f1'', False), (''f2'', True), (''f3'', True)]
     \<and> list_all (\<lambda>r. \<not> (ft_id r \<noteq> ft_id new \<and> corrected_by new ''TEA'' r \<and> fact_active r)) rows'"
proof -
  have "(case insert_fact demo_correction demo_facts of
      Inr rows' \<Rightarrow> map (\<lambda>r. (ft_id r, fact_active r)) rows' = [(''f1'', False), (''f2'', True), (''f3'', True)]
    | Inl e \<Rightarrow> False)" by code_simp
  then obtain rows' where i: "insert_fact demo_correction demo_facts = Inr rows'"
    and s: "map (\<lambda>r. (ft_id r, fact_active r)) rows' = [(''f1'', False), (''f2'', True), (''f3'', True)]"
    by (auto split: sum.splits)
  obtain new where n: "fact_from_dict demo_correction = Inr new"
    using i by (auto elim: insert_fact_cases)
  have q: "dget_or demo_correction ''qualifiers'' (PDict []) = PDict [(''corrects'', PStr ''TEA'')]" by code_simp
  have "dget [(''corrects'', PStr ''TEA'')] ''corrects'' = Some (PStr ''TEA'')" by simp
  from correction_retires_corrected [OF i n q this]
  have "list_all (\<lambda>r. \<not> (ft_id r \<noteq> ft_id new \<and> corrected_by new ''TEA'' r \<and> fact_active r)) rows'"
    unfolding list_all_iff by blast
  then show ?thesis using i s n by (intro exI conjI)
qed

section \<open>Projects do not interfere\<close>

abbreviation in_project :: "string \<Rightarrow> fact_row \<Rightarrow> bool" where
  "in_project q r \<equiv> ft_project r = Some q"

lemma filter_tbl_update:
  "(\<And>r. p r \<Longrightarrow> \<not> q r \<and> \<not> q (g r)) \<Longrightarrow> filter q (tbl_update p g rows) = filter q rows"
  by (induction rows) (auto simp: tbl_update_def)

lemma filter_upsert:
  "\<not> q new \<Longrightarrow> (\<And>r. r \<in> set rows \<Longrightarrow> key r = key new \<Longrightarrow> \<not> q r \<and> \<not> q (mg r new)) \<Longrightarrow>
     filter q (tbl_upsert key mg new rows) = filter q rows"
  by (induction rows) auto

lemma insert_fact_project:
  assumes "insert_fact f rows = Inr rows'" "text_item f ''project_id'' = Inr (Some p)" "p \<noteq> q"
    and "str_item f ''id'' = Inr i" "i \<notin> ft_id ` set (filter (in_project q) rows)"
  shows "filter (in_project q) rows' = filter (in_project q) rows"
proof -
  from assms(1) obtain new rows1 rows2 where n: "fact_from_dict f = Inr new"
    and 1: "refresh_matching_fact_confirmation f rows = Inr rows1"
    and 2: "supersede_corrected_facts f rows1 = Inr rows2"
    and 3: "rows' = tbl_upsert ft_id fact_merge new rows2"
    by (rule insert_fact_cases)
  have new: "ft_project new = Some p" "ft_id new = i"
    using fact_from_dict_Inr [OF n] assms(2,4) by auto
  have f1: "filter (in_project q) rows1 = filter (in_project q) rows"
    by (rule confirmation_rows [OF 1]) (use assms(2,3) in \<open>auto simp: same_scope_def intro!: filter_tbl_update\<close>)
  have f2: "filter (in_project q) rows2 = filter (in_project q) rows1"
    by (rule correction_rows [OF 2]) (use assms(2,3) in \<open>auto simp: same_scope_def intro!: filter_tbl_update\<close>)
  have "\<not> in_project q r" if "r \<in> set rows2" "ft_id r = ft_id new" for r
  proof
    assume "in_project q r"
    then have "r \<in> set (filter (in_project q) rows2)" using that by simp
    then have "r \<in> set (filter (in_project q) rows)" unfolding f2 f1 .
    then show False using assms(5) that new by (metis imageI)
  qed
  then have "filter (in_project q) rows' = filter (in_project q) rows2"
    unfolding 3 using new assms(3) by (intro filter_upsert) (auto simp: fact_merge_def)
  then show ?thesis using f1 f2 by simp
qed

text \<open>
  C33. Facts of different projects do not interfere: inserting any facts of one project, whose
  ids no fact of another project has, leaves every search in that other project unchanged.
\<close>

theorem fact_projects_isolated:
  assumes "insert_facts fs rows = Inr rows'" "p \<noteq> q"
    and "list_all (\<lambda>f. text_item f ''project_id'' = Inr (Some p)
        \<and> (\<exists>i. str_item f ''id'' = Inr i \<and> i \<notin> ft_id ` set (filter (in_project q) rows))) fs"
  shows "search_facts subject predicate inc (Some q) rows' = search_facts subject predicate inc (Some q) rows"
proof -
  have "filter (in_project q) rows' = filter (in_project q) rows"
  proof (rule fold_result_invariant [OF assms(1) [unfolded insert_facts_def],
        where P = "\<lambda>xs. filter (in_project q) xs = filter (in_project q) rows"])
    fix f s t
    assume f: "f \<in> set fs" "filter (in_project q) s = filter (in_project q) rows" "insert_fact f s = Inr t"
    obtain i where i: "text_item f ''project_id'' = Inr (Some p)" "str_item f ''id'' = Inr i"
      "i \<notin> ft_id ` set (filter (in_project q) s)"
      using assms(3) f(1) unfolding list_all_iff f(2) by blast
    show "filter (in_project q) t = filter (in_project q) rows"
      using insert_fact_project [OF f(3) i(1) assms(2) i(2,3)] f(2) by simp
  qed simp
  moreover have "filter (\<lambda>r. ft_deleted_at r = None \<and> (subject = None \<or> Some (ft_subject r) = subject)
        \<and> (predicate = None \<or> Some (ft_predicate r) = predicate) \<and> (Some q = None \<or> in_project q r)
        \<and> (inc \<or> ft_superseded_by r = None)) xs =
      filter (\<lambda>r. ft_deleted_at r = None \<and> (subject = None \<or> Some (ft_subject r) = subject)
        \<and> (predicate = None \<or> Some (ft_predicate r) = predicate)
        \<and> (inc \<or> ft_superseded_by r = None)) (filter (in_project q) xs)" for xs
    unfolding filter_filter by (rule filter_cong [OF refl]) (simp only: option.simps(3) simp_thms conj_ac)
  ultimately show ?thesis
    unfolding search_facts_def by (simp only:)
qed

theorem fact_projects_isolated_witness:
  "\<exists>rows'. insert_facts [demo_correction] demo_facts = Inr rows'
     \<and> search_facts None None False (Some ''p2'') rows' = search_facts None None False (Some ''p2'') demo_facts"
proof -
  have "(case insert_facts [demo_correction] demo_facts of Inr rows' \<Rightarrow> True | Inl e \<Rightarrow> False)" by code_simp
  then obtain rows' where r: "insert_facts [demo_correction] demo_facts = Inr rows'" by (auto split: sum.splits)
  have p: "text_item demo_correction ''project_id'' = Inr (Some ''p1'')" by code_simp
  have i: "str_item demo_correction ''id'' = Inr ''f3''" by code_simp
  have "''f3'' \<notin> set (map ft_id (filter (in_project ''p2'') demo_facts))" by code_simp
  then have "list_all (\<lambda>f. text_item f ''project_id'' = Inr (Some ''p1'')
        \<and> (\<exists>i. str_item f ''id'' = Inr i \<and> i \<notin> ft_id ` set (filter (in_project ''p2'') demo_facts))) [demo_correction]"
    using p i by (simp del: set_filter)
  from fact_projects_isolated [OF r _ this] r show ?thesis by auto
qed

end
