(* ===== verification/AuditStore.thy ===== *)
theory AuditStore
  imports FactStore
begin

text \<open>
  The audit log, the runtime metadata and the generated summaries of \<open>SQLiteMetadataStore\<close>
  (\<^verbatim>\<open>memory/backend/metadata_store.py\<close>). The id and the timestamp that the code draws when
  an event has none are arguments.
\<close>

section \<open>Audit events\<close>

record audit_row =
  ae_id :: string
  ae_event_type :: string
  ae_actor_id :: "string option"
  ae_project_id :: "string option"
  ae_memory_id :: "string option"
  ae_fact_id :: "string option"
  ae_request_id :: "string option"
  ae_source_surface :: string
  ae_outcome :: string
  ae_reason_code :: "string option"
  ae_metadata :: pydict
  ae_created_at :: string

text \<open>\<open>v or default\<close>.\<close>

definition or_default :: "pyval \<Rightarrow> string \<Rightarrow> pyval" where
  "or_default v d = (if truthy v then v else PStr d)"

definition optional_field :: "(pyval \<Rightarrow> string result) \<Rightarrow> pyval \<Rightarrow> string option result" where
  "optional_field f v = (if v = PNone then Inr None else bind_result (f v) (\<lambda>s. Inr (Some s)))"

definition audit_metadata :: "pydict \<Rightarrow> pydict result" where
  "audit_metadata event =
     (case dget_none event ''metadata'' of
        PNone \<Rightarrow> Inr []
      | PDict m \<Rightarrow>
          (if utf8_length (json_dumps (PDict m)) > 8192
           then Inl (ValueError ''audit event metadata exceeds max length'') else Inr m)
      | _ \<Rightarrow> Inl (ValueError ''audit event metadata must be an object''))"

definition prepare_audit_event :: "store_env \<Rightarrow> string \<Rightarrow> string \<Rightarrow> pyval \<Rightarrow> audit_row result" where
  "prepare_audit_event env fresh_id now_z v =
     (case v of
        PDict event \<Rightarrow>
          bind_result (audit_metadata event) (\<lambda>metadata.
          bind_result (validate_uuid_field ''audit_event_id'' (or_default (dget_none event ''id'') fresh_id)) (\<lambda>i.
          bind_result (validate_audit_token ''event_type'' (dget_none event ''event_type'')) (\<lambda>ev.
          bind_result (optional_field (\<lambda>x. validate_owner_id (py_str x)) (dget_none event ''actor_id'')) (\<lambda>actor.
          bind_result (optional_field (\<lambda>x. validate_project_id (py_str x)) (dget_none event ''project_id'')) (\<lambda>project.
          bind_result (optional_field (validate_uuid_field ''memory_id'') (dget_none event ''memory_id'')) (\<lambda>memory.
          bind_result (validate_optional_audit_field ''fact_id'' (dget_none event ''fact_id'')) (\<lambda>fct.
          bind_result (validate_optional_audit_field ''request_id'' (dget_none event ''request_id'')) (\<lambda>request.
          bind_result (validate_audit_token ''source_surface'' (or_default (dget_none event ''source_surface'') ''service'')) (\<lambda>surface.
          bind_result (validate_audit_token ''outcome'' (or_default (dget_none event ''outcome'') ''ok'')) (\<lambda>outc.
          bind_result (validate_optional_audit_field ''reason_code'' (dget_none event ''reason_code'')) (\<lambda>reason.
          bind_result (validate_audit_timestamp env now_z (dget_none event ''created_at'')) (\<lambda>created.
          Inr \<lparr>ae_id = i, ae_event_type = ev, ae_actor_id = actor, ae_project_id = project,
               ae_memory_id = memory, ae_fact_id = fct, ae_request_id = request,
               ae_source_surface = surface, ae_outcome = outc, ae_reason_code = reason,
               ae_metadata = metadata, ae_created_at = created\<rparr>))))))))))))
      | _ \<Rightarrow> Inl (ValueError ''audit event must be an object''))"

definition audit_event_from_row :: "audit_row \<Rightarrow> pydict" where
  "audit_event_from_row r =
     [(''id'', PStr (ae_id r)), (''event_type'', PStr (ae_event_type r)),
      (''actor_id'', of_opt (ae_actor_id r)), (''project_id'', of_opt (ae_project_id r)),
      (''memory_id'', of_opt (ae_memory_id r)), (''fact_id'', of_opt (ae_fact_id r)),
      (''request_id'', of_opt (ae_request_id r)), (''source_surface'', PStr (ae_source_surface r)),
      (''outcome'', PStr (ae_outcome r)), (''reason_code'', of_opt (ae_reason_code r)),
      (''metadata'', PDict (ae_metadata r)), (''created_at'', PStr (ae_created_at r))]"

definition append_audit_event ::
    "store_env \<Rightarrow> string \<Rightarrow> string \<Rightarrow> pyval \<Rightarrow> audit_row list \<Rightarrow> (pydict \<times> audit_row list) result" where
  "append_audit_event env fresh_id now_z event rows =
     bind_result (prepare_audit_event env fresh_id now_z event) (\<lambda>row.
     case tbl_insert ae_id row rows of
       None \<Rightarrow> Inl (IntegrityError ''UNIQUE constraint failed: audit_events.id'')
     | Some rows' \<Rightarrow> Inr (audit_event_from_row row, rows'))"

text \<open>One optional clause of the \<open>WHERE\<close>: a filter that validates to NULL matches no row.\<close>

definition opt_filter ::
    "(string \<Rightarrow> string option result) \<Rightarrow> string option \<Rightarrow> (audit_row \<Rightarrow> string option) \<Rightarrow>
     (audit_row \<Rightarrow> bool) result" where
  "opt_filter f arg col =
     (case arg of
        None \<Rightarrow> Inr (\<lambda>r. True)
      | Some a \<Rightarrow> bind_result (f a) (\<lambda>v. Inr (\<lambda>r. v \<noteq> None \<and> col r = v)))"

definition as_some :: "string result \<Rightarrow> string option result" where
  "as_some m = bind_result m (\<lambda>s. Inr (Some s))"

definition list_audit_events ::
    "string option \<Rightarrow> string option \<Rightarrow> string option \<Rightarrow> string option \<Rightarrow> string option \<Rightarrow> int \<Rightarrow>
     audit_row list \<Rightarrow> pydict list result" where
  "list_audit_events event_type actor_id project_id memory_id fact_id limit rows =
     bind_result (opt_filter (\<lambda>a. as_some (validate_audit_token ''event_type'' (PStr a))) event_type
         (\<lambda>r. Some (ae_event_type r))) (\<lambda>p1.
     bind_result (opt_filter (\<lambda>a. as_some (validate_owner_id a)) actor_id ae_actor_id) (\<lambda>p2.
     bind_result (opt_filter (\<lambda>a. as_some (validate_project_id a)) project_id ae_project_id) (\<lambda>p3.
     bind_result (opt_filter (\<lambda>a. as_some (validate_memory_id (PStr a))) memory_id ae_memory_id) (\<lambda>p4.
     bind_result (opt_filter (\<lambda>a. validate_optional_audit_field ''fact_id'' (PStr a)) fact_id ae_fact_id) (\<lambda>p5.
     bind_result (validate_audit_limit limit) (\<lambda>n.
     Inr (map audit_event_from_row (sql_limit n
       (rev (sort_key ae_created_at (rev (sort_key ae_id
         (filter (\<lambda>r. p1 r \<and> p2 r \<and> p3 r \<and> p4 r \<and> p5 r) rows)))))))))))))"

section \<open>Runtime metadata\<close>

text \<open>\<open>json.dumps(value, sort_keys=True)\<close>, read back.\<close>

fun sort_keys :: "pyval \<Rightarrow> pyval" where
  "sort_keys (PDict d) = PDict (sort_key fst (map (\<lambda>(k, v). (k, sort_keys v)) d))"
| "sort_keys (PList xs) = PList (map sort_keys xs)"
| "sort_keys v = v"

record runtime_row =
  rm_key :: string
  rm_value :: pyval
  rm_updated_at :: string

definition runtime_merge :: "runtime_row \<Rightarrow> runtime_row \<Rightarrow> runtime_row" where
  "runtime_merge old new = old\<lparr>rm_value := rm_value new, rm_updated_at := rm_updated_at new\<rparr>"

definition get_runtime_metadata :: "string \<Rightarrow> runtime_row list \<Rightarrow> pydict option" where
  "get_runtime_metadata key rows =
     (case tbl_get rm_key key rows of None \<Rightarrow> None | Some r \<Rightarrow> as_dict (rm_value r))"

definition set_runtime_metadata :: "string \<Rightarrow> string \<Rightarrow> pydict \<Rightarrow> runtime_row list \<Rightarrow> runtime_row list" where
  "set_runtime_metadata now key value rows =
     tbl_upsert rm_key runtime_merge
       \<lparr>rm_key = key, rm_value = sort_keys (PDict value), rm_updated_at = now\<rparr> rows"

section \<open>Generated summaries\<close>

record summary_row =
  gs_id :: string
  gs_type :: string
  gs_target :: string
  gs_owner :: "string option"
  gs_project :: "string option"
  gs_text :: string
  gs_basis :: string
  gs_provenance_status :: string
  gs_filters :: pyval
  gs_provenance :: pyval
  gs_payload :: pydict
  gs_generated_at :: string
  gs_updated_at :: string

definition summary_merge :: "summary_row \<Rightarrow> summary_row \<Rightarrow> summary_row" where
  "summary_merge old new =
     new\<lparr>gs_id := gs_id old, gs_type := gs_type old, gs_target := gs_target old,
         gs_owner := gs_owner old, gs_project := gs_project old\<rparr>"

definition upsert_generated_summary ::
    "string \<Rightarrow> pydict \<Rightarrow> summary_row list \<Rightarrow> (string \<times> summary_row list) result" where
  "upsert_generated_summary now d rows =
     bind_result (str_item d ''id'') (\<lambda>sid.
     bind_result (str_item d ''type'') (\<lambda>ty.
     bind_result (str_item d ''target_id'') (\<lambda>target.
     bind_result (text_item d ''owner_id'') (\<lambda>owner.
     bind_result (text_item d ''project_id'') (\<lambda>project.
     Inr (sid, tbl_upsert gs_id summary_merge
       \<lparr>gs_id = sid, gs_type = ty, gs_target = target, gs_owner = owner, gs_project = project,
         gs_text = py_str (dget_or d ''text'' (PStr [])), gs_basis = py_str (dget_or d ''basis'' (PStr [])),
         gs_provenance_status = py_str (dget_or d ''provenance_status'' (PStr [])),
         gs_filters = dget_or d ''filters'' (PDict []), gs_provenance = dget_or d ''provenance'' (PList []),
         gs_payload = d, gs_generated_at = py_str (dget_or d ''generated_at'' (PStr [])),
         gs_updated_at = now\<rparr> rows))))))"

definition get_generated_summary :: "string \<Rightarrow> summary_row list \<Rightarrow> pydict option" where
  "get_generated_summary sid rows = map_option gs_payload (tbl_get gs_id sid rows)"

interpretation runtime_up: keyed_table rm_key runtime_merge
  by unfold_locales (simp add: runtime_merge_def)

interpretation summary_up: keyed_table gs_id summary_merge
  by unfold_locales (simp add: summary_merge_def)

section \<open>Properties\<close>

text \<open>What every stored event satisfies.\<close>

definition audit_row_ok :: "audit_row \<Rightarrow> bool" where
  "audit_row_ok r \<longleftrightarrow>
     py_uuid_ok (ae_id r) \<and> audit_event_re (ae_event_type r) \<and> audit_event_re (ae_source_surface r)
     \<and> audit_event_re (ae_outcome r) \<and> utf8_length (json_dumps (PDict (ae_metadata r))) \<le> 8192
     \<and> (\<forall>p. ae_project_id r = Some p \<longrightarrow> project_id_re p)
     \<and> (\<forall>a. ae_actor_id r = Some a \<longrightarrow> a \<noteq> [] \<and> length a \<le> 128)
     \<and> (\<forall>m. ae_memory_id r = Some m \<longrightarrow> py_uuid_ok m)"

lemma audit_validators_Inr:
  "validate_audit_token f v = Inr s \<Longrightarrow> audit_event_re s"
  "validate_uuid_field f v = Inr s \<Longrightarrow> py_uuid_ok s"
  by (auto simp: validate_audit_token_def validate_uuid_field_def Let_def split: if_splits)

lemma audit_metadata_size:
  "audit_metadata event = Inr m \<Longrightarrow> utf8_length (json_dumps (PDict m)) \<le> 8192"
proof -
  have nil: "utf8_length (json_dumps (PDict [])) \<le> 8192" by code_simp
  show "audit_metadata event = Inr m \<Longrightarrow> utf8_length (json_dumps (PDict m)) \<le> 8192"
    using nil by (auto simp: audit_metadata_def split: pyval.splits if_splits)
qed

lemma optional_field_Some:
  "optional_field f v = Inr (Some s) \<Longrightarrow> f v = Inr s"
  by (auto simp: optional_field_def result_simps split: if_splits)

lemma prepare_audit_event_ok: "prepare_audit_event env fresh now v = Inr r \<Longrightarrow> audit_row_ok r"
  unfolding prepare_audit_event_def audit_row_ok_def
  by (cases v; simp del: json_dumps.simps)
    (clarsimp simp: result_simps audit_validators_Inr audit_metadata_size simp del: json_dumps.simps;
      auto dest!: optional_field_Some simp: audit_validators_Inr validate_project_id_Inr_iff
        validate_owner_id_Inr_iff simp del: json_dumps.simps)

text \<open>
  C34. The audit log is append-only and well formed: appending an event that succeeds leaves all
  earlier events in place and in order, adds exactly one row, which satisfies the field rules and
  the size bound on the metadata, and returns what reading that row back gives.
\<close>

theorem audit_append_only:
  assumes "append_audit_event env fresh now event rows = Inr (d, rows')"
    and "list_all audit_row_ok rows" "distinct (map ae_id rows)"
  shows "\<exists>row. rows' = rows @ [row] \<and> audit_event_from_row row = d
    \<and> list_all audit_row_ok rows' \<and> distinct (map ae_id rows')"
  using assms
  by (auto simp: append_audit_event_def result_simps tbl_insert_Some_iff intro: prepare_audit_event_ok)

definition demo_event :: pyval where
  "demo_event = PDict [(''event_type'', PStr ''memory.read''), (''actor_id'', PStr '' alice '')]"

theorem audit_append_only_witness:
  "\<exists>d row. append_audit_event \<lparr>env_pbkdf2 = (\<lambda>p s. p), env_pbkdf2_16 = (\<lambda>p s. p), env_sha256 = (\<lambda>s. s),
     env_hash_secret = None, env_jwt_segment = (\<lambda>s. None), env_iso_datetime = (\<lambda>s. True)\<rparr>
     ''00000000-0000-0000-0000-000000000001'' ''2026-01-01T00:00:00Z'' demo_event [] = Inr (d, [row])
     \<and> audit_event_from_row row = d \<and> dget d ''actor_id'' = Some (PStr ''alice'')"
proof -
  let ?e = "\<lparr>env_pbkdf2 = (\<lambda>p s. p), env_pbkdf2_16 = (\<lambda>p s. p), env_sha256 = (\<lambda>s. s),
     env_hash_secret = None, env_jwt_segment = (\<lambda>s. None), env_iso_datetime = (\<lambda>s. True)\<rparr> :: store_env"
  let ?r = "append_audit_event ?e ''00000000-0000-0000-0000-000000000001'' ''2026-01-01T00:00:00Z'' demo_event []"
  have "(case ?r of Inr (d, rows) \<Rightarrow> dget d ''actor_id'' = Some (PStr ''alice'') | Inl e \<Rightarrow> False)" by code_simp
  then obtain d rows' where r: "?r = Inr (d, rows')" and a: "dget d ''actor_id'' = Some (PStr ''alice'')"
    by (auto split: sum.splits)
  from audit_append_only [OF r] obtain row where "rows' = [row]" "audit_event_from_row row = d" by auto
  with r a show ?thesis by blast
qed

lemma sorted_rev_desc: "sorted (map f xs) \<Longrightarrow> sorted_wrt (\<lambda>a b. f b \<le> f a) (rev xs)"
  by (simp add: sorted_wrt_rev sorted_map)

text \<open>
  Listing audit events returns at most the requested number, between 1 and 1000, newest
  first, and only stored events.
\<close>

lemma audit_listing_bounded:
  assumes "list_audit_events ev actor project memory fct limit rows = Inr ds"
  shows "\<exists>rs. ds = map audit_event_from_row rs \<and> set rs \<subseteq> set rows \<and> int (length rs) \<le> limit
    \<and> 1 \<le> limit \<and> limit \<le> 1000 \<and> sorted_wrt (\<lambda>a b. ae_created_at b \<le> ae_created_at a) rs"
proof -
  from assms obtain p where n: "validate_audit_limit limit = Inr limit"
    and ds: "ds = map audit_event_from_row (sql_limit limit
       (rev (sort_key ae_created_at (rev (sort_key ae_id (filter p rows))))))"
    unfolding list_audit_events_def
    by (auto simp: result_simps validate_audit_limit_def split: if_splits)
  let ?rs = "sql_limit limit (rev (sort_key ae_created_at (rev (sort_key ae_id (filter p rows)))))"
  have lim: "1 \<le> limit \<and> limit \<le> 1000"
    using n by (auto simp: validate_audit_limit_def split: if_splits)
  have "set ?rs \<subseteq> set rows"
    using lim by (auto simp: sql_limit_def dest!: in_set_takeD)
  moreover have "int (length ?rs) \<le> limit" using lim by (auto simp: sql_limit_def min_def)
  moreover have "sorted_wrt (\<lambda>a b. ae_created_at b \<le> ae_created_at a) ?rs"
    using lim by (simp add: sql_limit_def sorted_wrt_take sorted_rev_desc)
  ultimately show ?thesis using ds lim by blast
qed

lemma audit_listing_bounded_witness:
  "\<exists>ds rs. list_audit_events (Some ''memory.read'') None None None None 10 [] = Inr ds
     \<and> ds = map audit_event_from_row rs \<and> int (length rs) \<le> 10"
proof -
  have "list_audit_events (Some ''memory.read'') None None None None 10 [] = Inr []" by code_simp
  from audit_listing_bounded [OF this] this show ?thesis by blast
qed

text \<open>
  Runtime metadata reads back as it was written, with the keys of every nested object in
  sorted order, and setting one key leaves every other key unchanged.
\<close>

lemma runtime_metadata_roundtrip:
  "get_runtime_metadata k (set_runtime_metadata now key value rows) =
     (if k = key then as_dict (sort_keys (PDict value)) else get_runtime_metadata k rows)"
  by (auto simp: get_runtime_metadata_def set_runtime_metadata_def runtime_up.get_upsert runtime_merge_def
      split: option.splits)

end
