(* ===== verification/Regex.thy ===== *)
theory Regex
  imports Prelude
begin

text \<open>
  The part of Python's \<open>re\<close> that the sources use: a backtracking matcher that returns the
  possible matches at a position in the order in which \<open>re\<close> tries them, so that the first one
  is the match \<open>re\<close> reports. A position is the text before it, reversed, and the text after it.
\<close>

datatype rx =
    REps
  | RChar "char \<Rightarrow> bool"
  | RSeq rx rx
  | RAlt rx rx
  | RStar rx
  | RLazy rx
  | RGroup nat rx
  | RWordB
  | RStart
  | REnd
  | RNotAhead rx
  | RNotBehind "char \<Rightarrow> bool"

type_synonym captures = "(nat \<times> string) list"
type_synonym rx_pos = "string \<times> string \<times> captures"

section \<open>Character classes\<close>

text \<open>\<open>\\w\<close> on the code points up to U+00FF: letters, digits, numerics and the underscore.\<close>

definition py_word :: "char \<Rightarrow> bool" where
  "py_word c \<longleftrightarrow> ascii_alnum c \<or> c = CHR ''_''
     \<or> list_ex (\<lambda>(lo, hi). chr_in lo hi c)
         [(170, 170), (178, 179), (181, 181), (185, 186), (188, 190), (192, 214), (216, 246), (248, 255)]"

text \<open>\<open>re.IGNORECASE\<close>: one character, and a class given for lower-case letters.\<close>

definition ci :: "char \<Rightarrow> char \<Rightarrow> bool" where
  "ci c x \<longleftrightarrow> py_lower_char x = py_lower_char c"

definition ci_class :: "(char \<Rightarrow> bool) \<Rightarrow> char \<Rightarrow> bool" where
  "ci_class p x \<longleftrightarrow> p x \<or> p (py_lower_char x)"

definition one_of :: "string \<Rightarrow> char \<Rightarrow> bool" where
  "one_of cs x \<longleftrightarrow> x \<in> set cs"

definition none_of :: "string \<Rightarrow> char \<Rightarrow> bool" where
  "none_of cs x \<longleftrightarrow> x \<notin> set cs"

section \<open>Matching\<close>

definition word_boundary :: "string \<Rightarrow> string \<Rightarrow> bool" where
  "word_boundary b s \<longleftrightarrow>
     (b \<noteq> [] \<and> py_word (hd b)) \<noteq> (s \<noteq> [] \<and> py_word (hd s))"

text \<open>The characters between a position and a later one.\<close>

definition consumed :: "string \<Rightarrow> string \<Rightarrow> string" where
  "consumed s s' = take (length s - length s') s"

function (sequential) rx_run :: "rx \<Rightarrow> rx_pos \<Rightarrow> rx_pos list" where
  "rx_run REps p = [p]"
| "rx_run (RChar f) (b, s, c) =
     (case s of [] \<Rightarrow> [] | x # xs \<Rightarrow> (if f x then [(x # b, xs, c)] else []))"
| "rx_run (RSeq r1 r2) p = concat (map (\<lambda>q. rx_run r2 q) (rx_run r1 p))"
| "rx_run (RAlt r1 r2) p = rx_run r1 p @ rx_run r2 p"
| "rx_run (RStar r) (b, s, c) =
     concat (map (\<lambda>(b', s', c'). if length s' < length s then rx_run (RStar r) (b', s', c') else [])
       (rx_run r (b, s, c))) @ [(b, s, c)]"
| "rx_run (RLazy r) (b, s, c) =
     (b, s, c) #
     concat (map (\<lambda>(b', s', c'). if length s' < length s then rx_run (RLazy r) (b', s', c') else [])
       (rx_run r (b, s, c)))"
| "rx_run (RGroup n r) (b, s, c) =
     map (\<lambda>(b', s', c'). (b', s', (n, consumed s s') # c')) (rx_run r (b, s, c))"
| "rx_run RWordB (b, s, c) = (if word_boundary b s then [(b, s, c)] else [])"
| "rx_run RStart (b, s, c) = (if b = [] then [(b, s, c)] else [])"
| "rx_run REnd (b, s, c) = (if s = [] \<or> s = [CHR 0x0A] then [(b, s, c)] else [])"
| "rx_run (RNotAhead r) (b, s, c) = (if rx_run r (b, s, c) = [] then [(b, s, c)] else [])"
| "rx_run (RNotBehind f) (b, s, c) = (if b \<noteq> [] \<and> f (hd b) then [] else [(b, s, c)])"
  by pat_completeness auto
termination
  by (relation "measures [\<lambda>(r, p). size r, \<lambda>(r, p). length (fst (snd p))]") auto

definition rx_first :: "rx \<Rightarrow> rx_pos \<Rightarrow> rx_pos option" where
  "rx_first r p = (case rx_run r p of [] \<Rightarrow> None | q # _ \<Rightarrow> Some q)"

text \<open>\<open>re.search\<close>: the text before the match, the captures and the rest of the first match.\<close>

fun rx_search :: "rx \<Rightarrow> string \<Rightarrow> string \<Rightarrow> (string \<times> captures \<times> string) option" where
  "rx_search r b [] =
     (case rx_first r (b, [], []) of None \<Rightarrow> None | Some (b', s', c) \<Rightarrow> Some (b, c, s'))"
| "rx_search r b (x # xs) =
     (case rx_first r (b, x # xs, []) of
        None \<Rightarrow> rx_search r (x # b) xs
      | Some (b', s', c) \<Rightarrow> Some (b, c, s'))"

text \<open>
  \<open>re.sub\<close> with a replacement computed from the captures, for patterns that never match the
  empty string (all of the patterns of the sources).
\<close>

function rx_sub :: "rx \<Rightarrow> (captures \<Rightarrow> string) \<Rightarrow> string \<Rightarrow> string \<Rightarrow> string" where
  "rx_sub r f b [] = []"
| "rx_sub r f b (x # xs) =
     (case rx_first r (b, x # xs, []) of
        None \<Rightarrow> x # rx_sub r f (x # b) xs
      | Some (b', s', c) \<Rightarrow>
          (if length s' < length (x # xs) then f c @ rx_sub r f b' s'
           else x # rx_sub r f (x # b) xs))"
  by pat_completeness auto
termination
  by (relation "measure (\<lambda>(r, f, b, s). length s)") auto

text \<open>The whole matches, left to right, without overlap (\<open>re.findall\<close> of a pattern without groups).\<close>

function rx_findall :: "rx \<Rightarrow> string \<Rightarrow> string \<Rightarrow> string list" where
  "rx_findall r b [] = []"
| "rx_findall r b (x # xs) =
     (case rx_first r (b, x # xs, []) of
        None \<Rightarrow> rx_findall r (x # b) xs
      | Some (b', s', c) \<Rightarrow>
          (if length s' < length (x # xs) then consumed (x # xs) s' # rx_findall r b' s'
           else rx_findall r (x # b) xs))"
  by pat_completeness auto
termination
  by (relation "measure (\<lambda>(r, b, s). length s)") auto

definition rx_fullmatch :: "rx \<Rightarrow> string \<Rightarrow> bool" where
  "rx_fullmatch r s = list_ex (\<lambda>(b', s', c). s' = []) (rx_run r ([], s, []))"

definition rx_matches :: "rx \<Rightarrow> string \<Rightarrow> bool" where
  "rx_matches r s = (rx_search r [] s \<noteq> None)"

definition capture :: "captures \<Rightarrow> nat \<Rightarrow> string" where
  "capture c n = (case map_of c n of None \<Rightarrow> [] | Some s \<Rightarrow> s)"

section \<open>Derived patterns\<close>

definition ropt :: "rx \<Rightarrow> rx" where
  "ropt r = RAlt r REps"

definition rplus :: "rx \<Rightarrow> rx" where
  "rplus r = RSeq r (RStar r)"

fun rseq :: "rx list \<Rightarrow> rx" where
  "rseq [] = REps"
| "rseq [r] = r"
| "rseq (r # rs) = RSeq r (rseq rs)"

fun ralt :: "rx list \<Rightarrow> rx" where
  "ralt [] = RChar (\<lambda>c. False)"
| "ralt [r] = r"
| "ralt (r # rs) = RAlt r (ralt rs)"

text \<open>\<open>r{n}\<close>, \<open>r{n,}\<close> and \<open>r{n,m}\<close>, greedy.\<close>

fun rtimes :: "nat \<Rightarrow> rx \<Rightarrow> rx" where
  "rtimes 0 r = REps"
| "rtimes (Suc n) r = RSeq r (rtimes n r)"

definition rmin :: "nat \<Rightarrow> rx \<Rightarrow> rx" where
  "rmin n r = RSeq (rtimes n r) (RStar r)"

fun rupto :: "nat \<Rightarrow> rx \<Rightarrow> rx" where
  "rupto 0 r = REps"
| "rupto (Suc n) r = ropt (RSeq r (rupto n r))"

definition rrange :: "nat \<Rightarrow> nat \<Rightarrow> rx \<Rightarrow> rx" where
  "rrange n m r = RSeq (rtimes n r) (rupto (m - n) r)"

definition rlit :: "string \<Rightarrow> rx" where
  "rlit s = rseq (map (\<lambda>c. RChar (\<lambda>x. x = c)) s)"

definition rlit_ci :: "string \<Rightarrow> rx" where
  "rlit_ci s = rseq (map (\<lambda>c. RChar (ci c)) s)"

definition rspaces :: rx where
  "rspaces = RStar (RChar py_space)"

section \<open>Every match consumes a prefix of the text\<close>

text \<open>A position reached from another: the text is split at a later point.\<close>

definition reached :: "rx_pos \<Rightarrow> rx_pos \<Rightarrow> bool" where
  "reached p q \<longleftrightarrow> rev (fst q) @ fst (snd q) = rev (fst p) @ fst (snd p)
     \<and> length (fst (snd q)) \<le> length (fst (snd p))"

lemma reached_refl [simp]: "reached p p"
  by (simp add: reached_def)

lemma reached_trans: "reached p q \<Longrightarrow> reached q r \<Longrightarrow> reached p r"
  by (auto simp: reached_def)

declare rx_run.simps(5,6) [simp del]

lemma rx_star_member:
  assumes "q \<in> set (rx_run (RStar r) (b, s, c))"
  obtains "q = (b, s, c)"
  | b' s' c' where "(b', s', c') \<in> set (rx_run r (b, s, c))" "length s' < length s"
      "q \<in> set (rx_run (RStar r) (b', s', c'))"
  using assms by (subst (asm) rx_run.simps(5)) (auto split: if_splits)

lemma rx_lazy_member:
  assumes "q \<in> set (rx_run (RLazy r) (b, s, c))"
  obtains "q = (b, s, c)"
  | b' s' c' where "(b', s', c') \<in> set (rx_run r (b, s, c))" "length s' < length s"
      "q \<in> set (rx_run (RLazy r) (b', s', c'))"
  using assms by (subst (asm) rx_run.simps(6)) (auto split: if_splits)

lemma rx_run_reached: "q \<in> set (rx_run r p) \<Longrightarrow> reached p q"
proof (induction r p arbitrary: q rule: rx_run.induct)
  case (2 f b s c)
  then show ?case by (auto simp: reached_def split: list.splits if_splits)
next
  case (3 r1 r2 p)
  from 3(3) obtain m where "m \<in> set (rx_run r1 p)" "q \<in> set (rx_run r2 m)"
    by auto
  then show ?case using 3(1,2) reached_trans by blast
next
  case (5 r b s c)
  from 5(3) show ?case
  proof (cases rule: rx_star_member)
    case (2 b' s' c')
    from 2(1) have "reached (b, s, c) (b', s', c')" by (rule 5(1))
    moreover have "reached (b', s', c') q" by (rule 5(2) [OF 2(1) refl refl 2(2) 2(3)])
    ultimately show ?thesis by (rule reached_trans)
  qed simp
next
  case (6 r b s c)
  from 6(3) show ?case
  proof (cases rule: rx_lazy_member)
    case (2 b' s' c')
    from 2(1) have "reached (b, s, c) (b', s', c')" by (rule 6(1))
    moreover have "reached (b', s', c') q" by (rule 6(2) [OF 2(1) refl refl 2(2) 2(3)])
    ultimately show ?thesis by (rule reached_trans)
  qed simp
next
  case (7 n r b s c)
  then show ?case by (fastforce simp: reached_def)
qed (auto split: if_splits)

lemma rx_first_reached: "rx_first r p = Some q \<Longrightarrow> reached p q"
  by (rule rx_run_reached [of _ r]) (auto simp: rx_first_def split: list.splits)

text \<open>Replacing every match by itself gives the text back.\<close>

lemma rx_sub_none: "(\<And>p. rx_first r p = None) \<Longrightarrow> rx_sub r f b s = s"
  by (induction r f b s rule: rx_sub.induct) auto

end
