(* ===== verification/LogSafety.thy ===== *)
theory LogSafety
  imports Regex PyValue
begin

text \<open>
  Redaction of secrets from log lines and handoffs (\<^verbatim>\<open>memory/backend/log_safety.py\<close>): the
  five patterns, the substitution chain, and the logging filter.
\<close>

section \<open>The patterns\<close>

definition scheme_char :: "char \<Rightarrow> bool" where
  "scheme_char c \<longleftrightarrow> ci_class (\<lambda>x. ascii_lower x \<or> ascii_digit x \<or> one_of ''+.-'' x) c"

definition URI_CREDENTIALS :: rx where
  "URI_CREDENTIALS = rseq
     [RGroup 1 (rseq [RChar (ci_class ascii_lower), RStar (RChar scheme_char), rlit ''://'',
        RStar (RChar (\<lambda>c. \<not> py_space c \<and> none_of '':/@'' c)), rlit '':'']),
      RGroup 2 (rplus (RChar (\<lambda>c. \<not> py_space c \<and> none_of ''@/'' c))),
      RGroup 3 (rlit ''@'')]"

definition KV_NAMES :: "string list" where
  "KV_NAMES = [''password'', ''pwd'', ''token'', ''api_key'', ''apikey'', ''api-key'',
     ''openai_api_key'', ''ollama_api_key'', ''dsn'', ''secret'']"

definition quote_mark :: "char \<Rightarrow> bool" where
  "quote_mark c \<longleftrightarrow> c = CHR 0x27 \<or> c = CHR 0x22"

definition kv_value :: "char \<Rightarrow> bool" where
  "kv_value c \<longleftrightarrow> \<not> py_space c \<and> none_of '';,}'' c"

definition KV_SECRETS :: rx where
  "KV_SECRETS = rseq
     [RGroup 1 (rseq [ropt (RChar quote_mark), RWordB, ralt (map rlit_ci KV_NAMES), RWordB,
        ropt (RChar quote_mark), rspaces, RChar (one_of '':=''), rspaces]),
      RGroup 2 (rplus (RChar kv_value))]"

definition AUTHORIZATION_BEARER :: rx where
  "AUTHORIZATION_BEARER = rseq
     [RWordB,
      RGroup 1 (rseq [rlit_ci ''authorization'', rspaces, RChar (one_of '':=''), rspaces,
        rlit_ci ''bearer'', rplus (RChar py_space)]),
      RGroup 2 (rplus (RChar (\<lambda>c. \<not> py_space c \<and> none_of '',;'' c)))]"

definition QUERY_TOKENS :: rx where
  "QUERY_TOKENS = rseq
     [RGroup 1 (rseq [RChar (one_of ''?&''), ralt [rlit_ci ''access_token'', rlit_ci ''token''], rlit ''='']),
      RGroup 2 (rplus (RChar (\<lambda>c. \<not> py_space c \<and> none_of ''&#'' c)))]"

definition OPENAI_KEYS :: rx where
  "OPENAI_KEYS = rseq
     [RWordB, rlit ''sk-'', ropt (rlit ''proj-''),
      rmin 10 (RChar (\<lambda>c. ascii_alnum c \<or> one_of ''_-'' c)), RWordB]"

section \<open>Redaction\<close>

definition redact_secrets :: "string \<Rightarrow> string" where
  "redact_secrets text =
     (let r1 = rx_sub URI_CREDENTIALS (\<lambda>c. capture c 1 @ ''***'' @ capture c 3) [] text;
          r2 = rx_sub KV_SECRETS (\<lambda>c. capture c 1 @ ''***'') [] r1;
          r3 = rx_sub AUTHORIZATION_BEARER (\<lambda>c. capture c 1 @ ''***'') [] r2;
          r4 = rx_sub QUERY_TOKENS (\<lambda>c. capture c 1 @ ''***'') [] r3
      in rx_sub OPENAI_KEYS (\<lambda>c. ''sk-***'') [] r4)"

text \<open>Log arguments: a tuple, a mapping, or none.\<close>

datatype log_args =
    ArgsTuple "pyval list"
  | ArgsDict pydict
  | ArgsNone

definition redact_if_str :: "pyval \<Rightarrow> pyval" where
  "redact_if_str v = (case v of PStr s \<Rightarrow> PStr (redact_secrets s) | _ \<Rightarrow> v)"

fun redact_log_args :: "log_args \<Rightarrow> log_args" where
  "redact_log_args (ArgsTuple xs) = ArgsTuple (map redact_if_str xs)"
| "redact_log_args (ArgsDict d) = ArgsDict (map (\<lambda>(k, v). (k, redact_if_str v)) d)"
| "redact_log_args ArgsNone = ArgsNone"

text \<open>
  A log record; \<open>get_message\<close> stands for \<open>LogRecord.getMessage\<close>, the formatting of the
  message with its arguments.
\<close>

record log_record =
  lr_name :: string
  lr_msg :: string
  lr_args :: log_args

definition redaction_filter :: "(log_record \<Rightarrow> string) \<Rightarrow> log_record \<Rightarrow> bool \<times> log_record" where
  "redaction_filter get_message r =
     (if lr_name r = ''uvicorn.access'' then (True, r\<lparr>lr_args := redact_log_args (lr_args r)\<rparr>)
      else (True, r\<lparr>lr_msg := redact_secrets (get_message r), lr_args := ArgsTuple []\<rparr>))"

datatype log_filter = SecretRedactionFilter | OtherFilter string

definition FILTERED_LOGGERS :: "string list" where
  "FILTERED_LOGGERS = [''httpx'', ''httpx2'', ''memory'', ''uvicorn.access'', ''uvicorn.error'']"

text \<open>The filters of every logger; a logger nobody configured has none.\<close>

definition install_secret_redaction_filter :: "(string \<Rightarrow> log_filter list) \<Rightarrow> string \<Rightarrow> log_filter list" where
  "install_secret_redaction_filter loggers name =
     (if name \<in> set FILTERED_LOGGERS \<and> SecretRedactionFilter \<notin> set (loggers name)
      then loggers name @ [SecretRedactionFilter] else loggers name)"

lemma install_idempotent:
  "install_secret_redaction_filter (install_secret_redaction_filter ls) = install_secret_redaction_filter ls"
  by (auto simp: install_secret_redaction_filter_def)

end
