(* ===== verification/OneTime.thy ===== *)
theory OneTime
  imports Main
begin

text \<open>
  The contracts that revocation and single use rest on, for any system of operations: the
  credentials of the account tables and the supersession of handoffs are instances.
\<close>

section \<open>The contracts\<close>

text \<open>
  A system of operations \<open>step\<close> on states that satisfy \<open>ok\<close>: a credential \<open>k\<close> that is
  spent stays spent along every sequence of operations that \<open>allowed k\<close> admits, and a spent
  credential cannot be redeemed.
\<close>

locale revocable =
  fixes step :: "'o \<Rightarrow> 's \<Rightarrow> 's"
    and ok :: "'s \<Rightarrow> bool"
    and allowed :: "'k \<Rightarrow> 'o \<Rightarrow> bool"
    and spent :: "'k \<Rightarrow> 's \<Rightarrow> bool"
    and redeem :: "'k \<Rightarrow> 's \<Rightarrow> 's \<Rightarrow> bool"
  assumes ok_step: "ok s \<Longrightarrow> ok (step x s)"
    and spent_step: "ok s \<Longrightarrow> spent k s \<Longrightarrow> allowed k x \<Longrightarrow> spent k (step x s)"
    and spent_refused: "ok s \<Longrightarrow> spent k s \<Longrightarrow> \<not> redeem k s t"
begin

lemma spent_forever:
  "ok s \<Longrightarrow> spent k s \<Longrightarrow> list_all (allowed k) xs \<Longrightarrow> ok (fold step xs s) \<and> spent k (fold step xs s)"
  by (induction xs arbitrary: s) (auto intro: ok_step spent_step)

lemma never_again:
  "ok s \<Longrightarrow> spent k s \<Longrightarrow> list_all (allowed k) xs \<Longrightarrow> \<not> redeem k (fold step xs s) t"
  using spent_forever spent_refused by blast

end

text \<open>Redeeming a one-time credential spends it.\<close>

locale one_time = revocable +
  assumes redeem_ok: "ok s \<Longrightarrow> redeem k s t \<Longrightarrow> ok t"
    and redeem_spends: "ok s \<Longrightarrow> redeem k s t \<Longrightarrow> spent k t"
begin

lemma no_replay:
  "ok s \<Longrightarrow> redeem k s t \<Longrightarrow> list_all (allowed k) xs \<Longrightarrow> \<not> redeem k (fold step xs t) u"
  using redeem_ok redeem_spends never_again by blast

end

end
