(* ===== verification/HandoffStore.thy ===== *)
theory HandoffStore
  imports AuditStore LogSafety OneTime
begin

text \<open>
  The handoff records of \<open>SQLiteMetadataStore\<close> (\<^verbatim>\<open>memory/backend/metadata_store.py\<close>) and the
  preparation of a record (\<^verbatim>\<open>memory/backend/handoff_records.py\<close>). The third-party model
  validation \<open>StoredHandoffPacket.model_validate(d).model_dump(mode="json")\<close> is the argument
  \<open>packet\<close>; nothing is assumed about it, so the properties hold for every such model.
\<close>

section \<open>Records\<close>

record handoff_row =
  hf_id :: string
  hf_owner :: "string option"
  hf_project :: string
  hf_status :: string
  hf_payload :: pydict
  hf_created_at :: string
  hf_updated_at :: string

record supersession_row =
  hs_previous :: string
  hs_replacement :: string
  hs_created_at :: string

record handoff_db =
  handoffs :: "handoff_row list"
  supersessions :: "supersession_row list"

definition validate_handoff_id :: "string \<Rightarrow> string result" where
  "validate_handoff_id v =
     (let i = py_strip v in
      if i = [] \<or> length i > 128 then Inl (ValueError ''handoff_id must contain 1 to 128 characters'')
      else Inr i)"

definition validate_handoff_limit :: "int \<Rightarrow> int result" where
  "validate_handoff_limit n =
     (if n < 1 \<or> n > 100 then Inl (ValueError ''limit must be between 1 and 100'') else Inr n)"

fun redact_handoff_value :: "pyval \<Rightarrow> pyval" where
  "redact_handoff_value (PStr s) = PStr (redact_secrets s)"
| "redact_handoff_value (PDict d) = PDict (map (\<lambda>(k, v). (k, redact_handoff_value v)) d)"
| "redact_handoff_value (PList xs) = PList (map redact_handoff_value xs)"
| "redact_handoff_value v = v"

definition redact_record :: "pydict \<Rightarrow> pydict" where
  "redact_record d = map (\<lambda>(k, v). (k, redact_handoff_value v)) d"

type_synonym packet_model = "pydict \<Rightarrow> pydict result"

definition stamp_handoff :: "pydict \<Rightarrow> string option \<Rightarrow> string \<Rightarrow> string option \<Rightarrow> pydict" where
  "stamp_handoff d owner project supersedes =
     (let d1 = dset d ''owner_id'' (of_opt owner);
          d2 = dset d1 ''project_id'' (PStr project);
          d3 = dset d2 ''supersedes_handoff_id'' (of_opt supersedes);
          d4 = dset d3 ''superseded_by_handoff_id'' PNone
      in dset d4 ''status'' (PStr (py_str (or_default (dget_none d4 ''status'') ''active''))))"

definition prepare_handoff_record ::
    "packet_model \<Rightarrow> pydict \<Rightarrow> string option \<Rightarrow> string \<Rightarrow> string option \<Rightarrow> pydict result" where
  "prepare_handoff_record packet d owner project supersedes =
     bind_result (packet (stamp_handoff (redact_record d) owner project supersedes)) (\<lambda>n.
     bind_result (str_item n ''handoff_id'') (\<lambda>hid.
     bind_result (validate_handoff_id hid) (\<lambda>_.
     case supersedes of
       None \<Rightarrow> Inr n
     | Some old \<Rightarrow>
         bind_result (validate_handoff_id old) (\<lambda>_.
         bind_result (guard_result (PStr old \<noteq> dget_none n ''handoff_id'')
           (ValueError ''a handoff cannot supersede itself'')) (\<lambda>_. Inr n)))))"

definition public_handoff_record :: "packet_model \<Rightarrow> pydict \<Rightarrow> string option \<Rightarrow> pydict result" where
  "public_handoff_record packet payload replacement =
     (let d = dset payload ''superseded_by_handoff_id'' (of_opt replacement)
      in packet (if replacement \<noteq> None then dset d ''status'' (PStr ''superseded'') else d))"

section \<open>The store\<close>

definition handoff_row_of :: "string option \<Rightarrow> string \<Rightarrow> pydict \<Rightarrow> handoff_row result" where
  "handoff_row_of owner project n =
     bind_result (str_item n ''handoff_id'') (\<lambda>hid.
     bind_result (str_item n ''status'') (\<lambda>status.
     bind_result (str_item n ''created_at'') (\<lambda>created.
     bind_result (str_item n ''updated_at'') (\<lambda>updated.
     Inr \<lparr>hf_id = hid, hf_owner = owner, hf_project = project, hf_status = status,
          hf_payload = n, hf_created_at = created, hf_updated_at = updated\<rparr>))))"

definition optional_owner :: "string option \<Rightarrow> string option result" where
  "optional_owner w = (case w of None \<Rightarrow> Inr None | Some x \<Rightarrow> bind_result (validate_owner_id x) (\<lambda>v. Inr (Some v)))"

definition create_handoff ::
    "packet_model \<Rightarrow> pydict \<Rightarrow> string option \<Rightarrow> string \<Rightarrow> string option \<Rightarrow> handoff_db \<Rightarrow>
     (pydict \<times> handoff_db) result" where
  "create_handoff packet d owner_id project_id supersedes db =
     bind_result (validate_project_id project_id) (\<lambda>project.
     bind_result (optional_owner owner_id) (\<lambda>owner.
     bind_result (prepare_handoff_record packet d owner project supersedes) (\<lambda>n.
     bind_result (handoff_row_of owner project n) (\<lambda>row.
     case tbl_insert hf_id row (handoffs db) of
       None \<Rightarrow> Inl (ValueError ''handoff_id already exists'')
     | Some rows \<Rightarrow> Inr (n, db\<lparr>handoffs := rows\<rparr>)))))"

text \<open>The replacement of a row in the join with \<open>handoff_supersessions\<close>.\<close>

definition replacement_of :: "handoff_db \<Rightarrow> string \<Rightarrow> string option" where
  "replacement_of db hid = map_option hs_replacement (tbl_get hs_previous hid (supersessions db))"

definition get_handoff :: "packet_model \<Rightarrow> string \<Rightarrow> string \<Rightarrow> handoff_db \<Rightarrow> pydict option result" where
  "get_handoff packet handoff_id project_id db =
     bind_result (validate_handoff_id handoff_id) (\<lambda>hid.
     bind_result (validate_project_id project_id) (\<lambda>project.
     case find (\<lambda>r. hf_id r = hid \<and> hf_project r = project) (handoffs db) of
       None \<Rightarrow> Inr None
     | Some r \<Rightarrow>
         bind_result (public_handoff_record packet (hf_payload r) (replacement_of db (hf_id r)))
           (\<lambda>d. Inr (Some d))))"

definition search_handoffs ::
    "packet_model \<Rightarrow> string \<Rightarrow> string option \<Rightarrow> string option \<Rightarrow> bool \<Rightarrow> int \<Rightarrow> handoff_db \<Rightarrow>
     pydict list result" where
  "search_handoffs packet project_id query status include_superseded limit db =
     bind_result (validate_project_id project_id) (\<lambda>project.
     bind_result (validate_handoff_limit limit) (\<lambda>n.
     let superseded = (\<lambda>r. replacement_of db (hf_id r) \<noteq> None);
         matches_query = (\<lambda>r. case query of None \<Rightarrow> True
           | Some q \<Rightarrow> q = [] \<or> sql_like (''%'' @ py_strip q @ ''%'') (json_dumps (PDict (hf_payload r))));
         matches_status = (\<lambda>r. case status of None \<Rightarrow> True
           | Some st \<Rightarrow> if st = ''superseded'' then superseded r else hf_status r = st);
         shown = (\<lambda>r. include_superseded \<or> status = Some ''superseded'' \<or> \<not> superseded r);
         rows = filter (\<lambda>r. hf_project r = project \<and> matches_query r \<and> matches_status r \<and> shown r)
           (handoffs db)
     in map_result (\<lambda>r. public_handoff_record packet (hf_payload r) (replacement_of db (hf_id r)))
          (sql_limit n (rev (sort_key hf_updated_at (rev (sort_key hf_id rows)))))))"

definition supersede_handoff ::
    "packet_model \<Rightarrow> clock \<Rightarrow> string \<Rightarrow> pydict \<Rightarrow> string option \<Rightarrow> string \<Rightarrow> handoff_db \<Rightarrow>
     (pydict option \<times> handoff_db) result" where
  "supersede_handoff packet now handoff_id replacement owner_id project_id db =
     bind_result (validate_handoff_id handoff_id) (\<lambda>existing_id.
     bind_result (get_handoff packet existing_id project_id db) (\<lambda>found.
     case found of
       None \<Rightarrow> Inr (None, db)
     | Some existing \<Rightarrow>
         if dget_none existing ''superseded_by_handoff_id'' \<noteq> PNone then Inr (None, db)
         else
           bind_result (validate_project_id project_id) (\<lambda>project.
           bind_result (prepare_handoff_record packet replacement owner_id project (Some existing_id)) (\<lambda>n.
           bind_result (text_item n ''owner_id'') (\<lambda>owner.
           bind_result (str_item n ''project_id'') (\<lambda>proj.
           bind_result (handoff_row_of owner proj n) (\<lambda>row.
           case tbl_insert hf_id row (handoffs db) of
             None \<Rightarrow> Inl (IntegrityError ''UNIQUE constraint failed: handoffs.id'')
           | Some rows \<Rightarrow>
               (case tbl_insert hs_previous
                    \<lparr>hs_previous = existing_id, hs_replacement = hf_id row, hs_created_at = now\<rparr>
                    (supersessions db) of
                  None \<Rightarrow> Inl (IntegrityError ''UNIQUE constraint failed: handoff_supersessions.previous_handoff_id'')
                | Some links \<Rightarrow>
                    if distinct (map hs_replacement links)
                    then Inr (Some n, db\<lparr>handoffs := rows, supersessions := links\<rparr>)
                    else Inl (IntegrityError
                      ''UNIQUE constraint failed: handoff_supersessions.replacement_handoff_id'')))))))))"

section \<open>Runs\<close>

datatype handoff_op =
    CreateHandoff pydict "string option" string "string option"
  | SupersedeHandoff clock string pydict "string option" string

definition commit_handoff :: "handoff_db \<Rightarrow> ('a \<times> handoff_db) result \<Rightarrow> handoff_db" where
  "commit_handoff db r = (case r of Inl e \<Rightarrow> db | Inr (x, db') \<Rightarrow> db')"

fun handoff_step :: "packet_model \<Rightarrow> handoff_op \<Rightarrow> handoff_db \<Rightarrow> handoff_db" where
  "handoff_step packet (CreateHandoff d w p s) db = commit_handoff db (create_handoff packet d w p s db)"
| "handoff_step packet (SupersedeHandoff now h d w p) db =
     commit_handoff db (supersede_handoff packet now h d w p db)"

definition empty_handoff_db :: handoff_db where
  "empty_handoff_db = \<lparr>handoffs = [], supersessions = []\<rparr>"

text \<open>The position of a handoff in the order of insertion.\<close>

definition rank :: "handoff_row list \<Rightarrow> string \<Rightarrow> nat" where
  "rank rows hid = length (takeWhile (\<lambda>r. hf_id r \<noteq> hid) rows)"

definition handoff_db_ok :: "handoff_db \<Rightarrow> bool" where
  "handoff_db_ok db \<longleftrightarrow>
     distinct (map hf_id (handoffs db)) \<and> distinct (map hs_previous (supersessions db))
     \<and> distinct (map hs_replacement (supersessions db))
     \<and> list_all (\<lambda>l. rank (handoffs db) (hs_previous l) < rank (handoffs db) (hs_replacement l)
          \<and> rank (handoffs db) (hs_replacement l) < length (handoffs db)) (supersessions db)"

lemma rank_present: "hid \<in> hf_id ` set rows \<Longrightarrow> rank rows hid < length rows"
  by (induction rows) (auto simp: rank_def)

lemma rank_append_old: "rank rows hid < length rows \<Longrightarrow> rank (rows @ [r]) hid = rank rows hid"
  by (induction rows) (auto simp: rank_def)

lemma rank_append_new: "hf_id r \<notin> hf_id ` set rows \<Longrightarrow> rank (rows @ [r]) (hf_id r) = length rows"
  by (induction rows) (auto simp: rank_def)

text \<open>What the two writing operations do to the tables.\<close>

lemma create_handoff_Inr:
  assumes "create_handoff packet d w p s db = Inr (n, db')"
  obtains row where "handoffs db' = handoffs db @ [row]" "supersessions db' = supersessions db"
    "hf_id row \<notin> hf_id ` set (handoffs db)"
  using assms by (auto simp: create_handoff_def result_simps tbl_insert_Some_iff)

lemma supersede_handoff_Inr:
  assumes "supersede_handoff packet now h d w p db = Inr (Some n, db')"
  obtains row hid where "validate_handoff_id h = Inr hid" "handoffs db' = handoffs db @ [row]"
    "hf_id row \<notin> hf_id ` set (handoffs db)" "hid \<in> hf_id ` set (handoffs db)"
    "supersessions db' = supersessions db @
       [\<lparr>hs_previous = hid, hs_replacement = hf_id row, hs_created_at = now\<rparr>]"
    "hid \<notin> hs_previous ` set (supersessions db)"
    "distinct (map hs_replacement (supersessions db'))"
    "str_item n ''handoff_id'' = Inr (hf_id row)"
proof -
  from assms obtain hid found where v: "validate_handoff_id h = Inr hid"
    and g: "get_handoff packet hid p db = Inr (Some found)"
    by (auto simp: supersede_handoff_def result_simps split: if_splits)
  have same: "validate_handoff_id hid = Inr hid"
    using v by (auto simp: validate_handoff_id_def Let_def split: if_splits)
  from g same have present: "hid \<in> hf_id ` set (handoffs db)"
    by (auto simp: get_handoff_def result_simps find_Some_iff)
  from assms v g obtain owner proj row where row: "handoff_row_of owner proj n = Inr row"
    and rows: "hf_id row \<notin> hf_id ` set (handoffs db)" "handoffs db' = handoffs db @ [row]"
      "hid \<notin> hs_previous ` set (supersessions db)" "distinct (map hs_replacement (supersessions db'))"
      "supersessions db' = supersessions db @
         [\<lparr>hs_previous = hid, hs_replacement = hf_id row, hs_created_at = now\<rparr>]"
    by (clarsimp simp: supersede_handoff_def result_simps tbl_insert_Some_iff split: if_splits)
  have "str_item n ''handoff_id'' = Inr (hf_id row)"
    using row by (auto simp: handoff_row_of_def result_simps)
  then show thesis by (rule that [OF v rows(2,1) present rows(5,3,4)])
qed

lemma supersede_handoff_None:
  "supersede_handoff packet now h d w p db = Inr (None, db') \<Longrightarrow> db' = db"
  by (auto simp: supersede_handoff_def result_simps split: if_splits)

lemma handoff_db_ok_append:
  assumes ok: "handoff_db_ok db" and new: "hf_id row \<notin> hf_id ` set (handoffs db)"
    and rows: "handoffs db' = handoffs db @ [row]" and links: "supersessions db' = supersessions db @ ls"
    and ls: "ls = [] \<or> (\<exists>hid now. ls = [\<lparr>hs_previous = hid, hs_replacement = hf_id row, hs_created_at = now\<rparr>]
       \<and> hid \<in> hf_id ` set (handoffs db) \<and> hid \<notin> hs_previous ` set (supersessions db)
       \<and> distinct (map hs_replacement (supersessions db')))"
  shows "handoff_db_ok db'"
proof -
  let ?r = "rank (handoffs db')"
  have old: "?r (hs_previous l) < ?r (hs_replacement l) \<and> ?r (hs_replacement l) < length (handoffs db')"
    if "l \<in> set (supersessions db)" for l
    using that ok by (fastforce simp: handoff_db_ok_def list_all_iff rows rank_append_old)
  have fresh: "?r hid < ?r (hf_id row) \<and> ?r (hf_id row) < length (handoffs db')"
    if "hid \<in> hf_id ` set (handoffs db)" for hid
    using rank_present [OF that] new by (simp add: rows rank_append_old rank_append_new)
  from ls show ?thesis
    using ok new old fresh by (auto simp: handoff_db_ok_def rows links list_all_iff) (metis image_eqI)+
qed

lemma handoff_step_ok: "handoff_db_ok db \<Longrightarrow> handoff_db_ok (handoff_step packet x db)"
proof (cases x)
  case (CreateHandoff d w p s)
  assume ok: "handoff_db_ok db"
  show ?thesis
  proof (cases "create_handoff packet d w p s db")
    case (Inr y)
    then obtain n db' where c: "create_handoff packet d w p s db = Inr (n, db')" by (cases y) auto
    from create_handoff_Inr [OF c] obtain row where "handoffs db' = handoffs db @ [row]"
      "supersessions db' = supersessions db" "hf_id row \<notin> hf_id ` set (handoffs db)" .
    then have "handoff_db_ok db'" by (intro handoff_db_ok_append [OF ok, where ls = "[]"]) auto
    then show ?thesis using CreateHandoff c by (simp add: commit_handoff_def)
  qed (use CreateHandoff ok in \<open>simp add: commit_handoff_def\<close>)
next
  case (SupersedeHandoff now h d w p)
  assume ok: "handoff_db_ok db"
  show ?thesis
  proof (cases "supersede_handoff packet now h d w p db")
    case (Inr y)
    then obtain r db' where c: "supersede_handoff packet now h d w p db = Inr (r, db')" by (cases y) auto
    have "handoff_db_ok db'"
    proof (cases r)
      case None
      then show ?thesis using c ok supersede_handoff_None by metis
    next
      case (Some n)
      with c have "supersede_handoff packet now h d w p db = Inr (Some n, db')" by simp
      then show ?thesis
        by (elim supersede_handoff_Inr) (rule handoff_db_ok_append [OF ok], auto)
    qed
    then show ?thesis using SupersedeHandoff c by (simp add: commit_handoff_def)
  qed (use SupersedeHandoff ok in \<open>simp add: commit_handoff_def\<close>)
qed

lemma handoff_run_ok: "handoff_db_ok db \<Longrightarrow> handoff_db_ok (fold (handoff_step packet) xs db)"
  by (induction xs arbitrary: db) (auto intro: handoff_step_ok)

lemma handoff_db_ok_empty: "handoff_db_ok empty_handoff_db"
  by (simp add: handoff_db_ok_def empty_handoff_db_def)

section \<open>Supersession happens once\<close>

definition superseded :: "string \<Rightarrow> handoff_db \<Rightarrow> bool" where
  "superseded hid db \<longleftrightarrow> replacement_of db hid \<noteq> None"

definition supersedes :: "packet_model \<Rightarrow> string \<Rightarrow> handoff_db \<Rightarrow> handoff_db \<Rightarrow> bool" where
  "supersedes packet hid s t \<longleftrightarrow>
     (\<exists>now h d w p n. validate_handoff_id h = Inr hid \<and> supersede_handoff packet now h d w p s = Inr (Some n, t))"

lemma replacement_of_append:
  "supersessions db' = supersessions db @ ls \<Longrightarrow> replacement_of db hid = Some r \<Longrightarrow>
     replacement_of db' hid = Some r"
  by (auto simp: replacement_of_def tbl_get_append)

lemma replacement_kept:
  "replacement_of db hid = Some r \<Longrightarrow> replacement_of (handoff_step packet x db) hid = Some r"
proof (cases x)
  case (CreateHandoff d w p s)
  assume r: "replacement_of db hid = Some r"
  show ?thesis
    using r create_handoff_Inr [of packet d w p s db]
    by (auto simp: CreateHandoff commit_handoff_def replacement_of_def split: sum.splits prod.splits) metis
next
  case (SupersedeHandoff now h d w p)
  assume r: "replacement_of db hid = Some r"
  have "replacement_of db' hid = Some r"
    if c: "supersede_handoff packet now h d w p db = Inr (y, db')" for y db'
  proof (cases y)
    case None
    then show ?thesis using c r supersede_handoff_None by metis
  next
    case (Some n)
    with c have "supersede_handoff packet now h d w p db = Inr (Some n, db')" by simp
    then show ?thesis by (rule supersede_handoff_Inr) (rule replacement_of_append [OF _ r], assumption)
  qed
  then show ?thesis
    using r by (auto simp: SupersedeHandoff commit_handoff_def split: sum.splits prod.splits)
qed

lemma supersedes_replacement:
  assumes "supersede_handoff packet now h d w p db = Inr (Some n, db')" "validate_handoff_id h = Inr hid"
  shows "\<exists>r. str_item n ''handoff_id'' = Inr r \<and> replacement_of db' hid = Some r \<and> replacement_of db hid = None"
proof -
  obtain row hid' where *: "validate_handoff_id h = Inr hid'" "handoffs db' = handoffs db @ [row]"
    "hf_id row \<notin> hf_id ` set (handoffs db)" "hid' \<in> hf_id ` set (handoffs db)"
    "supersessions db' = supersessions db @ [\<lparr>hs_previous = hid', hs_replacement = hf_id row, hs_created_at = now\<rparr>]"
    "hid' \<notin> hs_previous ` set (supersessions db)" "distinct (map hs_replacement (supersessions db'))"
    "str_item n ''handoff_id'' = Inr (hf_id row)"
    by (rule supersede_handoff_Inr [OF assms(1)])
  then have "replacement_of db hid = None"
    using assms(2) by (auto simp: replacement_of_def tbl_get_None_iff)
  with * show ?thesis
    using assms(2) by (auto simp: replacement_of_def tbl_get_append table_simps)
qed

interpretation supersession: one_time "handoff_step packet" handoff_db_ok "\<lambda>hid x. True" superseded
    "supersedes packet"
proof unfold_locales
  fix s t k x
  show "handoff_db_ok s \<Longrightarrow> handoff_db_ok (handoff_step packet x s)" by (rule handoff_step_ok)
  show "superseded k s \<Longrightarrow> superseded k (handoff_step packet x s)"
    by (auto simp: superseded_def dest: replacement_kept)
  show "superseded k s \<Longrightarrow> \<not> supersedes packet k s t"
    by (auto simp: superseded_def supersedes_def dest!: supersedes_replacement)
  show "supersedes packet k s t \<Longrightarrow> superseded k t"
    by (auto simp: superseded_def supersedes_def dest!: supersedes_replacement)
  assume ok: "handoff_db_ok s" and sup: "supersedes packet k s t"
  from sup obtain now h d w p n where "supersede_handoff packet now h d w p s = Inr (Some n, t)"
    by (auto simp: supersedes_def)
  then show "handoff_db_ok t"
    using handoff_step_ok [OF ok, of packet "SupersedeHandoff now h d w p"] by (simp add: commit_handoff_def)
qed

lemma replacement_kept_run:
  "replacement_of db hid = Some r \<Longrightarrow> replacement_of (fold (handoff_step packet) xs db) hid = Some r"
  by (induction xs arbitrary: db) (auto intro: replacement_kept)

text \<open>
  C30. A handoff is superseded at most once: after superseding \<open>h\<close> has succeeded, along every later
  sequence of operations its replacement stays the handoff returned then, and no attempt to supersede
  \<open>h\<close> again succeeds.
\<close>

theorem handoff_superseded_once:
  assumes "handoff_db_ok db" "validate_handoff_id h = Inr hid"
    and "supersede_handoff packet now h d w p db = Inr (Some n, db')"
  shows "\<exists>r. str_item n ''handoff_id'' = Inr r
      \<and> replacement_of (fold (handoff_step packet) xs db') hid = Some r
      \<and> supersede_handoff packet now' h d' w' p' (fold (handoff_step packet) xs db') \<noteq> Inr (Some n', db'')"
proof -
  have sup: "supersedes packet hid db db'" unfolding supersedes_def using assms(2,3) by blast
  have "\<not> supersedes packet hid (fold (handoff_step packet) xs db') db''"
    by (rule supersession.no_replay [OF assms(1) sup]) (simp add: list_all_iff)
  then show ?thesis
    using supersedes_replacement [OF assms(3,2)] replacement_kept_run assms(2)
    by (fastforce simp: supersedes_def)
qed

definition demo_packet :: packet_model where
  "demo_packet d = Inr d"

definition demo_handoff :: "string \<Rightarrow> pydict" where
  "demo_handoff i = [(''handoff_id'', PStr i), (''created_at'', PStr ''t''), (''updated_at'', PStr ''t'')]"

theorem handoff_superseded_once_witness:
  "\<exists>n db' r. supersede_handoff demo_packet ''t'' ''h1'' (demo_handoff ''h2'') None ''p1''
       (fold (handoff_step demo_packet) [CreateHandoff (demo_handoff ''h1'') None ''p1'' None] empty_handoff_db)
       = Inr (Some n, db') \<and> replacement_of db' ''h1'' = Some r"
proof -
  let ?db = "fold (handoff_step demo_packet) [CreateHandoff (demo_handoff ''h1'') None ''p1'' None] empty_handoff_db"
  let ?r = "supersede_handoff demo_packet ''t'' ''h1'' (demo_handoff ''h2'') None ''p1'' ?db"
  have ok: "handoff_db_ok ?db" by (rule handoff_run_ok) (rule handoff_db_ok_empty)
  have v: "validate_handoff_id ''h1'' = Inr ''h1''" by code_simp
  have "(case ?r of Inr (Some n, db') \<Rightarrow> True | _ \<Rightarrow> False)" by code_simp
  then obtain n db' where r: "?r = Inr (Some n, db')" by (auto split: sum.splits option.splits)
  have "\<exists>q. replacement_of db' ''h1'' = Some q"
    using handoff_superseded_once [OF ok v r, where xs = "[]" and now' = "[]" and d' = "[]" and w' = None
      and p' = "[]" and n' = "[]" and db'' = db'] by auto
  with r show ?thesis by blast
qed

text \<open>
  C31. In every store that a sequence of operations reaches, following replacements never returns
  to an earlier handoff: the supersession relation is acyclic, and every handoff has at most one
  replacement and replaces at most one other.
\<close>

theorem supersession_acyclic:
  "acyclic {(hs_previous l, hs_replacement l) | l.
     l \<in> set (supersessions (fold (handoff_step packet) xs empty_handoff_db))}
   \<and> distinct (map hs_previous (supersessions (fold (handoff_step packet) xs empty_handoff_db)))
   \<and> distinct (map hs_replacement (supersessions (fold (handoff_step packet) xs empty_handoff_db)))"
proof -
  let ?db = "fold (handoff_step packet) xs empty_handoff_db"
  let ?R = "{(hs_previous l, hs_replacement l) | l. l \<in> set (supersessions ?db)}"
  have ok: "handoff_db_ok ?db" by (rule handoff_run_ok) (rule handoff_db_ok_empty)
  then have "?R \<subseteq> measure (rank (handoffs ?db))"
    by (auto simp: handoff_db_ok_def list_all_iff)
  then have "acyclic ?R" by (meson wf_measure wf_subset wf_acyclic)
  then show ?thesis using ok by (simp add: handoff_db_ok_def)
qed

end
