(* ===== verification/ChunkState.thy ===== *)
theory ChunkState
  imports ConversationStore
begin

text \<open>
  The index state of chunks (\<open>IndexState\<close>, \<open>IndexChunkIdentitySet\<close>,
  \<open>update_index_chunks_payload\<close>, \<open>is_fully_indexed\<close> and \<open>mark_chunks_*\<close> of
  \<^verbatim>\<open>memory/backend/metadata_store.py\<close>): it is kept twice, in the \<open>chunks\<close> table and in the
  \<open>index_chunks\<close> metadata of the payload.
\<close>

datatype index_state = Pending | Indexed | Failed

fun state_value :: "index_state \<Rightarrow> string" where
  "state_value Pending = ''pending_index''"
| "state_value Indexed = ''indexed''"
| "state_value Failed = ''indexing_failed''"

definition normalize_index_state :: "string \<Rightarrow> index_state result" where
  "normalize_index_state s =
     (if s = ''pending_index'' then Inr Pending
      else if s = ''indexed'' then Inr Indexed
      else if s = ''indexing_failed'' then Inr Failed
      else Inl (ValueError (repr_str s @ '' is not a valid IndexState'')))"

definition chunk_index_from_chunk_id :: "string \<Rightarrow> int option result" where
  "chunk_index_from_chunk_id chunk_id =
     (case split_on (CHR '':'') chunk_id of
        _ # part # _ \<Rightarrow>
          (if py_isdigit part then bind_result (int_of_str part) (\<lambda>i. Inr (Some i)) else Inr None)
      | _ \<Rightarrow> Inr None)"

definition chunk_index_from_payload :: "pydict \<Rightarrow> int option result" where
  "chunk_index_from_payload chunk =
     (let value = dget_none chunk ''chunk_index'' in
      if value = PNone then Inr None
      else case int_of_pyval value of
             Inr i \<Rightarrow> Inr (Some i)
           | Inl (TypeError _) \<Rightarrow> Inr None
           | Inl (ValueError _) \<Rightarrow> Inr None
           | Inl e \<Rightarrow> Inl e)"

record identity_set =
  chunk_ids :: "string list"
  chunk_indexes :: "int list"

definition from_chunk_ids :: "string list \<Rightarrow> identity_set result" where
  "from_chunk_ids ids =
     (let ids' = filter (\<lambda>i. i \<noteq> []) ids in
      bind_result (map_result chunk_index_from_chunk_id ids') (\<lambda>indexes.
      Inr \<lparr>chunk_ids = ids', chunk_indexes = List.map_filter id indexes\<rparr>))"

definition identity_matches :: "identity_set \<Rightarrow> pydict \<Rightarrow> bool result" where
  "identity_matches targets chunk =
     (let chunk_id = py_str (dget_or chunk ''chunk_id'' (PStr [])) in
      if chunk_id \<noteq> [] then Inr (chunk_id \<in> set (chunk_ids targets))
      else bind_result (chunk_index_from_payload chunk) (\<lambda>i.
        Inr (case i of None \<Rightarrow> False | Some n \<Rightarrow> n \<in> set (chunk_indexes targets))))"

definition index_chunk_ids_by_chunk_index :: "string list \<Rightarrow> (int \<times> string) list result" where
  "index_chunk_ids_by_chunk_index ids =
     fold_result (\<lambda>cid out. bind_result (chunk_index_from_chunk_id cid) (\<lambda>i.
        Inr (case i of
               None \<Rightarrow> out
             | Some n \<Rightarrow> (if map_of out n = None then out @ [(n, cid)] else out)))) ids []"

definition update_chunk :: "identity_set \<Rightarrow> (int \<times> string) list \<Rightarrow> index_state \<Rightarrow> pyval \<Rightarrow> pyval result" where
  "update_chunk targets by_index state item =
     (case item of
        PDict chunk \<Rightarrow>
          bind_result (identity_matches targets chunk) (\<lambda>hit.
          if \<not> hit then Inr item
          else bind_result (chunk_index_from_payload chunk) (\<lambda>i.
            let chunk' = (if truthy (dget_none chunk ''chunk_id'') then chunk
                  else case i of
                         None \<Rightarrow> chunk
                       | Some n \<Rightarrow> (case map_of by_index n of
                             None \<Rightarrow> chunk
                           | Some cid \<Rightarrow> dset chunk ''chunk_id'' (PStr cid)))
            in Inr (PDict (dset chunk' ''index_state'' (PStr (state_value state))))))
      | _ \<Rightarrow> Inr item)"

definition update_index_chunks_payload :: "pydict \<Rightarrow> string list \<Rightarrow> index_state \<Rightarrow> pydict result" where
  "update_index_chunks_payload c ids state =
     (let metadata = (case dget_none c ''metadata'' of PDict m \<Rightarrow> m | _ \<Rightarrow> []) in
      case dget_none metadata ''index_chunks'' of
        PList items \<Rightarrow>
          bind_result (from_chunk_ids ids) (\<lambda>targets.
          bind_result (index_chunk_ids_by_chunk_index ids) (\<lambda>by_index.
          bind_result (map_result (update_chunk targets by_index state) items) (\<lambda>items'.
          Inr (dset c ''metadata'' (PDict (dset metadata ''index_chunks'' (PList items')))))))
      | _ \<Rightarrow> Inr (dset c ''metadata'' (PDict metadata)))"

section \<open>The store operations\<close>

definition is_fully_indexed :: "pyval \<Rightarrow> mem_db \<Rightarrow> bool result" where
  "is_fully_indexed conversation_id db =
     bind_result (validate_memory_id conversation_id) (\<lambda>v.
     let rows = filter (\<lambda>h. h_conv h = v) (chunks db) in
     Inr (rows \<noteq> [] \<and> length rows = length (filter (\<lambda>h. h_state h = ''indexed'') rows)))"

definition sync_index_chunk_payload_state ::
    "string \<Rightarrow> string list \<Rightarrow> index_state \<Rightarrow> mem_db \<Rightarrow> mem_db result" where
  "sync_index_chunk_payload_state memory_id ids state db =
     (case tbl_get cv_id memory_id (conversations db) of
        None \<Rightarrow> Inr db
      | Some row \<Rightarrow>
          bind_result (update_index_chunks_payload (cv_payload row) ids state) (\<lambda>payload.
          Inr (db\<lparr>conversations := tbl_update (\<lambda>r. cv_id r = memory_id)
                   (\<lambda>r. r\<lparr>cv_payload := payload\<rparr>) (conversations db)\<rparr>)))"

definition mark_chunks_state :: "pyval \<Rightarrow> string list \<Rightarrow> index_state \<Rightarrow> mem_db \<Rightarrow> unit mem_result" where
  "mark_chunks_state memory_id ids state db =
     bind_result (validate_memory_id memory_id) (\<lambda>v.
     let db1 = fold (\<lambda>cid db. db\<lparr>chunks := tbl_update (\<lambda>h. h_conv h = v \<and> h_id h = cid)
                  (\<lambda>h. h\<lparr>h_state := state_value state\<rparr>) (chunks db)\<rparr>) ids db in
     bind_result (sync_index_chunk_payload_state v ids state db1) (\<lambda>db2. Inr ((), db2)))"

definition mark_chunks_indexed :: "pyval \<Rightarrow> string list \<Rightarrow> mem_db \<Rightarrow> unit mem_result" where
  "mark_chunks_indexed memory_id ids db = mark_chunks_state memory_id ids Indexed db"

definition mark_chunks_indexing_failed :: "pyval \<Rightarrow> string list \<Rightarrow> mem_db \<Rightarrow> unit mem_result" where
  "mark_chunks_indexing_failed memory_id ids db = mark_chunks_state memory_id ids Failed db"

section \<open>Lemmas\<close>

lemma state_value_known: "state_value s \<in> set index_states"
  by (cases s) (auto simp: index_states_def)

lemma normalize_state_value: "normalize_index_state (state_value s) = Inr s"
  by (cases s) (auto simp: normalize_index_state_def)

lemma fold_mark_chunks:
  "chunks (fold (\<lambda>cid db. db\<lparr>chunks := tbl_update (\<lambda>h. h_conv h = v \<and> h_id h = cid)
       (\<lambda>h. h\<lparr>h_state := st\<rparr>) (chunks db)\<rparr>) ids db) =
     tbl_update (\<lambda>h. h_conv h = v \<and> h_id h \<in> set ids) (\<lambda>h. h\<lparr>h_state := st\<rparr>) (chunks db)"
  by (induction ids arbitrary: db) (auto simp: tbl_update_def)

lemma fold_mark_other:
  "conversations (fold (\<lambda>cid db. db\<lparr>chunks := g cid db\<rparr>) ids db) = conversations db"
  "accounts (fold (\<lambda>cid db. db\<lparr>chunks := g cid db\<rparr>) ids db) = accounts db"
  "messages (fold (\<lambda>cid db. db\<lparr>chunks := g cid db\<rparr>) ids db) = messages db"
  by (induction ids arbitrary: db) auto

lemma mark_chunks_rows:
  assumes "mark_chunks_state i ids st db = Inr ((), db')"
  obtains v where "validate_memory_id i = Inr v" "accounts db' = accounts db" "messages db' = messages db"
    "chunks db' = tbl_update (\<lambda>h. h_conv h = v \<and> h_id h \<in> set ids)
       (\<lambda>h. h\<lparr>h_state := state_value st\<rparr>) (chunks db)"
    "conversations db' = conversations db \<or> (\<exists>payload. conversations db' =
       tbl_update (\<lambda>r. cv_id r = v) (\<lambda>r. r\<lparr>cv_payload := payload\<rparr>) (conversations db))"
  using assms
  by (auto simp: mark_chunks_state_def sync_index_chunk_payload_state_def Let_def result_simps
      fold_mark_chunks fold_mark_other) blast

end
