(* ===== verification/ThreadModels.thy ===== *)
theory ThreadModels
  imports ChunkState
begin

text \<open>
  Thread, provenance and session identities of a conversation
  (\<^verbatim>\<open>memory/ingestion/thread_models.py\<close>, \<^verbatim>\<open>memory/ingestion/imported_session.py\<close> and the
  helpers of \<^verbatim>\<open>memory/ingestion/mvp_ingestion.py\<close> that write them into the metadata).

  The type checks that the third-party models perform on a declared field are arguments of the
  environment: \<open>ie_opt_str n\<close> is the check of \<open>str | None\<close> with \<open>max_length\<close> n,
  \<open>ie_client_str\<close> the same with the pattern of \<open>source_client\<close>, \<open>ie_str_list\<close> that of
  \<open>list[str]\<close>. The validators of the sources are translated.
\<close>

record ingest_env =
  ie_store :: store_env
  ie_opt_str :: "nat \<Rightarrow> pyval \<Rightarrow> string option result"
  ie_client_str :: "pyval \<Rightarrow> string option result"
  ie_str_list :: "pyval \<Rightarrow> string list result"
  ie_schema_ok :: "pydict \<Rightarrow> unit result" \<comment> \<open>the compiled JSON schema\<close>

section \<open>Thread metadata\<close>

record thread_metadata =
  tm_thread_id :: "string option"
  tm_upstream :: "string option"
  tm_parent :: "string option"
  tm_related :: "string list"

definition blank_strings_to_none :: "pyval \<Rightarrow> pyval" where
  "blank_strings_to_none v =
     (case v of PStr s \<Rightarrow> (if py_strip s = [] then PNone else PStr (py_strip s)) | _ \<Rightarrow> v)"

definition validate_uuid :: "string \<Rightarrow> unit result" where
  "validate_uuid s =
     guard_result (py_uuid_ok s) (ValueError ''conversation reference ids must be valid UUIDs'')"

definition validate_parent_conversation_id :: "string option \<Rightarrow> string option result" where
  "validate_parent_conversation_id v =
     (case v of None \<Rightarrow> Inr None | Some s \<Rightarrow> bind_result (validate_uuid s) (\<lambda>_. Inr v))"

definition validate_related_conversation_ids :: "string list \<Rightarrow> string list result" where
  "validate_related_conversation_ids items =
     fold_result (\<lambda>item related.
       let i = py_strip item in
       if i = [] then Inr related
       else bind_result (validate_uuid i) (\<lambda>_.
         Inr (if i \<in> set related then related else related @ [i]))) items []"

definition thread_metadata_from_mapping :: "ingest_env \<Rightarrow> pydict \<Rightarrow> thread_metadata result" where
  "thread_metadata_from_mapping env m =
     bind_result (ie_opt_str env 512 (blank_strings_to_none (dget_none m ''thread_id''))) (\<lambda>tid.
     bind_result (ie_opt_str env 256 (blank_strings_to_none (dget_none m ''upstream_thread_id''))) (\<lambda>up.
     bind_result (ie_opt_str env 128 (blank_strings_to_none (dget_none m ''parent_conversation_id''))) (\<lambda>par.
     bind_result (validate_parent_conversation_id par) (\<lambda>par'.
     bind_result (case dget_none m ''related_conversation_ids'' of
         PNone \<Rightarrow> Inr [] | v \<Rightarrow> ie_str_list env v) (\<lambda>items.
     bind_result (validate_related_conversation_ids items) (\<lambda>related.
     Inr \<lparr>tm_thread_id = tid, tm_upstream = up, tm_parent = par', tm_related = related\<rparr>))))))"

definition opt_item :: "string \<Rightarrow> string option \<Rightarrow> pydict" where
  "opt_item k v = (case v of None \<Rightarrow> [] | Some s \<Rightarrow> [(k, PStr s)])"

definition to_metadata_update :: "thread_metadata \<Rightarrow> pydict" where
  "to_metadata_update t =
     opt_item ''thread_id'' (tm_thread_id t) @ opt_item ''upstream_thread_id'' (tm_upstream t)
     @ opt_item ''parent_conversation_id'' (tm_parent t)
     @ (if tm_related t \<noteq> [] then [(''related_conversation_ids'', PList (map PStr (tm_related t)))] else [])"

definition thread_keys :: "string list" where
  "thread_keys = [''thread_id'', ''upstream_thread_id'', ''parent_conversation_id'', ''related_conversation_ids'']"

definition derived_thread_id :: "string \<Rightarrow> string \<Rightarrow> string" where
  "derived_thread_id source upstream =
     (if py_strip source = [] then ''unknown'' else py_strip source) @ '':'' @ upstream"

text \<open>Updates the metadata of a conversation, when it is a dictionary.\<close>

definition with_metadata :: "pydict \<Rightarrow> (pydict \<Rightarrow> pydict result) \<Rightarrow> pydict result" where
  "with_metadata c f =
     (case dget_none c ''metadata'' of
        PDict m \<Rightarrow> bind_result (f m) (\<lambda>m'. Inr (dset c ''metadata'' (PDict m')))
      | _ \<Rightarrow> Inr c)"

definition normalize_thread_metadata :: "ingest_env \<Rightarrow> pydict \<Rightarrow> pydict result" where
  "normalize_thread_metadata env c =
     with_metadata c (\<lambda>m.
     bind_result (thread_metadata_from_mapping env m) (\<lambda>t.
     let t' = (case (tm_thread_id t, tm_upstream t) of
           (None, Some (x # xs)) \<Rightarrow>
             t\<lparr>tm_thread_id := Some (derived_thread_id (py_str (dget_or c ''source'' (PStr []))) (x # xs))\<rparr>
         | _ \<Rightarrow> t)
     in Inr (dupdate (dpop_all m thread_keys) (to_metadata_update t'))))"

section \<open>Handoff provenance\<close>

definition reject_control_characters :: "string option \<Rightarrow> string option result" where
  "reject_control_characters v =
     (case v of
        None \<Rightarrow> Inr None
      | Some s \<Rightarrow>
          bind_result (guard_result (\<not> list_ex (\<lambda>c. chr_in 0 31 c \<or> chr_in 127 127 c) s)
            (ValueError ''metadata.source_session_id must not contain control characters'')) (\<lambda>_. Inr v))"

definition handoff_provenance_update :: "ingest_env \<Rightarrow> pydict \<Rightarrow> pydict result" where
  "handoff_provenance_update env m =
     bind_result (ie_client_str env (blank_strings_to_none (dget_none m ''source_client''))) (\<lambda>client.
     bind_result (ie_opt_str env 512 (blank_strings_to_none (dget_none m ''source_session_id''))) (\<lambda>s.
     bind_result (reject_control_characters s) (\<lambda>session.
     Inr (opt_item ''source_client'' client @ opt_item ''source_session_id'' session))))"

definition normalize_handoff_provenance :: "ingest_env \<Rightarrow> pydict \<Rightarrow> pydict result" where
  "normalize_handoff_provenance env c =
     with_metadata c (\<lambda>m.
     bind_result (handoff_provenance_update env m) (\<lambda>upd.
     Inr (dupdate (dpop_all m [''source_client'', ''source_session_id'']) upd)))"

section \<open>Merging the thread of an append\<close>

definition str_items :: "pyval \<Rightarrow> string list" where
  "str_items v = (case v of PList xs \<Rightarrow> List.map_filter as_str xs | _ \<Rightarrow> [])"

definition unique_strings :: "string list \<Rightarrow> string list" where
  "unique_strings xs = unique_in_order [] (filter (\<lambda>x. x \<noteq> []) xs)"

definition merge_thread_key :: "pydict \<Rightarrow> string \<Rightarrow> pydict \<Rightarrow> pydict" where
  "merge_thread_key incoming k target =
     (case dget incoming k of
        Some (PStr s) \<Rightarrow> (if dhas target k then target else dset target k (PStr s))
      | _ \<Rightarrow> target)"

definition merge_thread_metadata :: "pydict \<Rightarrow> pydict \<Rightarrow> pydict" where
  "merge_thread_metadata target incoming =
     (let t = fold (merge_thread_key incoming)
                [''thread_id'', ''upstream_thread_id'', ''parent_conversation_id''] target;
          related = str_items (dget_none t ''related_conversation_ids'')
                    @ str_items (dget_none incoming ''related_conversation_ids'')
      in if related \<noteq> []
         then dset t ''related_conversation_ids'' (PList (map PStr (unique_strings related)))
         else t)"

section \<open>The identity of an imported session\<close>

text \<open>
  \<open>str.casefold\<close> on the code points up to U+00FF: it is \<open>str.lower\<close> except that U+00DF
  becomes \<open>ss\<close>. U+00B5 becomes U+03BC, which is outside the model; nothing else becomes it, so
  U+00B5 stands for it here. The result is only hashed.
\<close>

definition py_casefold :: "string \<Rightarrow> string" where
  "py_casefold s = concat (map (\<lambda>c. if chr_in 223 223 c then ''ss'' else [py_lower_char c]) s)"

definition derive_imported_session_identity ::
    "(string \<Rightarrow> string) \<Rightarrow> string \<Rightarrow> string \<Rightarrow> pydict \<Rightarrow> string option" where
  "derive_imported_session_identity sha256 source project_id m =
     (case (dget_none m ''import_parser'', dget_none m ''source_session_id'') of
        (PStr parser, PStr session) \<Rightarrow>
          (if py_strip parser = [] \<or> py_strip session = [] then None
           else Some (''sha256:'' @ sha256 (join_with [CHR 0x00]
             [''v1'', py_strip project_id, py_casefold (py_strip source),
              py_casefold (py_strip parser), py_strip session])))
      | _ \<Rightarrow> None)"

definition stamp_imported_session_identity :: "ingest_env \<Rightarrow> pydict \<Rightarrow> pydict" where
  "stamp_imported_session_identity env c =
     (case dget_none c ''metadata'' of
        PDict m \<Rightarrow>
          (case dget_none m ''project_id'' of
             PStr (x # xs) \<Rightarrow>
               dset c ''metadata'' (PDict
                 (case derive_imported_session_identity (env_sha256 (ie_store env))
                         (py_str (dget_or c ''source'' (PStr []))) (x # xs) m of
                    None \<Rightarrow> dpop m ''imported_session_identity''
                  | Some i \<Rightarrow> dset m ''imported_session_identity'' (PStr i)))
           | _ \<Rightarrow> c)
      | _ \<Rightarrow> c)"

end
