(* ===== verification/MemoryAccess.thy ===== *)
theory MemoryAccess
  imports ThreadModels
begin

text \<open>
  Who may see which memory, and the lineage of a memory
  (\<^verbatim>\<open>memory/ingestion/mvp_ingestion.py\<close>). The \<open>conversation\<close> arguments that the code declares
  \<open>Any\<close> are options here: \<open>None\<close> is a value that is not a dictionary.
\<close>

section \<open>Scope and status\<close>

definition conv_meta :: "pydict option \<Rightarrow> pydict option" where
  "conv_meta c = (case c of None \<Rightarrow> None | Some d \<Rightarrow> metadata_of d)"

definition owner_id_from_conversation :: "pydict option \<Rightarrow> string option" where
  "owner_id_from_conversation c =
     (case conv_meta c of None \<Rightarrow> None | Some m \<Rightarrow> opt_str (dget_none m ''owner_id''))"

definition conversation_owner_matches :: "pydict option \<Rightarrow> string option \<Rightarrow> bool" where
  "conversation_owner_matches c owner_id =
     (owner_id = None \<or> owner_id_from_conversation c = owner_id)"

definition project_id_from_conversation :: "pydict option \<Rightarrow> string option" where
  "project_id_from_conversation c =
     (case conv_meta c of None \<Rightarrow> None | Some m \<Rightarrow> opt_str (dget_none m ''project_id''))"

definition conversation_project_matches :: "pydict option \<Rightarrow> string option \<Rightarrow> bool" where
  "conversation_project_matches c project_id =
     (if project_id = None then True
      else if project_id_from_conversation c = None \<and> project_id = Some LOCAL_DEFAULT_PROJECT_ID then True
      else project_id_from_conversation c = project_id)"

definition memory_status :: "pydict option \<Rightarrow> string" where
  "memory_status c =
     (case conv_meta c of
        None \<Rightarrow> ''active''
      | Some m \<Rightarrow> (case opt_str (dget_none m ''memory_status'') of None \<Rightarrow> ''active'' | Some s \<Rightarrow> s))"

definition conversation_is_active :: "pydict option \<Rightarrow> bool" where
  "conversation_is_active c = (memory_status c = ''active'')"

definition conversation_authorized :: "pydict option \<Rightarrow> string option \<Rightarrow> string option \<Rightarrow> bool" where
  "conversation_authorized c owner_id project_id =
     (if project_id \<noteq> None then conversation_project_matches c project_id
      else conversation_owner_matches c owner_id \<and> conversation_project_matches c project_id)"

definition conversation_allowed :: "pydict option \<Rightarrow> string option \<Rightarrow> string option \<Rightarrow> bool" where
  "conversation_allowed c owner_id project_id =
     (conversation_authorized c owner_id project_id \<and> conversation_is_active c)"

definition MEMORY_STATUS_VALUES :: "string list" where
  "MEMORY_STATUS_VALUES = [''active'', ''pending_review'', ''quarantined'', ''rejected'', ''all'']"

definition REVIEWABLE_MEMORY_STATUSES :: "string list" where
  "REVIEWABLE_MEMORY_STATUSES = [''pending_review'', ''quarantined'']"

definition validate_memory_status_filter :: "string option \<Rightarrow> string result" where
  "validate_memory_status_filter status =
     (let normalized = py_lower (case status of Some (x # xs) \<Rightarrow> x # xs | _ \<Rightarrow> ''active'') in
      if normalized \<in> set MEMORY_STATUS_VALUES then Inr normalized
      else Inl (ValueError (''memory_status must be one of: '' @ join_with '', '' (sort MEMORY_STATUS_VALUES))))"

definition conversation_visible ::
    "pydict option \<Rightarrow> string option \<Rightarrow> string option \<Rightarrow> string option \<Rightarrow> bool result" where
  "conversation_visible c owner_id project_id status =
     (if \<not> conversation_authorized c owner_id project_id then Inr False
      else bind_result (validate_memory_status_filter status) (\<lambda>st.
        Inr (st = ''all'' \<or> memory_status c = st)))"

section \<open>Facts\<close>

definition fact_owner_matches :: "pydict option \<Rightarrow> string option \<Rightarrow> bool" where
  "fact_owner_matches f owner_id =
     (case owner_id of
        None \<Rightarrow> True
      | Some w \<Rightarrow> (case f of None \<Rightarrow> False | Some d \<Rightarrow> py_str (dget_or d ''owner_id'' (PStr [])) = w))"

definition fact_project_matches :: "pydict option \<Rightarrow> string option \<Rightarrow> bool" where
  "fact_project_matches f project_id =
     (case project_id of
        None \<Rightarrow> True
      | Some p \<Rightarrow>
          (case f of
             None \<Rightarrow> False
           | Some d \<Rightarrow>
               dget_none d ''project_id'' = PNone \<and> p = LOCAL_DEFAULT_PROJECT_ID
               \<or> py_str (dget_none d ''project_id'') = p))"

definition fact_allowed :: "pydict option \<Rightarrow> string option \<Rightarrow> string option \<Rightarrow> bool" where
  "fact_allowed f owner_id project_id =
     (if project_id \<noteq> None then fact_project_matches f project_id
      else fact_owner_matches f owner_id \<and> fact_project_matches f project_id)"

section \<open>Lineage\<close>

definition conv_id :: "pydict \<Rightarrow> string" where
  "conv_id c = py_str (dget_or c ''id'' (PStr []))"

definition lineage_parent_id :: "pydict option \<Rightarrow> string option" where
  "lineage_parent_id c =
     (case c of
        None \<Rightarrow> None
      | Some d \<Rightarrow>
          (case dget_none d ''metadata'' of
             PDict m \<Rightarrow>
               (let v = dget_none m ''parent_conversation_id'' in
                if truthy v then Some (py_str v) else None)
           | _ \<Rightarrow> None))"

definition MAX_LINEAGE_DEPTH :: nat where
  "MAX_LINEAGE_DEPTH = 16"

definition MAX_LINEAGE_VALIDATION_DEPTH :: nat where
  "MAX_LINEAGE_VALIDATION_DEPTH = 1024"

type_synonym memory_get = "string \<Rightarrow> pydict option result"

record lineage =
  lin_ancestors :: "string list"
  lin_truncated :: bool
  lin_missing_history :: bool
  lin_cycle_detected :: bool

text \<open>
  The loop of \<open>_lineage_view\<close>. The first argument counts the ancestors that may still be added,
  so the loop ends when it is zero.
\<close>

fun lineage_walk ::
    "nat \<Rightarrow> memory_get \<Rightarrow> string option \<Rightarrow> string option \<Rightarrow> string list \<Rightarrow> string list \<Rightarrow>
     string option \<Rightarrow> lineage result" where
  "lineage_walk 0 get owner_id project_id visited ancestors parent =
     Inr \<lparr>lin_ancestors = ancestors, lin_truncated = (parent \<noteq> None), lin_missing_history = False,
          lin_cycle_detected = False\<rparr>"
| "lineage_walk (Suc n) get owner_id project_id visited ancestors parent =
     (case parent of
        None \<Rightarrow> Inr \<lparr>lin_ancestors = ancestors, lin_truncated = False, lin_missing_history = False,
                     lin_cycle_detected = False\<rparr>
      | Some p \<Rightarrow>
          if p \<in> set visited
          then Inr \<lparr>lin_ancestors = ancestors, lin_truncated = False, lin_missing_history = False,
                    lin_cycle_detected = True\<rparr>
          else bind_result (get p) (\<lambda>found.
            if \<not> conversation_authorized found owner_id project_id
            then Inr \<lparr>lin_ancestors = ancestors, lin_truncated = False, lin_missing_history = True,
                      lin_cycle_detected = False\<rparr>
            else lineage_walk n get owner_id project_id (p # visited) (ancestors @ [p])
                   (lineage_parent_id found)))"

definition lineage_view :: "memory_get \<Rightarrow> pydict \<Rightarrow> string option \<Rightarrow> string \<Rightarrow> lineage result" where
  "lineage_view get c owner_id project_id =
     lineage_walk MAX_LINEAGE_DEPTH get owner_id (Some project_id) [conv_id c] [] (lineage_parent_id (Some c))"

text \<open>The loop of \<open>_validate_lineage_parent\<close> over at most \<open>MAX_LINEAGE_VALIDATION_DEPTH\<close> memories.\<close>

fun validate_lineage_walk ::
    "nat \<Rightarrow> memory_get \<Rightarrow> string option \<Rightarrow> string option \<Rightarrow> string list \<Rightarrow> pydict \<Rightarrow> unit result" where
  "validate_lineage_walk 0 get owner_id project_id visited current =
     Inl (ValueError ''lineage_depth_exceeded: lineage exceeds 1024 ancestors'')"
| "validate_lineage_walk (Suc n) get owner_id project_id visited current =
     (if conv_id current \<in> set visited
      then Inl (ValueError ''lineage_cycle: parent lineage contains a cycle'')
      else case lineage_parent_id (Some current) of
        None \<Rightarrow> Inr ()
      | Some a \<Rightarrow>
          bind_result (get a) (\<lambda>found.
          case found of
            None \<Rightarrow> Inl (ValueError ''lineage_history_missing: parent lineage is incomplete'')
          | Some c \<Rightarrow>
              if \<not> conversation_authorized (Some c) owner_id project_id
              then Inl (ValueError ''lineage_history_not_accessible: parent lineage leaves the authorized project'')
              else validate_lineage_walk n get owner_id project_id (conv_id current # visited) c))"

definition validate_lineage_parent :: "memory_get \<Rightarrow> pydict \<Rightarrow> string option \<Rightarrow> string \<Rightarrow> unit result" where
  "validate_lineage_parent get c owner_id project_id =
     (case lineage_parent_id (Some c) of
        None \<Rightarrow> Inr ()
      | Some p \<Rightarrow>
          if p = conv_id c
          then Inl (ValueError ''lineage_self_link: a memory cannot reference itself as parent'')
          else bind_result (get p) (\<lambda>found.
            case found of
              None \<Rightarrow> Inl (ValueError ''lineage_parent_not_found: parent memory does not exist'')
            | Some d \<Rightarrow>
                if \<not> conversation_authorized (Some d) owner_id (Some project_id)
                then Inl (ValueError ''lineage_parent_not_accessible: parent memory is outside the authorized project'')
                else validate_lineage_walk MAX_LINEAGE_VALIDATION_DEPTH get owner_id (Some project_id)
                       [conv_id c] d))"

end
