(* ===== verification/AuthInvariant.thy ===== *)
theory AuthInvariant
  imports ProjectStore
begin

text \<open>
  The well-formedness invariant of the account tables (\<open>auth_db_ok\<close>: primary keys, unique
  indexes, role check, normalised scopes) is kept by every operation of \<open>AuthStore\<close>,
  \<open>OAuthStore\<close> and \<open>ProjectStore\<close>. Every \<open>ON CONFLICT DO UPDATE\<close> clause of the store is an
  instance of the \<open>keyed_table\<close> contract.
\<close>

section \<open>The upserts of the store meet the keyed-table contract\<close>

interpretation user_name: keyed_table u_id user_merge_name
  by unfold_locales (simp add: user_merge_name_def)

interpretation user_enable: keyed_table u_id user_merge_enable
  by unfold_locales (simp add: user_merge_enable_def)

interpretation user_keep: keyed_table u_id "keep_old :: user_row \<Rightarrow> _"
  by unfold_locales (simp add: keep_old_def)

interpretation family_keep: keyed_table f_id "keep_old :: family_row \<Rightarrow> _"
  by unfold_locales (simp add: keep_old_def)

interpretation token_up: keyed_table t_hash token_merge
  by unfold_locales (simp add: token_merge_def)

interpretation identity_up: keyed_table identity_key "identity_merge now"
  by unfold_locales (simp add: identity_merge_def identity_key_def)

interpretation session_up: keyed_table s_hash session_merge
  by unfold_locales (simp add: session_merge_def)

interpretation client_up: keyed_table c_id client_merge
  by unfold_locales (simp add: client_merge_def)

interpretation member_up: keyed_table member_key member_merge
  by unfold_locales (simp add: member_merge_def member_key_def)

interpretation project_default_up: keyed_table pr_id "project_merge_default now"
  by unfold_locales (simp add: project_merge_default_def)

interpretation project_all_up: keyed_table pr_id "project_merge_all now"
  by unfold_locales (simp add: project_merge_all_def)

section \<open>One table at a time\<close>

named_theorems db_ok_intros \<open>replacing one table keeps the invariant\<close>

lemma ok_users [db_ok_intros]:
  "auth_db_ok db \<Longrightarrow> distinct (map u_id rows) \<Longrightarrow> auth_db_ok (db\<lparr>users := rows\<rparr>)"
  by (simp add: auth_db_ok_def)

lemma ok_tokens [db_ok_intros]:
  "auth_db_ok db \<Longrightarrow> distinct (map t_hash rows) \<Longrightarrow> token_ids_unique rows \<Longrightarrow>
     list_all (\<lambda>t. scopes_ok (t_scopes t)) rows \<Longrightarrow> auth_db_ok (db\<lparr>auth_tokens := rows\<rparr>)"
  by (simp add: auth_db_ok_def)

lemma ok_identities [db_ok_intros]:
  "auth_db_ok db \<Longrightarrow> distinct (map identity_key rows) \<Longrightarrow> auth_db_ok (db\<lparr>oauth_identities := rows\<rparr>)"
  by (simp add: auth_db_ok_def)

lemma ok_sessions [db_ok_intros]:
  "auth_db_ok db \<Longrightarrow> distinct (map s_hash rows) \<Longrightarrow> auth_db_ok (db\<lparr>web_sessions := rows\<rparr>)"
  by (simp add: auth_db_ok_def)

lemma ok_clients [db_ok_intros]:
  "auth_db_ok db \<Longrightarrow> distinct (map c_id rows) \<Longrightarrow> auth_db_ok (db\<lparr>oauth_clients := rows\<rparr>)"
  by (simp add: auth_db_ok_def)

lemma ok_refresh [db_ok_intros]:
  "auth_db_ok db \<Longrightarrow> distinct (map r_hash rows) \<Longrightarrow>
     list_all (\<lambda>r. scopes_ok (r_scopes r)) rows \<Longrightarrow> auth_db_ok (db\<lparr>oauth_refresh_tokens := rows\<rparr>)"
  by (simp add: auth_db_ok_def)

lemma ok_families [db_ok_intros]:
  "auth_db_ok db \<Longrightarrow> distinct (map f_id rows) \<Longrightarrow>
     auth_db_ok (db\<lparr>oauth_refresh_token_families := rows\<rparr>)"
  by (simp add: auth_db_ok_def)

lemma ok_codes [db_ok_intros]:
  "auth_db_ok db \<Longrightarrow> distinct (map k_hash rows) \<Longrightarrow>
     auth_db_ok (db\<lparr>oauth_authorization_codes := rows\<rparr>)"
  by (simp add: auth_db_ok_def)

lemma ok_pstates [db_ok_intros]:
  "auth_db_ok db \<Longrightarrow> distinct (map p_hash rows) \<Longrightarrow>
     auth_db_ok (db\<lparr>oauth_provider_states := rows\<rparr>)"
  by (simp add: auth_db_ok_def)

lemma ok_projects [db_ok_intros]:
  "auth_db_ok db \<Longrightarrow> distinct (map pr_id rows) \<Longrightarrow> default_projects_unique rows \<Longrightarrow>
     auth_db_ok (db\<lparr>projects := rows\<rparr>)"
  by (simp add: auth_db_ok_def)

lemma ok_members [db_ok_intros]:
  "auth_db_ok db \<Longrightarrow> distinct (map member_key rows) \<Longrightarrow>
     list_all (\<lambda>m. project_role_order (m_role m) \<noteq> None) rows \<Longrightarrow>
     auth_db_ok (db\<lparr>project_memberships := rows\<rparr>)"
  by (simp add: auth_db_ok_def)

lemma auth_db_okD:
  assumes "auth_db_ok db"
  shows "distinct (map u_id (users db))" "distinct (map t_hash (auth_tokens db))"
    "token_ids_unique (auth_tokens db)" "list_all (\<lambda>t. scopes_ok (t_scopes t)) (auth_tokens db)"
    "distinct (map identity_key (oauth_identities db))" "distinct (map s_hash (web_sessions db))"
    "distinct (map c_id (oauth_clients db))" "distinct (map r_hash (oauth_refresh_tokens db))"
    "list_all (\<lambda>r. scopes_ok (r_scopes r)) (oauth_refresh_tokens db)"
    "distinct (map f_id (oauth_refresh_token_families db))"
    "distinct (map k_hash (oauth_authorization_codes db))"
    "distinct (map p_hash (oauth_provider_states db))"
    "distinct (map pr_id (projects db))" "default_projects_unique (projects db)"
    "distinct (map member_key (project_memberships db))"
    "list_all (\<lambda>m. project_role_order (m_role m) \<noteq> None) (project_memberships db)"
  using assms by (simp_all add: auth_db_ok_def)

lemma map_filter_tbl_update:
  "(\<And>r. g (f r) = g r) \<Longrightarrow> List.map_filter g (tbl_update p f rows) = List.map_filter g rows"
  by (induction rows) (auto simp: tbl_update_def List.map_filter_def)

lemma token_ids_unique_update:
  "(\<And>t. t_id (f t) = t_id t) \<Longrightarrow> token_ids_unique rows \<Longrightarrow> token_ids_unique (tbl_update p f rows)"
  by (simp add: token_ids_unique_def map_filter_tbl_update)

lemma list_all_tbl_update:
  "list_all q rows \<Longrightarrow> (\<And>r. q r \<Longrightarrow> q (f r)) \<Longrightarrow> list_all q (tbl_update p f rows)"
  by (auto simp: list_all_iff set_tbl_update)

text \<open>Rewriting columns other than the keys and the scopes keeps the invariant.\<close>

lemma ok_token_update:
  assumes "auth_db_ok db"
    and "\<And>t. t_hash (f t) = t_hash t" "\<And>t. t_id (f t) = t_id t" "\<And>t. t_scopes (f t) = t_scopes t"
  shows "auth_db_ok (db\<lparr>auth_tokens := tbl_update p f (auth_tokens db)\<rparr>)"
  using assms auth_db_okD [OF assms(1)]
  by (intro ok_tokens) (auto simp: map_key_tbl_update intro!: token_ids_unique_update list_all_tbl_update)

lemma ok_refresh_update:
  assumes "auth_db_ok db" "\<And>r. r_hash (f r) = r_hash r" "\<And>r. r_scopes (f r) = r_scopes r"
  shows "auth_db_ok (db\<lparr>oauth_refresh_tokens := tbl_update p f (oauth_refresh_tokens db)\<rparr>)"
  using assms auth_db_okD [OF assms(1)]
  by (intro ok_refresh) (auto simp: map_key_tbl_update intro!: list_all_tbl_update)

lemma ok_session_update:
  "auth_db_ok db \<Longrightarrow> (\<And>s. s_hash (f s) = s_hash s) \<Longrightarrow>
     auth_db_ok (db\<lparr>web_sessions := tbl_update p f (web_sessions db)\<rparr>)"
  by (intro ok_sessions) (auto simp: map_key_tbl_update auth_db_okD)

lemma ok_code_update:
  "auth_db_ok db \<Longrightarrow> (\<And>s. k_hash (f s) = k_hash s) \<Longrightarrow>
     auth_db_ok (db\<lparr>oauth_authorization_codes := tbl_update p f (oauth_authorization_codes db)\<rparr>)"
  by (intro ok_codes) (auto simp: map_key_tbl_update auth_db_okD)

lemma ok_pstate_update:
  "auth_db_ok db \<Longrightarrow> (\<And>s. p_hash (f s) = p_hash s) \<Longrightarrow>
     auth_db_ok (db\<lparr>oauth_provider_states := tbl_update p f (oauth_provider_states db)\<rparr>)"
  by (intro ok_pstates) (auto simp: map_key_tbl_update auth_db_okD)

lemma ok_user_upserts:
  assumes "auth_db_ok db"
  shows "auth_db_ok (db\<lparr>users := tbl_upsert u_id user_merge_name new (users db)\<rparr>)"
    "auth_db_ok (db\<lparr>users := tbl_upsert u_id user_merge_enable new (users db)\<rparr>)"
    "auth_db_ok (db\<lparr>users := tbl_upsert u_id keep_old new (users db)\<rparr>)"
  using assms auth_db_okD(1) [OF assms]
  by (auto intro!: ok_users user_name.distinct_upsert user_enable.distinct_upsert
      user_keep.distinct_upsert simp del: distinct_map)

section \<open>Memberships and default projects\<close>

lemma member_upsert_roles:
  assumes "list_all (\<lambda>m. project_role_order (m_role m) \<noteq> None) rows" "project_role_order (m_role new) \<noteq> None"
  shows "list_all (\<lambda>m. project_role_order (m_role m) \<noteq> None) (tbl_upsert member_key member_merge new rows)"
  using assms by (induction rows) (auto simp: member_merge_def)

lemma ok_upsert_project_membership:
  assumes "auth_db_ok db" "project_role_order role \<noteq> None"
  shows "auth_db_ok (upsert_project_membership now project_id user_id role db)"
  unfolding upsert_project_membership_def
  using assms auth_db_okD(15,16) [OF assms(1)]
  by (intro ok_members member_up.distinct_upsert member_upsert_roles) auto

lemma ok_upsert_default_project:
  assumes "auth_db_ok db" "upsert_default_project now row db = Inr db'"
  shows "auth_db_ok db'"
  using assms auth_db_okD(13) [OF assms(1)]
  by (auto simp: upsert_default_project_def Let_def split: if_splits
      intro!: ok_projects project_default_up.distinct_upsert simp del: distinct_map)

lemma role_known: "project_role_order ''admin'' \<noteq> None"
  by (simp add: project_role_order_def)

lemma ok_ensure_default_project_row:
  assumes ok: "auth_db_ok db" and run: "ensure_default_project_row env now owner_id db = Inr (x, db')"
  shows "auth_db_ok db'"
proof (cases owner_id)
  case None
  with run ok show ?thesis
    by (auto simp: ensure_default_project_row_def result_simps intro: ok_upsert_default_project)
next
  case (Some owner)
  have ok1: "auth_db_ok (db\<lparr>users := tbl_upsert u_id keep_old (new_user now owner (Some owner)) (users db)\<rparr>)"
    using ok by (rule ok_user_upserts)
  from run Some show ?thesis
    by (auto simp: ensure_default_project_row_def Let_def result_simps split: option.splits
        intro!: ok_upsert_project_membership [OF _ role_known] ok1
        dest: ok_upsert_default_project [OF ok1])
qed

section \<open>Accounts, tokens and sessions\<close>

lemma ok_create_user:
  "auth_db_ok db \<Longrightarrow> create_user env now user_id display_name db = Inr (x, db') \<Longrightarrow> auth_db_ok db'"
  by (auto simp: create_user_def Let_def result_simps
      dest: ok_ensure_default_project_row [OF ok_user_upserts(2)])

lemma scopes_ok_normalized: "normalize_token_scopes xs = Inr ys \<Longrightarrow> scopes_ok (Some ys)"
  by (frule parse_stored_scopes) (simp add: scopes_ok_def parse_token_scopes_def)

lemma token_upsert_scopes:
  assumes "list_all (\<lambda>t. scopes_ok (t_scopes t)) rows" "scopes_ok (t_scopes new)"
  shows "list_all (\<lambda>t. scopes_ok (t_scopes t)) (tbl_upsert t_hash token_merge new rows)"
  using assms(1) by (induction rows) (auto simp: assms(2) token_merge_def)

lemma ok_token_upsert:
  assumes "auth_db_ok db" "normalize_token_scopes xs = Inr sc" "t_scopes new = Some sc"
    "token_ids_unique (tbl_upsert t_hash token_merge new (auth_tokens db))"
  shows "auth_db_ok (db\<lparr>auth_tokens := tbl_upsert t_hash token_merge new (auth_tokens db)\<rparr>)"
  using assms auth_db_okD(2,4) [OF assms(1)] scopes_ok_normalized [OF assms(2)]
  by (intro ok_tokens token_up.distinct_upsert token_upsert_scopes) simp_all

lemma ok_create_auth_token:
  assumes ok: "auth_db_ok db"
    and run: "create_auth_token env now fresh owner_id token dn tdn expires scopes db = Inr (x, db')"
  shows "auth_db_ok db'"
  using run unfolding create_auth_token_def Let_def
  apply (clarsimp simp: result_simps)
  apply (rule ok_token_upsert)
     apply (erule ok_ensure_default_project_row [OF ok_user_upserts(1) [OF ok]])
    apply assumption
   apply simp_all
  done

lemma ok_auth_context_for_token:
  "auth_db_ok db \<Longrightarrow> auth_context_for_token env now token db = Inr (x, db') \<Longrightarrow> auth_db_ok db'"
  by (auto simp: auth_context_for_token_def result_simps intro!: ok_token_update)

lemma ok_revoke_auth_token:
  "auth_db_ok db \<Longrightarrow> revoke_auth_token now token_id db = Inr (x, db') \<Longrightarrow> auth_db_ok db'"
  by (auto simp: revoke_auth_token_def Let_def result_simps intro!: ok_token_update)

lemma ok_find_or_create_oauth_identity:
  assumes ok: "auth_db_ok db"
    and run: "find_or_create_oauth_identity env now p s u n e d db = Inr (x, db')"
  shows "auth_db_ok db'"
proof -
  from run obtain owner new pid new_id db2 where
    ens: "ensure_default_project_row env now (Some owner)
        (db\<lparr>users := tbl_upsert u_id user_merge_name new (users db)\<rparr>) = Inr (pid, db2)"
    and db': "db' = db2\<lparr>oauth_identities :=
        tbl_upsert identity_key (identity_merge now) new_id (oauth_identities db2)\<rparr>"
    by (fastforce simp: find_or_create_oauth_identity_def Let_def result_simps)
  have ok2: "auth_db_ok db2"
    using ok_ensure_default_project_row [OF ok_user_upserts(1) [OF ok] ens] .
  then show ?thesis
    unfolding db' by (intro ok_identities identity_up.distinct_upsert) (auto simp: auth_db_okD [OF ok2])
qed

lemma ok_create_web_session:
  "auth_db_ok db \<Longrightarrow> create_web_session now h u c e db = Inr (x, db') \<Longrightarrow> auth_db_ok db'"
  by (auto simp: create_web_session_def Let_def result_simps
      intro!: ok_sessions session_up.distinct_upsert simp: auth_db_okD simp del: distinct_map)

lemma ok_web_session_for_hash:
  "auth_db_ok db \<Longrightarrow> web_session_for_hash now h db = Inr (x, db') \<Longrightarrow> auth_db_ok db'"
  by (auto simp: web_session_for_hash_def result_simps intro!: ok_session_update)

lemma ok_revoke_web_session:
  "auth_db_ok db \<Longrightarrow> revoke_web_session now h db = Inr (x, db') \<Longrightarrow> auth_db_ok db'"
  by (auto simp: revoke_web_session_def Let_def result_simps intro!: ok_session_update)

section \<open>OAuth clients, codes, provider states and refresh tokens\<close>

lemma ok_create_oauth_client:
  "auth_db_ok db \<Longrightarrow> create_oauth_client now i n u e mx db = Inr (x, db') \<Longrightarrow> auth_db_ok db'"
  by (auto simp: create_oauth_client_def Let_def result_simps auth_db_okD
      intro!: ok_clients client_up.distinct_upsert simp del: distinct_map)

lemma distinct_tbl_insert:
  "tbl_insert key new rows = Some rows' \<Longrightarrow> distinct (map key rows) \<Longrightarrow> distinct (map key rows')"
  by (auto simp: tbl_insert_Some_iff)

lemma ok_create_oauth_authorization_code:
  "auth_db_ok db \<Longrightarrow> create_oauth_authorization_code env now c i w r ch rs sc e db = Inr (x, db') \<Longrightarrow>
     auth_db_ok db'"
  by (auto simp: create_oauth_authorization_code_def Let_def result_simps auth_db_okD
      intro!: ok_codes elim!: distinct_tbl_insert simp del: distinct_map)

lemma ok_consume_oauth_authorization_code:
  "auth_db_ok db \<Longrightarrow> consume_oauth_authorization_code env now c i r ch db = Inr (x, db') \<Longrightarrow>
     auth_db_ok db'"
  by (auto simp: consume_oauth_authorization_code_def Let_def result_simps intro!: ok_code_update)

lemma ok_create_oauth_provider_state:
  "auth_db_ok db \<Longrightarrow> create_oauth_provider_state env now st p b n v d e m1 m2 db = Inr (x, db') \<Longrightarrow>
     auth_db_ok db'"
  by (auto simp: create_oauth_provider_state_def Let_def result_simps auth_db_okD distinct_map_filter
      intro!: ok_pstates elim!: distinct_tbl_insert simp del: distinct_map)

lemma ok_consume_oauth_provider_state:
  "auth_db_ok db \<Longrightarrow> consume_oauth_provider_state env now st p b db = Inr (x, db') \<Longrightarrow> auth_db_ok db'"
  by (auto simp: consume_oauth_provider_state_def Let_def result_simps intro!: ok_pstate_update)

lemma ok_refresh_insert:
  assumes "auth_db_ok db" "tbl_insert r_hash new (oauth_refresh_tokens db) = Some rows"
    "normalize_token_scopes xs = Inr sc" "r_scopes new = Some sc"
  shows "auth_db_ok (db\<lparr>oauth_refresh_tokens := rows\<rparr>)"
  using assms auth_db_okD(8,9) [OF assms(1)] scopes_ok_normalized [OF assms(3)]
  by (intro ok_refresh distinct_tbl_insert [OF assms(2)]) (auto simp: tbl_insert_Some_iff)

lemma ok_refresh_insert_tokens:
  assumes ok: "auth_db_ok db" and ins: "tbl_insert r_hash new (oauth_refresh_tokens db) = Some rows"
    and sc: "normalize_token_scopes xs = Inr sc" "r_scopes new = Some sc"
  shows "auth_db_ok (db\<lparr>oauth_refresh_tokens := rows, auth_tokens :=
      (if c then tbl_update p (\<lambda>t. t\<lparr>t_revoked_at := v\<rparr>) (auth_tokens db) else auth_tokens db)\<rparr>)"
  using ok_refresh_insert [OF ok ins sc] ok_token_update [OF ok, of "\<lambda>t. t\<lparr>t_revoked_at := v\<rparr>" p]
  by (simp add: auth_db_ok_def)

lemma ok_create_oauth_refresh_token:
  assumes ok: "auth_db_ok db"
    and run: "create_oauth_refresh_token env now nowi t fam c w sc rs a e db = Inr (x, db')"
  shows "auth_db_ok db'"
  using run unfolding create_oauth_refresh_token_def Let_def
  by (clarsimp simp: result_simps split del: if_split)
    (drule ok_ensure_default_project_row [OF ok_user_upserts(3) [OF ok]],
      rule ok_refresh_insert_tokens, assumption+, simp)

lemma ok_consume_oauth_refresh_token:
  "auth_db_ok db \<Longrightarrow> consume_oauth_refresh_token env now t db = Inr (x, db') \<Longrightarrow> auth_db_ok db'"
  by (auto simp: consume_oauth_refresh_token_def Let_def result_simps intro!: ok_refresh_update)

lemma ok_revoke_rows:
  assumes "auth_db_ok db"
  shows "auth_db_ok (db\<lparr>auth_tokens := tbl_update p (\<lambda>t. t\<lparr>t_revoked_at := v\<rparr>) (auth_tokens db),
     oauth_refresh_tokens := tbl_update q (\<lambda>r. r\<lparr>r_revoked_at := w\<rparr>) (oauth_refresh_tokens db)\<rparr>)"
  using ok_refresh_update [OF assms, of "\<lambda>r. r\<lparr>r_revoked_at := w\<rparr>" q]
    ok_token_update [OF assms, of "\<lambda>t. t\<lparr>t_revoked_at := v\<rparr>" p]
  by (simp add: auth_db_ok_def)

lemma ok_revoke_oauth_refresh_token_family:
  assumes "auth_db_ok db" "revoke_oauth_refresh_token_family now f db = Inr (x, db')"
  shows "auth_db_ok db'"
proof -
  from assms(2) obtain new p q v w where db': "db' = db\<lparr>
      oauth_refresh_token_families := tbl_upsert f_id keep_old new (oauth_refresh_token_families db),
      auth_tokens := tbl_update p (\<lambda>t. t\<lparr>t_revoked_at := v\<rparr>) (auth_tokens db),
      oauth_refresh_tokens := tbl_update q (\<lambda>r. r\<lparr>r_revoked_at := w\<rparr>) (oauth_refresh_tokens db)\<rparr>"
    by (auto simp: revoke_oauth_refresh_token_family_def Let_def result_simps)
  have "auth_db_ok (db\<lparr>oauth_refresh_token_families :=
          tbl_upsert f_id keep_old new (oauth_refresh_token_families db)\<rparr>)"
    using assms(1) by (intro ok_families family_keep.distinct_upsert) (auto simp: auth_db_okD)
  from ok_revoke_rows [OF this, where p = p and v = v and q = q and w = w] show ?thesis
    by (simp add: db' auth_db_ok_def)
qed

lemma ok_revoke_oauth_authorization_for_access_token:
  assumes "auth_db_ok db" "revoke_oauth_authorization_for_access_token env now t db = Inr (x, db')"
  shows "auth_db_ok db'"
proof -
  from assms(2) consider "db' = db" | p1 p2 q v w where
    "db' = db\<lparr>auth_tokens := tbl_update p2 (\<lambda>t. t\<lparr>t_revoked_at := v\<rparr>)
         (tbl_update p1 (\<lambda>t. t\<lparr>t_revoked_at := v\<rparr>) (auth_tokens db)),
       oauth_refresh_tokens := tbl_update q (\<lambda>r. r\<lparr>r_revoked_at := w\<rparr>) (oauth_refresh_tokens db)\<rparr>"
    by (auto simp: revoke_oauth_authorization_for_access_token_def Let_def result_simps)
  then show ?thesis
  proof cases
    case 1
    with assms(1) show ?thesis by simp
  next
    case 2
    note ok1 = ok_token_update [OF assms(1), of "\<lambda>t. t\<lparr>t_revoked_at := v\<rparr>" p1]
    have "auth_db_ok (db\<lparr>auth_tokens := tbl_update p1 (\<lambda>t. t\<lparr>t_revoked_at := v\<rparr>) (auth_tokens db)\<rparr>)"
      by (rule ok1) auto
    from ok_revoke_rows [OF this, where p = p2 and v = v and q = q and w = w] show ?thesis
      by (simp add: 2 auth_db_ok_def)
  qed
qed

lemma ok_revoke_oauth_refresh_token:
  "auth_db_ok db \<Longrightarrow> revoke_oauth_refresh_token env now t db = Inr (x, db') \<Longrightarrow> auth_db_ok db'"
  by (auto simp: revoke_oauth_refresh_token_def result_simps intro: ok_revoke_oauth_refresh_token_family)

section \<open>Projects\<close>

lemma ok_ensure_default_project:
  "auth_db_ok db \<Longrightarrow> ensure_default_project env now w db = Inr (x, db') \<Longrightarrow> auth_db_ok db'"
  by (auto simp: ensure_default_project_def result_simps intro: ok_ensure_default_project_row)

lemma ok_create_project:
  assumes ok: "auth_db_ok db" and run: "create_project now p w n d b db = Inr (x, db')"
  shows "auth_db_ok db'"
proof -
  from run obtain owner new where
    uniq: "default_projects_unique (tbl_upsert pr_id (project_merge_all now) new (projects db))"
    and db': "\<exists>pid. db' = upsert_project_membership now pid owner ''admin''
       (db\<lparr>users := tbl_upsert u_id keep_old (new_user now owner (Some owner)) (users db),
           projects := tbl_upsert pr_id (project_merge_all now) new (projects db)\<rparr>)"
    unfolding create_project_def Let_def by (fastforce simp: result_simps)
  have "auth_db_ok (db\<lparr>users := tbl_upsert u_id keep_old (new_user now owner (Some owner)) (users db)\<rparr>)"
    using ok by (rule ok_user_upserts)
  moreover have "distinct (map pr_id (tbl_upsert pr_id (project_merge_all now) new (projects db)))"
    by (intro project_all_up.distinct_upsert auth_db_okD [OF ok])
  ultimately have "auth_db_ok (db\<lparr>users := tbl_upsert u_id keep_old (new_user now owner (Some owner)) (users db),
        projects := tbl_upsert pr_id (project_merge_all now) new (projects db)\<rparr>)"
    using uniq by (intro ok_projects) simp_all
  then show ?thesis
    using db' by (auto intro: ok_upsert_project_membership [OF _ role_known])
qed

lemma ok_add_project_member:
  "auth_db_ok db \<Longrightarrow> add_project_member now p u r db = Inr (x, db') \<Longrightarrow> auth_db_ok db'"
  by (auto simp: add_project_member_def Let_def result_simps
      intro!: ok_upsert_project_membership ok_user_upserts dest!: validate_project_role_Inr)

end
