(* ===== verification/ConversationInvariant.thy ===== *)
theory ConversationInvariant
  imports ChunkState AuthInvariant
begin

text \<open>
  The well-formedness invariant of the conversation tables, kept by every operation of
  \<open>ConversationStore\<close> and \<open>ChunkState\<close>, and what each write does to the tables.
\<close>

interpretation conv_up: keyed_table cv_id conv_merge
  by unfold_locales (simp add: conv_merge_def)

text \<open>
  Primary keys and unique indexes, the state check of the chunks, every child row belongs to a
  stored conversation, and the key and hash columns of a row agree with its payload.
\<close>

definition project_of_payload :: "string option \<Rightarrow> pydict \<Rightarrow> bool" where
  "project_of_payload project c \<longleftrightarrow>
     (case payload_project_id c of None \<Rightarrow> False | Some q \<Rightarrow> project = Some q \<or> project = Some (py_strip q))"

definition row_ok :: "conv_row \<Rightarrow> bool" where
  "row_ok r \<longleftrightarrow>
     bind_result (ditem (cv_payload r) ''id'') validate_memory_id = Inr (cv_id r)
     \<and> cv_source r = py_str (dget_or (cv_payload r) ''source'' (PStr []))
     \<and> cv_timestamp r = py_str (dget_or (cv_payload r) ''timestamp'' (PStr []))
     \<and> cv_title r = dget_none (cv_payload r) ''title''
     \<and> cv_hash r = conversation_hash (cv_payload r) \<and> cv_upstream r = upstream_thread_id (cv_payload r)
     \<and> project_of_payload (cv_project r) (cv_payload r)"

definition chunk_key :: "chunk_row \<Rightarrow> string \<times> int" where
  "chunk_key h = (h_conv h, h_index h)"

definition children_ok :: "mem_db \<Rightarrow> bool" where
  "children_ok db \<longleftrightarrow>
     distinct (map (\<lambda>g. (g_conv g, g_index g)) (messages db))
     \<and> distinct (map (\<lambda>g. (g_conv g, g_hash g)) (messages db))
     \<and> distinct (map h_id (chunks db)) \<and> distinct (map chunk_key (chunks db))
     \<and> list_all (\<lambda>h. h_state h \<in> set index_states) (chunks db)"

definition owned_by :: "string set \<Rightarrow> mem_db \<Rightarrow> bool" where
  "owned_by ids db \<longleftrightarrow> g_conv ` set (messages db) \<subseteq> ids \<and> h_conv ` set (chunks db) \<subseteq> ids"

definition mem_db_ok :: "mem_db \<Rightarrow> bool" where
  "mem_db_ok db \<longleftrightarrow>
     auth_db_ok (accounts db)
     \<and> distinct (map cv_id (conversations db)) \<and> conv_unique (conversations db)
     \<and> list_all row_ok (conversations db)
     \<and> children_ok db \<and> owned_by (cv_id ` set (conversations db)) db"

lemma mem_db_ok_empty: "mem_db_ok empty_mem_db"
  by (simp add: mem_db_ok_def empty_mem_db_def auth_db_ok_empty conv_unique_def children_ok_def owned_by_def)

section \<open>Child rows\<close>

lemma insert_message_effect:
  assumes "insert_message c im db = Inr db'"
  shows "db' = db \<or> (\<exists>new. db' = db\<lparr>messages := messages db @ [new]\<rparr> \<and> g_conv new = c
     \<and> g_index new = fst im
     \<and> \<not> list_ex (\<lambda>g. g_conv g = c \<and> (g_index g = g_index new \<or> g_hash g = g_hash new)) (messages db))"
  using assms unfolding insert_message_def
  by (cases im) (auto simp: result_simps Let_def)

lemma insert_chunk_effect:
  assumes "insert_chunk c ch db = Inr db'"
  shows "\<exists>new. h_conv new = c \<and> h_state new \<in> set index_states
     \<and> db' = db\<lparr>chunks := filter (\<lambda>r. h_id r \<noteq> h_id new \<and> \<not> (h_conv r = c \<and> h_index r = h_index new))
          (chunks db) @ [new]\<rparr>"
  using assms unfolding insert_chunk_def
  by (clarsimp simp: result_simps Let_def) (rule exI [of _ "last (chunks db')"], simp)

lemma insert_message_ok:
  assumes "children_ok db \<and> owned_by (insert c ids) db" "insert_message c im db = Inr db'"
  shows "children_ok db' \<and> owned_by (insert c ids) db'"
  using assms(1) insert_message_effect [OF assms(2)]
  by (auto simp: children_ok_def owned_by_def list_ex_iff) blast+

lemma insert_chunk_ok:
  assumes "children_ok db \<and> owned_by (insert c ids) db" "insert_chunk c ch db = Inr db'"
  shows "children_ok db' \<and> owned_by (insert c ids) db'"
proof -
  obtain new where new: "h_conv new = c" "h_state new \<in> set index_states"
    "db' = db\<lparr>chunks := filter (\<lambda>r. h_id r \<noteq> h_id new \<and> \<not> (h_conv r = c \<and> h_index r = h_index new))
          (chunks db) @ [new]\<rparr>"
    using insert_chunk_effect [OF assms(2)] by blast
  show ?thesis
    using assms(1) new(1,2)
    by (auto simp: new(3) children_ok_def owned_by_def chunk_key_def distinct_map_filter list_all_iff)
qed

text \<open>The tables that the child rows of a conversation are written to.\<close>

lemma fold_child_frame:
  "fold_result (insert_message c) ims db = Inr db' \<Longrightarrow> accounts db' = accounts db \<and>
     conversations db' = conversations db \<and> chunks db' = chunks db"
  "fold_result (insert_chunk c) cs db = Inr db' \<Longrightarrow> accounts db' = accounts db \<and>
     conversations db' = conversations db \<and> messages db' = messages db"
  by (erule fold_result_invariant, simp,
      auto dest!: insert_message_effect insert_chunk_effect)+

lemma replace_child_rows_cases:
  assumes "replace_child_rows c db = Inr db'"
  obtains i v db2 cs where "ditem c ''id'' = Inr i" "validate_memory_id i = Inr v"
    "fold_result (insert_message v) (List.enumerate 0 (message_list c))
       (db\<lparr>messages := filter (\<lambda>g. g_conv g \<noteq> v) (messages db),
           chunks := filter (\<lambda>h. h_conv h \<noteq> v) (chunks db)\<rparr>) = Inr db2"
    "index_chunks c = Inr cs" "fold_result (insert_chunk v) cs db2 = Inr db'"
  using assms by (auto simp: replace_child_rows_def Let_def result_simps)

lemma replace_child_rows_frame:
  assumes "replace_child_rows c db = Inr db'"
  shows "accounts db' = accounts db \<and> conversations db' = conversations db"
  using assms by (elim replace_child_rows_cases) (auto dest!: fold_child_frame)

lemma children_ok_filter:
  "children_ok db \<Longrightarrow> children_ok (db\<lparr>messages := filter p (messages db), chunks := filter q (chunks db)\<rparr>)"
  by (auto simp: children_ok_def distinct_map_filter list_all_iff)

lemma replace_child_rows_ok:
  assumes run: "replace_child_rows c db = Inr db'"
    and ok: "children_ok db" "owned_by ids db"
    and id: "ditem c ''id'' = Inr i" "validate_memory_id i = Inr v" "v \<in> ids"
  shows "children_ok db' \<and> owned_by ids db'"
proof -
  let ?db1 = "db\<lparr>messages := filter (\<lambda>g. g_conv g \<noteq> v) (messages db),
           chunks := filter (\<lambda>h. h_conv h \<noteq> v) (chunks db)\<rparr>"
  obtain db2 cs where 1: "fold_result (insert_message v) (List.enumerate 0 (message_list c)) ?db1 = Inr db2"
    and 2: "fold_result (insert_chunk v) cs db2 = Inr db'"
    using run id(1,2) by (elim replace_child_rows_cases) auto
  have "children_ok ?db1 \<and> owned_by (insert v ids) ?db1"
    using ok by (auto simp: children_ok_filter owned_by_def)
  then have "children_ok db2 \<and> owned_by (insert v ids) db2"
    by (rule fold_result_invariant [OF 1]) (rule insert_message_ok)
  then have "children_ok db' \<and> owned_by (insert v ids) db'"
    by (rule fold_result_invariant [OF 2]) (rule insert_chunk_ok)
  then show ?thesis using id(3) by (simp add: insert_absorb)
qed

section \<open>Columns\<close>

lemma meta_str_dset [simp]:
  "meta_str (dset c ''metadata'' (PDict m)) k = opt_str (dget_none m k)"
  by (simp add: meta_str_def metadata_of_def dget_or_def)

lemma ditem_dset_other: "k \<noteq> k' \<Longrightarrow> ditem (dset c k v) k' = ditem c k'"
  by (simp add: ditem_def)

lemma meta_str_metadata:
  "meta_str c k = opt_str (dget_none (case dget_none c ''metadata'' of PDict m \<Rightarrow> m | _ \<Rightarrow> []) k)"
  by (auto simp: meta_str_def metadata_of_def dget_none_def dget_or_def
      split: option.splits pyval.splits)

lemma meta_str_stamp:
  "meta_str (stamp_project_id c p) k = (if k = ''project_id'' then Some p else meta_str c k)"
  unfolding stamp_project_id_def Let_def meta_str_dset
  by (simp add: dget_none_def dget_or_def meta_str_metadata)

lemma ditem_stamp: "ditem (stamp_project_id c p) ''id'' = ditem c ''id''"
  by (simp add: stamp_project_id_def Let_def ditem_dset_other)

lemma ensure_payload_project_Inr:
  assumes "ensure_payload_project env c = Inr (p, c')"
  shows "ditem c' ''id'' = ditem c ''id''"
    "payload_project_id c' = Some p \<or> (\<exists>q. payload_project_id c' = Some q \<and> p = py_strip q)"
    "k \<noteq> ''project_id'' \<Longrightarrow> meta_str c' k = meta_str c k"
  using assms
  by (auto simp: ensure_payload_project_def Let_def result_simps validate_project_id_Inr_iff
      payload_project_id_def meta_str_stamp ditem_stamp split: option.splits)

lemma ensure_payload_project_column:
  "ensure_payload_project env c = Inr (p, c') \<Longrightarrow> project_of_payload (Some p) c'"
  using ensure_payload_project_Inr(2) [of env c p c'] by (auto simp: project_of_payload_def)

lemma ensure_payload_project_fields:
  assumes "ensure_payload_project env c = Inr (p, c')" "j \<noteq> ''metadata''"
  shows "dget_or c' j w = dget_or c j w" "dget_none c' j = dget_none c j"
proof -
  have "dget c' j = dget c j"
    using assms
    by (auto simp: ensure_payload_project_def Let_def result_simps stamp_project_id_def split: option.splits)
  then show "dget_or c' j w = dget_or c j w" "dget_none c' j = dget_none c j"
    by (simp_all add: dget_or_def dget_none_def)
qed

lemma conv_columns_Inr:
  assumes "conv_columns env now c = Inr (row, c')"
  shows "row_ok row" "cv_payload row = c'" "ditem c' ''id'' = ditem c ''id''"
    "\<exists>i. ditem c' ''id'' = Inr i \<and> validate_memory_id i = Inr (cv_id row)"
    "cv_session row = imported_session_identity c'"
  using assms
  by (auto simp: conv_columns_def Let_def result_simps row_ok_def ensure_payload_project_fields
      ensure_payload_project_column dest: ensure_payload_project_Inr)

lemma update_payload_keeps:
  assumes "update_index_chunks_payload c ids st = Inr c'"
  shows "ditem c' ''id'' = ditem c ''id'' \<and> conversation_hash c' = conversation_hash c"
    "upstream_thread_id c' = upstream_thread_id c" "payload_project_id c' = payload_project_id c"
    "j \<noteq> ''metadata'' \<Longrightarrow> dget c' j = dget c j"
  using assms unfolding update_index_chunks_payload_def Let_def
  by (auto simp: result_simps ditem_dset_other conversation_hash_def upstream_thread_id_def
      payload_project_id_def meta_str_metadata
      dget_none_def dget_or_def split: pyval.splits if_splits)

lemma update_payload_row_ok:
  assumes "update_index_chunks_payload (cv_payload r) ids st = Inr payload" "row_ok r"
  shows "row_ok (r\<lparr>cv_payload := payload\<rparr>)"
  using update_payload_keeps [OF assms(1)] assms(2)
  by (simp add: row_ok_def project_of_payload_def dget_or_def dget_none_def)

section \<open>Operations\<close>

lemma conv_merge_row_ok: "cv_id old = cv_id new \<Longrightarrow> row_ok new \<Longrightarrow> row_ok (conv_merge old new)"
  by (simp add: row_ok_def conv_merge_def)

lemma row_ok_upsert:
  assumes "list_all row_ok rows" "row_ok new"
  shows "list_all row_ok (tbl_upsert cv_id conv_merge new rows)"
  using assms(1) by (induction rows) (auto simp: assms(2) conv_merge_row_ok)

lemma write_conversations_Inr:
  "write_conversations rows db = Inr db' \<longleftrightarrow> conv_unique rows \<and> db' = db\<lparr>conversations := rows\<rparr>"
  by (auto simp: write_conversations_def)

lemma ensure_project_Inr:
  assumes "ensure_project_for_payload env now c db = Inr db'"
  obtains acc where "db' = db\<lparr>accounts := acc\<rparr>" "auth_db_ok (accounts db) \<Longrightarrow> auth_db_ok acc"
  using assms ok_ensure_default_project_row
  by (auto simp: ensure_project_for_payload_def result_simps)

text \<open>Replacing the conversation rows, then the child rows of one of them.\<close>

lemma mem_db_ok_write:
  assumes ok: "mem_db_ok db" and acc: "auth_db_ok acc"
    and rows: "distinct (map cv_id rows)" "conv_unique rows" "list_all row_ok rows"
    and ids: "cv_id ` set (conversations db) \<subseteq> cv_id ` set rows"
    and run: "replace_child_rows c (db\<lparr>accounts := acc, conversations := rows\<rparr>) = Inr db'"
    and id: "ditem c ''id'' = Inr i" "validate_memory_id i = Inr v" "v \<in> cv_id ` set rows"
  shows "mem_db_ok db'"
proof -
  let ?db = "db\<lparr>accounts := acc, conversations := rows\<rparr>"
  have "children_ok ?db"
    using ok by (simp add: mem_db_ok_def children_ok_def)
  moreover have "owned_by (cv_id ` set rows) ?db"
    using ok order_trans [OF _ ids] by (simp add: mem_db_ok_def owned_by_def)
  ultimately show ?thesis
    using replace_child_rows_ok [OF run _ _ id] replace_child_rows_frame [OF run] acc rows
    by (simp add: mem_db_ok_def)
qed

lemma insert_conv_cases:
  assumes "insert_conv env now c db = Inr ((mid, c'), db')"
  obtains row acc where "conv_columns env now c = Inr (row, c')" "mid = cv_id row"
    "auth_db_ok (accounts db) \<Longrightarrow> auth_db_ok acc"
    "conv_unique (tbl_upsert cv_id conv_merge row (conversations db))"
    "replace_child_rows c' (db\<lparr>accounts := acc,
        conversations := tbl_upsert cv_id conv_merge row (conversations db)\<rparr>) = Inr db'"
  using assms
  by (auto simp: insert_conv_def result_simps write_conversations_Inr elim!: ensure_project_Inr)

lemma ok_insert_conv:
  assumes ok: "mem_db_ok db" and run: "insert_conv env now c db = Inr (x, db')"
  shows "mem_db_ok db'"
proof -
  obtain mid c' where x: "x = (mid, c')" by (cases x)
  from run [unfolded x] show ?thesis
  proof (cases rule: insert_conv_cases)
    case (1 row acc)
    obtain i where i: "ditem c' ''id'' = Inr i" "validate_memory_id i = Inr (cv_id row)"
      using conv_columns_Inr(4) [OF 1(1)] by blast
    show ?thesis
      using ok conv_columns_Inr(1) [OF 1(1)]
      by (intro mem_db_ok_write [OF ok 1(3) _ 1(4) _ _ 1(5) i])
        (auto simp: mem_db_ok_def conv_up.keys_upsert intro: conv_up.distinct_upsert row_ok_upsert)
  qed
qed

lemma insert_new_cases:
  assumes "insert_new env now c db = Inr (x, db')"
  obtains (new) row c' where "conv_columns env now c = Inr (row, c')"
      "insert_new_row env now row c' db = Inr db'" "x = ((cv_id row, True), c')"
    | (old) row c' m r where "conv_columns env now c = Inr (row, c')"
      "insert_new_row env now row c' db = Inl (IntegrityError m)"
      "resolve_insert_new_conflict (cv_id row) (cv_hash row) (cv_session row) (cv_project row) db = Inr r"
      "x = (r, c')" "db' = db"
proof -
  from assms obtain row c' where cols: "conv_columns env now c = Inr (row, c')"
    and rest: "(case insert_new_row env now row c' db of
         Inr db' \<Rightarrow> Inr (((cv_id row, True), c'), db')
       | Inl (IntegrityError m) \<Rightarrow>
           bind_result (resolve_insert_new_conflict (cv_id row) (cv_hash row) (cv_session row)
             (cv_project row) db) (\<lambda>r. Inr ((r, c'), db))
       | Inl e \<Rightarrow> Inl e) = Inr (x, db')"
    unfolding insert_new_def by (simp only: bind_result_Inr_iff [of "conv_columns env now c"])
      (elim exE conjE, simp only: prod.case split: prod.splits)
  show thesis
  proof (cases "insert_new_row env now row c' db")
    case (Inr d)
    then show thesis using rest new [OF cols] by simp
  next
    case (Inl e)
    then show thesis using rest old [OF cols] by (cases e) (auto simp: bind_result_Inr_iff)
  qed
qed

lemma ok_insert_new:
  assumes ok: "mem_db_ok db" and run: "insert_new env now c db = Inr (x, db')"
  shows "mem_db_ok db'"
proof -
  have "mem_db_ok db'" if cols: "conv_columns env now c = Inr (row, c')"
    and new: "insert_new_row env now row c' db = Inr db'" for row c'
  proof -
    obtain i where i: "ditem c' ''id'' = Inr i" "validate_memory_id i = Inr (cv_id row)"
      using conv_columns_Inr(4) [OF cols] by blast
    from new obtain acc where acc: "auth_db_ok (accounts db) \<Longrightarrow> auth_db_ok acc"
      and fresh: "cv_id row \<notin> cv_id ` set (conversations db)"
      and u: "conv_unique (conversations db @ [row])"
      and run: "replace_child_rows c' (db\<lparr>accounts := acc, conversations := conversations db @ [row]\<rparr>) = Inr db'"
      by (auto simp: insert_new_row_def result_simps write_conversations_Inr tbl_insert_Some_iff
          elim!: ensure_project_Inr)
    show ?thesis
      using ok fresh conv_columns_Inr(1) [OF cols]
      by (intro mem_db_ok_write [OF ok acc _ u _ _ run i]) (auto simp: mem_db_ok_def)
  qed
  with run ok show ?thesis by (auto elim: insert_new_cases)
qed

lemma append_cas_cases:
  assumes "append_messages env now c (Some h) db = Inr ((mid, c'), db')"
  obtains row acc f p where "conv_columns env now c = Inr (row, c')" "mid = cv_id row"
    "auth_db_ok (accounts db) \<Longrightarrow> auth_db_ok acc"
    "p = (\<lambda>r. cv_id r = cv_id row \<and> cv_hash r = Some h)"
    "f = (\<lambda>r. r\<lparr>cv_source := cv_source row, cv_timestamp := cv_timestamp row,
         cv_title := cv_title row, cv_hash := cv_hash row, cv_project := cv_project row,
         cv_upstream := cv_upstream row, cv_payload := c'\<rparr>)"
    "conv_unique (tbl_update p f (conversations db))" "tbl_count p (conversations db) = 1"
    "replace_child_rows c' (db\<lparr>accounts := acc, conversations := tbl_update p f (conversations db)\<rparr>) = Inr db'"
  using assms
  by (auto simp: append_messages_def result_simps Let_def write_conversations_Inr elim!: ensure_project_Inr)

lemma ok_append_messages:
  assumes ok: "mem_db_ok db" and run: "append_messages env now c expected db = Inr (x, db')"
  shows "mem_db_ok db'"
proof (cases expected)
  case None
  then show ?thesis
    using ok_insert_conv [OF ok] run by (simp add: append_messages_def)
next
  case (Some h)
  obtain mid c' where x: "x = (mid, c')" by (cases x)
  from run [unfolded x Some] show ?thesis
  proof (cases rule: append_cas_cases)
    case (1 row acc f p)
    obtain i where i: "ditem c' ''id'' = Inr i" "validate_memory_id i = Inr (cv_id row)"
      using conv_columns_Inr(4) [OF 1(1)] by blast
    have keys: "map cv_id (tbl_update p f (conversations db)) = map cv_id (conversations db)"
      by (rule map_key_tbl_update) (simp add: 1(5))
    have "list_all row_ok (tbl_update p f (conversations db))"
      using ok conv_columns_Inr(1,2) [OF 1(1)]
      by (auto simp: mem_db_ok_def list_all_iff set_tbl_update 1(4,5) row_ok_def)
    moreover have "cv_id row \<in> cv_id ` set (conversations db)"
      using 1(7) by (auto simp: tbl_count_def 1(4) length_Suc_conv filter_eq_Cons_iff)
    moreover have "cv_id ` set (tbl_update p f (conversations db)) = cv_id ` set (conversations db)"
      using keys by (metis set_map)
    ultimately show ?thesis
      using ok by (intro mem_db_ok_write [OF ok 1(3) _ 1(6) _ _ 1(8) i]) (auto simp: mem_db_ok_def keys)
  qed
qed

lemma ok_batch_insert:
  assumes "mem_db_ok db" "batch_insert env now cs db = Inr (ids, db')"
  shows "mem_db_ok db'"
proof -
  have "mem_db_ok (snd (ids, db'))"
    by (rule fold_result_invariant [OF assms(2) [unfolded batch_insert_def]])
      (auto simp: result_simps assms(1) dest: ok_insert_conv)
  then show ?thesis by simp
qed

lemma ok_mark_chunks_state:
  assumes ok: "mem_db_ok db" and run: "mark_chunks_state i ids st db = Inr ((), db')"
  shows "mem_db_ok db'"
proof -
  from run obtain v where v: "validate_memory_id i = Inr v" and acc: "accounts db' = accounts db"
    and ms: "messages db' = messages db"
    and ch: "chunks db' = tbl_update (\<lambda>h. h_conv h = v \<and> h_id h \<in> set ids)
       (\<lambda>h. h\<lparr>h_state := state_value st\<rparr>) (chunks db)"
    and cv: "conversations db' = conversations db \<or> (\<exists>row payload.
       tbl_get cv_id v (conversations db) = Some row
       \<and> update_index_chunks_payload (cv_payload row) ids st = Inr payload
       \<and> conversations db' = tbl_update (\<lambda>r. cv_id r = v) (\<lambda>r. r\<lparr>cv_payload := payload\<rparr>) (conversations db))"
    by (auto simp: mark_chunks_state_def sync_index_chunk_payload_state_def Let_def result_simps
      fold_mark_chunks fold_mark_other)
  have ch_ok: "children_ok db'"
    using ok state_value_known [of st]
    by (auto simp: mem_db_ok_def children_ok_def ms ch map_key_tbl_update chunk_key_def
        list_all_iff set_tbl_update)
  have "map cv_id (conversations db') = map cv_id (conversations db)"
    using cv by (auto simp: map_key_tbl_update)
  then have ids: "map cv_id (conversations db') = map cv_id (conversations db)"
    "cv_id ` set (conversations db') = cv_id ` set (conversations db)"
    by (simp, metis set_map)
  have "map h_conv (chunks db') = map h_conv (chunks db)"
    unfolding ch by (rule map_key_tbl_update) simp
  then have own: "owned_by (cv_id ` set (conversations db')) db'"
    using ok unfolding mem_db_ok_def owned_by_def ids ms by (metis set_map)
  have pk: "List.map_filter (project_key f) (tbl_update p (\<lambda>r. r\<lparr>cv_payload := x\<rparr>) rows) =
      List.map_filter (project_key f) rows" if "\<And>r x. f (r\<lparr>cv_payload := x\<rparr>) = f r" for f p x rows
    by (rule map_filter_tbl_update) (simp add: project_key_def that)
  have u: "conv_unique (conversations db')"
    using cv ok by (auto simp: conv_unique_def pk mem_db_ok_def)
  have "list_all row_ok (conversations db')"
    using cv
  proof (elim disjE exE conjE)
    assume "conversations db' = conversations db"
    then show ?thesis using ok by (simp add: mem_db_ok_def)
  next
    fix row payload
    assume g: "tbl_get cv_id v (conversations db) = Some row"
      and p: "update_index_chunks_payload (cv_payload row) ids st = Inr payload"
      and c: "conversations db' = tbl_update (\<lambda>r. cv_id r = v) (\<lambda>r. r\<lparr>cv_payload := payload\<rparr>) (conversations db)"
    have "r = row" if "r \<in> set (conversations db)" "cv_id r = v" for r
      using distinct_key_get [of cv_id "conversations db" r] that g ok by (simp add: mem_db_ok_def)
    then show ?thesis
      using ok update_payload_row_ok p
      by (auto simp: c mem_db_ok_def list_all_iff set_tbl_update)
  qed
  then show ?thesis
    using ok ch_ok own u ids acc by (simp add: mem_db_ok_def)
qed

section \<open>Reading back\<close>

lemma insert_reads_back:
  assumes "mem_db_ok db" "insert_conv env now c db = Inr ((mid, c'), db')"
  shows "get_conv (PStr mid) db' = Inr (Some c')
    \<and> (validate_memory_id k \<noteq> Inr mid \<longrightarrow> get_conv k db' = get_conv k db)"
proof -
  from assms(2) obtain row acc where cols: "conv_columns env now c = Inr (row, c')" "mid = cv_id row"
    and run: "replace_child_rows c' (db\<lparr>accounts := acc,
        conversations := tbl_upsert cv_id conv_merge row (conversations db)\<rparr>) = Inr db'"
    by (rule insert_conv_cases)
  have rows: "conversations db' = tbl_upsert cv_id conv_merge row (conversations db)"
    using replace_child_rows_frame [OF run] by simp
  have v: "validate_memory_id (PStr mid) = Inr mid"
    using conv_columns_Inr(4) [OF cols(1)] cols(2)
    by (auto simp: validate_memory_id_def Let_def split: if_splits)
  have "map_option cv_payload (tbl_get cv_id mid (conversations db')) = Some c'"
    using conv_columns_Inr(2) [OF cols(1)]
    by (auto simp: rows conv_up.get_upsert cols(2) conv_merge_def split: option.splits)
  moreover have "get_conv k db' = get_conv k db" if "validate_memory_id k \<noteq> Inr mid"
    using that by (cases "validate_memory_id k") (auto simp: get_conv_def rows conv_up.get_upsert cols(2))
  ultimately show ?thesis using v by (simp add: get_conv_def)
qed

end
