(* ===== verification/CredentialMachine.thy ===== *)
theory CredentialMachine
  imports AuthInvariant
begin

text \<open>
  The account tables as a state machine: one event per operation of the store that
  writes them, the run of a sequence of events, and what holds in every state a run can
  reach. A failing operation leaves the database as it was (the transaction is rolled
  back).
\<close>

datatype auth_op =
    CreateUser string string "string option"
  | CreateAuthToken string string string string "string option" "string option" "string option" "string list option"
  | AuthContextForToken string string
  | RevokeAuthToken string string
  | OAuthIdentity string string string "string option" "string option" "string option" "string option"
  | CreateWebSession string string string string string
  | WebSessionForHash string string
  | RevokeWebSession string string
  | CreateOAuthClient string string string "string list" string nat
  | CreateCode string string string string string string string string string
  | ConsumeCode string string string string string
  | CreateProviderState string string string string string string pyval string nat nat
  | ConsumeProviderState string string string string
  | CreateRefresh string string string string string string "string list option" string "string option" string
  | ConsumeRefresh string string
  | RevokeFamily string string
  | RevokeByAccessToken string string
  | RevokeRefresh string string
  | EnsureDefaultProject string "string option"
  | CreateProject string string string "string option" "string option" bool
  | AddProjectMember string string string string

definition commit :: "auth_db \<Rightarrow> 'a db_result \<Rightarrow> auth_db" where
  "commit db r = (case r of Inl _ \<Rightarrow> db | Inr (_, db') \<Rightarrow> db')"

fun auth_step :: "store_env \<Rightarrow> auth_op \<Rightarrow> auth_db \<Rightarrow> auth_db" where
  "auth_step env (CreateUser now u d) db = commit db (create_user env now u d db)"
| "auth_step env (CreateAuthToken now fresh w t d td e sc) db =
     commit db (create_auth_token env now fresh w t d td e sc db)"
| "auth_step env (AuthContextForToken now t) db = commit db (auth_context_for_token env now t db)"
| "auth_step env (RevokeAuthToken now i) db = commit db (revoke_auth_token now i db)"
| "auth_step env (OAuthIdentity now p s u n e d) db =
     commit db (find_or_create_oauth_identity env now p s u n e d db)"
| "auth_step env (CreateWebSession now h u c e) db = commit db (create_web_session now h u c e db)"
| "auth_step env (WebSessionForHash now h) db = commit db (web_session_for_hash now h db)"
| "auth_step env (RevokeWebSession now h) db = commit db (revoke_web_session now h db)"
| "auth_step env (CreateOAuthClient now i n u e mx) db =
     commit db (create_oauth_client now i n u e mx db)"
| "auth_step env (CreateCode now c i w r ch rs sc e) db =
     commit db (create_oauth_authorization_code env now c i w r ch rs sc e db)"
| "auth_step env (ConsumeCode now c i r ch) db =
     commit db (consume_oauth_authorization_code env now c i r ch db)"
| "auth_step env (CreateProviderState now st p b n v d e m1 m2) db =
     commit db (create_oauth_provider_state env now st p b n v d e m1 m2 db)"
| "auth_step env (ConsumeProviderState now st p b) db =
     commit db (consume_oauth_provider_state env now st p b db)"
| "auth_step env (CreateRefresh now nowi t fam c w sc rs a e) db =
     commit db (create_oauth_refresh_token env now nowi t fam c w sc rs a e db)"
| "auth_step env (ConsumeRefresh now t) db = commit db (consume_oauth_refresh_token env now t db)"
| "auth_step env (RevokeFamily now fam) db = commit db (revoke_oauth_refresh_token_family now fam db)"
| "auth_step env (RevokeByAccessToken now t) db =
     commit db (revoke_oauth_authorization_for_access_token env now t db)"
| "auth_step env (RevokeRefresh now t) db = commit db (revoke_oauth_refresh_token env now t db)"
| "auth_step env (EnsureDefaultProject now w) db = commit db (ensure_default_project env now w db)"
| "auth_step env (CreateProject now p w n d b) db = commit db (create_project now p w n d b db)"
| "auth_step env (AddProjectMember now p u r) db = commit db (add_project_member now p u r db)"

fun auth_run :: "store_env \<Rightarrow> auth_op list \<Rightarrow> auth_db \<Rightarrow> auth_db" where
  "auth_run env [] db = db"
| "auth_run env (x # xs) db = auth_run env xs (auth_step env x db)"

section \<open>Invariants of runs\<close>

lemma commit_invariant:
  assumes "P db" "\<And>x db'. r = Inr (x, db') \<Longrightarrow> P db'"
  shows "P (commit db r)"
  using assms by (auto simp: commit_def split: sum.splits)

text \<open>A property every operation keeps holds after every run.\<close>

lemma auth_run_invariant:
  assumes "P db" and "\<And>x db. x \<in> set xs \<Longrightarrow> P db \<Longrightarrow> P (auth_step env x db)"
  shows "P (auth_run env xs db)"
  using assms by (induction xs arbitrary: db) auto

lemmas ok_operations =
  ok_create_user ok_create_auth_token ok_auth_context_for_token ok_revoke_auth_token
  ok_find_or_create_oauth_identity ok_create_web_session ok_web_session_for_hash
  ok_revoke_web_session ok_create_oauth_client ok_create_oauth_authorization_code
  ok_consume_oauth_authorization_code ok_create_oauth_provider_state
  ok_consume_oauth_provider_state ok_create_oauth_refresh_token ok_consume_oauth_refresh_token
  ok_revoke_oauth_refresh_token_family ok_revoke_oauth_authorization_for_access_token
  ok_revoke_oauth_refresh_token ok_ensure_default_project ok_create_project ok_add_project_member

lemma auth_step_ok: "auth_db_ok db \<Longrightarrow> auth_db_ok (auth_step env x db)"
  by (cases x) (simp_all, (rule commit_invariant, assumption, erule (1) ok_operations)+)

lemma auth_run_ok: "auth_db_ok db \<Longrightarrow> auth_db_ok (auth_run env xs db)"
  by (erule auth_run_invariant) (rule auth_step_ok)

end
