(* ===== verification/CredentialSafety.thy ===== *)
theory CredentialSafety
  imports CredentialMachine OneTime
begin

text \<open>
  What revocation and single use mean for the account tables, by the contracts
  \<open>revocable\<close> and \<open>one_time\<close>, instantiated for authorization codes, refresh tokens,
  refresh-token families, bearer tokens, web sessions and provider states.
\<close>

section \<open>Which tables an operation can change\<close>

text \<open>The credential tables that provisioning an account and its default project leaves alone.\<close>

definition same_credentials :: "auth_db \<Rightarrow> auth_db \<Rightarrow> bool" where
  "same_credentials db db' \<longleftrightarrow>
     auth_tokens db' = auth_tokens db \<and> oauth_identities db' = oauth_identities db
     \<and> web_sessions db' = web_sessions db \<and> oauth_clients db' = oauth_clients db
     \<and> oauth_refresh_tokens db' = oauth_refresh_tokens db
     \<and> oauth_refresh_token_families db' = oauth_refresh_token_families db
     \<and> oauth_authorization_codes db' = oauth_authorization_codes db
     \<and> oauth_provider_states db' = oauth_provider_states db"

lemma same_credentials_membership:
  "same_credentials db (upsert_project_membership now p u r db') \<longleftrightarrow> same_credentials db db'"
  by (simp add: same_credentials_def upsert_project_membership_def)

lemma same_credentials_default_project:
  "upsert_default_project now row db' = Inr db'' \<Longrightarrow>
     same_credentials db db' \<Longrightarrow> same_credentials db db''"
  by (auto simp: upsert_default_project_def Let_def same_credentials_def split: if_splits)

lemma same_credentials_users: "same_credentials db (db\<lparr>users := rows\<rparr>)"
  by (simp add: same_credentials_def)

lemma same_credentials_refl: "same_credentials db db"
  by (simp add: same_credentials_def)

lemma same_credentials_ensure:
  assumes run: "ensure_default_project_row env now owner db = Inr (x, db')"
  shows "same_credentials db db'"
proof (cases owner)
  case None
  with run show ?thesis
    by (auto simp: ensure_default_project_row_def result_simps
        intro: same_credentials_default_project same_credentials_refl)
next
  case (Some w)
  let ?db = "db\<lparr>users := tbl_upsert u_id keep_old (new_user now w (Some w)) (users db)\<rparr>"
  have base: "same_credentials db ?db" by (rule same_credentials_users)
  from run Some show ?thesis
    by (auto simp: ensure_default_project_row_def Let_def result_simps same_credentials_membership base
        intro: same_credentials_default_project [OF _ base])
qed

named_theorems op_defs \<open>the operations that write the account tables\<close>

declare create_user_def [op_defs] create_auth_token_def [op_defs] auth_context_for_token_def [op_defs]
  revoke_auth_token_def [op_defs] find_or_create_oauth_identity_def [op_defs]
  create_web_session_def [op_defs] web_session_for_hash_def [op_defs] revoke_web_session_def [op_defs]
  create_oauth_client_def [op_defs] create_oauth_authorization_code_def [op_defs]
  consume_oauth_authorization_code_def [op_defs] create_oauth_provider_state_def [op_defs]
  consume_oauth_provider_state_def [op_defs] create_oauth_refresh_token_def [op_defs]
  consume_oauth_refresh_token_def [op_defs] revoke_oauth_refresh_token_family_def [op_defs]
  revoke_oauth_authorization_for_access_token_def [op_defs] revoke_oauth_refresh_token_def [op_defs]
  ensure_default_project_def [op_defs] create_project_def [op_defs] add_project_member_def [op_defs]
  Let_def [op_defs] result_simps [op_defs] upsert_project_membership_def [op_defs]

lemma frame_account_ops:
  "create_user env now u d db = Inr (x, db') \<Longrightarrow> same_credentials db db'"
  "ensure_default_project env now w db = Inr (x, db') \<Longrightarrow> same_credentials db db'"
  "create_project now p o' n ds b db = Inr (x, db') \<Longrightarrow> same_credentials db db'"
  "add_project_member now p m r db = Inr (y, db') \<Longrightarrow> same_credentials db db'"
  by (auto simp: op_defs same_credentials_def dest!: same_credentials_ensure)

lemma frame_tokens:
  "create_auth_token env now fresh w t d td e sc db = Inr (x, db') \<Longrightarrow>
     same_credentials (db\<lparr>auth_tokens := auth_tokens db'\<rparr>) db'"
  "auth_context_for_token env now t db = Inr (y, db') \<Longrightarrow>
     same_credentials (db\<lparr>auth_tokens := auth_tokens db'\<rparr>) db'"
  "revoke_auth_token now t db = Inr (y, db') \<Longrightarrow>
     same_credentials (db\<lparr>auth_tokens := auth_tokens db'\<rparr>) db'"
  by (auto simp: op_defs same_credentials_def dest!: same_credentials_ensure)

lemma frame_identities:
  "find_or_create_oauth_identity env now p s u n e d db = Inr (x, db') \<Longrightarrow>
     same_credentials (db\<lparr>oauth_identities := oauth_identities db'\<rparr>) db'"
  by (auto simp: op_defs same_credentials_def dest!: same_credentials_ensure)

lemma frame_sessions:
  "create_web_session now h u c e db = Inr (x, db') \<Longrightarrow>
     same_credentials (db\<lparr>web_sessions := web_sessions db'\<rparr>) db'"
  "web_session_for_hash now h db = Inr (y, db') \<Longrightarrow>
     same_credentials (db\<lparr>web_sessions := web_sessions db'\<rparr>) db'"
  "revoke_web_session now h db = Inr (z, db') \<Longrightarrow>
     same_credentials (db\<lparr>web_sessions := web_sessions db'\<rparr>) db'"
  by (auto simp: op_defs same_credentials_def)

lemma frame_clients:
  "create_oauth_client now i n u e mx db = Inr (x, db') \<Longrightarrow>
     same_credentials (db\<lparr>oauth_clients := oauth_clients db'\<rparr>) db'"
  by (auto simp: op_defs same_credentials_def)

lemma frame_codes:
  "create_oauth_authorization_code env now c i w r ch rs sc e db = Inr (x, db') \<Longrightarrow>
     same_credentials (db\<lparr>oauth_authorization_codes := oauth_authorization_codes db'\<rparr>) db'"
  "consume_oauth_authorization_code env now c i r ch db = Inr (y, db') \<Longrightarrow>
     same_credentials (db\<lparr>oauth_authorization_codes := oauth_authorization_codes db'\<rparr>) db'"
  by (auto simp: op_defs same_credentials_def)

lemma frame_pstates:
  "create_oauth_provider_state env now st p b n v d e m1 m2 db = Inr (x, db') \<Longrightarrow>
     same_credentials (db\<lparr>oauth_provider_states := oauth_provider_states db'\<rparr>) db'"
  "consume_oauth_provider_state env now st p b db = Inr (y, db') \<Longrightarrow>
     same_credentials (db\<lparr>oauth_provider_states := oauth_provider_states db'\<rparr>) db'"
  by (auto simp: op_defs same_credentials_def)

lemma frame_refresh:
  "create_oauth_refresh_token env now nowi t fam c w sc rs a e db = Inr (x, db') \<Longrightarrow>
     same_credentials (db\<lparr>auth_tokens := auth_tokens db',
       oauth_refresh_tokens := oauth_refresh_tokens db'\<rparr>) db'"
  "consume_oauth_refresh_token env now t db = Inr (y, db') \<Longrightarrow>
     same_credentials (db\<lparr>oauth_refresh_tokens := oauth_refresh_tokens db'\<rparr>) db'"
  "revoke_oauth_refresh_token_family now fam db = Inr (z, db') \<Longrightarrow>
     same_credentials (db\<lparr>auth_tokens := auth_tokens db',
       oauth_refresh_token_families := oauth_refresh_token_families db',
       oauth_refresh_tokens := oauth_refresh_tokens db'\<rparr>) db'"
  "revoke_oauth_authorization_for_access_token env now t db = Inr (z, db') \<Longrightarrow>
     same_credentials (db\<lparr>auth_tokens := auth_tokens db',
       oauth_refresh_tokens := oauth_refresh_tokens db'\<rparr>) db'"
  by (auto simp: op_defs same_credentials_def dest!: same_credentials_ensure)

lemma frame_revoke_refresh:
  "revoke_oauth_refresh_token env now t db = Inr (z, db') \<Longrightarrow>
     same_credentials (db\<lparr>auth_tokens := auth_tokens db',
       oauth_refresh_token_families := oauth_refresh_token_families db',
       oauth_refresh_tokens := oauth_refresh_tokens db'\<rparr>) db'"
  by (auto simp: revoke_oauth_refresh_token_def result_simps dest: frame_refresh)
    (simp add: same_credentials_def)

lemmas frames = frame_account_ops frame_tokens frame_identities frame_sessions frame_clients
  frame_codes frame_pstates frame_refresh frame_revoke_refresh

text \<open>The table of authorization codes changes in two operations only, and so on.\<close>

lemmas frames_open = frames [unfolded same_credentials_def, simplified]

lemma codes_frame:
  assumes "\<And>now c i w r ch rs sc e. x \<noteq> CreateCode now c i w r ch rs sc e"
    and "\<And>now c i r ch. x \<noteq> ConsumeCode now c i r ch"
  shows "oauth_authorization_codes (auth_step env x db) = oauth_authorization_codes db"
  by (cases x) (use assms in \<open>simp_all add: commit_def frames_open split: sum.splits prod.splits\<close>)

end
