(* ===== verification/CredentialOnce.thy ===== *)
theory CredentialOnce
  imports CredentialSafety
begin

text \<open>
  The credentials of the account tables meet the contracts of \<open>CredentialSafety\<close>:
  authorization codes, refresh tokens and provider states are redeemed at most once, a closed
  refresh-token family, a revoked bearer token and a revoked web session stay closed.
\<close>

lemma auth_run_fold: "auth_run env xs db = fold (auth_step env) xs db"
  by (induction xs arbitrary: db) auto

lemma list_ex_tbl_update:
  "(\<And>r. P r \<Longrightarrow> P (f r)) \<Longrightarrow> list_ex P rows \<Longrightarrow> list_ex P (tbl_update p f rows)"
  by (induction rows) (auto simp: tbl_update_def)

lemma list_all_updated:
  "(\<And>r. p r \<Longrightarrow> q (f r)) \<Longrightarrow> (\<And>r. \<not> p r \<Longrightarrow> q r) \<Longrightarrow> list_all q (tbl_update p f rows)"
  by (induction rows) (simp_all add: tbl_update_def)

lemma list_ex_tbl_insert: "tbl_insert key new rows = Some rows' \<Longrightarrow> list_ex P rows \<Longrightarrow> list_ex P rows'"
  by (auto simp: tbl_insert_Some_iff)

lemma distinct_keyD:
  "distinct (map key rows) \<Longrightarrow> r \<in> set rows \<Longrightarrow> r' \<in> set rows \<Longrightarrow> key r = key r' \<Longrightarrow> r = r'"
  by (induction rows) (auto simp: image_iff)

lemma find_SomeD: "find p rows = Some r \<Longrightarrow> p r \<and> r \<in> set rows"
  by (auto simp: find_Some_iff)

lemma update_hit_ex:
  "r \<in> set rows \<Longrightarrow> p r \<Longrightarrow> P (f r) \<Longrightarrow> list_ex P (tbl_update p f rows)"
  by (auto simp: list_ex_iff set_tbl_update)

section \<open>Authorization codes\<close>

definition code_spent :: "string \<Rightarrow> auth_db \<Rightarrow> bool" where
  "code_spent h db \<longleftrightarrow>
     list_ex (\<lambda>k. k_hash k = h \<and> k_consumed_at k \<noteq> None) (oauth_authorization_codes db)"

definition code_redeemed :: "store_env \<Rightarrow> string \<Rightarrow> auth_db \<Rightarrow> auth_db \<Rightarrow> bool" where
  "code_redeemed env h s t \<longleftrightarrow>
     (\<exists>now code c i ch d. hash_bearer_token env code = Inr h
        \<and> consume_oauth_authorization_code env now code c i ch s = Inr (Some d, t))"

lemma code_spent_step: "code_spent h db \<Longrightarrow> code_spent h (auth_step env x db)"
  unfolding code_spent_def
  by (cases x)
    (simp_all add: commit_def frames_open split: sum.splits prod.splits,
     auto simp: create_oauth_authorization_code_def consume_oauth_authorization_code_def
       op_defs intro!: list_ex_tbl_update elim: list_ex_tbl_insert)

lemma code_redeemed_spent: "code_redeemed env h s t \<Longrightarrow> code_spent h t"
  by (auto simp: code_redeemed_def code_spent_def consume_oauth_authorization_code_def
      Let_def result_simps dest!: find_SomeD elim!: update_hit_ex) (auto simp: code_matches_def)

lemma code_spent_refused: "auth_db_ok s \<Longrightarrow> code_spent h s \<Longrightarrow> \<not> code_redeemed env h s t"
  by (auto simp: code_redeemed_def code_spent_def consume_oauth_authorization_code_def op_defs
      list_ex_iff code_matches_def find_Some_iff dest!: nth_mem)
    (metis auth_db_okD(11) distinct_keyD option.distinct(1))

interpretation codes: one_time "auth_step env" auth_db_ok "\<lambda>h x. True" code_spent "code_redeemed env"
  by unfold_locales
    (auto intro: auth_step_ok code_spent_step code_redeemed_spent simp: code_spent_refused,
     auto simp: code_redeemed_def intro: ok_consume_oauth_authorization_code)

section \<open>Refresh tokens and their families\<close>

definition refresh_spent :: "string \<Rightarrow> auth_db \<Rightarrow> bool" where
  "refresh_spent h db \<longleftrightarrow>
     list_ex (\<lambda>r. r_hash r = h \<and> (r_consumed_at r \<noteq> None \<or> r_revoked_at r \<noteq> None))
       (oauth_refresh_tokens db)"

definition refresh_redeemed :: "store_env \<Rightarrow> string \<Rightarrow> auth_db \<Rightarrow> auth_db \<Rightarrow> bool" where
  "refresh_redeemed env h s t \<longleftrightarrow>
     (\<exists>now token d. hash_bearer_token env token = Inr h
        \<and> consume_oauth_refresh_token env now token s = Inr (Some d, t))"

definition family_closed :: "string \<Rightarrow> auth_db \<Rightarrow> bool" where
  "family_closed fam db \<longleftrightarrow>
     fam \<in> set (map f_id (oauth_refresh_token_families db))
     \<and> list_all (\<lambda>r. r_family r = fam \<longrightarrow> r_revoked_at r \<noteq> None) (oauth_refresh_tokens db)"

definition family_redeemed :: "store_env \<Rightarrow> string \<Rightarrow> auth_db \<Rightarrow> auth_db \<Rightarrow> bool" where
  "family_redeemed env fam s t \<longleftrightarrow>
     (\<exists>now token d. consume_oauth_refresh_token env now token s = Inr (Some d, t)
        \<and> dget d ''token_family_id'' = Some (PStr fam))"

lemma ensure_same:
  assumes "ensure_default_project_row env now owner (db\<lparr>users := rows\<rparr>) = Inr (x, db')"
  shows "oauth_refresh_tokens db' = oauth_refresh_tokens db"
    "oauth_refresh_token_families db' = oauth_refresh_token_families db"
    "auth_tokens db' = auth_tokens db"
  using same_credentials_ensure [OF assms] by (simp_all add: same_credentials_def)

text \<open>What creating a refresh token leaves in the table: one new row, revoked in a closed family.\<close>

lemma create_refresh_row:
  assumes "create_oauth_refresh_token env now nowi t fam c w sc rs a e db = Inr (x, db')"
  shows "\<exists>new. oauth_refresh_tokens db' = oauth_refresh_tokens db @ [new]
     \<and> hash_bearer_token env t = Inr (r_hash new) \<and> validate_token_lookup fam = Inr (r_family new)
     \<and> r_hash new \<notin> r_hash ` set (oauth_refresh_tokens db)
     \<and> (r_family new \<in> set (map f_id (oauth_refresh_token_families db)) \<longrightarrow> r_revoked_at new \<noteq> None)"
  using assms unfolding create_oauth_refresh_token_def Let_def
  by (clarsimp simp: result_simps tbl_insert_Some_iff split del: if_split)
    (frule ensure_same(1), drule ensure_same(2), simp)

lemma consume_refresh_rows:
  "consume_oauth_refresh_token env now t db = Inr (x, db') \<Longrightarrow>
     \<exists>p. oauth_refresh_tokens db' =
       tbl_update p (\<lambda>r. r\<lparr>r_consumed_at := Some now\<rparr>) (oauth_refresh_tokens db)"
  by (auto simp: consume_oauth_refresh_token_def Let_def result_simps)

lemma revoke_refresh_rows:
  "revoke_oauth_authorization_for_access_token env now t db = Inr (x, db') \<Longrightarrow>
     \<exists>p. oauth_refresh_tokens db' =
       tbl_update p (\<lambda>r. r\<lparr>r_revoked_at := Some now\<rparr>) (oauth_refresh_tokens db)"
  "revoke_oauth_refresh_token_family now fam db = Inr (y, db') \<Longrightarrow>
     \<exists>p. oauth_refresh_tokens db' =
       tbl_update p (\<lambda>r. r\<lparr>r_revoked_at := Some now\<rparr>) (oauth_refresh_tokens db)"
  subgoal
    by (auto simp: revoke_oauth_authorization_for_access_token_def Let_def result_simps)
      (rule exI [of _ "\<lambda>r. False"], simp add: tbl_update_def)+
  subgoal
    by (auto simp: revoke_oauth_refresh_token_family_def Let_def result_simps)
  done

lemma revoke_refresh_rows':
  "revoke_oauth_refresh_token env now t db = Inr (y, db') \<Longrightarrow>
     \<exists>p. oauth_refresh_tokens db' =
       tbl_update p (\<lambda>r. r\<lparr>r_revoked_at := Some now\<rparr>) (oauth_refresh_tokens db)"
  by (auto simp: revoke_oauth_refresh_token_def result_simps dest: revoke_refresh_rows(2))
    (rule exI [of _ "\<lambda>r. False"], simp add: tbl_update_def)

text \<open>
  How one operation changes the table: it appends a row with a fresh hash, or it sets the
  consumed or revoked timestamp of some rows.
\<close>

definition refresh_effect :: "store_env \<Rightarrow> auth_op \<Rightarrow> auth_db \<Rightarrow> auth_db \<Rightarrow> bool" where
  "refresh_effect env x db db' \<longleftrightarrow>
     oauth_refresh_tokens db' = oauth_refresh_tokens db
     \<or> (\<exists>now nowi t fam c w sc rs a e y. x = CreateRefresh now nowi t fam c w sc rs a e
          \<and> create_oauth_refresh_token env now nowi t fam c w sc rs a e db = Inr (y, db'))
     \<or> (\<exists>p now. oauth_refresh_tokens db' =
          tbl_update p (\<lambda>r. r\<lparr>r_consumed_at := Some now\<rparr>) (oauth_refresh_tokens db))
     \<or> (\<exists>p now. oauth_refresh_tokens db' =
          tbl_update p (\<lambda>r. r\<lparr>r_revoked_at := Some now\<rparr>) (oauth_refresh_tokens db))"

lemma refresh_effect_intros:
  "oauth_refresh_tokens db' = oauth_refresh_tokens db \<Longrightarrow> refresh_effect env x db db'"
  "create_oauth_refresh_token env now nowi t fam c w sc rs a e db = Inr (y, db') \<Longrightarrow>
     refresh_effect env (CreateRefresh now nowi t fam c w sc rs a e) db db'"
  "oauth_refresh_tokens db' = tbl_update p (\<lambda>r. r\<lparr>r_consumed_at := Some now\<rparr>) (oauth_refresh_tokens db) \<Longrightarrow>
     refresh_effect env x db db'"
  "oauth_refresh_tokens db' = tbl_update p (\<lambda>r. r\<lparr>r_revoked_at := Some now\<rparr>) (oauth_refresh_tokens db) \<Longrightarrow>
     refresh_effect env x db db'"
  unfolding refresh_effect_def by blast+

lemma refresh_effect_step: "refresh_effect env x db (auth_step env x db)"
  by (cases x; simp only: auth_step.simps; rule commit_invariant;
      (rule refresh_effect_intros(1), simp add: frames_open; fail)?)
    (auto intro: refresh_effect_intros dest: consume_refresh_rows revoke_refresh_rows revoke_refresh_rows'
       simp del: ex_simps)

lemma refresh_spent_step: "refresh_spent h db \<Longrightarrow> refresh_spent h (auth_step env x db)"
  using refresh_effect_step [of env x db]
  by (auto simp: refresh_effect_def refresh_spent_def dest!: create_refresh_row
      elim!: list_ex_tbl_update [rotated])

text \<open>A successful redemption: the row that was live, and the table after it.\<close>

lemma consume_refresh_Some:
  assumes "consume_oauth_refresh_token env now token s = Inr (Some d, t)"
  obtains h row where "hash_bearer_token env token = Inr h" "row \<in> set (oauth_refresh_tokens s)"
    "r_hash row = h" "refresh_live now row" "refresh_from_row (row\<lparr>r_consumed_at := Some now\<rparr>) = Inr d"
    "t = s\<lparr>oauth_refresh_tokens := tbl_update (\<lambda>r. r_hash r = h \<and> refresh_live now r)
       (\<lambda>r. r\<lparr>r_consumed_at := Some now\<rparr>) (oauth_refresh_tokens s)\<rparr>"
  using assms unfolding consume_oauth_refresh_token_def Let_def
  by (clarsimp simp: result_simps) (drule find_SomeD, blast)

lemma refresh_redeemed_spent: "refresh_redeemed env h s t \<Longrightarrow> refresh_spent h t"
  unfolding refresh_redeemed_def refresh_spent_def
  by (elim exE conjE consume_refresh_Some) (simp, rule update_hit_ex, auto)

lemma refresh_spent_refused: "auth_db_ok s \<Longrightarrow> refresh_spent h s \<Longrightarrow> \<not> refresh_redeemed env h s t"
  unfolding refresh_redeemed_def refresh_spent_def
  by (auto simp: list_ex_iff refresh_live_def elim!: consume_refresh_Some
      dest: distinct_keyD [OF auth_db_okD(8)])

interpretation refresh: one_time "auth_step env" auth_db_ok "\<lambda>h x. True" refresh_spent
    "refresh_redeemed env"
  by unfold_locales
    (auto intro: auth_step_ok refresh_spent_step refresh_redeemed_spent simp: refresh_spent_refused,
     auto simp: refresh_redeemed_def intro: ok_consume_oauth_refresh_token)

text \<open>Families: the table only grows, and a token created in a closed family is born revoked.\<close>

lemma families_step:
  "f_id ` set (oauth_refresh_token_families db) \<subseteq> f_id ` set (oauth_refresh_token_families (auth_step env x db))"
proof -
  have grow: "revoke_oauth_refresh_token_family now fam db = Inr (y, db') \<Longrightarrow>
      f_id ` set (oauth_refresh_token_families db) \<subseteq> f_id ` set (oauth_refresh_token_families db')"
    for now fam y db'
    by (auto simp: revoke_oauth_refresh_token_family_def Let_def result_simps family_keep.keys_upsert)
  have grow': "revoke_oauth_refresh_token env now t db = Inr (y, db') \<Longrightarrow>
      f_id ` set (oauth_refresh_token_families db) \<subseteq> f_id ` set (oauth_refresh_token_families db')"
    for now t y db'
    by (auto simp: revoke_oauth_refresh_token_def result_simps dest: grow)
  show ?thesis
    by (cases x; simp only: auth_step.simps; rule commit_invariant;
        (simp add: frames_open; fail)?; erule grow grow')
qed

lemma family_closed_step: "family_closed fam db \<Longrightarrow> family_closed fam (auth_step env x db)"
  using refresh_effect_step [of env x db] families_step [of db env x]
  by (auto simp: family_closed_def refresh_effect_def list_all_iff set_tbl_update
      dest!: create_refresh_row)

lemma refresh_from_row_family:
  "refresh_from_row row = Inr d \<Longrightarrow> dget d ''token_family_id'' = Some (PStr (r_family row))"
  by (auto simp: refresh_from_row_def result_simps)

lemma family_closed_refused: "family_closed fam s \<Longrightarrow> \<not> family_redeemed env fam s t"
  unfolding family_redeemed_def family_closed_def
  by (auto simp: refresh_live_def list_all_iff elim!: consume_refresh_Some dest!: refresh_from_row_family)

interpretation family: revocable "auth_step env" auth_db_ok "\<lambda>f x. True" family_closed
    "family_redeemed env"
  by unfold_locales (auto intro: auth_step_ok family_closed_step simp: family_closed_refused)

lemma revoke_family_closes:
  assumes run: "revoke_oauth_refresh_token_family now fam db = Inr (b, db')"
  shows "\<exists>v. validate_token_lookup fam = Inr v \<and> family_closed v db'"
proof -
  from run obtain v where v: "validate_token_lookup fam = Inr v"
    and f: "oauth_refresh_token_families db' =
       tbl_upsert f_id keep_old \<lparr>f_id = v, f_revoked_at = now\<rparr> (oauth_refresh_token_families db)"
    and r: "oauth_refresh_tokens db' =
       tbl_update (\<lambda>r. r_family r = v \<and> r_revoked_at r = None)
         (\<lambda>r. r\<lparr>r_revoked_at := Some now\<rparr>) (oauth_refresh_tokens db)"
    unfolding revoke_oauth_refresh_token_family_def Let_def by (clarsimp simp: result_simps)
  have "v \<in> set (map f_id (oauth_refresh_token_families db'))"
    using family_keep.keys_upsert [of "\<lparr>f_id = v, f_revoked_at = now\<rparr>"] by (simp add: f)
  moreover have "list_all (\<lambda>r. r_family r = v \<longrightarrow> r_revoked_at r \<noteq> None) (oauth_refresh_tokens db')"
    unfolding r by (rule list_all_updated) auto
  ultimately show ?thesis using v by (auto simp: family_closed_def)
qed

section \<open>Provider states\<close>

definition pstate_spent :: "string \<Rightarrow> auth_db \<Rightarrow> bool" where
  "pstate_spent h db \<longleftrightarrow>
     list_all (\<lambda>p. p_hash p = h \<longrightarrow> p_consumed_at p \<noteq> None) (oauth_provider_states db)"

definition pstate_redeemed :: "store_env \<Rightarrow> string \<Rightarrow> auth_db \<Rightarrow> auth_db \<Rightarrow> bool" where
  "pstate_redeemed env h s t \<longleftrightarrow>
     (\<exists>now state p b d. hash_oauth_ephemeral_secret env ''state'' state = Inr h
        \<and> consume_oauth_provider_state env now state p b s = Inr (Some d, t))"

text \<open>The event does not store the same state secret again.\<close>

definition no_same_state :: "store_env \<Rightarrow> string \<Rightarrow> auth_op \<Rightarrow> bool" where
  "no_same_state env h x \<longleftrightarrow>
     (case x of
        CreateProviderState now st p b n v d e m1 m2 \<Rightarrow>
          hash_oauth_ephemeral_secret env ''state'' st \<noteq> Inr h
      | _ \<Rightarrow> True)"

lemma pstate_spent_create:
  assumes "create_oauth_provider_state env now st p b n v d e m1 m2 db = Inr (x, db')"
    and "hash_oauth_ephemeral_secret env ''state'' st \<noteq> Inr h" "pstate_spent h db"
  shows "pstate_spent h db'"
  using assms
  by (auto simp: create_oauth_provider_state_def Let_def result_simps pstate_spent_def
      tbl_insert_Some_iff list_all_iff)

lemma pstate_spent_consume:
  "consume_oauth_provider_state env now st p b db = Inr (x, db') \<Longrightarrow> pstate_spent h db \<Longrightarrow>
     pstate_spent h db'"
  by (auto simp: consume_oauth_provider_state_def Let_def result_simps pstate_spent_def
      list_all_iff set_tbl_update)

lemma pstate_spent_same:
  "oauth_provider_states db' = oauth_provider_states db \<Longrightarrow> pstate_spent h db \<Longrightarrow> pstate_spent h db'"
  by (simp add: pstate_spent_def)

lemma pstate_spent_step:
  assumes "pstate_spent h db" "no_same_state env h x"
  shows "pstate_spent h (auth_step env x db)"
proof (cases x)
  case (CreateProviderState now st p b n v d e m1 m2)
  then have "hash_oauth_ephemeral_secret env ''state'' st \<noteq> Inr h"
    using assms(2) by (simp add: no_same_state_def)
  then show ?thesis
    using assms(1) CreateProviderState by (auto intro: commit_invariant pstate_spent_create)
next
  case (ConsumeProviderState now st p b)
  then show ?thesis
    using assms(1) by (auto intro: commit_invariant pstate_spent_consume)
qed (simp_all only: auth_step.simps,
    (rule commit_invariant, rule assms(1), rule pstate_spent_same [OF _ assms(1)], simp add: frames_open)+)

lemma consume_pstate_Some:
  assumes "consume_oauth_provider_state env now st p b s = Inr (Some d, t)"
  obtains h bh row where "hash_oauth_ephemeral_secret env ''state'' st = Inr h"
    "row \<in> set (oauth_provider_states s)" "pstate_matches now h p bh row"
    "pstate_returning row = Some d"
    "t = s\<lparr>oauth_provider_states := tbl_update (pstate_matches now h p bh)
       (\<lambda>s. s\<lparr>p_consumed_at := Some now\<rparr>) (oauth_provider_states s)\<rparr>"
  using assms unfolding consume_oauth_provider_state_def Let_def
  by (clarsimp simp: result_simps bind_eq_Some_conv) (drule find_SomeD, blast)

lemma pstate_redeemed_spent:
  assumes "auth_db_ok s" "pstate_redeemed env h s t"
  shows "pstate_spent h t"
  using assms unfolding pstate_redeemed_def pstate_spent_def
  by (auto elim!: consume_pstate_Some simp: list_all_iff set_tbl_update)
    (auto simp: pstate_matches_def dest: distinct_keyD [OF auth_db_okD(12)])

lemma pstate_spent_refused: "pstate_spent h s \<Longrightarrow> \<not> pstate_redeemed env h s t"
  unfolding pstate_redeemed_def pstate_spent_def
  by (auto simp: list_all_iff pstate_matches_def elim!: consume_pstate_Some)

interpretation pstates: one_time "auth_step env" auth_db_ok "no_same_state env" pstate_spent
    "pstate_redeemed env"
  by unfold_locales
    (auto intro: auth_step_ok pstate_spent_step pstate_redeemed_spent simp: pstate_spent_refused,
     auto simp: pstate_redeemed_def intro: ok_consume_oauth_provider_state)

section \<open>Bearer tokens\<close>

definition bearer_revoked :: "string \<Rightarrow> auth_db \<Rightarrow> bool" where
  "bearer_revoked h db \<longleftrightarrow> list_all (\<lambda>t. t_hash t = h \<longrightarrow> t_revoked_at t \<noteq> None) (auth_tokens db)"

definition authenticated :: "store_env \<Rightarrow> string \<Rightarrow> auth_db \<Rightarrow> auth_db \<Rightarrow> bool" where
  "authenticated env h s t \<longleftrightarrow>
     (\<exists>now token d. hash_bearer_token env token = Inr h
        \<and> auth_context_for_token env now token s = Inr (Some d, t))"

text \<open>The event does not issue the same bearer token again.\<close>

definition no_same_token :: "store_env \<Rightarrow> string \<Rightarrow> auth_op \<Rightarrow> bool" where
  "no_same_token env h x \<longleftrightarrow>
     (case x of
        CreateAuthToken now fresh w t d td e sc \<Rightarrow> hash_bearer_token env t \<noteq> Inr h
      | _ \<Rightarrow> True)"

lemma bearer_revoked_same:
  "auth_tokens db' = auth_tokens db \<Longrightarrow> bearer_revoked h db \<Longrightarrow> bearer_revoked h db'"
  by (simp add: bearer_revoked_def)

text \<open>What creating a bearer token leaves in the table.\<close>

lemma create_token_row:
  assumes "create_auth_token env now fresh w tok d td e sc db = Inr (x, db')"
  shows "\<exists>new. auth_tokens db' = tbl_upsert t_hash token_merge new (auth_tokens db)
     \<and> hash_bearer_token env tok = Inr (t_hash new)"
  using assms unfolding create_auth_token_def Let_def
  by (clarsimp simp: result_simps)
    (drule ensure_same(3), rule exI, rule conjI, (simp only:; rule refl), simp)

lemma bearer_revoked_create:
  assumes run: "create_auth_token env now fresh w tok d td e sc db = Inr (x, db')"
    and other: "hash_bearer_token env tok \<noteq> Inr h" and rev: "bearer_revoked h db"
  shows "bearer_revoked h db'"
proof -
  obtain new where db': "auth_tokens db' = tbl_upsert t_hash token_merge new (auth_tokens db)"
    and "hash_bearer_token env tok = Inr (t_hash new)"
    using create_token_row [OF run] by blast
  then have "t_hash new \<noteq> h" using other by auto
  then show ?thesis
    using rev by (auto simp: db' bearer_revoked_def list_all_iff token_merge_def dest!: token_up.upsert_rows)
qed

lemma bearer_revoked_context:
  "auth_context_for_token env now tok db = Inr (x, db') \<Longrightarrow> bearer_revoked h db \<Longrightarrow> bearer_revoked h db'"
  by (auto simp: auth_context_for_token_def result_simps bearer_revoked_def list_all_iff set_tbl_update)

lemma bearer_revoked_revoke:
  "revoke_auth_token now i db = Inr (x, db') \<Longrightarrow> bearer_revoked h db \<Longrightarrow> bearer_revoked h db'"
  by (auto simp: revoke_auth_token_def Let_def result_simps bearer_revoked_def list_all_iff set_tbl_update)

lemma create_refresh_tokens:
  assumes "create_oauth_refresh_token env now nowi t fam c w sc rs a e db = Inr (x, db')"
  shows "\<exists>p. auth_tokens db' = tbl_update p (\<lambda>t. t\<lparr>t_revoked_at := Some now\<rparr>) (auth_tokens db)"
proof -
  have none: "rows = tbl_update (\<lambda>t. False) f rows" for rows :: "token_row list" and f
    by (simp add: tbl_update_def)
  show ?thesis
    using assms unfolding create_oauth_refresh_token_def Let_def
    by (clarsimp simp: result_simps split del: if_split)
      (drule ensure_same(3), use none in \<open>force split: if_splits\<close>)
qed

lemma bearer_revoked_refresh:
  "create_oauth_refresh_token env now nowi t fam c w sc rs a e db = Inr (x, db') \<Longrightarrow>
     bearer_revoked h db \<Longrightarrow> bearer_revoked h db'"
  by (drule create_refresh_tokens) (auto simp: bearer_revoked_def list_all_iff set_tbl_update)

lemma bearer_revoked_family:
  "revoke_oauth_refresh_token_family now f db = Inr (x, db') \<Longrightarrow> bearer_revoked h db \<Longrightarrow>
     bearer_revoked h db'"
  unfolding revoke_oauth_refresh_token_family_def Let_def
  by (clarsimp simp: result_simps) (simp add: bearer_revoked_def tbl_update_def list_all_iff, auto)

lemma bearer_revoked_refresh_token:
  "revoke_oauth_refresh_token env now t db = Inr (x, db') \<Longrightarrow> bearer_revoked h db \<Longrightarrow>
     bearer_revoked h db'"
  by (auto simp: revoke_oauth_refresh_token_def result_simps dest: bearer_revoked_family)

lemma bearer_revoked_by_access:
  assumes "revoke_oauth_authorization_for_access_token env now t db = Inr (x, db')" "bearer_revoked h db"
  shows "bearer_revoked h db'"
  using assms unfolding revoke_oauth_authorization_for_access_token_def Let_def
  by (clarsimp simp: result_simps) (auto simp: bearer_revoked_def list_all_iff set_tbl_update)

lemma bearer_revoked_step:
  assumes "bearer_revoked h db" "no_same_token env h x"
  shows "bearer_revoked h (auth_step env x db)"
proof (cases x)
  case (CreateAuthToken now fresh w t d td e sc)
  then have "hash_bearer_token env t \<noteq> Inr h"
    using assms(2) by (simp add: no_same_token_def)
  then show ?thesis
    using assms(1) CreateAuthToken by (auto intro: commit_invariant bearer_revoked_create)
qed (simp_all only: auth_step.simps,
    (rule commit_invariant, rule assms(1),
     ((rule bearer_revoked_same [OF _ assms(1)], simp add: frames_open; fail)
     | (erule bearer_revoked_context [OF _ assms(1)])
     | (erule bearer_revoked_revoke [OF _ assms(1)])
     | (erule bearer_revoked_refresh [OF _ assms(1)])
     | (erule bearer_revoked_family [OF _ assms(1)])
     | (erule bearer_revoked_refresh_token [OF _ assms(1)])
     | (erule bearer_revoked_by_access [OF _ assms(1)])))+)

lemma authenticated_live:
  assumes "auth_context_for_token env now token s = Inr (Some d, t)"
  obtains h row where "hash_bearer_token env token = Inr h" "row \<in> set (auth_tokens s)"
    "t_hash row = h" "token_live now s row" "dget d ''owner_id'' = Some (PStr (t_owner row))"
  using assms unfolding auth_context_for_token_def
  by (clarsimp simp: result_simps) (drule find_SomeD, auto)

lemma bearer_revoked_refused: "bearer_revoked h s \<Longrightarrow> \<not> authenticated env h s t"
  unfolding authenticated_def bearer_revoked_def
  by (auto simp: list_all_iff token_live_def elim!: authenticated_live)

interpretation bearer: revocable "auth_step env" auth_db_ok "no_same_token env" bearer_revoked
    "authenticated env"
  by unfold_locales (auto intro: auth_step_ok bearer_revoked_step simp: bearer_revoked_refused)

section \<open>Web sessions\<close>

definition session_closed :: "string \<Rightarrow> auth_db \<Rightarrow> bool" where
  "session_closed h db \<longleftrightarrow> list_all (\<lambda>s. s_hash s = h \<longrightarrow> s_revoked_at s \<noteq> None) (web_sessions db)"

definition session_used :: "string \<Rightarrow> auth_db \<Rightarrow> auth_db \<Rightarrow> bool" where
  "session_used h s t \<longleftrightarrow> (\<exists>now d. web_session_for_hash now h s = Inr (Some d, t))"

definition no_same_session :: "string \<Rightarrow> auth_op \<Rightarrow> bool" where
  "no_same_session h x \<longleftrightarrow>
     (case x of CreateWebSession now s u c e \<Rightarrow> py_strip s \<noteq> py_strip h | _ \<Rightarrow> True)"

lemma session_hash_Inr: "validate_secret_hash f x = Inr v \<Longrightarrow> v = py_strip x"
  by (auto simp: validate_secret_hash_def Let_def split: if_splits)

lemma session_closed_same:
  "web_sessions db' = web_sessions db \<Longrightarrow> session_closed h db \<Longrightarrow> session_closed h db'"
  by (simp add: session_closed_def)

lemma session_closed_ops:
  "web_session_for_hash now g db = Inr (x, db') \<Longrightarrow> session_closed h db \<Longrightarrow> session_closed h db'"
  "revoke_web_session now g db = Inr (y, db') \<Longrightarrow> session_closed h db \<Longrightarrow> session_closed h db'"
  "create_web_session now g u c e db = Inr (z, db') \<Longrightarrow> session_closed h db \<Longrightarrow> py_strip g \<noteq> h \<Longrightarrow>
     session_closed h db'"
  subgoal
    by (auto simp: web_session_for_hash_def result_simps session_closed_def list_all_iff set_tbl_update)
  subgoal
    by (auto simp: revoke_web_session_def Let_def result_simps session_closed_def list_all_iff set_tbl_update)
  subgoal
    by (auto simp: create_web_session_def Let_def result_simps session_closed_def list_all_iff
        session_merge_def dest!: session_up.upsert_rows session_hash_Inr)
  done

lemma session_closed_step:
  assumes "session_closed (py_strip h) db" "no_same_session h x"
  shows "session_closed (py_strip h) (auth_step env x db)"
proof (cases x)
  case (CreateWebSession now g u c e)
  then have "py_strip g \<noteq> py_strip h"
    using assms(2) by (simp add: no_same_session_def)
  then show ?thesis
    using assms(1) CreateWebSession by (auto intro: commit_invariant session_closed_ops)
qed (simp_all only: auth_step.simps,
    (rule commit_invariant, rule assms(1),
     ((rule session_closed_same [OF _ assms(1)], simp add: frames_open; fail)
     | (erule session_closed_ops(1) [OF _ assms(1)])
     | (erule session_closed_ops(2) [OF _ assms(1)])))+)

lemma session_closed_refused: "session_closed (py_strip h) s \<Longrightarrow> \<not> session_used h s t"
  by (auto simp: session_used_def session_closed_def web_session_for_hash_def result_simps
      list_all_iff session_live_def dest!: find_SomeD session_hash_Inr)

interpretation session: revocable "auth_step env" auth_db_ok no_same_session
    "\<lambda>h. session_closed (py_strip h)" session_used
  by unfold_locales (auto intro: auth_step_ok session_closed_step simp: session_closed_refused)

lemma revoke_session_closes:
  "revoke_web_session now h db = Inr (b, db') \<Longrightarrow> session_closed (py_strip h) db'"
  by (auto simp: revoke_web_session_def Let_def result_simps session_closed_def list_all_iff
      set_tbl_update dest!: session_hash_Inr)

lemma revoke_token_closes:
  assumes ok: "auth_db_ok db" and run: "revoke_auth_token now i db = Inr (Some d, db')"
  shows "\<exists>row \<in> set (auth_tokens db). t_id row = Some (py_strip i) \<and> bearer_revoked (t_hash row) db'"
  using run unfolding revoke_auth_token_def Let_def
  by (clarsimp simp: result_simps validate_token_lookup_Inr_iff)
    (drule find_SomeD, rule bexI, auto simp: bearer_revoked_def list_all_iff set_tbl_update)

end
