(* ===== verification/AuthProperties.thy ===== *)
theory AuthProperties
  imports CredentialOnce
begin

text \<open>
  The properties of accounts, credentials, OAuth state and projects in the SQLite metadata
  store. Each is a few lines over the interpretations of \<open>CredentialOnce\<close> and the invariant
  of \<open>AuthInvariant\<close>. The witnesses run on a small database built by the operations
  themselves, with identity functions for the hashes.
\<close>

section \<open>A concrete environment and database for the witnesses\<close>

definition demo_env :: store_env where
  "demo_env = \<lparr>env_pbkdf2 = (\<lambda>p s. p), env_pbkdf2_16 = (\<lambda>p s. p), env_sha256 = (\<lambda>s. s),
     env_hash_secret = None, env_jwt_segment = (\<lambda>s. None), env_iso_datetime = (\<lambda>s. True)\<rparr>"

definition demo_ops :: "auth_op list" where
  "demo_ops =
     [CreateUser ''2026-01-01 00:00:00'' ''alice'' (Some ''Alice''),
      CreateAuthToken ''2026-01-01 00:00:01'' ''tok_1'' ''alice'' ''bearer'' None None None None,
      CreateCode ''2026-01-01 00:00:02'' ''code'' ''client'' ''alice'' ''uri'' ''chal'' ''res'' ''scope''
        ''2026-01-02 00:00:00'',
      CreateRefresh ''2026-01-01 00:00:03'' ''iso'' ''refresh'' ''fam'' ''client'' ''alice'' None ''res''
        (Some ''tok_1'') ''2026-02-01 00:00:00'',
      CreateProviderState ''2026-01-01 00:00:04'' ''state'' ''google'' ''browser'' ''nonce'' ''ver''
        (PDict []) ''2026-01-02 00:00:00'' 5 9]"

definition demo_db :: auth_db where
  "demo_db = auth_run demo_env demo_ops empty_auth_db"

definition outcome :: "'a db_result \<Rightarrow> 'a option" where
  "outcome r = (case r of Inl e \<Rightarrow> None | Inr (x, _) \<Rightarrow> Some x)"

lemma demo_db_ok: "auth_db_ok demo_db"
  unfolding demo_db_def by (rule auth_run_ok) (rule auth_db_ok_empty)

lemma outcome_commit: "outcome r = Some x \<Longrightarrow> r = Inr (x, commit db r)"
  by (auto simp: outcome_def commit_def split: sum.splits prod.splits)

lemma outcome_Inr [simp]: "outcome (Inr (x, db)) = Some x"
  by (simp add: outcome_def)

lemma outcome_Some_iff: "outcome r = Some x \<longleftrightarrow> (\<exists>db. r = Inr (x, db))"
  by (auto simp: outcome_def split: sum.splits prod.splits)

lemma find_append_None: "find p xs = None \<Longrightarrow> find p (xs @ ys) = find p ys"
  by (induction xs) (auto split: if_splits)

lemma distinct_find_key:
  "distinct (map key xs) \<Longrightarrow> x \<in> set xs \<Longrightarrow> key x = k \<Longrightarrow> q x \<Longrightarrow> find (\<lambda>y. key y = k \<and> q y) xs = Some x"
  by (induction xs) (auto simp: image_iff)

lemma token_ids_uniqueD:
  assumes "token_ids_unique rows" "r \<in> set rows" "t_id r = Some i" "r' \<in> set rows" "t_id r' = Some i"
  shows "r = r'"
proof -
  have mem: "s \<in> set xs \<Longrightarrow> t_id s = Some i \<Longrightarrow> i \<in> set (List.map_filter t_id xs)" for s xs
    by (force simp: List.map_filter_def)
  show ?thesis
    using assms unfolding token_ids_unique_def
    by (induction rows) (auto simp: List.map_filter_simps dest: mem split: option.splits)
qed

section \<open>Every reachable database is well formed\<close>

text \<open>
  C24. In every state that a sequence of account, token, session, OAuth and project operations
  reaches from an empty database, all primary keys and unique indexes hold, every membership
  role is known and every stored scope list is normalised, so reading a row back never raises.
\<close>

theorem reachable_auth_db_ok: "auth_db_ok (auth_run env xs empty_auth_db)"
  by (rule auth_run_ok) (rule auth_db_ok_empty)

section \<open>Authorization codes\<close>

text \<open>
  An authorization code is redeemed at most once: after a successful exchange no sequence
  of operations, not even storing the same code again, makes an exchange of that code succeed,
  whatever client, redirect URI, challenge and time are given.
\<close>

lemma authorization_code_single_use:
  assumes "auth_db_ok db"
    and "consume_oauth_authorization_code env now code c i ch db = Inr (Some d, db1)"
  shows "consume_oauth_authorization_code env now' code c' i' ch' (auth_run env xs db1) \<noteq> Inr (Some d', db2)"
proof -
  obtain h where h: "hash_bearer_token env code = Inr h"
    using assms(2) by (auto simp: consume_oauth_authorization_code_def result_simps)
  then have "code_redeemed env h db db1"
    using assms(2) unfolding code_redeemed_def by blast
  with codes.no_replay [OF assms(1) this, of xs db2] h show ?thesis
    by (auto simp: auth_run_fold code_redeemed_def list_all_iff)
qed

definition demo_exchange :: "pydict option db_result" where
  "demo_exchange = consume_oauth_authorization_code demo_env ''2026-01-01 00:01:00'' ''code'' ''client''
     ''uri'' ''chal'' demo_db"

lemma demo_exchange_ok:
  "demo_exchange = Inr (Some (the (the (outcome demo_exchange))), commit demo_db demo_exchange)"
proof -
  have "(case outcome demo_exchange of Some (Some d) \<Rightarrow> True | _ \<Rightarrow> False)" by code_simp
  then obtain d where "outcome demo_exchange = Some (Some d)" by (auto split: option.splits)
  from outcome_commit [OF this, of demo_db] this show ?thesis by simp
qed

lemma authorization_code_single_use_witness:
  "consume_oauth_authorization_code demo_env ''2026-01-01 00:02:00'' ''code'' ''client'' ''uri'' ''chal''
     (auth_run demo_env demo_ops (commit demo_db demo_exchange)) \<noteq> Inr (Some [], empty_auth_db)"
  by (rule authorization_code_single_use [OF demo_db_ok demo_exchange_ok [unfolded demo_exchange_def],
        folded demo_exchange_def])

text \<open>
  A stored authorization code can be exchanged: storing a code and exchanging it before its
  expiry with the same client, redirect URI and challenge returns the owner, resource and scope
  it was stored with and marks it consumed at the time of the exchange.
\<close>

lemma authorization_code_roundtrip:
  assumes "auth_db_ok db"
    and "create_oauth_authorization_code env now code c w i ch res sc expiry db = Inr ((), db1)"
    and "validate_token_lookup c = Inr c'" "validate_owner_id w = Inr w'" "after expiry now'"
  shows "consume_oauth_authorization_code env now' code c' i ch db1 =
     Inr (Some [(''client_id'', PStr c'), (''owner_id'', PStr w'), (''redirect_uri'', PStr i),
            (''code_challenge'', PStr ch), (''resource'', PStr res), (''scope'', PStr sc),
            (''created_at'', PStr now), (''expires_at'', PStr expiry)],
          commit db1 (consume_oauth_authorization_code env now' code c' i ch db1))"
proof -
  obtain h where h: "hash_bearer_token env code = Inr h"
    and new: "k_hash ` set (oauth_authorization_codes db) \<inter> {h} = {}"
    and db1: "oauth_authorization_codes db1 = oauth_authorization_codes db @
       [\<lparr>k_hash = h, k_client_id = c', k_owner_id = w', k_redirect_uri = i, k_challenge = ch,
         k_resource = res, k_scope = sc, k_created_at = now, k_expires_at = expiry,
         k_consumed_at = None\<rparr>]"
    using assms(2-4) by (auto simp: create_oauth_authorization_code_def result_simps tbl_insert_Some_iff)
  have none: "find (code_matches now' h c' i ch) (oauth_authorization_codes db) = None"
    using new by (force simp: find_None_iff code_matches_def)
  show ?thesis
    using h none assms(5)
    by (simp add: consume_oauth_authorization_code_def db1 find_append_None code_matches_def
        code_returning_def commit_def)
qed

lemma authorization_code_roundtrip_witness:
  "outcome (consume_oauth_authorization_code demo_env ''2026-01-01 00:00:03'' ''code2'' ''client'' ''uri'' ''chal''
     (commit demo_db (create_oauth_authorization_code demo_env ''2026-01-01 00:00:02'' ''code2'' ''client''
        ''alice'' ''uri'' ''chal'' ''res'' ''scope'' ''2026-01-02 00:00:00'' demo_db))) =
   Some (Some [(''client_id'', PStr ''client''), (''owner_id'', PStr ''alice''), (''redirect_uri'', PStr ''uri''),
     (''code_challenge'', PStr ''chal''), (''resource'', PStr ''res''), (''scope'', PStr ''scope''),
     (''created_at'', PStr ''2026-01-01 00:00:02''), (''expires_at'', PStr ''2026-01-02 00:00:00'')])"
proof -
  let ?r = "create_oauth_authorization_code demo_env ''2026-01-01 00:00:02'' ''code2'' ''client''
        ''alice'' ''uri'' ''chal'' ''res'' ''scope'' ''2026-01-02 00:00:00'' demo_db"
  have "outcome ?r = Some ()" by code_simp
  note run = outcome_commit [OF this, of demo_db]
  have c: "validate_token_lookup ''client'' = Inr ''client''" by code_simp
  have w: "validate_owner_id ''alice'' = Inr ''alice''" by code_simp
  have e: "after ''2026-01-02 00:00:00'' ''2026-01-01 00:00:03''" by code_simp
  from authorization_code_roundtrip [OF demo_db_ok run c w e] show ?thesis
    by (metis outcome_Inr)
qed

section \<open>Refresh tokens\<close>

text \<open>
  A refresh token is redeemed at most once: after one successful rotation no sequence of
  operations makes the same refresh token redeemable again.
\<close>

lemma refresh_token_single_use:
  assumes "auth_db_ok db" and "consume_oauth_refresh_token env now token db = Inr (Some d, db1)"
  shows "consume_oauth_refresh_token env now' token (auth_run env xs db1) \<noteq> Inr (Some d', db2)"
proof -
  obtain h where h: "hash_bearer_token env token = Inr h"
    using assms(2) by (auto simp: consume_oauth_refresh_token_def result_simps)
  then have "refresh_redeemed env h db db1"
    using assms(2) unfolding refresh_redeemed_def by blast
  with refresh.no_replay [OF assms(1) this, of xs db2] h show ?thesis
    by (auto simp: auth_run_fold refresh_redeemed_def list_all_iff)
qed

lemma refresh_token_single_use_witness:
  "consume_oauth_refresh_token demo_env ''2026-01-01 00:02:00'' ''refresh'' (auth_run demo_env demo_ops
     (commit demo_db (consume_oauth_refresh_token demo_env ''2026-01-01 00:01:00'' ''refresh'' demo_db)))
   \<noteq> Inr (Some [], empty_auth_db)"
proof -
  let ?r = "consume_oauth_refresh_token demo_env ''2026-01-01 00:01:00'' ''refresh'' demo_db"
  have "outcome ?r \<noteq> None \<and> outcome ?r \<noteq> Some None" by code_simp
  then obtain d where "outcome ?r = Some (Some d)" by auto
  from refresh_token_single_use [OF demo_db_ok outcome_commit [OF this, of demo_db]] show ?thesis .
qed

text \<open>
  Revoking a refresh-token family is permanent: afterwards no sequence of operations, in
  particular not a rotation that creates a new refresh token of the family, makes any refresh
  token of that family redeemable.
\<close>

lemma family_revocation_permanent:
  assumes "auth_db_ok db" and "revoke_oauth_refresh_token_family now fam db = Inr (b, db1)"
    and "consume_oauth_refresh_token env now' token (auth_run env xs db1) = Inr (Some d, db2)"
  shows "dget d ''token_family_id'' \<noteq> Some (PStr (py_strip fam))"
proof
  assume d: "dget d ''token_family_id'' = Some (PStr (py_strip fam))"
  obtain v where "validate_token_lookup fam = Inr v" "family_closed v db1"
    using revoke_family_closes [OF assms(2)] by blast
  then have "family_closed (py_strip fam) db1" "auth_db_ok db1"
    using ok_revoke_oauth_refresh_token_family [OF assms(1,2)] by (auto simp: validate_token_lookup_Inr_iff)
  then have "\<not> family_redeemed env (py_strip fam) (auth_run env xs db1) db2"
    using family.never_again by (simp add: auth_run_fold list_all_iff)
  then show False
    using assms(3) d unfolding family_redeemed_def by blast
qed

definition demo_rotation :: "auth_op list" where
  "demo_rotation =
     [CreateRefresh ''2026-01-01 00:03:00'' ''iso'' ''refresh2'' ''fam'' ''client'' ''alice'' None ''res''
        (Some ''tok_1'') ''2026-02-01 00:00:00'',
      CreateRefresh ''2026-01-01 00:03:00'' ''iso'' ''refresh3'' ''fam3'' ''client'' ''alice'' None ''res''
        (Some ''tok_1'') ''2026-02-01 00:00:00'']"

definition demo_closed :: auth_db where
  "demo_closed = auth_run demo_env demo_rotation
     (commit demo_db (revoke_oauth_refresh_token_family ''2026-01-01 00:02:00'' ''fam'' demo_db))"

lemma family_revocation_permanent_witness:
  "\<exists>d. outcome (consume_oauth_refresh_token demo_env ''2026-01-01 00:04:00'' ''refresh3'' demo_closed) = Some (Some d)
     \<and> dget d ''token_family_id'' \<noteq> Some (PStr (py_strip '' fam ''))"
proof -
  let ?r = "revoke_oauth_refresh_token_family ''2026-01-01 00:02:00'' ''fam'' demo_db"
  let ?c = "consume_oauth_refresh_token demo_env ''2026-01-01 00:04:00'' ''refresh3'' demo_closed"
  have strip: "py_strip '' fam '' = py_strip ''fam''" by code_simp
  have "outcome ?r = Some True" by code_simp
  note r = outcome_commit [OF this, of demo_db]
  have "outcome ?c \<noteq> None \<and> outcome ?c \<noteq> Some None" by code_simp
  then obtain d where d: "outcome ?c = Some (Some d)" by auto
  note c = outcome_commit [OF this, of demo_db, unfolded demo_closed_def]
  show ?thesis
    using family_revocation_permanent [OF demo_db_ok r c] d strip by (simp add: demo_closed_def)
qed

text \<open>
  Revoking by access token leaves the family open: \<open>revoke_oauth_authorization_for_access_token\<close>
  reports success, and yet a refresh token that a rotation in flight then stores in the same
  family is live and redeemable, because the family is not recorded as revoked.
\<close>

lemma access_token_revocation_leaves_family_open:
  "let r = revoke_oauth_authorization_for_access_token demo_env ''2026-01-01 00:02:00'' ''bearer'' demo_db;
       later = auth_run demo_env demo_rotation (commit demo_db r);
       c = consume_oauth_refresh_token demo_env ''2026-01-01 00:04:00'' ''refresh2'' later
   in outcome r = Some True
      \<and> \<not> family_closed ''fam'' later
      \<and> (case outcome c of Some (Some d) \<Rightarrow> dget d ''token_family_id'' = Some (PStr ''fam'') | _ \<Rightarrow> False)"
  by code_simp

section \<open>Bearer tokens and web sessions\<close>

text \<open>
  A revoked bearer token never authenticates again: after \<open>revoke_auth_token\<close> on its id, no
  sequence of operations that does not issue the same token again makes
  \<open>auth_context_for_token\<close> return a context for it.
\<close>

lemma revoked_token_never_authenticates:
  assumes "auth_db_ok db" and "revoke_auth_token now i db = Inr (Some d, db1)"
    and "row \<in> set (auth_tokens db)" "t_id row = Some (py_strip i)"
    and "hash_bearer_token env token = Inr (t_hash row)"
    and "list_all (no_same_token env (t_hash row)) xs"
  shows "auth_context_for_token env now' token (auth_run env xs db1) \<noteq> Inr (Some d', db2)"
proof -
  obtain row' where row': "row' \<in> set (auth_tokens db)" "t_id row' = Some (py_strip i)"
    and rev: "bearer_revoked (t_hash row') db1"
    using revoke_token_closes [OF assms(1,2)] by blast
  have "row' = row"
    using auth_db_okD(3) [OF assms(1)] row' assms(3,4) by (rule token_ids_uniqueD)
  then have "\<not> authenticated env (t_hash row) (auth_run env xs db1) db2"
    using bearer.never_again [OF ok_revoke_auth_token [OF assms(1,2)]] rev assms(6)
    by (simp add: auth_run_fold)
  then show ?thesis
    using assms(5) unfolding authenticated_def by blast
qed

lemma revoked_token_never_authenticates_witness:
  "auth_context_for_token demo_env ''2026-01-01 00:03:00'' ''bearer''
     (auth_run demo_env demo_rotation (commit demo_db (revoke_auth_token ''2026-01-01 00:02:00'' ''tok_1'' demo_db)))
   \<noteq> Inr (Some [], empty_auth_db)"
proof -
  let ?r = "revoke_auth_token ''2026-01-01 00:02:00'' ''tok_1'' demo_db"
  let ?row = "hd (auth_tokens demo_db)"
  have "outcome ?r \<noteq> None \<and> outcome ?r \<noteq> Some None" by code_simp
  then obtain d where "outcome ?r = Some (Some d)" by auto
  note r = outcome_commit [OF this, of demo_db]
  have "auth_tokens demo_db \<noteq> []" by code_simp
  then have mem: "?row \<in> set (auth_tokens demo_db)" by simp
  have i: "t_id ?row = Some (py_strip ''tok_1'')" by code_simp
  have h: "hash_bearer_token demo_env ''bearer'' = Inr (t_hash ?row)" by code_simp
  have xs: "list_all (no_same_token demo_env (t_hash ?row)) demo_rotation" by code_simp
  show ?thesis
    by (rule revoked_token_never_authenticates [OF demo_db_ok r mem i h xs])
qed

text \<open>
  \<open>auth_context_for_token\<close> authenticates exactly the live tokens: it returns a context if and
  only if some row has the hash of the token, is not revoked, belongs to an enabled account and
  has no expiry or one after the clock; the context carries that row's owner and id.
\<close>

lemma auth_context_iff_live:
  assumes "auth_db_ok db" "hash_bearer_token env token = Inr h"
  shows "outcome (auth_context_for_token env now token db) = Some (Some ctx) \<longleftrightarrow>
    (\<exists>row scopes. row \<in> set (auth_tokens db) \<and> t_hash row = h \<and> token_live now db row
       \<and> parse_token_scopes (t_scopes row) = Inr scopes
       \<and> ctx = [(''owner_id'', PStr (t_owner row)), (''token_id'', of_opt (t_id row)),
                (''scopes'', PList (map PStr scopes))])"
    (is "?lhs \<longleftrightarrow> ?rhs")
proof -
  let ?p = "\<lambda>t. t_hash t = h \<and> token_live now db t"
  have found: "find ?p (auth_tokens db) = Some row" if "row \<in> set (auth_tokens db)" "?p row" for row
    using distinct_find_key [OF auth_db_okD(2) [OF assms(1)]] that by blast
  show ?thesis
    using assms(2) found
    by (cases "find ?p (auth_tokens db)")
      (auto simp: auth_context_for_token_def outcome_Some_iff bind_result_Inr_iff dest: find_SomeD)
qed

lemma auth_context_iff_live_witness:
  "outcome (auth_context_for_token demo_env ''2026-01-01 00:03:00'' ''bearer'' demo_db) =
     Some (Some [(''owner_id'', PStr ''alice''), (''token_id'', PStr ''tok_1''),
       (''scopes'', PList [PStr ''memory:read'', PStr ''memory:write''])])"
proof -
  let ?row = "hd (auth_tokens demo_db)"
  have h: "hash_bearer_token demo_env ''bearer'' = Inr ''pbkdf2-sha256:bearer''" by code_simp
  have "auth_tokens demo_db \<noteq> []" by code_simp
  then have mem: "?row \<in> set (auth_tokens demo_db)" by simp
  have "t_hash ?row = ''pbkdf2-sha256:bearer'' \<and> token_live ''2026-01-01 00:03:00'' demo_db ?row
    \<and> parse_token_scopes (t_scopes ?row) = Inr [''memory:read'', ''memory:write'']
    \<and> t_owner ?row = ''alice'' \<and> t_id ?row = Some ''tok_1''" by code_simp
  then show ?thesis
    unfolding auth_context_iff_live [OF demo_db_ok h] using mem
    by (intro exI [of _ ?row] exI [of _ "[''memory:read'', ''memory:write'']"])
      (simp add: of_opt_def)
qed

text \<open>
  A revoked web session is never resumed: after \<open>revoke_web_session\<close>, no sequence of
  operations that does not store the same session hash again makes \<open>web_session_for_hash\<close>
  return the session.
\<close>

lemma revoked_session_never_resumes:
  assumes "auth_db_ok db" and "revoke_web_session now h db = Inr (b, db1)"
    and "list_all (no_same_session h) xs"
  shows "web_session_for_hash now' h (auth_run env xs db1) \<noteq> Inr (Some d, db2)"
  using session.never_again [OF ok_revoke_web_session [OF assms(1,2)] revoke_session_closes [OF assms(2)] assms(3)]
  by (auto simp: auth_run_fold session_used_def)

definition demo_session :: string where
  "demo_session = ''sha256:0123456789abcdef0123456789abcdef0123456789abcdef0123456789abcdef''"

definition demo_logged_in :: auth_db where
  "demo_logged_in = auth_run demo_env
     [CreateWebSession ''2026-01-01 00:01:00'' demo_session ''alice'' demo_session ''2026-01-09 00:00:00''] demo_db"

lemma revoked_session_never_resumes_witness:
  "outcome (web_session_for_hash ''2026-01-01 00:02:00'' demo_session demo_logged_in) \<noteq> Some None
   \<and> web_session_for_hash ''2026-01-01 00:03:00'' demo_session (auth_run demo_env demo_ops
       (commit demo_logged_in (revoke_web_session ''2026-01-01 00:02:00'' demo_session demo_logged_in)))
     \<noteq> Inr (Some [], empty_auth_db)"
proof
  show "outcome (web_session_for_hash ''2026-01-01 00:02:00'' demo_session demo_logged_in) \<noteq> Some None"
    by code_simp
  let ?r = "revoke_web_session ''2026-01-01 00:02:00'' demo_session demo_logged_in"
  have ok: "auth_db_ok demo_logged_in"
    unfolding demo_logged_in_def by (rule auth_run_ok) (rule demo_db_ok)
  have "outcome ?r = Some True" by code_simp
  note r = outcome_commit [OF this, of demo_logged_in]
  have xs: "list_all (no_same_session demo_session) demo_ops" by code_simp
  show "web_session_for_hash ''2026-01-01 00:03:00'' demo_session (auth_run demo_env demo_ops
       (commit demo_logged_in ?r)) \<noteq> Inr (Some [], empty_auth_db)"
    by (rule revoked_session_never_resumes [OF ok r xs])
qed

text \<open>
  An expiry written in ISO format is not enforced on its own day: a session whose
  \<open>expires_at\<close> is \<open>dayThh:mm:ss+00:00\<close> is still returned by \<open>web_session_for_hash\<close> at any clock
  reading of the same day, also after its expiry time, because \<open>expires_at > CURRENT_TIMESTAMP\<close>
  compares text and the letter T sorts after the space of the SQLite timestamp.
\<close>

lemma iso_expiry_not_enforced_same_day:
  assumes "auth_db_ok db" "validate_secret_hash ''session_id_hash'' h = Inr h"
    and "row \<in> set (web_sessions db)" "s_hash row = h" "s_revoked_at row = None"
    and "s_expires_at row = day @ ''T'' @ expiry_time"
  shows "outcome (web_session_for_hash (day @ '' '' @ clock_time) h db) = Some (Some (session_from_row row))"
proof -
  have "after (s_expires_at row) (day @ '' '' @ clock_time)"
    unfolding after_def assms(6) by (induction day) (simp_all add: less_char_def)
  then have "find (\<lambda>s. s_hash s = h \<and> session_live (day @ '' '' @ clock_time) s) (web_sessions db) = Some row"
    using distinct_find_key [OF auth_db_okD(6) [OF assms(1)] assms(3,4)] assms(5)
    by (simp add: session_live_def)
  then show ?thesis
    by (simp add: web_session_for_hash_def assms(2) outcome_def)
qed

definition demo_iso_session :: auth_db where
  "demo_iso_session = auth_run demo_env
     [CreateWebSession ''2026-01-01 00:01:00'' demo_session ''alice'' demo_session ''2026-01-01T01:01:00+00:00'']
     demo_db"

lemma iso_expiry_not_enforced_same_day_witness:
  "\<exists>d. outcome (web_session_for_hash ''2026-01-01 23:59:59'' demo_session demo_iso_session) = Some (Some d)
     \<and> dget d ''expires_at'' = Some (PStr ''2026-01-01T01:01:00+00:00'')"
proof -
  let ?row = "hd (web_sessions demo_iso_session)"
  have ok: "auth_db_ok demo_iso_session"
    unfolding demo_iso_session_def by (rule auth_run_ok) (rule demo_db_ok)
  have v: "validate_secret_hash ''session_id_hash'' demo_session = Inr demo_session" by code_simp
  have "web_sessions demo_iso_session \<noteq> []" by code_simp
  then have mem: "?row \<in> set (web_sessions demo_iso_session)" by simp
  have f: "s_hash ?row = demo_session" "s_revoked_at ?row = None"
    "s_expires_at ?row = ''2026-01-01'' @ ''T'' @ ''01:01:00+00:00''"
    by code_simp+
  have "outcome (web_session_for_hash (''2026-01-01'' @ '' '' @ ''23:59:59'') demo_session demo_iso_session) =
      Some (Some (session_from_row ?row))"
    by (rule iso_expiry_not_enforced_same_day [OF ok v mem f])
  then show ?thesis
    using f(3) by (simp add: session_from_row_def)
qed

section \<open>Provider states and clients\<close>

text \<open>
  An OAuth provider state is consumed at most once: after a successful callback no sequence
  of operations that does not store the same state secret again makes a callback with that
  state succeed, from whatever browser session and provider.
\<close>

lemma provider_state_single_use:
  assumes "auth_db_ok db" "hash_oauth_ephemeral_secret env ''state'' st = Inr h"
    and "consume_oauth_provider_state env now st p b db = Inr (Some d, db1)"
    and "list_all (no_same_state env h) xs"
  shows "consume_oauth_provider_state env now' st p' b' (auth_run env xs db1) \<noteq> Inr (Some d', db2)"
proof -
  have "pstate_redeemed env h db db1"
    using assms(2,3) unfolding pstate_redeemed_def by blast
  with pstates.no_replay [OF assms(1) this assms(4), of db2] assms(2) show ?thesis
    by (auto simp: auth_run_fold pstate_redeemed_def)
qed

lemma provider_state_single_use_witness:
  "consume_oauth_provider_state demo_env ''2026-01-01 00:02:00'' ''state'' ''google'' ''browser''
     (auth_run demo_env demo_rotation (commit demo_db
        (consume_oauth_provider_state demo_env ''2026-01-01 00:01:00'' ''state'' ''google'' ''browser'' demo_db)))
   \<noteq> Inr (Some [], empty_auth_db)"
proof -
  let ?r = "consume_oauth_provider_state demo_env ''2026-01-01 00:01:00'' ''state'' ''google'' ''browser'' demo_db"
  have "outcome ?r \<noteq> None \<and> outcome ?r \<noteq> Some None" by code_simp
  then obtain d where "outcome ?r = Some (Some d)" by auto
  note r = outcome_commit [OF this, of demo_db]
  have h: "hash_oauth_ephemeral_secret demo_env ''state'' ''state'' =
      Inr ''sha256:ai-memory-hub:oauth:state:default:state''" by code_simp
  have xs: "list_all (no_same_state demo_env ''sha256:ai-memory-hub:oauth:state:default:state'') demo_rotation"
    by code_simp
  show ?thesis
    by (rule provider_state_single_use [OF demo_db_ok h r xs])
qed

text \<open>
  C28. The quotas on provider states are enforced: when storing a state succeeds, the states
  that are live at that moment number at most the global quota in total and at most the
  per-browser quota for the browser session the state was stored for.
\<close>

theorem provider_state_quotas:
  assumes "create_oauth_provider_state env now st p b n v d expiry m1 m2 db = Inr ((), db1)"
    and "hash_oauth_ephemeral_secret env ''browser-session'' b = Inr bh"
  shows "tbl_count (pstate_active now) (oauth_provider_states db1) \<le> m2
    \<and> tbl_count (\<lambda>s. p_browser_hash s = bh \<and> pstate_active now s) (oauth_provider_states db1) \<le> m1"
  using assms
  by (auto simp: create_oauth_provider_state_def Let_def result_simps tbl_insert_Some_iff tbl_count_def)

theorem provider_state_quotas_witness:
  "let r = create_oauth_provider_state demo_env ''2026-01-01 00:02:00'' ''state2'' ''google'' ''browser''
        ''n'' ''v'' (PDict []) ''2026-01-02 00:00:00'' 2 2 demo_db in
   outcome r = Some ()
   \<and> tbl_count (pstate_active ''2026-01-01 00:02:00'') (oauth_provider_states (commit demo_db r)) \<le> 2"
proof -
  let ?r = "create_oauth_provider_state demo_env ''2026-01-01 00:02:00'' ''state2'' ''google'' ''browser''
        ''n'' ''v'' (PDict []) ''2026-01-02 00:00:00'' 2 2 demo_db"
  have o: "outcome ?r = Some ()" by code_simp
  have h: "hash_oauth_ephemeral_secret demo_env ''browser-session'' ''browser'' =
      Inr ''sha256:ai-memory-hub:oauth:browser-session:default:browser''" by code_simp
  show ?thesis
    using o provider_state_quotas [OF outcome_commit [OF o, of demo_db] h] by (simp add: Let_def)
qed

section \<open>Projects and roles\<close>

text \<open>
  Project roles form a hierarchy that \<open>project_has_role\<close> decides: after a member is added
  with a role to a project that is not archived, exactly the roles of equal or lower rank are
  granted to that member.
\<close>

lemma member_role_hierarchy:
  assumes "auth_db_ok db" "add_project_member now p u r db = Inr ((), db1)"
    and "project_open db (py_strip p)"
    and "validate_project_role r = Inr given" "validate_project_role q = Inr asked"
  shows "project_has_role p (Some u) q db1 =
    Inr (the (project_role_order asked) \<le> the (project_role_order given))"
proof -
  from assms(2) obtain pid user where v: "validate_project_id p = Inr pid" "validate_owner_id u = Inr user"
    and db1: "db1 = upsert_project_membership now pid user given
      (db\<lparr>users := tbl_upsert u_id keep_old (new_user now user (Some user)) (users db)\<rparr>)"
    using assms(4) by (auto simp: add_project_member_def Let_def result_simps)
  have pid: "pid = py_strip p" using v(1) by (simp add: validate_project_id_Inr_iff)
  let ?row = "\<lparr>m_project = pid, m_user = user, m_role = given, m_created_at = now, m_updated_at = now\<rparr>"
  have "project_open db1 pid = project_open db (py_strip p)"
    by (simp add: db1 pid upsert_project_membership_def project_open_def)
  then have opn: "project_open db1 pid" using assms(3) by simp
  obtain m where m: "tbl_get member_key (pid, user) (project_memberships db1) = Some m" "m_role m = given"
    by (auto simp: db1 upsert_project_membership_def member_up.get_upsert member_key_def member_merge_def
        split: option.splits)
  have "find (\<lambda>m. m_project m = pid \<and> m_user m = user \<and> project_open db1 pid) (project_memberships db1) = Some m"
    using m(1) opn by (simp add: tbl_get_def member_key_def)
  moreover obtain have' need where "project_role_order given = Some have'" "project_role_order asked = Some need"
    using assms(4,5) validate_project_role_Inr by blast
  ultimately show ?thesis
    using v m(2) assms(5) by (simp add: project_has_role_def)
qed

definition demo_project :: auth_db where
  "demo_project = auth_run demo_env
     [CreateProject ''2026-01-01 00:01:00'' ''proj'' ''alice'' None None False] demo_db"

lemma member_role_hierarchy_witness:
  "project_has_role ''proj'' (Some ''bob'') ''reader''
     (commit demo_project (add_project_member ''2026-01-01 00:02:00'' ''proj'' ''bob'' ''Writer'' demo_project)) = Inr True
   \<and> project_has_role ''proj'' (Some ''bob'') ''admin''
     (commit demo_project (add_project_member ''2026-01-01 00:02:00'' ''proj'' ''bob'' ''Writer'' demo_project)) = Inr False"
proof -
  let ?r = "add_project_member ''2026-01-01 00:02:00'' ''proj'' ''bob'' ''Writer'' demo_project"
  have ok: "auth_db_ok demo_project"
    unfolding demo_project_def by (rule auth_run_ok) (rule demo_db_ok)
  have "outcome ?r = Some ()" by code_simp
  note r = outcome_commit [OF this, of demo_project]
  have opn: "project_open demo_project (py_strip ''proj'')" by code_simp
  have g: "validate_project_role ''Writer'' = Inr ''writer''" by code_simp
  have a: "validate_project_role ''reader'' = Inr ''reader''" "validate_project_role ''admin'' = Inr ''admin''"
    by code_simp+
  show ?thesis
    using member_role_hierarchy [OF ok r opn g a(1)] member_role_hierarchy [OF ok r opn g a(2)]
    by (simp add: project_role_order_def)
qed

text \<open>The default project a second call finds is the one the first call settled on.\<close>

abbreviation owned_default :: "string \<Rightarrow> project_row \<Rightarrow> bool" where
  "owned_default w p \<equiv> pr_owner p = Some w \<and> pr_is_default p \<and> pr_archived_at p = None"

lemma ensure_row_settled:
  assumes "ensure_default_project_row env now (Some w) db = Inr (pid, db1)"
  shows "case find (owned_default w) (projects db1) of
      None \<Rightarrow> pid = default_project_id env w | Some row \<Rightarrow> pid = pr_id row"
proof (cases "find (owned_default w) (projects db)")
  case (Some row)
  then show ?thesis
    using assms by (auto simp: ensure_default_project_row_def Let_def upsert_project_membership_def)
next
  case None
  let ?new = "default_project_row now (default_project_id env w) (Some w) ''Private Default''"
  have pid: "pid = default_project_id env w"
    and rows: "projects db1 = tbl_upsert pr_id (project_merge_default now) ?new (projects db)"
    using assms None
    by (auto simp: ensure_default_project_row_def Let_def result_simps upsert_default_project_def
        upsert_project_membership_def)
  show ?thesis
  proof (cases "find (owned_default w) (projects db1)")
    case (Some row)
    then have row: "row \<in> set (projects db1)" "owned_default w row" by (auto dest: find_SomeD)
    from None have "row \<notin> set (projects db)" using row(2) by (auto simp: find_None_iff)
    then have "pr_id row = pr_id ?new"
      using project_default_up.upsert_rows [OF row(1) [unfolded rows]]
      by (auto simp: project_merge_default_def)
    then show ?thesis using Some pid by (simp add: default_project_row_def)
  qed (use pid in simp)
qed

lemma ensure_row_id:
  "ensure_default_project_row env now (Some w) db = Inr (pid, db1) \<Longrightarrow>
     pid = (case find (owned_default w) (projects db) of None \<Rightarrow> default_project_id env w | Some row \<Rightarrow> pr_id row)"
  by (auto simp: ensure_default_project_row_def Let_def result_simps)

lemma ensure_row_member:
  "ensure_default_project_row env now (Some w) db = Inr (pid, db1) \<Longrightarrow>
     \<exists>m. tbl_get member_key (pid, w) (project_memberships db1) = Some m \<and> m_role m = ''admin''"
  by (auto simp: ensure_default_project_row_def Let_def result_simps upsert_project_membership_def
      member_up.get_upsert member_key_def member_merge_def split: option.splits)

text \<open>
  Ensuring the default project of an owner is stable and grants ownership: the owner is an
  admin of the returned project, and ensuring it again returns the same project.
\<close>

lemma default_project_stable:
  assumes "ensure_default_project env now (Some w) db = Inr (d, db1)"
    and "dget d ''id'' = Some (PStr pid)" "validate_project_id pid = Inr pid"
    and "ensure_default_project env now' (Some w) db1 = Inr (d', db2)"
  shows "project_has_role pid (Some w) ''admin'' db1 = Inr True \<and> dget d' ''id'' = Some (PStr pid)"
proof -
  from assms(1) obtain v q where v: "validate_owner_id w = Inr v"
    and e: "ensure_default_project_row env now (Some v) db = Inr (q, db1)"
    and g: "get_project_row q db1 = Some d"
    by (auto simp: ensure_default_project_def result_simps)
  from assms(4) v obtain q' where e': "ensure_default_project_row env now' (Some v) db1 = Inr (q', db2)"
    and g': "get_project_row q' db2 = Some d'"
    by (auto simp: ensure_default_project_def result_simps)
  have q: "q = pid"
    using g assms(2) by (auto simp: get_project_row_def project_from_row_def dest: find_SomeD)
  have "q' = q"
    using ensure_row_settled [OF e] ensure_row_id [OF e'] by (simp split: option.splits)
  then have "dget d' ''id'' = Some (PStr pid)"
    using g' q by (auto simp: get_project_row_def project_from_row_def dest: find_SomeD)
  moreover have "project_has_role pid (Some w) ''admin'' db1 = Inr True"
  proof -
    obtain m where m: "tbl_get member_key (pid, v) (project_memberships db1) = Some m" "m_role m = ''admin''"
      using ensure_row_member [OF e] q by blast
    have opn: "project_open db1 pid"
      using g q by (auto simp: get_project_row_def project_open_def list_ex_iff dest: find_SomeD)
    have "find (\<lambda>m. m_project m = pid \<and> m_user m = v \<and> project_open db1 pid) (project_memberships db1) = Some m"
      using m(1) opn by (simp add: tbl_get_def member_key_def)
    moreover have "validate_project_role ''admin'' = Inr ''admin''" by code_simp
    ultimately show ?thesis
      using assms(3) v m(2) by (simp add: project_has_role_def project_role_order_def)
  qed
  ultimately show ?thesis by blast
qed

lemma default_project_stable_witness:
  "project_has_role ''private-carol'' (Some ''carol'') ''admin''
     (commit demo_db (ensure_default_project demo_env ''2026-01-01 00:01:00'' (Some ''carol'') demo_db)) = Inr True"
proof -
  let ?r = "ensure_default_project demo_env ''2026-01-01 00:01:00'' (Some ''carol'') demo_db"
  let ?r' = "ensure_default_project demo_env ''2026-01-01 00:02:00'' (Some ''carol'') (commit demo_db ?r)"
  have "(case outcome ?r of Some d \<Rightarrow> dget d ''id'' = Some (PStr ''private-carol'') | None \<Rightarrow> False)"
    by code_simp
  then obtain d where o: "outcome ?r = Some d" and d: "dget d ''id'' = Some (PStr ''private-carol'')"
    by (auto split: option.splits)
  have "outcome ?r' \<noteq> None" by code_simp
  then obtain d' where o': "outcome ?r' = Some d'" by auto
  have v: "validate_project_id ''private-carol'' = Inr ''private-carol''" by code_simp
  show ?thesis
    using default_project_stable [OF outcome_commit [OF o, of demo_db] d v outcome_commit [OF o', of "commit demo_db ?r"]]
    by blast
qed

end
