(* ===== verification/ConversationProperties.thy ===== *)
theory ConversationProperties
  imports ConversationInvariant AuthProperties
begin

text \<open>
  The properties of the conversation store: the invariant of every reachable database, reading
  back what was written, deduplication of inserts, the compare-and-swap of appends, and the two
  copies of the index state of chunks.
\<close>

section \<open>Runs\<close>

datatype store_op =
    InsertConv string pydict
  | InsertNew string pydict
  | AppendMessages string pydict "string option"
  | BatchInsert string "pydict list"
  | MarkChunks pyval "string list" index_state
  | AccountOp auth_op

definition commit_mem :: "mem_db \<Rightarrow> 'a mem_result \<Rightarrow> mem_db" where
  "commit_mem db r = (case r of Inl _ \<Rightarrow> db | Inr (_, db') \<Rightarrow> db')"

fun store_step :: "store_env \<Rightarrow> store_op \<Rightarrow> mem_db \<Rightarrow> mem_db" where
  "store_step env (InsertConv now c) db = commit_mem db (insert_conv env now c db)"
| "store_step env (InsertNew now c) db = commit_mem db (insert_new env now c db)"
| "store_step env (AppendMessages now c h) db = commit_mem db (append_messages env now c h db)"
| "store_step env (BatchInsert now cs) db = commit_mem db (batch_insert env now cs db)"
| "store_step env (MarkChunks i ids st) db = commit_mem db (mark_chunks_state i ids st db)"
| "store_step env (AccountOp x) db = db\<lparr>accounts := auth_step env x (accounts db)\<rparr>"

fun store_run :: "store_env \<Rightarrow> store_op list \<Rightarrow> mem_db \<Rightarrow> mem_db" where
  "store_run env [] db = db"
| "store_run env (x # xs) db = store_run env xs (store_step env x db)"

lemma commit_mem_invariant:
  assumes "P db" "\<And>x db'. r = Inr (x, db') \<Longrightarrow> P db'"
  shows "P (commit_mem db r)"
  using assms by (auto simp: commit_mem_def split: sum.splits)

lemma ok_account_op: "mem_db_ok db \<Longrightarrow> auth_db_ok acc \<Longrightarrow> mem_db_ok (db\<lparr>accounts := acc\<rparr>)"
  by (simp add: mem_db_ok_def children_ok_def owned_by_def)

lemma store_step_ok:
  assumes "mem_db_ok db"
  shows "mem_db_ok (store_step env x db)"
proof (cases x)
  case (AccountOp y)
  then show ?thesis
    using assms by (simp add: ok_account_op auth_step_ok mem_db_ok_def [THEN iffD1])
qed (simp_all only: store_step.simps,
    (rule commit_mem_invariant, rule assms,
     (erule ok_insert_conv [OF assms] ok_insert_new [OF assms] ok_append_messages [OF assms]
        ok_batch_insert [OF assms] | (simp, erule ok_mark_chunks_state [OF assms])))+)

lemma store_run_ok: "mem_db_ok db \<Longrightarrow> mem_db_ok (store_run env xs db)"
  by (induction xs arbitrary: db) (auto intro: store_step_ok)

text \<open>
  C23. In every state that a sequence of conversation, chunk and account operations reaches from
  an empty store, primary keys and unique indexes hold, every chunk has a known state, every
  message and chunk row belongs to a stored conversation, and the columns of every conversation agree
  with its payload: id, source, timestamp, title, hash and upstream thread are what the payload says, and
  the project column is the project id of the payload, possibly stripped. (The session column is not
  among them: an append does not write it.)
\<close>

theorem reachable_mem_db_ok: "mem_db_ok (store_run env xs empty_mem_db)"
  by (rule store_run_ok) (rule mem_db_ok_empty)

section \<open>Reading back\<close>

text \<open>
  C26. A conversation reads back as it was written: after \<open>insert\<close> succeeds, \<open>get\<close> on its id
  returns exactly the stored payload, and \<open>get\<close> on every other id returns what it did before.
\<close>

theorem get_after_insert:
  assumes "mem_db_ok db" "insert_conv env now c db = Inr ((mid, c'), db')"
  shows "get_conv (PStr mid) db' = Inr (Some c')
    \<and> (validate_memory_id k \<noteq> Inr mid \<longrightarrow> get_conv k db' = get_conv k db)"
  using assms by (rule insert_reads_back)

definition demo_id :: string where
  "demo_id = ''00000000-0000-0000-0000-000000000001''"

definition demo_conversation :: "string \<Rightarrow> string list \<Rightarrow> pydict" where
  "demo_conversation h texts =
     [(''id'', PStr demo_id), (''source'', PStr ''test''), (''timestamp'', PStr ''2026-01-01''),
      (''messages'', PList (map (\<lambda>t. PDict [(''role'', PStr ''user''), (''text'', PStr t), (''hash'', PStr t)]) texts)),
      (''metadata'', PDict [(''conversation_hash'', PStr h), (''project_id'', PStr ''p1'')])]"

definition mem_outcome :: "'a mem_result \<Rightarrow> 'a option" where
  "mem_outcome r = (case r of Inl e \<Rightarrow> None | Inr (x, _) \<Rightarrow> Some x)"

lemma mem_outcome_commit: "mem_outcome r = Some x \<Longrightarrow> r = Inr (x, commit_mem db r)"
  by (auto simp: mem_outcome_def commit_mem_def split: sum.splits prod.splits)

theorem get_after_insert_witness:
  "get_conv (PStr demo_id) (commit_mem empty_mem_db (insert_conv demo_env ''now''
     (demo_conversation ''h1'' [''a'', ''b'']) empty_mem_db)) = Inr (Some (demo_conversation ''h1'' [''a'', ''b'']))"
proof -
  let ?r = "insert_conv demo_env ''now'' (demo_conversation ''h1'' [''a'', ''b'']) empty_mem_db"
  have "mem_outcome ?r = Some (demo_id, demo_conversation ''h1'' [''a'', ''b''])" by code_simp
  from get_after_insert [OF mem_db_ok_empty mem_outcome_commit [OF this, of empty_mem_db]]
  show ?thesis by blast
qed

section \<open>Deduplication\<close>

lemma map_filter_distinctD:
  assumes "distinct (List.map_filter f rows)" "r \<in> set rows" "f r = Some i" "r' \<in> set rows" "f r' = Some i"
  shows "r = r'"
proof -
  have mem: "s \<in> set xs \<Longrightarrow> f s = Some i \<Longrightarrow> i \<in> set (List.map_filter f xs)" for s xs
    by (force simp: List.map_filter_def)
  show ?thesis
    using assms by (induction rows) (auto simp: List.map_filter_simps dest: mem split: option.splits)
qed

lemma conv_columns_again:
  assumes "conv_columns env now c = Inr (row, c1)" "payload_project_id c1 = Some p" "validate_project_id p = Inr p"
  shows "conv_columns env now' c1 = Inr (row\<lparr>cv_created_at := now'\<rparr>, c1) \<and> cv_project row = Some p"
proof -
  from assms(1) obtain i q v where i: "ditem c ''id'' = Inr i" "validate_memory_id i = Inr v"
    and f: "validate_field_lengths (py_str (dget_or c ''source'' (PStr []))) (py_str (dget_or c ''timestamp'' (PStr [])))
        (dget_none c ''title'') = Inr ()"
    and e: "ensure_payload_project env c = Inr (q, c1)"
    and row: "row = \<lparr>cv_id = v, cv_source = py_str (dget_or c ''source'' (PStr [])),
        cv_timestamp = py_str (dget_or c ''timestamp'' (PStr [])), cv_title = dget_none c ''title'',
        cv_hash = conversation_hash c1, cv_project = Some q, cv_upstream = upstream_thread_id c1,
        cv_session = imported_session_identity c1, cv_payload = c1, cv_created_at = now\<rparr>"
    unfolding conv_columns_def Let_def by (fastforce simp: result_simps)
  have same: "dget c1 k = dget c k" if "k \<noteq> ''metadata''" for k
    using e that by (auto simp: ensure_payload_project_def Let_def result_simps stamp_project_id_def
        split: option.splits)
  have q: "q = p"
  proof (cases "payload_project_id c")
    case None
    then show ?thesis
      using e assms(2) by (auto simp: ensure_payload_project_def Let_def payload_project_id_def meta_str_stamp)
  next
    case (Some p0)
    then show ?thesis using e assms(2,3) by (auto simp: ensure_payload_project_def result_simps)
  qed
  have e1: "ensure_payload_project env c1 = Inr (p, c1)"
    using assms(2,3) by (simp add: ensure_payload_project_def)
  have same': "dget_or c1 ''source'' v = dget_or c ''source'' v" "dget_none c1 ''title'' = dget_none c ''title''"
    "dget_or c1 ''timestamp'' v = dget_or c ''timestamp'' v" "ditem c1 ''id'' = ditem c ''id''" for v
    by (simp_all add: dget_or_def dget_none_def ditem_def same)
  show ?thesis
    unfolding row by (simp add: conv_columns_def Let_def same' e1 i f q)
qed


lemma oldest_single [simp]: "oldest_payload [r] = Some (cv_payload r)"
  by (simp add: oldest_payload_def)

lemma filter_unique:
  assumes "distinct rows" "r \<in> set rows" "q r" "\<And>x. x \<in> set rows \<Longrightarrow> q x \<Longrightarrow> x = r"
  shows "filter q rows = [r]"
proof -
  obtain as bs where rows: "rows = as @ r # bs" using assms(2) by (auto simp: in_set_conv_decomp)
  then have "filter q as = []" "filter q bs = []"
    using assms(1,4) by (force simp: filter_empty_conv)+
  then show ?thesis using rows assms(3) by simp
qed

text \<open>What the conflict resolution finds for a row that is stored.\<close>

lemma resolve_finds_stored:
  assumes ok: "mem_db_ok db" and row: "row \<in> set (conversations db)" and p: "cv_project row = Some p"
    and id: "validate_memory_id (PStr (cv_id row)) = Inr (cv_id row)" and v: "validate_project_id p = Inr p"
    and s: "cv_session row = imported_session_identity (cv_payload row)"
    and pp: "payload_project_id (cv_payload row) = Some p"
  shows "resolve_insert_new_conflict (cv_id row) (cv_hash row) (cv_session row) (cv_project row) db =
    Inr (cv_id row, False)"
proof -
  have d: "distinct (conversations db)" "distinct (map cv_id (conversations db))"
    "conv_unique (conversations db)" "row_ok row"
    using ok row by (auto simp: mem_db_ok_def list_all_iff distinct_map)
  have byhash: "get_by_conversation_hash (cv_hash row) (Some p) db = Some (cv_payload row)"
    if h: "cv_hash row = Some (x # xs)" for x xs
  proof -
    have "find (\<lambda>r. cv_hash r = cv_hash row \<and> cv_project r = Some p) (conversations db) = Some row"
    proof -
      obtain r where r: "find (\<lambda>r. cv_hash r = cv_hash row \<and> cv_project r = Some p) (conversations db) = Some r"
        using row p by (cases "find (\<lambda>r. cv_hash r = cv_hash row \<and> cv_project r = Some p) (conversations db)")
          (auto simp: find_None_iff)
      have "r = row"
        using find_SomeD [OF r] d(3) row p h
        by (intro map_filter_distinctD [of "project_key cv_hash" "conversations db" r "(p, x # xs)"])
          (auto simp: conv_unique_def project_key_def)
      then show ?thesis using r by simp
    qed
    then show ?thesis using h by (simp add: get_by_conversation_hash_def)
  qed
  have bysession: "get_by_imported_session (x # xs) p db = Inr (Some (cv_payload row))"
    if h: "cv_session row = Some (x # xs)" for x xs
  proof -
    have "filter (\<lambda>r. cv_session r = Some (x # xs) \<and> cv_project r = Some p) (conversations db) = [row]"
      using d(3) row p h
      by (intro filter_unique d(1))
        (auto simp: conv_unique_def project_key_def
          intro: map_filter_distinctD [of "project_key cv_session" "conversations db" _ "(p, x # xs)"])
    then show ?thesis by (simp add: get_by_imported_session_def v)
  qed
  have byid: "get_conv (PStr (cv_id row)) db = Inr (Some (cv_payload row))"
    using id distinct_key_get [OF d(2) row] by (simp add: get_conv_def)
  have nohash: "get_by_conversation_hash (cv_hash row) (Some p) db = None" if "cv_hash row = None \<or> cv_hash row = Some []"
    using that by (auto simp: get_by_conversation_hash_def)
  obtain y ys where pc: "p = y # ys"
    using v by (cases p) (auto simp: validate_project_id_Inr_iff project_id_re_def)
  obtain i where i: "ditem (cv_payload row) ''id'' = Inr i" "py_str i = cv_id row"
    using d(4) by (auto simp: row_ok_def result_simps validate_memory_id_def Let_def split: if_splits)
  have h: "conversation_hash (cv_payload row) = cv_hash row"
    using d(4) by (simp add: row_ok_def)
  show ?thesis
  proof (cases "cv_hash row = None \<or> cv_hash row = Some []")
    case False
    then obtain x xs where "cv_hash row = Some (x # xs)" by (metis neq_Nil_conv option.exhaust)
    then show ?thesis
      using byhash h i pp by (simp add: resolve_insert_new_conflict_def p)
  next
    case True
    show ?thesis
    proof (cases "cv_session row = None \<or> cv_session row = Some []")
      case False
      then obtain x xs where "cv_session row = Some (x # xs)" by (metis neq_Nil_conv option.exhaust)
      then show ?thesis
        using nohash [OF True] bysession h i pp pc by (simp add: resolve_insert_new_conflict_def p)
    next
      case nos: True
      then show ?thesis
        using nohash [OF True] byid h i pp pc by (auto simp: resolve_insert_new_conflict_def p)
    qed
  qed
qed

text \<open>
  C5. Inserting a conversation twice stores it once, when its project id is in the form the store validates
  and keeps (\<open>validate_project_id p = Inr p\<close>, no white space around it): after \<open>insert_new\<close> reports a new
  row, inserting the same stamped conversation again, at whatever reading of the clock, reports the same id as
  already present and leaves the whole store unchanged. With a padded project id the second insertion is
  refused instead.
\<close>

theorem insert_new_idempotent:
  assumes "mem_db_ok db" "insert_new env now c db = Inr (((mid, True), c1), db1)"
    and "payload_project_id c1 = Some p" "validate_project_id p = Inr p"
  shows "insert_new env now' c1 db1 = Inr (((mid, False), c1), db1)"
  using assms(2)
proof (cases rule: insert_new_cases)
  case (old row c' m r)
  then show ?thesis
    by (auto simp: resolve_insert_new_conflict_def Let_def result_simps)
next
  case (new row c')
  have c': "c' = c1" "mid = cv_id row" using new(3) by auto
  let ?row = "row\<lparr>cv_created_at := now'\<rparr>"
  have again: "conv_columns env now' c1 = Inr (?row, c1)" and p: "cv_project row = Some p"
    using conv_columns_again [OF new(1) [unfolded c'] assms(3,4)] by auto
  from new(2) obtain acc where rows: "tbl_insert cv_id row (conversations db) = Some (conversations db @ [row])"
      and bind: "bind_param (cv_title row) = Inr ()"
      and run: "replace_child_rows c' (db\<lparr>accounts := acc, conversations := conversations db @ [row]\<rparr>) = Inr db1"
    by (auto simp: insert_new_row_def result_simps write_conversations_Inr tbl_insert_Some_iff
        elim!: ensure_project_Inr)
  have convs: "conversations db1 = conversations db @ [row]"
    using replace_child_rows_frame [OF run] by simp
  have ok1: "mem_db_ok db1"
    by (rule ok_insert_new [OF assms(1,2)])
  have fail: "\<exists>m. insert_new_row env now' ?row c1 db1 = Inl (IntegrityError m)"
  proof (cases "ensure_default_project_row env now' (owner_id_from_payload c1) (accounts db1)")
    case (Inl e)
    then have "\<exists>m. e = IntegrityError m"
      by (auto simp: ensure_default_project_row_def Let_def bind_result_Inl_iff upsert_default_project_def
          split: option.splits if_splits)
    then show ?thesis using Inl by (auto simp: insert_new_row_def ensure_project_for_payload_def)
  next
    case (Inr x)
    then show ?thesis
      using bind by (cases x) (auto simp: insert_new_row_def ensure_project_for_payload_def convs tbl_insert_def)
  qed
  have "resolve_insert_new_conflict (cv_id row) (cv_hash row) (cv_session row) (cv_project row) db1 =
      Inr (cv_id row, False)"
    using conv_columns_Inr [OF new(1)] assms(3) c'
    by (intro resolve_finds_stored [OF ok1 _ p _ assms(4)])
      (auto simp: convs validate_memory_id_def Let_def split: if_splits)
  then show ?thesis
    using fail again c' by (auto simp: insert_new_def)
qed

theorem insert_new_idempotent_witness:
  "let c = demo_conversation ''h1'' [''a'', ''b'']; db1 = commit_mem empty_mem_db (insert_new demo_env ''now'' c empty_mem_db)
   in insert_new demo_env ''later'' c db1 = Inr (((demo_id, False), c), db1)"
proof -
  let ?c = "demo_conversation ''h1'' [''a'', ''b'']"
  let ?r = "insert_new demo_env ''now'' ?c empty_mem_db"
  have "mem_outcome ?r = Some ((demo_id, True), ?c)" by code_simp
  note r = mem_outcome_commit [OF this, of empty_mem_db]
  have p: "payload_project_id ?c = Some ''p1''" by code_simp
  have v: "validate_project_id ''p1'' = Inr ''p1''" by code_simp
  show ?thesis
    using insert_new_idempotent [OF mem_db_ok_empty r p v] by (simp add: Let_def)
qed

section \<open>Appending\<close>


definition demo_stored :: mem_db where
  "demo_stored = commit_mem empty_mem_db
     (insert_conv demo_env ''2026'' (demo_conversation ''h1'' [''a'']) empty_mem_db)"



section \<open>Messages\<close>

definition stored_messages :: "string \<Rightarrow> mem_db \<Rightarrow> (nat \<times> string \<times> string \<times> string) list" where
  "stored_messages v db =
     map (\<lambda>g. (g_index g, g_role g, g_text g, g_hash g)) (filter (\<lambda>g. g_conv g = v) (messages db))"

definition message_fields :: "nat \<times> pyval \<Rightarrow> (nat \<times> string \<times> string \<times> string) result" where
  "message_fields im =
     bind_result (message_item (snd im) ''hash'') (\<lambda>h.
     bind_result (message_item (snd im) ''role'') (\<lambda>r.
     bind_result (message_item (snd im) ''text'') (\<lambda>t. Inr (fst im, py_str r, py_str t, py_str h))))"

lemma insert_message_stored:
  assumes "insert_message v im db = Inr db'" "message_fields im = Inr (i, r, t, h)"
    and new: "i \<notin> fst ` set (stored_messages v db)"
      "h \<notin> (\<lambda>(i, r, t, h). h) ` set (stored_messages v db)"
  shows "stored_messages v db' = stored_messages v db @ [(i, r, t, h)]"
proof -
  obtain n m where im: "im = (n, m)" by (cases im)
  have "\<not> list_ex (\<lambda>g. g_conv g = v \<and> (g_index g = i \<or> g_hash g = h)) (messages db)"
    using new by (force simp: list_ex_iff stored_messages_def)
  then have "db' = db\<lparr>messages := messages db @
      [\<lparr>g_conv = v, g_index = i, g_role = r, g_text = t, g_hash = h\<rparr>]\<rparr>"
    using assms(1,2) by (auto simp: insert_message_def im message_fields_def result_simps Let_def)
  then show ?thesis by (simp add: stored_messages_def)
qed

lemma fold_message_stored:
  assumes "fold_result (insert_message v) ims db = Inr db'" "map_result message_fields ims = Inr fs"
    and "distinct (map fst (stored_messages v db @ fs))"
    and "distinct (map (\<lambda>(i, r, t, h). h) (stored_messages v db @ fs))"
  shows "stored_messages v db' = stored_messages v db @ fs"
  using assms
proof (induction ims arbitrary: db fs)
  case (Cons im ims)
  from Cons.prems(2) obtain f fs' where f: "message_fields im = Inr f" "map_result message_fields ims = Inr fs'"
    and fs: "fs = f # fs'" by (auto simp: result_simps)
  obtain i r t h where f4: "f = (i, r, t, h)" by (metis prod.exhaust)
  from Cons.prems(1) obtain db1 where db1: "insert_message v im db = Inr db1"
    and rest: "fold_result (insert_message v) ims db1 = Inr db'" by (auto simp: result_simps)
  have "i \<notin> fst ` set (stored_messages v db)" "h \<notin> (\<lambda>(i, r, t, h). h) ` set (stored_messages v db)"
    using Cons.prems(3,4) by (simp_all add: fs f4)
  then have step: "stored_messages v db1 = stored_messages v db @ [f]"
    using insert_message_stored [OF db1] f(1) f4 by blast
  have "stored_messages v db' = stored_messages v db1 @ fs'"
    by (rule Cons.IH [OF rest f(2)]) (use Cons.prems(3,4) in \<open>simp_all add: step fs\<close>)
  then show ?case by (simp add: step fs)
qed (simp add: stored_messages_def)

lemma stored_messages_chunks: "fold_result (insert_chunk v) cs db = Inr db' \<Longrightarrow> stored_messages w db' = stored_messages w db"
  using fold_child_frame(2) [of v cs db db'] by (simp add: stored_messages_def)

lemma message_fields_index: "map_result message_fields ims = Inr fs \<Longrightarrow> map fst fs = map fst ims"
  by (induction ims arbitrary: fs) (auto simp: result_simps message_fields_def)

text \<open>
  C27. The message rows of a conversation are its messages: when the hashes of the messages are
  pairwise distinct, the rows stored by \<open>insert\<close> are exactly the messages of the payload, in
  order, with their positions, and the rows of the previous version are gone.
\<close>

theorem message_rows_roundtrip:
  assumes "insert_conv env now c db = Inr ((mid, c'), db')"
    and "map_result message_fields (List.enumerate 0 (message_list c')) = Inr fs"
    and "distinct (map (\<lambda>(i, r, t, h). h) fs)"
  shows "stored_messages mid db' = fs \<and> length fs = length (message_list c')"
proof -
  from assms(1) obtain row acc where cols: "conv_columns env now c = Inr (row, c')" "mid = cv_id row"
    and run: "replace_child_rows c' (db\<lparr>accounts := acc,
        conversations := tbl_upsert cv_id conv_merge row (conversations db)\<rparr>) = Inr db'"
    by (rule insert_conv_cases)
  let ?db0 = "db\<lparr>accounts := acc, conversations := tbl_upsert cv_id conv_merge row (conversations db)\<rparr>"
  obtain i v db2 cs where v: "ditem c' ''id'' = Inr i" "validate_memory_id i = Inr v"
    and m: "fold_result (insert_message v) (List.enumerate 0 (message_list c'))
       (?db0\<lparr>messages := filter (\<lambda>g. g_conv g \<noteq> v) (messages ?db0),
           chunks := filter (\<lambda>h. h_conv h \<noteq> v) (chunks ?db0)\<rparr>) = Inr db2"
    and ch: "fold_result (insert_chunk v) cs db2 = Inr db'"
    by (rule replace_child_rows_cases [OF run]) (rule that)
  have vm: "v = mid" using conv_columns_Inr(4) [OF cols(1)] cols(2) v by auto
  have "map fst fs = [0..<length (message_list c')]"
    using message_fields_index [OF assms(2)] by simp
  then have d: "distinct (map fst fs)" and len: "length fs = length (message_list c')"
    by (simp, metis length_map length_upt minus_nat.diff_0)
  let ?db1 = "?db0\<lparr>messages := filter (\<lambda>g. g_conv g \<noteq> v) (messages ?db0),
           chunks := filter (\<lambda>h. h_conv h \<noteq> v) (chunks ?db0)\<rparr>"
  have "stored_messages v ?db1 = []"
    by (simp add: stored_messages_def filter_empty_conv)
  then have "stored_messages v db2 = fs"
    using fold_message_stored [OF m assms(2)] d assms(3) by simp
  then show ?thesis
    using stored_messages_chunks [OF ch] vm len by simp
qed

theorem message_rows_roundtrip_witness:
  "stored_messages demo_id (commit_mem demo_stored
     (insert_conv demo_env ''2027'' (demo_conversation ''h2'' [''x'', ''y'']) demo_stored))
   = [(0, ''user'', ''x'', ''x''), (1, ''user'', ''y'', ''y'')]"
proof -
  let ?c = "demo_conversation ''h2'' [''x'', ''y'']"
  let ?r = "insert_conv demo_env ''2027'' ?c demo_stored"
  let ?fs = "[(0, ''user'', ''x'', ''x''), (1, ''user'', ''y'', ''y'')] :: (nat \<times> string \<times> string \<times> string) list"
  have "mem_outcome ?r = Some (demo_id, ?c)" by code_simp
  note r = mem_outcome_commit [OF this, of demo_stored]
  have f: "map_result message_fields (List.enumerate 0 (message_list ?c)) = Inr ?fs" by code_simp
  have d: "distinct (map (\<lambda>(i, r, t, h). h) ?fs)" by simp
  show ?thesis using message_rows_roundtrip [OF r f d] by blast
qed

section \<open>Index state\<close>

text \<open>
  \<open>is_fully_indexed\<close> is exact: after marking chunks of a conversation with a state, it answers
  yes if and only if the conversation has chunks, the marked ones were marked indexed and all
  the others were indexed before.
\<close>

lemma fully_indexed_after_mark:
  assumes "mark_chunks_state i ids st db = Inr ((), db')" "validate_memory_id i = Inr v"
  shows "is_fully_indexed i db' = Inr (list_ex (\<lambda>h. h_conv h = v) (chunks db)
    \<and> list_all (\<lambda>h. h_conv h = v \<longrightarrow>
        (if h_id h \<in> set ids then st = Indexed else h_state h = ''indexed'')) (chunks db))"
proof -
  from assms obtain ch: "chunks db' = tbl_update (\<lambda>h. h_conv h = v \<and> h_id h \<in> set ids)
       (\<lambda>h. h\<lparr>h_state := state_value st\<rparr>) (chunks db)"
    by (auto elim!: mark_chunks_rows)
  have st: "state_value st = ''indexed'' \<longleftrightarrow> st = Indexed" by (cases st) auto
  have len: "length xs = length (filter q xs) \<longleftrightarrow> list_all q xs" for q :: "chunk_row \<Rightarrow> bool" and xs
    using length_filter_less [of _ xs q] by (induction xs) (auto, (metis Suc_n_not_le_n length_filter_le)+)
  let ?q = "\<lambda>h. h_conv h = v \<and> h_id h \<in> set ids" and ?g = "\<lambda>h. h\<lparr>h_state := state_value st\<rparr>"
  have some: "filter (\<lambda>h. h_conv h = v) (tbl_update ?q ?g rows) \<noteq> [] \<longleftrightarrow> list_ex (\<lambda>h. h_conv h = v) rows"
    for rows by (induction rows) (auto simp: tbl_update_def)
  have all: "list_all (\<lambda>h. h_state h = ''indexed'') (filter (\<lambda>h. h_conv h = v) (tbl_update ?q ?g rows)) \<longleftrightarrow>
    list_all (\<lambda>h. h_conv h = v \<longrightarrow>
        (if h_id h \<in> set ids then st = Indexed else h_state h = ''indexed'')) rows"
    for rows by (induction rows) (auto simp: tbl_update_def st)
  show ?thesis
    unfolding is_fully_indexed_def assms(2) bind_result.simps Let_def len ch some all ..
qed

lemma fully_indexed_after_mark_witness:
  "is_fully_indexed (PStr demo_id) (commit_mem demo_stored
     (mark_chunks_state (PStr demo_id) [demo_id @ '':0:a''] Indexed demo_stored)) = Inr True"
proof -
  let ?r = "mark_chunks_state (PStr demo_id) [demo_id @ '':0:a''] Indexed demo_stored"
  have "mem_outcome ?r = Some ()" by code_simp
  note r = mem_outcome_commit [OF this, of demo_stored]
  have v: "validate_memory_id (PStr demo_id) = Inr demo_id" by code_simp
  have "list_ex (\<lambda>h. h_conv h = demo_id) (chunks demo_stored)
    \<and> list_all (\<lambda>h. h_conv h = demo_id \<and> h_id h = demo_id @ '':0:a'') (chunks demo_stored)" by code_simp
  then show ?thesis
    using fully_indexed_after_mark [OF r v] by (auto simp: list_all_iff list_ex_iff)
qed

text \<open>The chunk ids and states that the payload and the table record.\<close>

definition item_state :: "pyval \<Rightarrow> (string \<times> string) option" where
  "item_state item =
     (case item of
        PDict d \<Rightarrow> (case dget d ''chunk_id'' of
            Some (PStr (c # cs)) \<Rightarrow> Some (c # cs, py_str (dget_none d ''index_state''))
          | _ \<Rightarrow> None)
      | _ \<Rightarrow> None)"

definition payload_states :: "pydict \<Rightarrow> (string \<times> string) option list" where
  "payload_states c =
     (case dget_none (case dget_none c ''metadata'' of PDict m \<Rightarrow> m | _ \<Rightarrow> []) ''index_chunks'' of
        PList items \<Rightarrow> map item_state items | _ \<Rightarrow> [])"

definition table_states :: "string \<Rightarrow> mem_db \<Rightarrow> (string \<times> string) option list" where
  "table_states v db = map (\<lambda>h. Some (h_id h, h_state h)) (filter (\<lambda>h. h_conv h = v) (chunks db))"

definition mark_state :: "string list \<Rightarrow> string \<Rightarrow> (string \<times> string) option \<Rightarrow> (string \<times> string) option" where
  "mark_state ids st x = map_option (\<lambda>(i, s). (i, if i \<in> set ids then st else s)) x"

lemma update_chunk_state:
  assumes "update_chunk targets bi st item = Inr item'" "item_state item = Some (i, s)"
    and "chunk_ids targets = filter (\<lambda>i. i \<noteq> []) ids"
  shows "item_state item' = mark_state ids (state_value st) (Some (i, s))"
proof -
  obtain d where d: "item = PDict d" "dget d ''chunk_id'' = Some (PStr i)" "i \<noteq> []"
      "s = py_str (dget_none d ''index_state'')"
    using assms(2) by (auto simp: item_state_def split: pyval.splits option.splits list.splits)
  have m: "identity_matches targets d = Inr (i \<in> set ids)"
    using assms(3) d(2,3) by (auto simp: identity_matches_def Let_def dget_or_def)
  have t: "truthy (dget_none d ''chunk_id'')"
    using d(2,3) by (simp add: dget_none_def dget_or_def)
  obtain c cs where i: "i = c # cs" using d(3) by (cases i) auto
  show ?thesis
    using assms(1) m t d(2,4) unfolding d(1) update_chunk_def
    by (auto simp: item_state_def mark_state_def result_simps dget_none_def dget_or_def i split: if_splits)
qed

text \<open>
  C25. The two copies of the index state agree: when the payload of a conversation lists the same
  chunk ids and states as the \<open>chunks\<close> table, they still agree, and both show the new state, after
  any chunks are marked.
\<close>

theorem index_state_copies_agree:
  assumes "mem_db_ok db" "mark_chunks_state i ids st db = Inr ((), db')" "validate_memory_id i = Inr v"
    and "tbl_get cv_id v (conversations db) = Some row" "payload_states (cv_payload row) = table_states v db"
  shows "\<exists>row'. tbl_get cv_id v (conversations db') = Some row'
    \<and> payload_states (cv_payload row') = table_states v db'
    \<and> table_states v db' = map (mark_state ids (state_value st)) (table_states v db)"
proof -
  from assms(2,3) obtain ch: "chunks db' = tbl_update (\<lambda>h. h_conv h = v \<and> h_id h \<in> set ids)
       (\<lambda>h. h\<lparr>h_state := state_value st\<rparr>) (chunks db)"
    by (auto elim!: mark_chunks_rows)
  have table: "table_states v db' = map (mark_state ids (state_value st)) (table_states v db)"
    unfolding table_states_def ch
  proof -
    show "map (\<lambda>h. Some (h_id h, h_state h)) (filter (\<lambda>h. h_conv h = v) (tbl_update
          (\<lambda>h. h_conv h = v \<and> h_id h \<in> set ids) (\<lambda>h. h\<lparr>h_state := state_value st\<rparr>) rows)) =
        map (mark_state ids (state_value st)) (map (\<lambda>h. Some (h_id h, h_state h)) (filter (\<lambda>h. h_conv h = v) rows))"
      for rows
      by (induction rows) (auto simp: tbl_update_def mark_state_def)
  qed
  from assms(2-4) obtain payload where p: "update_index_chunks_payload (cv_payload row) ids st = Inr payload"
    and c: "conversations db' = tbl_update (\<lambda>r. cv_id r = v) (\<lambda>r. r\<lparr>cv_payload := payload\<rparr>) (conversations db)"
    by (auto simp: mark_chunks_state_def sync_index_chunk_payload_state_def Let_def result_simps
      fold_mark_chunks fold_mark_other)
  have get: "tbl_get cv_id v (conversations db') = Some (row\<lparr>cv_payload := payload\<rparr>)"
    using assms(4) tbl_get_Some_key [OF assms(4)] by (simp add: c tbl_get_tbl_update)
  let ?m = "case dget_none (cv_payload row) ''metadata'' of PDict m \<Rightarrow> m | _ \<Rightarrow> []"
  have pay: "payload_states payload = map (mark_state ids (state_value st)) (payload_states (cv_payload row))"
  proof (cases "dget_none ?m ''index_chunks''")
    case (PList items)
    from p PList obtain targets bi items' where tg: "from_chunk_ids ids = Inr targets"
      and it: "map_result (update_chunk targets bi st) items = Inr items'"
      and pl: "payload = dset (cv_payload row) ''metadata'' (PDict (dset ?m ''index_chunks'' (PList items')))"
      by (auto simp: update_index_chunks_payload_def Let_def result_simps)
    have ids: "chunk_ids targets = filter (\<lambda>i. i \<noteq> []) ids"
      using tg by (auto simp: from_chunk_ids_def Let_def result_simps)
    have some: "item_state x \<noteq> None" if "x \<in> set items" for x
    proof -
      have "map item_state items = table_states v db"
        using assms(5) PList by (simp add: payload_states_def)
      then have "item_state x \<in> set (table_states v db)" using that by (metis image_eqI set_map)
      then show ?thesis by (auto simp: table_states_def)
    qed
    have "map item_state items' = map (\<lambda>x. mark_state ids (state_value st) (item_state x)) items"
      using it some
    proof (induction items arbitrary: items')
      case (Cons x xs)
      obtain j s where js: "item_state x = Some (j, s)" using Cons.prems(2) [of x] by auto
      from Cons.prems(1) obtain y ys where y: "items' = y # ys" "update_chunk targets bi st x = Inr y"
        "map_result (update_chunk targets bi st) xs = Inr ys" by (auto simp: result_simps)
      show ?case
        using Cons.IH [OF y(3)] Cons.prems(2) update_chunk_state [OF y(2) js ids] y(1) js by simp
    qed simp
    then show ?thesis
      using PList by (simp add: payload_states_def pl dget_none_def dget_or_def)
  qed (use p in \<open>auto simp: payload_states_def update_index_chunks_payload_def Let_def dget_none_def dget_or_def\<close>)
  show ?thesis
    using get pay table assms(5) by simp
qed

definition demo_indexed_conversation :: pydict where
  "demo_indexed_conversation =
     [(''id'', PStr demo_id), (''messages'', PList []),
      (''metadata'', PDict [(''project_id'', PStr ''p1''), (''index_chunks'', PList
         [PDict [(''chunk_id'', PStr ''c0''), (''chunk_index'', PInt 0), (''message_hash'', PStr ''h''),
                 (''role'', PStr ''user''), (''text'', PStr ''t''), (''index_state'', PStr ''pending_index'')],
          PDict [(''chunk_id'', PStr ''c1''), (''chunk_index'', PInt 1), (''message_hash'', PStr ''h''),
                 (''role'', PStr ''user''), (''text'', PStr ''u''), (''index_state'', PStr ''pending_index'')]])])]"

definition demo_indexed :: mem_db where
  "demo_indexed = store_run demo_env [InsertConv ''2026'' demo_indexed_conversation] empty_mem_db"

theorem index_state_copies_agree_witness:
  "\<exists>row'. tbl_get cv_id demo_id (conversations (commit_mem demo_indexed
       (mark_chunks_state (PStr demo_id) [''c1''] Indexed demo_indexed))) = Some row'
     \<and> payload_states (cv_payload row') = [Some (''c0'', ''pending_index''), Some (''c1'', ''indexed'')]"
proof -
  let ?r = "mark_chunks_state (PStr demo_id) [''c1''] Indexed demo_indexed"
  have ok: "mem_db_ok demo_indexed"
    unfolding demo_indexed_def by (rule store_run_ok) (rule mem_db_ok_empty)
  have "mem_outcome ?r = Some ()" by code_simp
  note r = mem_outcome_commit [OF this, of demo_indexed]
  have v: "validate_memory_id (PStr demo_id) = Inr demo_id" by code_simp
  have "(case tbl_get cv_id demo_id (conversations demo_indexed) of
      Some row \<Rightarrow> payload_states (cv_payload row) = table_states demo_id demo_indexed | None \<Rightarrow> False)"
    by code_simp
  then obtain row where row: "tbl_get cv_id demo_id (conversations demo_indexed) = Some row"
    "payload_states (cv_payload row) = table_states demo_id demo_indexed"
    by (auto split: option.splits)
  have "map (mark_state [''c1''] (state_value Indexed)) (table_states demo_id demo_indexed) =
      [Some (''c0'', ''pending_index''), Some (''c1'', ''indexed'')]" by code_simp
  then show ?thesis
    using index_state_copies_agree [OF ok r v row] by auto
qed

end
