(* ===== verification/LineageProperties.thy ===== *)
theory LineageProperties
  imports MemoryAccess ConversationProperties
begin

text \<open>
  What lineage validation guarantees, for any store of memories that reads back what was written
  (the locale \<open>memory_store\<close>), and for the SQLite store, which is such a store.
\<close>

section \<open>Chains of parents\<close>

text \<open>
  The chain of parents that starts at \<open>i\<close>: every memory is stored, the next one is its parent, and
  the last one has no parent.
\<close>

fun lineage_chain :: "memory_get \<Rightarrow> string list \<Rightarrow> bool" where
  "lineage_chain get [] = False"
| "lineage_chain get [i] = (\<exists>c. get i = Inr (Some c) \<and> lineage_parent_id (Some c) = None)"
| "lineage_chain get (i # j # js) =
     ((\<exists>c. get i = Inr (Some c) \<and> lineage_parent_id (Some c) = Some j) \<and> lineage_chain get (j # js))"

definition chain_authorized :: "memory_get \<Rightarrow> string option \<Rightarrow> string option \<Rightarrow> string list \<Rightarrow> bool" where
  "chain_authorized get owner_id project_id ids \<longleftrightarrow>
     (\<forall>i \<in> set ids. \<exists>c. get i = Inr (Some c) \<and> conversation_authorized (Some c) owner_id project_id)"

lemma lineage_chain_unique:
  "lineage_chain get (i # xs) \<Longrightarrow> lineage_chain get (i # ys) \<Longrightarrow> xs = ys"
proof (induction xs arbitrary: i ys)
  case Nil
  then show ?case by (cases ys) auto
next
  case (Cons j xs)
  then show ?case by (cases ys) auto
qed

lemma lineage_chain_cong:
  "(\<And>i. i \<in> set ids \<Longrightarrow> get' i = get i) \<Longrightarrow> lineage_chain get' ids = lineage_chain get ids"
  by (induction get ids rule: lineage_chain.induct) auto

lemma chain_authorized_cong:
  "(\<And>i. i \<in> set ids \<Longrightarrow> get' i = get i) \<Longrightarrow>
     chain_authorized get' w p ids = chain_authorized get w p ids"
  by (auto simp: chain_authorized_def)

text \<open>The view of a memory whose chain is authorised is its first ancestors, and nothing is missing.\<close>

lemma lineage_walk_chain:
  assumes "lineage_chain get (i # ids)" "chain_authorized get w p (i # ids)"
    and "distinct (i # ids)" "set (i # ids) \<inter> set visited = {}"
  shows "lineage_walk n get w p visited anc (Some i) =
     Inr \<lparr>lin_ancestors = anc @ take n (i # ids), lin_truncated = (n < length (i # ids)),
          lin_missing_history = False, lin_cycle_detected = False\<rparr>"
  using assms
proof (induction ids arbitrary: i n visited anc)
  case Nil
  then obtain c where "get i = Inr (Some c)" "lineage_parent_id (Some c) = None"
    "conversation_authorized (Some c) w p"
    by (auto simp: chain_authorized_def)
  then show ?case
    using Nil by (cases n; cases "n - 1") auto
next
  case (Cons j ids)
  show ?case
  proof (cases n)
    case (Suc m)
    from Cons.prems obtain c where c: "get i = Inr (Some c)" "lineage_parent_id (Some c) = Some j"
      "conversation_authorized (Some c) w p"
      by (auto simp: chain_authorized_def)
    have "lineage_walk m get w p (i # visited) (anc @ [i]) (Some j) =
       Inr \<lparr>lin_ancestors = (anc @ [i]) @ take m (j # ids), lin_truncated = (m < length (j # ids)),
          lin_missing_history = False, lin_cycle_detected = False\<rparr>"
      using Cons.prems by (intro Cons.IH) (auto simp: chain_authorized_def)
    then show ?thesis using c Suc Cons.prems by auto
  qed simp
qed

section \<open>Stores\<close>

text \<open>
  What lineage needs of a store: \<open>get\<close> finds a memory under its own id, and writing a memory makes it
  readable with the parent it was given and leaves the other memories alone.
\<close>

locale memory_store =
  fixes get :: "'db \<Rightarrow> string \<Rightarrow> pydict option result"
    and put :: "pydict \<Rightarrow> 'db \<Rightarrow> 'db result"
    and ok :: "'db \<Rightarrow> bool"
  assumes get_id: "ok db \<Longrightarrow> get db i = Inr (Some c) \<Longrightarrow> conv_id c = i"
    and put_get: "ok db \<Longrightarrow> put c db = Inr db' \<Longrightarrow>
        \<exists>c'. get db' (conv_id c) = Inr (Some c') \<and> lineage_parent_id (Some c') = lineage_parent_id (Some c)"
    and put_other: "ok db \<Longrightarrow> put c db = Inr db' \<Longrightarrow> i \<noteq> conv_id c \<Longrightarrow> get db' i = get db i"
begin

lemma validate_walk_chain:
  assumes "ok db" "get db i = Inr (Some current)"
    and "validate_lineage_walk n (get db) w p visited current = Inr ()"
    and "conversation_authorized (Some current) w p"
  shows "\<exists>ids. lineage_chain (get db) (i # ids) \<and> chain_authorized (get db) w p (i # ids)
    \<and> distinct (i # ids) \<and> set (i # ids) \<inter> set visited = {} \<and> length (i # ids) \<le> n"
  using assms
proof (induction n arbitrary: i visited current)
  case (Suc n)
  from Suc.prems(1,2) have i: "conv_id current = i" by (rule get_id)
  have fresh: "i \<notin> set visited" using Suc.prems(3) i by (auto split: if_splits)
  show ?case
  proof (cases "lineage_parent_id (Some current)")
    case None
    then show ?thesis
      using Suc.prems fresh by (intro exI [of _ "[]"]) (auto simp: chain_authorized_def)
  next
    case (Some j)
    with Suc.prems(3) fresh i obtain c where c: "get db j = Inr (Some c)"
      "conversation_authorized (Some c) w p"
      "validate_lineage_walk n (get db) w p (i # visited) c = Inr ()"
      by (auto simp: result_simps split: if_splits)
    from Suc.IH [OF Suc.prems(1) c(1) c(3) c(2)] obtain ids where
      "lineage_chain (get db) (j # ids)" "chain_authorized (get db) w p (j # ids)"
      "distinct (j # ids)" "set (j # ids) \<inter> set (i # visited) = {}" "length (j # ids) \<le> n"
      by blast
    then show ?thesis
      using Suc.prems Some fresh by (intro exI [of _ "j # ids"]) (auto simp: chain_authorized_def)
  qed
qed simp

text \<open>A validated memory has a finite, authorised chain of ancestors that avoids the memory itself.\<close>

lemma validated_chain:
  assumes "ok db" "validate_lineage_parent (get db) c w p = Inr ()" "lineage_parent_id (Some c) = Some i"
  obtains ids where "lineage_chain (get db) (i # ids)" "chain_authorized (get db) w (Some p) (i # ids)"
    "distinct (conv_id c # i # ids)" "length (i # ids) \<le> MAX_LINEAGE_VALIDATION_DEPTH"
proof -
  from assms(2,3) obtain d where d: "get db i = Inr (Some d)" "i \<noteq> conv_id c"
    "conversation_authorized (Some d) w (Some p)"
    "validate_lineage_walk MAX_LINEAGE_VALIDATION_DEPTH (get db) w (Some p) [conv_id c] d = Inr ()"
    by (auto simp: validate_lineage_parent_def result_simps split: if_splits)
  from validate_walk_chain [OF assms(1) d(1) d(4) d(3)] that show thesis by auto
qed

lemma stored_lineage:
  assumes ok: "ok db" and valid: "validate_lineage_parent (get db) c w p = Inr ()"
    and run: "put c db = Inr db'"
  shows "\<exists>ids c'. lineage_chain (get db') (conv_id c # ids) \<and> distinct (conv_id c # ids)
    \<and> length ids \<le> MAX_LINEAGE_VALIDATION_DEPTH
    \<and> chain_authorized (get db') w (Some p) ids
    \<and> get db' (conv_id c) = Inr (Some c') \<and> lineage_parent_id (Some c') = (case ids of [] \<Rightarrow> None | i # _ \<Rightarrow> Some i)"
proof -
  obtain c' where c': "get db' (conv_id c) = Inr (Some c')"
    "lineage_parent_id (Some c') = lineage_parent_id (Some c)"
    using put_get [OF ok run] by blast
  show ?thesis
  proof (cases "lineage_parent_id (Some c)")
    case None
    then show ?thesis using c' by (intro exI [of _ "[]"] exI [of _ c']) (auto simp: chain_authorized_def)
  next
    case (Some i)
    from validated_chain [OF ok valid Some] obtain ids where
      ids: "lineage_chain (get db) (i # ids)" "chain_authorized (get db) w (Some p) (i # ids)"
        "distinct (conv_id c # i # ids)" "length (i # ids) \<le> MAX_LINEAGE_VALIDATION_DEPTH" .
    have same: "get db' k = get db k" if "k \<in> set (i # ids)" for k
      using put_other [OF ok run, of k] ids(3) that by auto
    have "lineage_chain (get db') (i # ids)"
      using ids(1) lineage_chain_cong [of "i # ids" "get db'" "get db"] same by blast
    moreover have "chain_authorized (get db') w (Some p) (i # ids)"
      using ids(2) chain_authorized_cong [of "i # ids" "get db'" "get db"] same by blast
    ultimately show ?thesis
      using c' Some ids by (intro exI [of _ "i # ids"] exI [of _ c']) auto
  qed
qed

end

section \<open>The SQLite store\<close>

definition get_memory :: "mem_db \<Rightarrow> string \<Rightarrow> pydict option result" where
  "get_memory db i = get_conv (PStr i) db"

definition put_memory :: "store_env \<Rightarrow> clock \<Rightarrow> pydict \<Rightarrow> mem_db \<Rightarrow> mem_db result" where
  "put_memory env now c db = bind_result (insert_conv env now c db) (\<lambda>(x, db'). Inr db')"

lemma conv_id_ditem: "ditem c ''id'' = Inr i \<Longrightarrow> conv_id c = py_str i"
  by (auto simp: ditem_def conv_id_def dget_or_def split: option.splits)

lemma validate_memory_id_Inr: "validate_memory_id v = Inr i \<Longrightarrow> i = py_str v"
  by (auto simp: validate_memory_id_def Let_def split: if_splits)

lemma parent_same_metadata:
  "dget_none c' ''metadata'' = dget_none c ''metadata'' \<Longrightarrow>
     lineage_parent_id (Some c') = lineage_parent_id (Some c)"
  by (simp add: lineage_parent_id_def)

lemma parent_stamped: "lineage_parent_id (Some (stamp_project_id c p)) = lineage_parent_id (Some c)"
  by (auto simp: lineage_parent_id_def stamp_project_id_def Let_def dget_none_def dget_or_def
      split: option.splits pyval.splits)

lemma conv_columns_parent:
  assumes "conv_columns env now c = Inr (row, c')"
  shows "lineage_parent_id (Some c') = lineage_parent_id (Some c)" "cv_id row = conv_id c"
  using assms
  by (auto simp: conv_columns_def Let_def result_simps ensure_payload_project_def parent_stamped
      conv_id_ditem validate_memory_id_Inr split: option.splits)

lemma insert_conv_parent:
  assumes "insert_conv env now c db = Inr ((mid, c'), db')"
  shows "lineage_parent_id (Some c') = lineage_parent_id (Some c)" "mid = conv_id c"
    "validate_memory_id (PStr (conv_id c)) = Inr (conv_id c)"
proof -
  from assms obtain row acc where cols: "conv_columns env now c = Inr (row, c')" "mid = cv_id row"
    by (rule insert_conv_cases)
  show "lineage_parent_id (Some c') = lineage_parent_id (Some c)" "mid = conv_id c"
    using conv_columns_parent [OF cols(1)] cols(2) by auto
  show "validate_memory_id (PStr (conv_id c)) = Inr (conv_id c)"
    using conv_columns_Inr(4) [OF cols(1)] conv_columns_parent(2) [OF cols(1)]
    by (auto simp: validate_memory_id_def Let_def split: if_splits)
qed

interpretation sqlite: memory_store get_memory "put_memory env now" mem_db_ok
proof unfold_locales
  fix db i c
  assume "mem_db_ok db" "get_memory db i = Inr (Some c)"
  then obtain r where "r \<in> set (conversations db)" "cv_payload r = c" "cv_id r = i" "row_ok r"
    by (auto simp: get_memory_def get_conv_def result_simps mem_db_ok_def list_all_iff
        dest!: tbl_get_Some_key validate_memory_id_Inr)
  then show "conv_id c = i"
    by (auto simp: row_ok_def result_simps dest!: conv_id_ditem validate_memory_id_Inr)
next
  fix db c db'
  assume ok: "mem_db_ok db" and "put_memory env now c db = Inr db'"
  then obtain mid c' where run: "insert_conv env now c db = Inr ((mid, c'), db')"
    by (auto simp: put_memory_def result_simps)
  note reads = insert_reads_back [OF ok run]
  show "\<exists>c'. get_memory db' (conv_id c) = Inr (Some c')
      \<and> lineage_parent_id (Some c') = lineage_parent_id (Some c)"
    using reads insert_conv_parent [OF run] by (auto simp: get_memory_def)
  show "get_memory db' i = get_memory db i" if "i \<noteq> conv_id c" for i
  proof -
    have "validate_memory_id (PStr i) \<noteq> Inr mid"
      using that insert_conv_parent(2) [OF run] validate_memory_id_Inr by fastforce
    then show ?thesis using reads by (auto simp: get_memory_def)
  qed
qed

lemma put_memory_ok: "mem_db_ok db \<Longrightarrow> put_memory env now c db = Inr db' \<Longrightarrow> mem_db_ok db'"
  by (auto simp: put_memory_def result_simps intro: ok_insert_conv)

lemma lineage_view_chain:
  assumes "lineage_chain get (conv_id c # ids)" "distinct (conv_id c # ids)"
    and "chain_authorized get w (Some p) ids"
    and "lineage_parent_id (Some c) = (case ids of [] \<Rightarrow> None | i # _ \<Rightarrow> Some i)"
  shows "lineage_view get c w p = Inr \<lparr>lin_ancestors = take 16 ids, lin_truncated = (16 < length ids),
           lin_missing_history = False, lin_cycle_detected = False\<rparr>"
proof (cases ids)
  case Nil
  then show ?thesis
    using assms by (simp add: lineage_view_def MAX_LINEAGE_DEPTH_def numeral_eq_Suc)
next
  case (Cons i js)
  have "lineage_walk 16 get w (Some p) [conv_id c] [] (Some i) =
      Inr \<lparr>lin_ancestors = [] @ take 16 (i # js), lin_truncated = (16 < length (i # js)),
           lin_missing_history = False, lin_cycle_detected = False\<rparr>"
    using assms Cons by (intro lineage_walk_chain) auto
  then show ?thesis
    using assms Cons by (simp add: lineage_view_def MAX_LINEAGE_DEPTH_def)
qed

section \<open>Properties\<close>

text \<open>
  C35. Validated lineages stay finite and acyclic: when the parent of a memory passes validation and
  the memory is then stored, the chain of parents of the stored memory ends after at most 1024
  ancestors, never meets a memory twice, and stays inside the authorised project; its lineage
  view lists the nearest 16 ancestors, and reports neither a cycle nor missing history.
\<close>

theorem validated_lineage_acyclic:
  assumes "mem_db_ok db" "validate_lineage_parent (get_memory db) c owner project = Inr ()"
    and "put_memory env now c db = Inr db'"
  shows "\<exists>ids c'. lineage_chain (get_memory db') (conv_id c # ids) \<and> distinct (conv_id c # ids)
    \<and> length ids \<le> 1024 \<and> chain_authorized (get_memory db') owner (Some project) ids
    \<and> get_memory db' (conv_id c) = Inr (Some c')
    \<and> lineage_view (get_memory db') c' owner project =
         Inr \<lparr>lin_ancestors = take 16 ids, lin_truncated = (16 < length ids),
              lin_missing_history = False, lin_cycle_detected = False\<rparr>"
proof -
  from sqlite.stored_lineage [OF assms] obtain ids c' where
    *: "lineage_chain (get_memory db') (conv_id c # ids)" "distinct (conv_id c # ids)"
    "length ids \<le> MAX_LINEAGE_VALIDATION_DEPTH" "chain_authorized (get_memory db') owner (Some project) ids"
    "get_memory db' (conv_id c) = Inr (Some c')"
    "lineage_parent_id (Some c') = (case ids of [] \<Rightarrow> None | i # _ \<Rightarrow> Some i)"
    by blast
  have "conv_id c' = conv_id c"
    using sqlite.get_id [OF put_memory_ok [OF assms(1,3)] *(5)] .
  then have "lineage_view (get_memory db') c' owner project =
      Inr \<lparr>lin_ancestors = take 16 ids, lin_truncated = (16 < length ids),
           lin_missing_history = False, lin_cycle_detected = False\<rparr>"
    using * by (intro lineage_view_chain) auto
  then show ?thesis using * by (auto simp: MAX_LINEAGE_VALIDATION_DEPTH_def)
qed

definition demo_child :: pydict where
  "demo_child =
     [(''id'', PStr ''00000000-0000-0000-0000-000000000002''), (''source'', PStr ''test''),
      (''timestamp'', PStr ''2026-01-01''), (''messages'', PList []),
      (''metadata'', PDict [(''conversation_hash'', PStr ''h2''), (''project_id'', PStr ''p1''),
         (''parent_conversation_id'', PStr demo_id)])]"

definition demo_parent_db :: mem_db where
  "demo_parent_db = commit_mem empty_mem_db
     (insert_conv demo_env ''now'' (demo_conversation ''h1'' [''a'']) empty_mem_db)"

lemma demo_parent_db_ok: "mem_db_ok demo_parent_db"
  unfolding demo_parent_db_def
  by (rule commit_mem_invariant) (auto intro: mem_db_ok_empty ok_insert_conv [OF mem_db_ok_empty])

theorem validated_lineage_acyclic_witness:
  "\<exists>db' c'. put_memory demo_env ''now'' demo_child demo_parent_db = Inr db'
     \<and> get_memory db' (conv_id demo_child) = Inr (Some c')
     \<and> lineage_view (get_memory db') c' None ''p1'' =
         Inr \<lparr>lin_ancestors = [demo_id], lin_truncated = False,
              lin_missing_history = False, lin_cycle_detected = False\<rparr>"
proof -
  let ?r = "put_memory demo_env ''now'' demo_child demo_parent_db"
  have valid: "validate_lineage_parent (get_memory demo_parent_db) demo_child None ''p1'' = Inr ()"
    by code_simp
  have view: "(case ?r of Inl e \<Rightarrow> False | Inr db' \<Rightarrow>
      (case get_memory db' (conv_id demo_child) of Inr (Some c') \<Rightarrow>
         lineage_view (get_memory db') c' None ''p1'' =
         Inr \<lparr>lin_ancestors = [demo_id], lin_truncated = False,
              lin_missing_history = False, lin_cycle_detected = False\<rparr> | _ \<Rightarrow> False))"
    by code_simp
  then obtain db' where run: "?r = Inr db'" by (auto split: sum.splits)
  from validated_lineage_acyclic [OF demo_parent_db_ok valid run] view run show ?thesis by auto
qed

text \<open>
  In the local default project the lineage view reports an ancestor that is not stored as if it
  were there: a missing memory has no project, which that project accepts. In every other
  project the same lineage is reported as missing history.
\<close>

lemma missing_ancestor_in_default_project:
  assumes "lineage_parent_id (Some c) = Some i" "i \<noteq> conv_id c" "get i = Inr None"
  shows "lineage_view get c owner project =
    Inr \<lparr>lin_ancestors = (if project = LOCAL_DEFAULT_PROJECT_ID then [i] else []), lin_truncated = False,
         lin_missing_history = (project \<noteq> LOCAL_DEFAULT_PROJECT_ID), lin_cycle_detected = False\<rparr>"
  using assms
  by (auto simp: lineage_view_def MAX_LINEAGE_DEPTH_def numeral_eq_Suc conversation_authorized_def
      conversation_project_matches_def project_id_from_conversation_def conv_meta_def lineage_parent_id_def)

lemma missing_ancestor_in_default_project_witness:
  "lineage_view (get_memory empty_mem_db) demo_child None LOCAL_DEFAULT_PROJECT_ID =
    Inr \<lparr>lin_ancestors = [demo_id], lin_truncated = False, lin_missing_history = False,
         lin_cycle_detected = False\<rparr>"
proof -
  have "lineage_parent_id (Some demo_child) = Some demo_id" "demo_id \<noteq> conv_id demo_child"
    "get_memory empty_mem_db demo_id = Inr None"
    by code_simp+
  from missing_ancestor_in_default_project [where get = "get_memory empty_mem_db", OF this] show ?thesis by simp
qed

end
