(* ===== verification/AppendDelta.thy ===== *)
theory AppendDelta
  imports MemoryAccess
begin

text \<open>
  How an incoming snapshot of a thread relates to the stored conversation, the conversation an append
  produces, and the hashes that identify conversations (\<^verbatim>\<open>memory/ingestion/mvp_ingestion.py\<close>).
\<close>

section \<open>Hashes\<close>

definition sha :: "ingest_env \<Rightarrow> string \<Rightarrow> string" where
  "sha env s = ''sha256:'' @ env_sha256 (ie_store env) s"

definition sha256_message :: "ingest_env \<Rightarrow> string \<Rightarrow> string \<Rightarrow> string" where
  "sha256_message env role text = sha env (role @ [CHR 0x0A] @ text)"

definition message_hashes :: "pyval list \<Rightarrow> string list result" where
  "message_hashes ms = map_result (\<lambda>m. bind_result (message_item m ''hash'') (\<lambda>h. Inr (py_str h))) ms"

definition hash_ordered_messages :: "ingest_env \<Rightarrow> pyval list \<Rightarrow> string result" where
  "hash_ordered_messages env ms =
     bind_result (message_hashes ms) (\<lambda>hs. Inr (sha env (join_with [CHR 0x0A] hs)))"

definition project_scoped_conversation_hash :: "ingest_env \<Rightarrow> string \<Rightarrow> string option \<Rightarrow> string" where
  "project_scoped_conversation_hash env h project_id =
     (case project_id of None \<Rightarrow> h | Some p \<Rightarrow> sha env (p @ [CHR 0x0A] @ h))"

text \<open>The hash of a conversation, \<open>None\<close> unless it is a string.\<close>

definition conv_hash :: "pydict \<Rightarrow> string option" where
  "conv_hash c = (case metadata_of c of None \<Rightarrow> None | Some m \<Rightarrow> as_str (dget_none m ''conversation_hash''))"

section \<open>Stamps\<close>

definition ensure_metadata :: "pydict \<Rightarrow> pydict" where
  "ensure_metadata c = (case dget_none c ''metadata'' of PDict m \<Rightarrow> m | _ \<Rightarrow> [])"

definition stamp_owner :: "pydict \<Rightarrow> string option \<Rightarrow> pydict result" where
  "stamp_owner c owner_id =
     (case owner_id of
        None \<Rightarrow> Inr c
      | Some w \<Rightarrow> bind_result (validate_owner_id w) (\<lambda>v.
          Inr (dset c ''metadata'' (PDict (dset (ensure_metadata c) ''owner_id'' (PStr v))))))"

definition stamp_project :: "pydict \<Rightarrow> string \<Rightarrow> pydict result" where
  "stamp_project c project_id =
     bind_result (validate_project_id project_id) (\<lambda>v.
       Inr (dset c ''metadata'' (PDict (dset (ensure_metadata c) ''project_id'' (PStr v)))))"

definition scope_conversation_hash :: "ingest_env \<Rightarrow> pydict \<Rightarrow> string option \<Rightarrow> pydict" where
  "scope_conversation_hash env c project_id =
     (case (project_id, metadata_of c) of
        (Some p, Some m) \<Rightarrow>
          (case dget_none m ''conversation_hash'' of
             PStr h \<Rightarrow> dset c ''metadata'' (PDict (dset m ''conversation_hash''
                         (PStr (project_scoped_conversation_hash env h (Some p)))))
           | _ \<Rightarrow> c)
      | _ \<Rightarrow> c)"

section \<open>Snapshots\<close>

datatype snapshot_relation = EQUAL | APPEND | STALE

record append_delta =
  ad_relation :: snapshot_relation
  ad_messages :: "pyval list"
  ad_covers :: bool

text \<open>\<open>str(message.get("hash", ""))\<close>: a message that is not a dictionary raises.\<close>

definition snapshot_hash :: "pyval \<Rightarrow> string result" where
  "snapshot_hash m =
     (case m of
        PDict d \<Rightarrow> Inr (py_str (dget_or d ''hash'' (PStr [])))
      | _ \<Rightarrow> Inl (AttributeError ''get''))"

definition detect_append_delta :: "pydict \<Rightarrow> pydict \<Rightarrow> append_delta result" where
  "detect_append_delta existing incoming =
     (case (dget_or existing ''messages'' (PList []), dget_or incoming ''messages'' (PList [])) of
        (PList ems, PList ims) \<Rightarrow>
          bind_result (map_result snapshot_hash ems) (\<lambda>ehs.
          bind_result (map_result snapshot_hash ims) (\<lambda>ihs.
          if ehs = ihs then Inr \<lparr>ad_relation = EQUAL, ad_messages = [], ad_covers = True\<rparr>
          else if take (length ehs) ihs = ehs
            then Inr \<lparr>ad_relation = APPEND, ad_messages = drop (length ehs) ims, ad_covers = True\<rparr>
          else if take (length ihs) ehs = ihs
            then Inr \<lparr>ad_relation = STALE, ad_messages = [], ad_covers = False\<rparr>
          else Inl (ValueError ''duplicate_conflict: same thread has divergent message history'')))
      | _ \<Rightarrow> Inl (ValueError ''duplicate_conflict: stored or incoming messages are invalid''))"

definition detect_new_messages :: "pydict \<Rightarrow> pydict \<Rightarrow> pyval list result" where
  "detect_new_messages existing incoming =
     bind_result (detect_append_delta existing incoming) (\<lambda>d. Inr (ad_messages d))"

section \<open>Appending\<close>

text \<open>\<open>list(updated.get("messages", []))\<close>: only lists are iterated here.\<close>

definition message_list_copy :: "pydict \<Rightarrow> pyval list result" where
  "message_list_copy c =
     (case dget_or c ''messages'' (PList []) of
        PList ms \<Rightarrow> Inr ms
      | _ \<Rightarrow> Inl (TypeError ''messages is not iterable''))"

definition metadata_copy :: "pydict \<Rightarrow> pydict result" where
  "metadata_copy c =
     (case metadata_of c of Some m \<Rightarrow> Inr m | None \<Rightarrow> Inl (TypeError ''metadata is not a mapping''))"

definition can_reuse_incoming_identity :: "bool \<Rightarrow> pydict \<Rightarrow> nat \<Rightarrow> (pyval list \<times> string) option" where
  "can_reuse_incoming_identity covers m n =
     (case (dget_none m ''message_hashes'', dget_none m ''conversation_hash'') of
        (PList hs, PStr h) \<Rightarrow> (if covers \<and> length hs = n then Some (hs, h) else None)
      | _ \<Rightarrow> None)"

definition append_conversation ::
    "ingest_env \<Rightarrow> pydict \<Rightarrow> pydict \<Rightarrow> pyval list \<Rightarrow> bool \<Rightarrow> pydict result" where
  "append_conversation env existing incoming new_messages covers =
     bind_result (metadata_copy existing) (\<lambda>m0.
     bind_result (message_list_copy existing) (\<lambda>old.
     let ms = old @ new_messages in
     bind_result (bind_result (ditem incoming ''metadata'') (\<lambda>v. message_item v ''updated_at'')) (\<lambda>updated_at.
     let im = ensure_metadata incoming; m1 = dset m0 ''updated_at'' updated_at in
     bind_result
       (case can_reuse_incoming_identity covers im (length ms) of
          Some (hs, h) \<Rightarrow> Inr (dset (dset m1 ''message_hashes'' (PList hs)) ''conversation_hash'' (PStr h))
        | None \<Rightarrow>
            bind_result (message_hashes ms) (\<lambda>hs.
            bind_result (hash_ordered_messages env ms) (\<lambda>h.
            let m2 = dset m1 ''message_hashes'' (PList (map PStr hs))
            in Inr (dset m2 ''conversation_hash'' (PStr (project_scoped_conversation_hash env h
                      (as_str (dget_none m2 ''project_id'')))))))) (\<lambda>m3.
     Inr (dset (dset existing ''messages'' (PList ms)) ''metadata'' (PDict (merge_thread_metadata m3 im)))))))"

end
