(* ===== verification/Normalize.thy ===== *)
theory Normalize
  imports AppendDelta Regex
begin

text \<open>
  Normalisation of an ingestion payload (\<open>normalize_conversation_json\<close> and its helpers in
  \<^verbatim>\<open>memory/ingestion/mvp_ingestion.py\<close>). The current time and the fresh UUID that the code draws
  are arguments. \<open>str.strip("\\ufeff\\r\\n")\<close> strips CR and LF: U+FEFF is outside the model.
\<close>

section \<open>Messages\<close>

definition MAX_MESSAGES :: int where "MAX_MESSAGES = 10000"
definition MAX_MESSAGE_BYTES :: int where "MAX_MESSAGE_BYTES = 1000000"
definition MAX_PAYLOAD_BYTES :: int where "MAX_PAYLOAD_BYTES = 25000000"
definition MAX_RAW_TRANSCRIPT_BYTES :: int where "MAX_RAW_TRANSCRIPT_BYTES = 5000000"
definition MAX_METADATA_BYTES :: int where "MAX_METADATA_BYTES = 1000000"
definition MAX_METADATA_SUMMARY_CHARS :: int where "MAX_METADATA_SUMMARY_CHARS = 2000"

definition ROLE_ALIASES :: "(string \<times> string) list" where
  "ROLE_ALIASES = [(''human'', ''user''), (''user_message'', ''user''), (''ai'', ''assistant''),
     (''bot'', ''assistant''), (''assistant_message'', ''assistant'')]"

definition normalize_role :: "pyval \<Rightarrow> string result" where
  "normalize_role role =
     (let v = py_lower (py_strip (py_str role));
          value = (case map_of ROLE_ALIASES v of None \<Rightarrow> v | Some a \<Rightarrow> a)
      in if value \<in> {''user'', ''assistant''} then Inr value
         else Inl (ValueError (''unknown message role: '' @ py_str role)))"

definition newline_char :: "char \<Rightarrow> bool" where
  "newline_char c \<longleftrightarrow> c = CHR 0x0A \<or> c = CHR 0x0D"

definition normalize_text :: "pyval \<Rightarrow> nat \<Rightarrow> string result" where
  "normalize_text text index =
     (case text of
        PStr s \<Rightarrow>
          (let value = strip_chars newline_char s in
           if py_strip value = []
             then Inl (ValueError (''messages['' @ nat_str index @ ''].text must be non-empty''))
           else if int (utf8_length value) > MAX_MESSAGE_BYTES
             then Inl (ValueError ''message exceeds max_message_bytes'')
           else Inr value)
      | _ \<Rightarrow> Inl (ValueError (''messages['' @ nat_str index @ ''].text must be a string'')))"

definition text_from_content :: "pydict \<Rightarrow> pydict" where
  "text_from_content d =
     dpop (if \<not> dhas d ''text'' \<and> dhas d ''content'' then dset d ''text'' (dget_none d ''content'') else d)
       ''content''"

definition normalize_message :: "ingest_env \<Rightarrow> nat \<Rightarrow> pyval \<Rightarrow> pydict result" where
  "normalize_message env index message =
     (case message of
        PDict d \<Rightarrow>
          (let n = text_from_content d in
           bind_result (normalize_role (dget_none n ''role'')) (\<lambda>role.
           bind_result (normalize_text (dget_none n ''text'') index) (\<lambda>text.
           let computed = sha256_message env role text; supplied = dget_none n ''hash'' in
           if supplied \<noteq> PNone \<and> supplied \<noteq> PStr computed
           then Inl (ValueError (''messages['' @ nat_str index @ ''].hash does not match server-computed hash''))
           else Inr (dset (dset (dset n ''role'' (PStr role)) ''text'' (PStr text)) ''hash'' (PStr computed)))))
      | _ \<Rightarrow> Inl (ValueError (''messages['' @ nat_str index @ ''] must be an object'')))"

text \<open>The loop of \<open>_normalize_messages\<close>: a message whose hash was seen before is dropped.\<close>

fun normalize_messages_from :: "ingest_env \<Rightarrow> nat \<Rightarrow> pyval list \<Rightarrow> pyval list \<Rightarrow> pyval list result" where
  "normalize_messages_from env index seen [] = Inr []"
| "normalize_messages_from env index seen (m # ms) =
     bind_result (normalize_message env index m) (\<lambda>d.
       let h = dget_none d ''hash'' in
       if h \<in> set seen then normalize_messages_from env (Suc index) seen ms
       else bind_result (normalize_messages_from env (Suc index) (h # seen) ms)
              (\<lambda>ds. Inr (PDict d # ds)))"

definition normalize_messages :: "ingest_env \<Rightarrow> pyval list \<Rightarrow> pyval list result" where
  "normalize_messages env ms =
     bind_result (normalize_messages_from env 0 [] ms) (\<lambda>ds.
     if ds = [] then Inl (ValueError ''messages must contain at least one non-empty message'') else Inr ds)"

section \<open>Raw transcripts\<close>

text \<open>\<open>str.splitlines\<close>.\<close>

definition line_break :: "char \<Rightarrow> bool" where
  "line_break c \<longleftrightarrow> chr_in 10 13 c \<or> chr_in 28 30 c \<or> chr_in 133 133 c"

fun splitlines_aux :: "string \<Rightarrow> string \<Rightarrow> string list" where
  "splitlines_aux acc [] = (if acc = [] then [] else [rev acc])"
| "splitlines_aux acc (c # cs) =
     (if c = CHR 0x0D \<and> cs \<noteq> [] \<and> hd cs = CHR 0x0A then rev acc # splitlines_aux [] (tl cs)
      else if line_break c then rev acc # splitlines_aux [] cs
      else splitlines_aux (c # acc) cs)"

definition TRANSCRIPT_LINE_RE :: rx where
  "TRANSCRIPT_LINE_RE = rseq
     [RStart, RGroup 1 (ralt [rlit_ci ''user'', rlit_ci ''assistant'']), rlit '':'',
      ropt (RChar py_space), RGroup 2 (RStar (RChar (\<lambda>c. c \<noteq> CHR 0x0A))), REnd]"

text \<open>The messages are kept newest first; the first one is the \<open>current\<close> message.\<close>

fun parse_transcript_lines :: "string list \<Rightarrow> (string \<times> string) list \<Rightarrow> (string \<times> string) list result" where
  "parse_transcript_lines [] acc = Inr (rev acc)"
| "parse_transcript_lines (line # lines) acc =
     (case rx_first TRANSCRIPT_LINE_RE ([], line, []) of
        Some (b, s, c) \<Rightarrow>
          bind_result (normalize_role (PStr (capture c 1))) (\<lambda>role.
            parse_transcript_lines lines ((role, capture c 2) # acc))
      | None \<Rightarrow>
          (case acc of
             [] \<Rightarrow> (if py_strip line \<noteq> []
                   then Inl (ValueError ''ambiguous raw transcript before first speaker boundary'')
                   else parse_transcript_lines lines acc)
           | (role, text) # rest \<Rightarrow>
               parse_transcript_lines lines ((role, text @ [CHR 0x0A] @ line) # rest)))"

definition parse_strict_transcript :: "string \<Rightarrow> pyval list result" where
  "parse_strict_transcript text =
     (if int (utf8_length text) > MAX_RAW_TRANSCRIPT_BYTES
      then Inl (ValueError ''raw transcript exceeds max_raw_transcript_bytes'')
      else bind_result (parse_transcript_lines (splitlines_aux [] text) []) (\<lambda>ms.
        if ms = [] then Inl (ValueError ''raw transcript did not contain any speaker boundaries'')
        else Inr (map (\<lambda>(role, text). PDict [(''role'', PStr role), (''text'', PStr text)]) ms)))"

section \<open>The payload\<close>

definition coerce_payload :: "pyval \<Rightarrow> bool \<Rightarrow> pydict result" where
  "coerce_payload payload strict =
     (case payload of
        PDict d \<Rightarrow>
          (if list_ex (dhas d) [''messages'', ''conversation'', ''content'', ''tags'']
           then (case dget_none d ''content'' of
                   PList content \<Rightarrow>
                     (if \<not> dhas d ''messages'' \<and> \<not> dhas d ''conversation''
                      then Inr (dpop (dset d ''messages'' (PList content)) ''content'')
                      else Inr d)
                 | _ \<Rightarrow> Inr d)
           else Inl (ValueError ''ambiguous input: object must include messages, conversation, content, or tags''))
      | PStr s \<Rightarrow>
          (if strict then bind_result (parse_strict_transcript s) (\<lambda>ms. Inr [(''messages'', PList ms)])
           else Inl (ValueError ''raw transcript input requires strict_transcript=True''))
      | _ \<Rightarrow> Inl (ValueError ''ambiguous input: expected object or strict raw transcript string''))"

definition enforce_payload_limits :: "pydict \<Rightarrow> unit result" where
  "enforce_payload_limits payload =
     (if int (utf8_length (json_dumps (PDict payload))) > MAX_PAYLOAD_BYTES
      then Inl (ValueError ''payload exceeds max_payload_bytes'')
      else
        bind_result (case dget_none payload ''messages'' of
            PList ms \<Rightarrow> guard_result (int (length ms) \<le> MAX_MESSAGES) (ValueError ''payload exceeds max_messages'')
          | _ \<Rightarrow> Inr ()) (\<lambda>_.
        case dget_none payload ''metadata'' of
          PDict m \<Rightarrow> guard_result (int (utf8_length (json_dumps (PDict m))) \<le> MAX_METADATA_BYTES)
                      (ValueError ''metadata exceeds max_metadata_bytes'')
        | _ \<Rightarrow> Inr ()))"

definition normalize_metadata_summary :: "pydict \<Rightarrow> pydict result" where
  "normalize_metadata_summary m =
     (case dget m ''summary'' of
        None \<Rightarrow> Inr m
      | Some (PStr s) \<Rightarrow>
          (let summary = join_with '' '' (split_ws (py_strip s)) in
           if summary = [] then Inr (dpop m ''summary'')
           else if int (length summary) > MAX_METADATA_SUMMARY_CHARS
             then Inl (ValueError ''metadata.summary exceeds max length of 2000 characters'')
           else Inr (dset m ''summary'' (PStr summary)))
      | Some _ \<Rightarrow> Inl (ValueError ''metadata.summary must be a string''))"

definition normalize_source :: "pyval \<Rightarrow> string result" where
  "normalize_source source =
     (case source of
        PStr s \<Rightarrow>
          (let value = py_strip s in
           if value = [] then Inl (ValueError ''source must be non-empty'')
           else if length value > 128 then Inl (ValueError ''source exceeds max length 128'')
           else Inr value)
      | _ \<Rightarrow> Inl (ValueError ''source must be a string''))"

definition validate_datetime_string :: "ingest_env \<Rightarrow> pyval \<Rightarrow> string \<Rightarrow> string result" where
  "validate_datetime_string env v field_name =
     (case v of
        PStr s \<Rightarrow>
          (if env_iso_datetime (ie_store env) (replace_sub ''Z'' ''+00:00'' s) then Inr s
           else Inl (ValueError (field_name @ '' must be an ISO-8601 datetime'')))
      | _ \<Rightarrow> Inl (ValueError (field_name @ '' must be an ISO-8601 datetime string'')))"

text \<open>Moves a top-level field into the metadata unless the metadata has it.\<close>

definition move_into_metadata :: "string \<Rightarrow> pydict \<times> pydict \<Rightarrow> pydict \<times> pydict" where
  "move_into_metadata k nm =
     (let (n, m) = nm; v = dget_none n k in
      (dpop n k, if v \<noteq> PNone \<and> \<not> dhas m k then dset m k v else m))"

definition messages_from_conversation :: "pydict \<Rightarrow> pydict" where
  "messages_from_conversation n =
     dpop (case dget_none n ''conversation'' of
             PList ms \<Rightarrow> (if dhas n ''messages'' then n else dset n ''messages'' (PList ms))
           | _ \<Rightarrow> n) ''conversation''"

definition normalize_message_field :: "ingest_env \<Rightarrow> pydict \<Rightarrow> pydict result" where
  "normalize_message_field env n =
     (case dget_none n ''messages'' of
        PList ms \<Rightarrow> bind_result (normalize_messages env ms) (\<lambda>ds. Inr (dset n ''messages'' (PList ds)))
      | _ \<Rightarrow> Inr n)"

definition normalize_header :: "ingest_env \<Rightarrow> clock \<Rightarrow> string \<Rightarrow> string option \<Rightarrow> pydict \<Rightarrow> pydict result" where
  "normalize_header env now fresh source n =
     (let n1 = dsetdefault n ''id'' (PStr fresh);
          n2 = dsetdefault n1 ''source'' (PStr (case source of Some (x # xs) \<Rightarrow> x # xs | _ \<Rightarrow> ''unknown''))
      in bind_result (normalize_source (dget_none n2 ''source'')) (\<lambda>src.
         let n3 = dsetdefault (dset n2 ''source'' (PStr src)) ''timestamp'' (PStr now) in
         bind_result (validate_datetime_string env (dget_none n3 ''timestamp'') ''timestamp'') (\<lambda>ts.
         Inr (dset n3 ''timestamp'' (PStr ts)))))"

definition normalize_metadata_times :: "ingest_env \<Rightarrow> clock \<Rightarrow> pydict \<Rightarrow> pydict result" where
  "normalize_metadata_times env now m =
     (let m1 = (case dget_none m ''saved_at'' of
            PStr s \<Rightarrow> (if dhas m ''imported_at'' then m else dset m ''imported_at'' (PStr s))
          | _ \<Rightarrow> m)
      in bind_result (normalize_metadata_summary m1) (\<lambda>m2.
         let m3 = dsetdefault m2 ''imported_at'' (PStr now) in
         bind_result (validate_datetime_string env (dget_none m3 ''imported_at'') ''metadata.imported_at'') (\<lambda>at.
         Inr (dset (dset m3 ''imported_at'' (PStr at)) ''updated_at'' (PStr now)))))"

definition normalize_metadata_hashes :: "ingest_env \<Rightarrow> pydict \<Rightarrow> pydict \<Rightarrow> pydict result" where
  "normalize_metadata_hashes env n m =
     (case dget_none n ''messages'' of
        PList ms \<Rightarrow>
          bind_result (message_hashes ms) (\<lambda>hs.
          bind_result (hash_ordered_messages env ms) (\<lambda>h.
          Inr (dset n ''metadata'' (PDict (dset (dset m ''message_hashes'' (PList (map PStr hs)))
                 ''conversation_hash'' (PStr h))))))
      | _ \<Rightarrow> Inl (ValueError ''ambiguous input: messages must be an array''))"

definition normalize_conversation_json ::
    "ingest_env \<Rightarrow> clock \<Rightarrow> string \<Rightarrow> pyval \<Rightarrow> string option \<Rightarrow> bool \<Rightarrow> pydict result" where
  "normalize_conversation_json env now fresh payload source strict =
     bind_result (coerce_payload payload strict) (\<lambda>p.
     bind_result (enforce_payload_limits p) (\<lambda>_.
     let (n0, m0) = move_into_metadata ''thread_id'' (move_into_metadata ''tags'' (p, ensure_metadata p)) in
     bind_result (normalize_message_field env (messages_from_conversation n0)) (\<lambda>n1.
     bind_result (normalize_header env now fresh source n1) (\<lambda>n2.
     bind_result (normalize_metadata_times env now m0) (\<lambda>m1.
     bind_result (normalize_metadata_hashes env n2 m1) (\<lambda>n3.
     bind_result (normalize_thread_metadata env n3) (\<lambda>n4.
     bind_result (normalize_handoff_provenance env n4) (\<lambda>n5.
     bind_result (enforce_payload_limits n5) (\<lambda>_. Inr n5)))))))))"

text \<open>
  What \<open>validate_messages\<close>, \<open>ingest_messages\<close> and \<open>store_pending_review_memory\<close> do first: normalise,
  stamp owner and project, identify an imported session (not for pending reviews), and scope the hash.
\<close>

definition prepare_incoming ::
    "ingest_env \<Rightarrow> clock \<Rightarrow> string \<Rightarrow> pyval \<Rightarrow> bool \<Rightarrow> bool \<Rightarrow> string option \<Rightarrow> string \<Rightarrow> pydict result" where
  "prepare_incoming env now fresh payload strict imported owner_id project_id =
     bind_result (normalize_conversation_json env now fresh payload None strict) (\<lambda>c1.
     bind_result (stamp_owner c1 owner_id) (\<lambda>c2.
     bind_result (stamp_project c2 project_id) (\<lambda>c3.
     let c4 = (if imported then stamp_imported_session_identity env c3 else c3)
     in Inr (scope_conversation_hash env c4 (Some project_id)))))"

end
