(* ===== verification/AppendProperties.thy ===== *)
theory AppendProperties
  imports AppendDelta ConversationProperties
begin

text \<open>
  The classification of snapshots agrees with the prefix order on message hashes, and an append
  keeps the hashes of a conversation settled, whichever way it computes them.
\<close>

section \<open>Classification\<close>

definition snapshot_hashes :: "pydict \<Rightarrow> string list result" where
  "snapshot_hashes c = bind_result (message_list_copy c) (map_result snapshot_hash)"

lemma snapshot_hashes_Inr_iff:
  "snapshot_hashes c = Inr hs \<longleftrightarrow>
     (\<exists>ms. dget_or c ''messages'' (PList []) = PList ms \<and> map_result snapshot_hash ms = Inr hs)"
  by (auto simp: snapshot_hashes_def message_list_copy_def result_simps split: pyval.splits)

lemma take_length_prefix: "take (length xs) ys = xs \<longleftrightarrow> Sublist.prefix xs ys"
  by (metis append_eq_conv_conj append_take_drop_id prefixE prefixI)

lemma map_result_drop: "map_result f xs = Inr ys \<Longrightarrow> map_result f (drop n xs) = Inr (drop n ys)"
  by (auto simp: map_result_Inr_list_all2 list_all2_dropI)

lemma map_result_append:
  "map_result f (xs @ ys) = bind_result (map_result f xs) (\<lambda>as. bind_result (map_result f ys) (\<lambda>bs. Inr (as @ bs)))"
proof (induction xs)
  case Nil
  then show ?case by (cases "map_result f ys") auto
next
  case (Cons x xs)
  then show ?case by (cases "f x"; cases "map_result f xs"; cases "map_result f ys") auto
qed

text \<open>
  C36. Snapshots are classified by the prefix order of their message hashes: equal histories are EQUAL;
  a history that extends the stored one is APPEND with exactly the missing messages, whose hashes
  complete the stored ones; a proper prefix of the stored one is STALE; and two histories of which
  neither is a prefix of the other are refused.
\<close>

theorem append_delta_is_prefix_order:
  assumes "snapshot_hashes existing = Inr ehs" "snapshot_hashes incoming = Inr ihs"
  shows "(case detect_append_delta existing incoming of
      Inr d \<Rightarrow>
        (case ad_relation d of
           EQUAL \<Rightarrow> ehs = ihs \<and> ad_messages d = []
         | APPEND \<Rightarrow> strict_prefix ehs ihs
             \<and> map_result snapshot_hash (ad_messages d) = Inr (drop (length ehs) ihs)
         | STALE \<Rightarrow> strict_prefix ihs ehs \<and> ad_messages d = [])
    | Inl e \<Rightarrow> \<not> Sublist.prefix ehs ihs \<and> \<not> Sublist.prefix ihs ehs)"
proof -
  from assms obtain ems ims where
    ms: "dget_or existing ''messages'' (PList []) = PList ems" "map_result snapshot_hash ems = Inr ehs"
      "dget_or incoming ''messages'' (PList []) = PList ims" "map_result snapshot_hash ims = Inr ihs"
    by (auto simp: snapshot_hashes_Inr_iff)
  then show ?thesis
    using map_result_drop [OF ms(4), of "length ehs"]
    by (auto simp: detect_append_delta_def take_length_prefix strict_prefix_def)
qed

theorem append_delta_is_prefix_order_witness:
  "\<exists>d. detect_append_delta (demo_conversation ''h'' [''a'']) (demo_conversation ''h'' [''a'', ''b'']) = Inr d
     \<and> ad_relation d = APPEND \<and> map_result snapshot_hash (ad_messages d) = Inr [''b'']"
proof -
  let ?e = "demo_conversation ''h'' [''a'']" and ?i = "demo_conversation ''h'' [''a'', ''b'']"
  have e: "snapshot_hashes ?e = Inr [''a'']" and i: "snapshot_hashes ?i = Inr [''a'', ''b'']"
    by code_simp+
  have "(case detect_append_delta ?e ?i of Inr d \<Rightarrow> ad_relation d = APPEND | Inl e \<Rightarrow> False)" by code_simp
  then obtain d where "detect_append_delta ?e ?i = Inr d" "ad_relation d = APPEND"
    by (auto split: sum.splits)
  with append_delta_is_prefix_order [OF e i] show ?thesis by simp
qed

section \<open>Settled hashes\<close>

text \<open>
  The hashes as normalisation leaves them: every message has a hash, and the metadata repeats the
  list and its project-scoped aggregate.
\<close>

definition hashes_settled :: "ingest_env \<Rightarrow> string \<Rightarrow> pydict \<Rightarrow> bool" where
  "hashes_settled env p c \<longleftrightarrow>
     (case (dget_none c ''messages'', dget_none c ''metadata'') of
        (PList ms, PDict m) \<Rightarrow>
          (case message_hashes ms of
             Inr hs \<Rightarrow>
               dget_none m ''message_hashes'' = PList (map PStr hs)
               \<and> dget_none m ''conversation_hash'' =
                   PStr (project_scoped_conversation_hash env (sha env (join_with [CHR 0x0A] hs)) (Some p))
               \<and> dget_none m ''project_id'' = PStr p
           | Inl e \<Rightarrow> False)
      | _ \<Rightarrow> False)"

lemma hashes_settledE:
  assumes "hashes_settled env p c"
  obtains ms m hs where "dget_none c ''messages'' = PList ms" "dget_none c ''metadata'' = PDict m"
    "message_hashes ms = Inr hs" "dget_none m ''message_hashes'' = PList (map PStr hs)"
    "dget_none m ''conversation_hash'' =
       PStr (project_scoped_conversation_hash env (sha env (join_with [CHR 0x0A] hs)) (Some p))"
    "dget_none m ''project_id'' = PStr p"
  using assms by (auto simp: hashes_settled_def split: pyval.splits sum.splits)

lemma dget_or_none: "dget_none d k \<noteq> PNone \<Longrightarrow> dget_or d k v = dget_none d k"
  by (auto simp: dget_none_def dget_or_def split: option.splits)

lemma message_hash_snapshot:
  "bind_result (message_item m ''hash'') (\<lambda>h. Inr (py_str h)) = Inr s \<Longrightarrow> snapshot_hash m = Inr s"
  by (auto simp: result_simps message_item_def snapshot_hash_def ditem_def dget_or_def
      split: pyval.splits option.splits)

lemma message_hashes_snapshot: "message_hashes ms = Inr hs \<Longrightarrow> map_result snapshot_hash ms = Inr hs"
  unfolding message_hashes_def map_result_Inr_list_all2
  by (erule list_all2_mono) (rule message_hash_snapshot)

lemma message_hashes_append:
  "message_hashes xs = Inr as \<Longrightarrow> message_hashes ys = Inr bs \<Longrightarrow> message_hashes (xs @ ys) = Inr (as @ bs)"
  by (simp add: message_hashes_def map_result_append)

lemma message_hashes_drop:
  "message_hashes xs = Inr as \<Longrightarrow> message_hashes (drop n xs) = Inr (drop n as)"
  unfolding message_hashes_def by (rule map_result_drop)

lemma dget_none_dset [simp]: "dget_none (dset d k v) k' = (if k' = k then v else dget_none d k')"
  by (simp add: dget_none_def dget_or_def)

lemma merge_thread_key_other:
  "k' \<noteq> k \<Longrightarrow> dget_none (merge_thread_key im k t) k' = dget_none t k'"
  by (auto simp: merge_thread_key_def split: option.splits pyval.splits)

lemma merge_thread_metadata_other:
  "k \<notin> set thread_keys \<Longrightarrow> dget_none (merge_thread_metadata t im) k = dget_none t k"
  by (auto simp: merge_thread_metadata_def Let_def thread_keys_def merge_thread_key_other)

text \<open>
  C37. Reusing the identity of the incoming snapshot is sound: when a settled snapshot extends the
  settled history of a conversation of the same project, the append that copies the hashes of the
  snapshot produces exactly the conversation that the append which recomputes them produces; the
  result has settled hashes, the message hashes of the snapshot, and is EQUAL to the snapshot when
  it arrives again.
\<close>

theorem append_identity_reuse:
  assumes "detect_append_delta existing incoming = Inr d" "ad_relation d = APPEND"
    and e: "hashes_settled env p existing" and i: "hashes_settled env p incoming"
    and "dhas (ensure_metadata incoming) ''updated_at''"
  shows "\<exists>c. append_conversation env existing incoming (ad_messages d) True = Inr c
    \<and> append_conversation env existing incoming (ad_messages d) False = Inr c
    \<and> hashes_settled env p c \<and> snapshot_hashes c = snapshot_hashes incoming
    \<and> detect_append_delta c incoming = Inr \<lparr>ad_relation = EQUAL, ad_messages = [], ad_covers = True\<rparr>"
proof -
  from e obtain ems em ehs where e: "dget_none existing ''messages'' = PList ems"
    "dget_none existing ''metadata'' = PDict em" "message_hashes ems = Inr ehs"
    "dget_none em ''project_id'' = PStr p"
    by (rule hashes_settledE)
  from i obtain ims im ihs where i: "dget_none incoming ''messages'' = PList ims"
    "dget_none incoming ''metadata'' = PDict im" "message_hashes ims = Inr ihs"
    "dget_none im ''message_hashes'' = PList (map PStr ihs)"
    "dget_none im ''conversation_hash'' =
       PStr (project_scoped_conversation_hash env (sha env (join_with [CHR 0x0A] ihs)) (Some p))"
    by (rule hashes_settledE)
  have old: "dget_or existing ''messages'' v = PList ems" "dget_or existing ''metadata'' v = PDict em"
    and new: "dget_or incoming ''messages'' v = PList ims" for v
    using e i by (simp_all add: dget_or_none)
  have pre: "take (length ehs) ihs = ehs" and d: "ad_messages d = drop (length ehs) ims"
    using assms(1,2) message_hashes_snapshot [OF e(3)] message_hashes_snapshot [OF i(3)]
    by (auto simp: detect_append_delta_def old new split: if_splits)
  have all: "message_hashes (ems @ ad_messages d) = Inr ihs"
    using message_hashes_append [OF e(3) message_hashes_drop [OF i(3), of "length ehs"]] pre d
    by (metis append_take_drop_id)
  have len: "length ihs = length (ems @ ad_messages d)"
    using all unfolding message_hashes_def by (rule map_result_Inr_length [symmetric, THEN sym])
  obtain t where t: "dget im ''updated_at'' = Some t"
    using assms(5) i(2) by (auto simp: ensure_metadata_def dhas_def)
  have item: "ditem incoming ''metadata'' = Inr (PDict im)"
    using i(2) by (auto simp: ditem_def dget_none_def dget_or_def split: option.splits)
  let ?h = "project_scoped_conversation_hash env (sha env (join_with [CHR 0x0A] ihs)) (Some p)"
  let ?m = "merge_thread_metadata (dset (dset (dset em ''updated_at'' t) ''message_hashes''
      (PList (map PStr ihs))) ''conversation_hash'' (PStr ?h)) im"
  let ?c = "dset (dset existing ''messages'' (PList (ems @ ad_messages d))) ''metadata'' (PDict ?m)"
  have run: "append_conversation env existing incoming (ad_messages d) b = Inr ?c" for b
    using e i all len t item
    by (cases b)
      (simp_all add: append_conversation_def metadata_copy_def metadata_of_def old message_list_copy_def
        message_item_def ditem_def ensure_metadata_def can_reuse_incoming_identity_def Let_def
        hash_ordered_messages_def)
  have other: "k \<notin> set thread_keys \<Longrightarrow> dget_none ?m k = dget_none (dset (dset (dset em ''updated_at'' t)
      ''message_hashes'' (PList (map PStr ihs))) ''conversation_hash'' (PStr ?h)) k" for k
    by (rule merge_thread_metadata_other)
  have settled: "hashes_settled env p ?c"
    using all e(4) by (simp add: hashes_settled_def other thread_keys_def)
  have same: "snapshot_hashes ?c = Inr ihs" "snapshot_hashes incoming = Inr ihs"
    using message_hashes_snapshot [OF all] message_hashes_snapshot [OF i(3)] new
    by (auto simp: snapshot_hashes_Inr_iff dget_or_none)
  then have "detect_append_delta ?c incoming = Inr \<lparr>ad_relation = EQUAL, ad_messages = [], ad_covers = True\<rparr>"
    by (auto simp: snapshot_hashes_Inr_iff detect_append_delta_def)
  then show ?thesis using run settled same by metis
qed

definition demo_ingest_env :: ingest_env where
  "demo_ingest_env = \<lparr>ie_store = demo_env,
     ie_opt_str = (\<lambda>n v. case v of PNone \<Rightarrow> Inr None
        | PStr s \<Rightarrow> (if length s \<le> n then Inr (Some s) else Inl (ValueError ''too long''))
        | _ \<Rightarrow> Inl (ValueError ''not a string'')),
     ie_client_str = (\<lambda>v. Inr (as_str v)),
     ie_str_list = (\<lambda>v. case v of PList xs \<Rightarrow> Inr (List.map_filter as_str xs) | _ \<Rightarrow> Inl (ValueError ''not a list'')),
     ie_schema_ok = (\<lambda>c. Inr ())\<rparr>"

definition demo_snapshot :: "string list \<Rightarrow> pydict" where
  "demo_snapshot hs =
     [(''id'', PStr demo_id),
      (''messages'', PList (map (\<lambda>h. PDict [(''role'', PStr ''user''), (''text'', PStr h), (''hash'', PStr h)]) hs)),
      (''metadata'', PDict [(''project_id'', PStr ''p1''), (''updated_at'', PStr ''t''),
         (''message_hashes'', PList (map PStr hs)),
         (''conversation_hash'', PStr (project_scoped_conversation_hash demo_ingest_env
            (sha demo_ingest_env (join_with [CHR 0x0A] hs)) (Some ''p1'')))])]"

theorem append_identity_reuse_witness:
  "\<exists>d c. detect_append_delta (demo_snapshot [''a'']) (demo_snapshot [''a'', ''b'']) = Inr d
     \<and> append_conversation demo_ingest_env (demo_snapshot [''a'']) (demo_snapshot [''a'', ''b'']) (ad_messages d) True = Inr c
     \<and> hashes_settled demo_ingest_env ''p1'' c"
proof -
  let ?e = "demo_snapshot [''a'']" and ?i = "demo_snapshot [''a'', ''b'']"
  have "(case detect_append_delta ?e ?i of Inr d \<Rightarrow> ad_relation d = APPEND | Inl e \<Rightarrow> False)" by code_simp
  then obtain d where d: "detect_append_delta ?e ?i = Inr d" "ad_relation d = APPEND"
    by (auto split: sum.splits)
  have "hashes_settled demo_ingest_env ''p1'' ?e" "hashes_settled demo_ingest_env ''p1'' ?i"
    "dhas (ensure_metadata ?i) ''updated_at''"
    by code_simp+
  from append_identity_reuse [OF d this] d(1) show ?thesis by blast
qed

end
