(* ===== verification/NormalizeProperties.thy ===== *)
theory NormalizeProperties
  imports Normalize AppendProperties
begin

text \<open>
  What normalisation establishes: well-formed, distinct messages, settled hashes, and stability under
  a second normalisation, which deduplication and the approval of pending memories rely on.
\<close>

section \<open>Messages\<close>

definition message_ok :: "ingest_env \<Rightarrow> pyval \<Rightarrow> bool" where
  "message_ok env m \<longleftrightarrow>
     (\<exists>d role t. m = PDict d \<and> \<not> dhas d ''content''
        \<and> dget d ''role'' = Some (PStr role) \<and> role \<in> {''user'', ''assistant''}
        \<and> dget d ''text'' = Some (PStr t) \<and> py_strip t \<noteq> [] \<and> int (utf8_length t) \<le> MAX_MESSAGE_BYTES
        \<and> strip_chars newline_char t = t
        \<and> dget d ''hash'' = Some (PStr (sha256_message env role t)))"

definition message_hash_field :: "pyval \<Rightarrow> pyval" where
  "message_hash_field m = (case m of PDict d \<Rightarrow> dget_none d ''hash'' | _ \<Rightarrow> PNone)"

lemma strip_chars_idem [simp]: "strip_chars p (strip_chars p s) = strip_chars p s"
  by (simp add: strip_chars_def dropWhile_idem_last)

lemma no_content: "\<not> dhas (text_from_content d) ''content''"
  by (simp add: text_from_content_def dhas_def)

lemma normalize_role_Inr: "normalize_role v = Inr r \<Longrightarrow> r \<in> {''user'', ''assistant''}"
  by (auto simp: normalize_role_def Let_def split: if_splits)

lemma normalize_role_fix: "r \<in> {''user'', ''assistant''} \<Longrightarrow> normalize_role (PStr r) = Inr r"
proof -
  have "normalize_role (PStr ''user'') = Inr ''user''" "normalize_role (PStr ''assistant'') = Inr ''assistant''"
    by code_simp+
  then show "r \<in> {''user'', ''assistant''} \<Longrightarrow> normalize_role (PStr r) = Inr r" by auto
qed

lemma normalize_text_Inr:
  "normalize_text v i = Inr t \<Longrightarrow>
     py_strip t \<noteq> [] \<and> int (utf8_length t) \<le> MAX_MESSAGE_BYTES \<and> strip_chars newline_char t = t"
  by (auto simp: normalize_text_def Let_def split: pyval.splits if_splits)

lemma normalize_message_ok:
  assumes "normalize_message env i m = Inr d"
  shows "message_ok env (PDict d)"
proof -
  from assms obtain e role t where *: "m = PDict e"
    "normalize_role (dget_none (text_from_content e) ''role'') = Inr role"
    "normalize_text (dget_none (text_from_content e) ''text'') i = Inr t"
    "d = dset (dset (dset (text_from_content e) ''role'' (PStr role)) ''text'' (PStr t)) ''hash''
       (PStr (sha256_message env role t))"
    by (auto simp: normalize_message_def Let_def result_simps split: pyval.splits)
  then show ?thesis
    using normalize_role_Inr [OF *(2)] normalize_text_Inr [OF *(3)] no_content [of e]
    unfolding message_ok_def
    by (intro exI [of _ d] exI [of _ role] exI [of _ t]) (auto simp: dhas_def)
qed

lemma normalize_message_fix:
  assumes "message_ok env (PDict d)"
  shows "normalize_message env i (PDict d) = Inr d"
proof -
  from assms obtain role t where *: "\<not> dhas d ''content''" "dget d ''role'' = Some (PStr role)"
    "role \<in> {''user'', ''assistant''}" "dget d ''text'' = Some (PStr t)" "py_strip t \<noteq> []"
    "int (utf8_length t) \<le> MAX_MESSAGE_BYTES" "strip_chars newline_char t = t"
    "dget d ''hash'' = Some (PStr (sha256_message env role t))"
    unfolding message_ok_def by blast
  have same: "text_from_content d = d"
    using *(1,4) by (auto simp: text_from_content_def dhas_def dpop_absent)
  have "normalize_text (PStr t) i = Inr t"
    using * by (simp add: normalize_text_def Let_def)
  then show ?thesis
    using * same normalize_role_fix [OF *(3)]
    by (simp add: normalize_message_def Let_def dget_none_def dget_or_def dset_same)
qed

lemma normalize_messages_from_ok:
  assumes "normalize_messages_from env i seen ms = Inr ds"
  shows "list_all (message_ok env) ds \<and> distinct (map message_hash_field ds)
    \<and> set (map message_hash_field ds) \<inter> set seen = {}"
  using assms
proof (induction env i seen ms arbitrary: ds rule: normalize_messages_from.induct)
  case (2 env index seen m ms)
  then obtain d where d: "normalize_message env index m = Inr d" by (auto simp: result_simps)
  show ?case
  proof (cases "dget_none d ''hash'' \<in> set seen")
    case True
    then show ?thesis using 2 d by (simp add: Let_def)
  next
    case False
    with 2(3) d obtain es where es: "ds = PDict d # es"
      "normalize_messages_from env (Suc index) (dget_none d ''hash'' # seen) ms = Inr es"
      by (auto simp: Let_def result_simps)
    from 2(2) [OF refl False es(2)] show ?thesis
      using False es(1) normalize_message_ok [OF d] by (auto simp: message_hash_field_def)
  qed
qed simp

lemma normalize_messages_from_fix:
  assumes "list_all (message_ok env) ds" "distinct (map message_hash_field ds)"
    and "set (map message_hash_field ds) \<inter> set seen = {}"
  shows "normalize_messages_from env i seen ds = Inr ds"
  using assms
proof (induction ds arbitrary: i seen)
  case (Cons m ds)
  from Cons.prems(1) obtain d where d: "m = PDict d" by (auto simp: message_ok_def)
  have "normalize_message env i m = Inr d"
    using Cons.prems(1) d by (auto intro: normalize_message_fix)
  moreover have "normalize_messages_from env (Suc i) (dget_none d ''hash'' # seen) ds = Inr ds"
    using Cons.prems d by (intro Cons.IH) (auto simp: message_hash_field_def)
  ultimately show ?case
    using Cons.prems(3) d by (auto simp: Let_def message_hash_field_def)
qed simp

lemma normalize_messages_Inr:
  assumes "normalize_messages env ms = Inr ds"
  shows "ds \<noteq> []" "list_all (message_ok env) ds" "distinct (map message_hash_field ds)"
    "normalize_messages env ds = Inr ds"
proof -
  from assms have run: "normalize_messages_from env 0 [] ms = Inr ds" and ne: "ds \<noteq> []"
    by (auto simp: normalize_messages_def result_simps split: if_splits)
  note ok = normalize_messages_from_ok [OF run]
  show "ds \<noteq> []" "list_all (message_ok env) ds" "distinct (map message_hash_field ds)"
    using ok ne by auto
  show "normalize_messages env ds = Inr ds"
    using ok ne normalize_messages_from_fix [of env ds "[]" 0] by (simp add: normalize_messages_def)
qed

text \<open>
  C38. Normalised messages are well formed and normalising is idempotent: there is at least one message,
  each has the role user or assistant, a non-blank text within the size limit, the hash of its role and
  text and no \<open>content\<close> field, no two have the same hash, and normalising them again changes nothing.
\<close>

theorem normalized_messages_wellformed:
  assumes "normalize_messages env ms = Inr ds"
  shows "ds \<noteq> [] \<and> list_all (message_ok env) ds \<and> distinct (map message_hash_field ds)
    \<and> normalize_messages env ds = Inr ds"
  using normalize_messages_Inr [OF assms] by blast

theorem normalized_messages_wellformed_witness:
  "\<exists>ds. normalize_messages demo_ingest_env
       [PDict [(''role'', PStr '' Human ''), (''content'', PStr ''hi'')],
        PDict [(''role'', PStr ''user''), (''text'', PStr ''hi'')]] = Inr ds
     \<and> length ds = 1 \<and> list_all (message_ok demo_ingest_env) ds"
proof -
  let ?r = "normalize_messages demo_ingest_env
       [PDict [(''role'', PStr '' Human ''), (''content'', PStr ''hi'')],
        PDict [(''role'', PStr ''user''), (''text'', PStr ''hi'')]]"
  have "(case ?r of Inr ds \<Rightarrow> length ds = 1 | Inl e \<Rightarrow> False)" by code_simp
  then obtain ds where r: "?r = Inr ds" "length ds = 1" by (auto split: sum.splits)
  with normalized_messages_wellformed [OF r(1)] show ?thesis by blast
qed

section \<open>Prepared conversations\<close>

text \<open>
  A conversation whose messages are normalised and whose metadata repeats their hashes, before the
  aggregate is scoped to a project.
\<close>

definition raw_settled :: "ingest_env \<Rightarrow> pyval list \<Rightarrow> pydict \<Rightarrow> bool" where
  "raw_settled env ms c \<longleftrightarrow>
     dget_none c ''messages'' = PList ms
     \<and> (\<exists>m hs. dget_none c ''metadata'' = PDict m \<and> message_hashes ms = Inr hs
          \<and> dget_none m ''message_hashes'' = PList (map PStr hs)
          \<and> dget_none m ''conversation_hash'' = PStr (sha env (join_with [CHR 0x0A] hs)))"

lemma raw_settled_metadata:
  assumes "raw_settled env ms c" "dget_none c' ''messages'' = dget_none c ''messages''"
    and "dget_none c' ''metadata'' = PDict m'"
    and "\<And>m. dget_none c ''metadata'' = PDict m \<Longrightarrow>
        dget_none m' ''message_hashes'' = dget_none m ''message_hashes''
        \<and> dget_none m' ''conversation_hash'' = dget_none m ''conversation_hash''"
  shows "raw_settled env ms c'"
  using assms by (auto simp: raw_settled_def)

lemma dget_dupdate_other: "k \<notin> fst ` set upd \<Longrightarrow> dget (dupdate d upd) k = dget d k"
  by (induction upd arbitrary: d) (auto simp: dupdate_def)

lemma dget_none_dupdate_pop:
  "k \<notin> set ks \<Longrightarrow> fst ` set upd \<subseteq> set ks \<Longrightarrow> dget_none (dupdate (dpop_all m ks) upd) k = dget_none m k"
  by (subgoal_tac "k \<notin> fst ` set upd")
    (auto simp: dget_none_def dget_or_def dget_dupdate_other dget_dpop_all)

lemma keys_to_metadata_update: "fst ` set (to_metadata_update t) \<subseteq> set thread_keys"
  by (auto simp: to_metadata_update_def opt_item_def thread_keys_def split: option.splits if_splits)

lemma keys_provenance_update:
  "handoff_provenance_update env m = Inr upd \<Longrightarrow> fst ` set upd \<subseteq> set [''source_client'', ''source_session_id'']"
  by (auto simp: handoff_provenance_update_def result_simps opt_item_def split: option.splits)

lemma raw_settled_with_metadata:
  assumes "raw_settled env ms c" "with_metadata c f = Inr c'"
    and "\<And>m m'. f m = Inr m' \<Longrightarrow> dget_none m' ''message_hashes'' = dget_none m ''message_hashes''
        \<and> dget_none m' ''conversation_hash'' = dget_none m ''conversation_hash''"
  shows "raw_settled env ms c'"
proof -
  from assms(1) obtain m where m: "dget_none c ''metadata'' = PDict m" by (auto simp: raw_settled_def)
  with assms(2) obtain m' where m': "f m = Inr m'" "c' = dset c ''metadata'' (PDict m')"
    by (auto simp: with_metadata_def result_simps)
  show ?thesis
    by (rule raw_settled_metadata [OF assms(1), where m' = m']) (use m' m assms(3) [OF m'(1)] in auto)
qed

lemma thread_frame:
  "k \<notin> set thread_keys \<Longrightarrow>
     dget_none (dupdate (dpop_all m thread_keys) (to_metadata_update t)) k = dget_none m k"
  by (intro dget_none_dupdate_pop keys_to_metadata_update)

lemma hash_keys_not_thread: "''message_hashes'' \<notin> set thread_keys" "''conversation_hash'' \<notin> set thread_keys"
  by (simp_all add: thread_keys_def)

lemma raw_settled_thread:
  assumes "raw_settled env ms c" "normalize_thread_metadata env c = Inr c'"
  shows "raw_settled env ms c'"
  by (rule raw_settled_with_metadata [OF assms(1) assms(2) [unfolded normalize_thread_metadata_def]])
    (auto simp: result_simps Let_def thread_frame hash_keys_not_thread)

lemma raw_settled_provenance:
  assumes "raw_settled env ms c" "normalize_handoff_provenance env c = Inr c'"
  shows "raw_settled env ms c'"
  by (rule raw_settled_with_metadata [OF assms(1) assms(2) [unfolded normalize_handoff_provenance_def]])
    (auto simp: result_simps dget_none_dupdate_pop dest!: keys_provenance_update)

lemma ensure_metadata_PDict: "dget_none c ''metadata'' = PDict m \<Longrightarrow> ensure_metadata c = m"
  by (simp add: ensure_metadata_def)

lemma raw_settled_dset:
  assumes "raw_settled env ms c" "k \<notin> {''message_hashes'', ''conversation_hash''}"
  shows "raw_settled env ms (dset c ''metadata'' (PDict (dset (ensure_metadata c) k v)))"
  using assms by (auto simp: raw_settled_def ensure_metadata_PDict)

lemma raw_settled_dpop:
  assumes "raw_settled env ms c" "k \<notin> {''message_hashes'', ''conversation_hash''}"
  shows "raw_settled env ms (dset c ''metadata'' (PDict (dpop (ensure_metadata c) k)))"
  using assms by (auto simp: raw_settled_def ensure_metadata_PDict dget_none_def dget_or_def)

lemma raw_settled_stamp_owner:
  "raw_settled env ms c \<Longrightarrow> stamp_owner c w = Inr c' \<Longrightarrow> raw_settled env ms c'"
  by (auto simp: stamp_owner_def result_simps raw_settled_dset)

lemma stamped_project:
  assumes "raw_settled env ms c" "stamp_project c p = Inr c'" "validate_project_id p = Inr p"
  shows "raw_settled env ms c'" "dget_none (ensure_metadata c') ''project_id'' = PStr p"
  using assms
  by (auto simp: stamp_project_def result_simps raw_settled_dset) (simp add: ensure_metadata_def)

lemma stamped_session:
  assumes "raw_settled env ms c" "dget_none (ensure_metadata c) ''project_id'' = PStr p"
  shows "raw_settled env ms (stamp_imported_session_identity env c)"
    "dget_none (ensure_metadata (stamp_imported_session_identity env c)) ''project_id'' = PStr p"
proof -
  from assms(1) obtain m where m: "dget_none c ''metadata'' = PDict m" by (auto simp: raw_settled_def)
  show "raw_settled env ms (stamp_imported_session_identity env c)"
    using assms(1) raw_settled_dset [OF assms(1), of "''imported_session_identity''"]
      raw_settled_dpop [OF assms(1), of "''imported_session_identity''"] m
    by (auto simp: stamp_imported_session_identity_def ensure_metadata_def
        split: pyval.splits list.splits option.splits)
  show "dget_none (ensure_metadata (stamp_imported_session_identity env c)) ''project_id'' = PStr p"
    using assms(2) m
    by (auto simp: stamp_imported_session_identity_def ensure_metadata_def dget_none_def dget_or_def
        split: pyval.splits list.splits option.splits)
qed

lemma scope_settles:
  assumes "raw_settled env ms c" "dget_none (ensure_metadata c) ''project_id'' = PStr p"
  shows "hashes_settled env p (scope_conversation_hash env c (Some p))"
    "dget_none (scope_conversation_hash env c (Some p)) ''messages'' = PList ms"
  using assms
  by (auto simp: raw_settled_def ensure_metadata_def scope_conversation_hash_def metadata_of_def
      hashes_settled_def dget_or_none)

lemma messages_header:
  "normalize_header env now fresh source n = Inr n' \<Longrightarrow> dget_none n' ''messages'' = dget_none n ''messages''"
  by (auto simp: normalize_header_def Let_def result_simps dget_none_def dget_or_def split: option.splits)

lemma raw_settled_normalized:
  assumes "normalize_conversation_json env now fresh payload source strict = Inr c"
  obtains ms p n m raw where "raw_settled env ms c" "coerce_payload payload strict = Inr p"
    "(n, m) = move_into_metadata ''thread_id'' (move_into_metadata ''tags'' (p, ensure_metadata p))"
    "dget_none (messages_from_conversation n) ''messages'' = PList raw" "normalize_messages env raw = Inr ms"
proof -
  from assms obtain p n m n1 n2 m1 n3 n4 where
    p: "coerce_payload payload strict = Inr p"
    and nm: "move_into_metadata ''thread_id'' (move_into_metadata ''tags'' (p, ensure_metadata p)) = (n, m)"
    and n1: "normalize_message_field env (messages_from_conversation n) = Inr n1"
    and n2: "normalize_header env now fresh source n1 = Inr n2"
    and n3: "normalize_metadata_hashes env n2 m1 = Inr n3"
    and n4: "normalize_thread_metadata env n3 = Inr n4"
    and c: "normalize_handoff_provenance env n4 = Inr c"
    by (auto simp: normalize_conversation_json_def result_simps)
  from n3 obtain ms hs where ms: "dget_none n2 ''messages'' = PList ms" "message_hashes ms = Inr hs"
    and n3': "n3 = dset n2 ''metadata'' (PDict (dset (dset m1 ''message_hashes'' (PList (map PStr hs)))
                 ''conversation_hash'' (PStr (sha env (join_with [CHR 0x0A] hs)))))"
    by (auto simp: normalize_metadata_hashes_def hash_ordered_messages_def result_simps split: pyval.splits)
  have "dget_none n1 ''messages'' = PList ms" using messages_header [OF n2] ms by simp
  then obtain raw where raw: "dget_none (messages_from_conversation n) ''messages'' = PList raw"
      "normalize_messages env raw = Inr ms"
    using n1 by (auto simp: normalize_message_field_def result_simps split: pyval.splits)
  have "raw_settled env ms n3" using ms n3' by (auto simp: raw_settled_def)
  then have "raw_settled env ms c"
    using raw_settled_provenance [OF raw_settled_thread [OF _ n4] c] by blast
  then show thesis by (rule that [OF _ p nm [symmetric] raw])
qed

lemma prepare_incoming_settled:
  assumes "prepare_incoming env now fresh payload strict imported w p = Inr c"
    and p: "validate_project_id p = Inr p"
  shows "hashes_settled env p c \<and> (\<exists>c1 ms. normalize_conversation_json env now fresh payload None strict = Inr c1
    \<and> raw_settled env ms c1 \<and> dget_none c ''messages'' = PList ms)"
proof -
  from assms(1) obtain c1 c2 c3 where c1: "normalize_conversation_json env now fresh payload None strict = Inr c1"
    and c2: "stamp_owner c1 w = Inr c2" and c3: "stamp_project c2 p = Inr c3"
    and c: "c = scope_conversation_hash env (if imported then stamp_imported_session_identity env c3 else c3) (Some p)"
    by (auto simp: prepare_incoming_def result_simps Let_def)
  obtain ms where r1: "raw_settled env ms c1" by (rule raw_settled_normalized [OF c1])
  note r3 = stamped_project [OF raw_settled_stamp_owner [OF r1 c2] c3 p]
  let ?c4 = "if imported then stamp_imported_session_identity env c3 else c3"
  have "raw_settled env ms ?c4" "dget_none (ensure_metadata ?c4) ''project_id'' = PStr p"
    using r3 stamped_session [OF r3] by auto
  from scope_settles [OF this] show ?thesis using c c1 r1 by auto
qed

lemma messages_moved:
  "(n, m) = move_into_metadata ''thread_id'' (move_into_metadata ''tags'' (p, m0)) \<Longrightarrow>
     dget_none p ''messages'' = PList ms \<Longrightarrow> dget_none (messages_from_conversation n) ''messages'' = PList ms"
  by (auto simp: move_into_metadata_def Let_def messages_from_conversation_def dhas_def dget_none_def dget_or_def
      split: pyval.splits option.splits)

lemma coerce_with_messages:
  "dget_none c ''messages'' = PList ms \<Longrightarrow> coerce_payload (PDict c) strict = Inr c"
  by (auto simp: coerce_payload_def dhas_def dget_none_def dget_or_def split: pyval.splits option.splits)

lemma prepared_messages:
  assumes "prepare_incoming env now fresh payload strict imported w p = Inr c" "validate_project_id p = Inr p"
  obtains ms where "dget_none c ''messages'' = PList ms" "normalize_messages env ms = Inr ms"
    "ms \<noteq> []" "list_all (message_ok env) ms" "distinct (map message_hash_field ms)"
proof -
  from prepare_incoming_settled [OF assms] obtain c1 ms where
    c1: "normalize_conversation_json env now fresh payload None strict = Inr c1"
    and ms: "raw_settled env ms c1" "dget_none c ''messages'' = PList ms" by blast
  obtain ms' raw where n: "raw_settled env ms' c1" "normalize_messages env raw = Inr ms'"
    by (rule raw_settled_normalized [OF c1])
  then have "normalize_messages env raw = Inr ms" using ms by (simp add: raw_settled_def)
  note ok = normalize_messages_Inr [OF this]
  show thesis by (rule that [OF ms(2) ok(4,1,2,3)])
qed

text \<open>
  C39. Preparing a payload settles its identity: the prepared conversation has well-formed, distinct
  messages, and its metadata repeats exactly their hashes, their project-scoped aggregate and the
  project, which is what appends rely on to copy them.
\<close>

theorem prepared_identity_settled:
  assumes "prepare_incoming env now fresh payload strict imported w p = Inr c" "validate_project_id p = Inr p"
  shows "hashes_settled env p c \<and> (\<exists>ms. dget_none c ''messages'' = PList ms \<and> ms \<noteq> []
    \<and> list_all (message_ok env) ms \<and> distinct (map message_hash_field ms))"
  using prepare_incoming_settled [OF assms] prepared_messages [OF assms] by metis

text \<open>A prepared conversation, which preparing again gives back.\<close>

definition demo_prepared :: pydict where
  "demo_prepared =
     [(''id'', PStr ''m''),
      (''messages'', PList [PDict [(''role'', PStr ''assistant''), (''text'', PStr ''x''),
          (''hash'', PStr (sha256_message demo_ingest_env ''assistant'' ''x''))]]),
      (''source'', PStr ''unknown''), (''timestamp'', PStr ''t''),
      (''metadata'', PDict [(''tags'', PList []), (''imported_at'', PStr ''t''), (''updated_at'', PStr ''t''),
          (''message_hashes'', PList [PStr (sha256_message demo_ingest_env ''assistant'' ''x'')]),
          (''conversation_hash'', PStr (project_scoped_conversation_hash demo_ingest_env
             (sha demo_ingest_env (sha256_message demo_ingest_env ''assistant'' ''x'')) (Some ''p''))),
          (''project_id'', PStr ''p'')])]"

lemma demo_prepared:
  "prepare_incoming demo_ingest_env ''t'' ''m'' (PDict demo_prepared) False False None ''p'' = Inr demo_prepared"
  by code_simp

theorem prepared_identity_settled_witness:
  "hashes_settled demo_ingest_env ''p'' demo_prepared"
proof -
  have "validate_project_id ''p'' = Inr ''p''" by code_simp
  from prepared_identity_settled [OF demo_prepared this] show ?thesis by blast
qed

text \<open>
  C40. Preparing a prepared conversation again, at any later time and for any owner, keeps its messages and
  its conversation hash, so a stored memory that is ingested again is recognised as a duplicate.
\<close>

theorem preparing_again_keeps_identity:
  assumes "prepare_incoming env now fresh payload strict imported w p = Inr c" "validate_project_id p = Inr p"
    and "prepare_incoming env now' fresh' (PDict c) strict' imported' w' p = Inr c'"
  shows "dget_none c' ''messages'' = dget_none c ''messages'' \<and> conv_hash c' = conv_hash c"
proof -
  from prepared_messages [OF assms(1,2)] obtain ms where ms: "dget_none c ''messages'' = PList ms"
    "normalize_messages env ms = Inr ms" .
  from prepare_incoming_settled [OF assms(3,2)] obtain c1 ms' where
    c1: "normalize_conversation_json env now' fresh' (PDict c) None strict' = Inr c1"
    and ms': "raw_settled env ms' c1" "dget_none c' ''messages'' = PList ms'" by blast
  obtain ms2 q n m raw where r: "raw_settled env ms2 c1"
    "coerce_payload (PDict c) strict' = Inr q"
    "(n, m) = move_into_metadata ''thread_id'' (move_into_metadata ''tags'' (q, ensure_metadata q))"
    "dget_none (messages_from_conversation n) ''messages'' = PList raw" "normalize_messages env raw = Inr ms2"
    by (rule raw_settled_normalized [OF c1])
  have "q = c" using r(2) coerce_with_messages [OF ms(1)] by simp
  with messages_moved [OF r(3)] ms(1) r(4) have "raw = ms" by simp
  with r(1,5) ms(2) ms'(1) have same: "ms' = ms" by (simp add: raw_settled_def)
  have "hashes_settled env p c" "hashes_settled env p c'"
    using prepare_incoming_settled [OF assms(1,2)] prepare_incoming_settled [OF assms(3,2)] by blast+
  then have "conv_hash c' = conv_hash c"
    using ms(1) ms'(2) same
    by (auto simp: conv_hash_def metadata_of_def dget_or_none elim!: hashes_settledE)
  then show ?thesis using ms(1) ms'(2) same by simp
qed

theorem preparing_again_keeps_identity_witness:
  "prepare_incoming demo_ingest_env ''t'' ''m'' (PDict demo_prepared) False False None ''p'' = Inr demo_prepared
   \<and> conv_hash demo_prepared = conv_hash demo_prepared"
proof -
  have "validate_project_id ''p'' = Inr ''p''" by code_simp
  from preparing_again_keeps_identity [OF demo_prepared this demo_prepared] demo_prepared
  show ?thesis by blast
qed

end
