(* ===== verification/SensitiveScan.thy ===== *)
theory SensitiveScan
  imports MemoryAccess AppendDelta Regex
begin

text \<open>
  Detection of secrets and personal data in a conversation before it is indexed
  (\<open>_detect_sensitive_content\<close> and its helpers in \<^verbatim>\<open>memory/ingestion/mvp_ingestion.py\<close>).
\<close>

section \<open>The patterns\<close>

definition alnum_or :: "string \<Rightarrow> char \<Rightarrow> bool" where
  "alnum_or extra c \<longleftrightarrow> ascii_alnum c \<or> one_of extra c"

definition upper_or_digit :: "char \<Rightarrow> bool" where
  "upper_or_digit c \<longleftrightarrow> chr_in 65 90 c \<or> ascii_digit c"

definition assign_rx :: "rx list" where
  "assign_rx = [rspaces, RChar (one_of '':=''), rspaces]"

definition open_quote :: rx where
  "open_quote = ropt (RChar (\<lambda>c. c = CHR 0x27 \<or> c = CHR 0x22))"

definition digits_rx :: "nat \<Rightarrow> rx" where
  "digits_rx n = rtimes n (RChar ascii_digit)"

definition SENSITIVE_CONTENT_PATTERNS :: "(string \<times> rx) list" where
  "SENSITIVE_CONTENT_PATTERNS =
     [(''secret.private_key'',
        rseq [rlit_ci ''-----BEGIN '', RStar (RChar (ci_class (alnum_or '' ''))), rlit_ci ''PRIVATE KEY-----'']),
      (''secret.openai_api_key'',
        rseq [RWordB, rlit ''sk-'', ropt (rlit ''proj-''), rmin 16 (RChar (alnum_or ''_-'')), RWordB]),
      (''secret.github_token'',
        rseq [RWordB, rlit ''gh'', RChar (one_of ''pousr''), rlit ''_'', rmin 20 (RChar (alnum_or ''_'')), RWordB]),
      (''secret.slack_token'',
        rseq [RWordB, rlit ''xox'', RChar (one_of ''abprs''), rlit ''-'', rmin 20 (RChar (alnum_or ''-'')), RWordB]),
      (''secret.aws_access_key_id'',
        rseq [RWordB, ralt [rlit ''AKIA'', rlit ''ASIA''], rtimes 16 (RChar upper_or_digit), RWordB]),
      (''secret.aws_secret_access_key'',
        rseq ([RWordB, rlit_ci ''aws_secret_access_key''] @ assign_rx
          @ [open_quote, rtimes 40 (RChar (alnum_or ''/+='')), RWordB])),
      (''secret.bearer_token'',
        rseq [RWordB, rlit_ci ''Bearer'', rplus (RChar py_space), rmin 20 (RChar (alnum_or ''._~+/=-'')), RWordB]),
      (''secret.credential_url'',
        rseq [RWordB, RChar (\<lambda>c. ascii_lower c \<or> chr_in 65 90 c), rmin 2 (RChar (alnum_or ''+.-'')), rlit ''://'',
          rplus (RChar (\<lambda>c. none_of ''/:@'' c \<and> \<not> py_space c)), rlit '':'',
          rmin 8 (RChar (\<lambda>c. none_of ''@/'' c \<and> \<not> py_space c)), rlit ''@'',
          rplus (RChar (\<lambda>c. c \<noteq> CHR '' '' \<and> \<not> chr_in 9 10 c \<and> \<not> chr_in 13 13 c))]),
      (''secret.named_credential'',
        rseq ([RWordB, ralt
            [rseq [rlit_ci ''api'', ropt (RChar (one_of ''_-'')), rlit_ci ''key''],
             rseq [rlit_ci ''access'', ropt (RChar (one_of ''_-'')), rlit_ci ''token''],
             rseq [rlit_ci ''refresh'', ropt (RChar (one_of ''_-'')), rlit_ci ''token''],
             rlit_ci ''password'', rlit_ci ''secret'', rlit_ci ''token'']] @ assign_rx
          @ [open_quote, RChar ascii_alnum, rmin 15 (RChar (alnum_or ''._~+/=-'')), RWordB])),
      (''pii.ssn'',
        rseq [RWordB,
          RNotAhead (ralt [rlit ''000'', rlit ''666'', rseq [rlit ''9'', digits_rx 2]]), digits_rx 3, rlit ''-'',
          RNotAhead (rlit ''00''), digits_rx 2, rlit ''-'', RNotAhead (rlit ''0000''), digits_rx 4, RWordB]),
      (''pii.passport_number'',
        rseq ([RWordB, rlit_ci ''passport'', ropt (ralt
            [rseq [ropt (RChar (one_of ''_ -'')), ralt [rlit_ci ''number'', rlit_ci ''no'']],
             rseq [rspaces, rlit ''#'']])] @ assign_rx
          @ [rrange 6 9 (RChar ascii_alnum), RWordB]))]"

definition card_neighbour :: "char \<Rightarrow> bool" where
  "card_neighbour c \<longleftrightarrow> alnum_or ''_-'' c"

definition PAYMENT_CARD_RE :: rx where
  "PAYMENT_CARD_RE = rseq
     [RNotBehind card_neighbour,
      rrange 13 19 (rseq [RChar ascii_digit, ropt (RChar (one_of '' -''))]),
      RNotAhead (RChar card_neighbour)]"

section \<open>Payment cards\<close>

text \<open>The loop of \<open>_is_luhn_payment_card\<close> over the reversed digits.\<close>

fun luhn_total :: "bool \<Rightarrow> string \<Rightarrow> nat" where
  "luhn_total double [] = 0"
| "luhn_total double (c # cs) =
     (let number = (if double then 2 * digit_val c else digit_val c)
      in (if double \<and> number > 9 then number - 9 else number) + luhn_total (\<not> double) cs)"

definition is_luhn_payment_card :: "string \<Rightarrow> bool" where
  "is_luhn_payment_card value =
     (let digits = filter ascii_digit value in
      13 \<le> length digits \<and> length digits \<le> 19 \<and> 1 < card (set digits)
      \<and> luhn_total False (rev digits) mod 10 = 0)"

section \<open>The scanned strings\<close>

definition SENSITIVE_SCAN_EXCLUDED_KEYS :: "string list" where
  "SENSITIVE_SCAN_EXCLUDED_KEYS =
     [''id'', ''conversation_id'', ''chunk_id'', ''conversation_hash'', ''created_at'', ''embedding_index'',
      ''hash'', ''imported_at'', ''imported_session_identity'', ''index_chunks'', ''message_hashes'',
      ''message_index'', ''owner_id'', ''parent_conversation_id'', ''project_id'', ''related_conversation_ids'',
      ''timestamp'', ''updated_at'', ''upstream_thread_id'']"

definition key_char :: "char \<Rightarrow> bool" where
  "key_char c \<longleftrightarrow> alnum_or ''_-'' c"

definition safe_sensitive_location_key :: "string \<Rightarrow> string" where
  "safe_sensitive_location_key value =
     (let normalized = strip_chars (\<lambda>c. c = CHR ''_'')
          (rx_sub (rplus (RChar (\<lambda>c. \<not> key_char c))) (\<lambda>c. ''_'') [] (py_lower (py_strip value)))
      in if take 48 normalized = [] then ''field'' else take 48 normalized)"

fun scan_value :: "string \<Rightarrow> pyval \<Rightarrow> (string \<times> string) list"
  and scan_items :: "string \<Rightarrow> nat \<Rightarrow> pyval list \<Rightarrow> (string \<times> string) list"
  and scan_fields :: "string \<Rightarrow> pydict \<Rightarrow> (string \<times> string) list" where
  "scan_value loc (PStr s) = [(loc, s)]"
| "scan_value loc (PList xs) = scan_items loc 0 xs"
| "scan_value loc (PDict d) = scan_fields loc d"
| "scan_value loc v = []"
| "scan_items loc i [] = []"
| "scan_items loc i (x # xs) =
     scan_value (loc @ ''['' @ nat_str i @ '']'') x @ scan_items loc (Suc i) xs"
| "scan_fields loc [] = []"
| "scan_fields loc ((k, v) # d) =
     (let key = safe_sensitive_location_key k in
      (if key \<in> set SENSITIVE_SCAN_EXCLUDED_KEYS then [] else scan_value (loc @ ''.'' @ key) v)
      @ scan_fields loc d)"

definition sensitive_scan_strings :: "pydict \<Rightarrow> (string \<times> string) list" where
  "sensitive_scan_strings c = scan_value ''conversation'' (PDict c)"

section \<open>Findings\<close>

record finding =
  fi_reason :: string
  fi_location :: string
  fi_hash :: string

definition MAX_SENSITIVE_FINDINGS :: nat where
  "MAX_SENSITIVE_FINDINGS = 16"

text \<open>The set \<open>seen\<close> of the code holds exactly the findings recorded so far.\<close>

definition append_sensitive_finding :: "ingest_env \<Rightarrow> string \<Rightarrow> string \<Rightarrow> string \<Rightarrow> finding list \<Rightarrow> finding list" where
  "append_sensitive_finding env reason loc match_text findings =
     (let f = \<lparr>fi_reason = reason, fi_location = loc, fi_hash = sha env match_text\<rparr>
      in if f \<in> set findings then findings else findings @ [f])"

text \<open>The matches of a string, in the order in which the code records them.\<close>

definition sensitive_matches :: "string \<Rightarrow> (string \<times> string) list" where
  "sensitive_matches value =
     concat (map (\<lambda>(reason, r). map (\<lambda>t. (reason, t)) (rx_findall r [] value)) SENSITIVE_CONTENT_PATTERNS)
     @ map (\<lambda>t. (''pii.payment_card'', t))
         (filter is_luhn_payment_card (rx_findall PAYMENT_CARD_RE [] value))"

text \<open>Recording stops as soon as the bound is reached.\<close>

fun record_matches :: "ingest_env \<Rightarrow> string \<Rightarrow> (string \<times> string) list \<Rightarrow> finding list \<Rightarrow> finding list" where
  "record_matches env loc [] findings = findings"
| "record_matches env loc ((reason, t) # ms) findings =
     (let findings' = append_sensitive_finding env reason loc t findings in
      if MAX_SENSITIVE_FINDINGS \<le> length findings' then findings'
      else record_matches env loc ms findings')"

definition extend_sensitive_findings :: "ingest_env \<Rightarrow> string \<Rightarrow> string \<Rightarrow> finding list \<Rightarrow> finding list" where
  "extend_sensitive_findings env loc value findings =
     record_matches env loc (sensitive_matches value) findings"

fun scan_findings :: "ingest_env \<Rightarrow> (string \<times> string) list \<Rightarrow> finding list \<Rightarrow> finding list" where
  "scan_findings env [] findings = findings"
| "scan_findings env ((loc, value) # rest) findings =
     (let findings' = extend_sensitive_findings env loc value findings in
      if MAX_SENSITIVE_FINDINGS \<le> length findings' then findings'
      else scan_findings env rest findings')"

definition sensitive_content_approved :: "pydict \<Rightarrow> bool" where
  "sensitive_content_approved c =
     (case dget_none c ''metadata'' of
        PDict m \<Rightarrow> dget_none m ''sensitive_content_approved'' = PBool True
      | _ \<Rightarrow> False)"

definition detect_sensitive_content :: "ingest_env \<Rightarrow> pydict \<Rightarrow> finding list" where
  "detect_sensitive_content env c =
     (if sensitive_content_approved c then []
      else scan_findings env (sensitive_scan_strings c) [])"

end
