(* ===== verification/SensitiveProperties.thy ===== *)
theory SensitiveProperties
  imports SensitiveScan AppendProperties
begin

text \<open>
  The scan reports exactly the sensitive conversations, within its bound, and the check of payment
  cards detects every error in a single digit.
\<close>

section \<open>Findings\<close>

definition finding_of :: "ingest_env \<Rightarrow> string \<Rightarrow> string \<times> string \<Rightarrow> finding" where
  "finding_of env loc m = \<lparr>fi_reason = fst m, fi_location = loc, fi_hash = sha env (snd m)\<rparr>"

lemma append_finding:
  "append_sensitive_finding env r loc t fs =
     (if finding_of env loc (r, t) \<in> set fs then fs else fs @ [finding_of env loc (r, t)])"
  by (simp add: append_sensitive_finding_def finding_of_def Let_def)

lemma record_matches_props:
  assumes "length fs < MAX_SENSITIVE_FINDINGS" "distinct fs"
  shows "distinct (record_matches env loc ms fs) \<and> length (record_matches env loc ms fs) \<le> MAX_SENSITIVE_FINDINGS
    \<and> set fs \<subseteq> set (record_matches env loc ms fs)
    \<and> set (record_matches env loc ms fs) \<subseteq> set fs \<union> finding_of env loc ` set ms
    \<and> (ms \<noteq> [] \<longrightarrow> record_matches env loc ms fs \<noteq> [])"
  using assms
proof (induction env loc ms fs rule: record_matches.induct)
  case (2 env loc r t ms fs)
  let ?fs = "append_sensitive_finding env r loc t fs"
  have step: "distinct ?fs" "?fs \<noteq> []" "length ?fs \<le> MAX_SENSITIVE_FINDINGS"
    "set fs \<subseteq> set ?fs" "set ?fs \<subseteq> set fs \<union> {finding_of env loc (r, t)}"
    using 2(2,3) by (auto simp: append_finding)
  show ?case
  proof (cases "MAX_SENSITIVE_FINDINGS \<le> length ?fs")
    case True
    then show ?thesis using step by (auto simp: Let_def)
  next
    case False
    note ih = 2(1) [OF refl False]
    have "length ?fs < MAX_SENSITIVE_FINDINGS" using False by simp
    from ih [OF this step(1)] show ?thesis
      using False step by (auto simp: Let_def)
  qed
qed simp

lemma scan_findings_props:
  assumes "length fs < MAX_SENSITIVE_FINDINGS" "distinct fs"
  shows "distinct (scan_findings env ss fs) \<and> length (scan_findings env ss fs) \<le> MAX_SENSITIVE_FINDINGS
    \<and> set fs \<subseteq> set (scan_findings env ss fs)
    \<and> (\<forall>f \<in> set (scan_findings env ss fs) - set fs. \<exists>(loc, v) \<in> set ss. \<exists>m \<in> set (sensitive_matches v).
         f = finding_of env loc m)
    \<and> ((\<exists>(loc, v) \<in> set ss. sensitive_matches v \<noteq> []) \<longrightarrow> scan_findings env ss fs \<noteq> [])"
  using assms
proof (induction env ss fs rule: scan_findings.induct)
  case (2 env loc v rest fs)
  let ?fs = "extend_sensitive_findings env loc v fs"
  note step = record_matches_props [OF 2(2,3), of env loc "sensitive_matches v",
      folded extend_sensitive_findings_def]
  have sub: "\<exists>m \<in> set (sensitive_matches v). f = finding_of env loc m" if "f \<in> set ?fs" "f \<notin> set fs" for f
    using step that by blast
  show ?case
  proof (cases "MAX_SENSITIVE_FINDINGS \<le> length ?fs")
    case True
    have "?fs \<noteq> []" using True by (auto simp: MAX_SENSITIVE_FINDINGS_def)
    then show ?thesis using True step sub by (auto simp: Let_def)
  next
    case False
    have "length ?fs < MAX_SENSITIVE_FINDINGS" using False by simp
    note ih = 2(1) [OF refl False this conjunct1 [OF step]]
    have eq: "scan_findings env ((loc, v) # rest) fs = scan_findings env rest ?fs"
      using False by (simp add: Let_def)
    have new: "\<exists>(loc', v') \<in> set ((loc, v) # rest). \<exists>m \<in> set (sensitive_matches v'). f = finding_of env loc' m"
      if "f \<in> set (scan_findings env rest ?fs) - set fs" for f
      using that ih sub [of f] by (cases "f \<in> set ?fs") fastforce+
    have "scan_findings env rest ?fs \<noteq> []" if "\<exists>(l, w) \<in> set ((loc, v) # rest). sensitive_matches w \<noteq> []"
      using that ih step by fastforce
    then show ?thesis
      unfolding eq using ih step new by blast
  qed
qed simp

text \<open>
  C20. The scan is exact: it finds nothing if and only if the conversation carries the approved flag
  (\<open>metadata.sensitive_content_approved\<close>, which skips the scan) or no scanned string contains a match of a
  pattern or a valid payment card; and it reports at most 16
  distinct findings, each of which is a match at the location it names.
\<close>

theorem sensitive_scan_exact:
  "(detect_sensitive_content env c = [] \<longleftrightarrow>
      sensitive_content_approved c \<or> list_all (\<lambda>(loc, v). sensitive_matches v = []) (sensitive_scan_strings c))
   \<and> length (detect_sensitive_content env c) \<le> 16 \<and> distinct (detect_sensitive_content env c)
   \<and> list_all (\<lambda>f. list_ex (\<lambda>(loc, v). f \<in> finding_of env loc ` set (sensitive_matches v))
        (sensitive_scan_strings c)) (detect_sensitive_content env c)"
proof -
  have "length ([] :: finding list) < MAX_SENSITIVE_FINDINGS" by (simp add: MAX_SENSITIVE_FINDINGS_def)
  note props = scan_findings_props [OF this distinct.simps(1) [THEN iffD2, OF TrueI], of env "sensitive_scan_strings c"]
  have clean: "scan_findings env (sensitive_scan_strings c) [] = []"
    if "list_all (\<lambda>(loc, v). sensitive_matches v = []) (sensitive_scan_strings c)"
  proof (rule ccontr)
    assume "scan_findings env (sensitive_scan_strings c) [] \<noteq> []"
    then obtain f where f: "f \<in> set (scan_findings env (sensitive_scan_strings c) [])"
      using list.set_intros(1) by (cases "scan_findings env (sensitive_scan_strings c) []") auto
    then obtain loc v m where "(loc, v) \<in> set (sensitive_scan_strings c)" "m \<in> set (sensitive_matches v)"
      using props by fastforce
    with that show False by (force simp: list_all_iff)
  qed
  have "detect_sensitive_content env c = [] \<longleftrightarrow>
      sensitive_content_approved c \<or> list_all (\<lambda>(loc, v). sensitive_matches v = []) (sensitive_scan_strings c)"
    using props clean unfolding detect_sensitive_content_def list_all_iff by (auto; fastforce)
  moreover have "length (detect_sensitive_content env c) \<le> 16 \<and> distinct (detect_sensitive_content env c)"
    using props by (simp add: detect_sensitive_content_def MAX_SENSITIVE_FINDINGS_def)
  moreover have "list_all (\<lambda>f. list_ex (\<lambda>(loc, v). f \<in> finding_of env loc ` set (sensitive_matches v))
        (sensitive_scan_strings c)) (detect_sensitive_content env c)"
    using props unfolding detect_sensitive_content_def list_all_iff list_ex_iff by (auto; fastforce)
  ultimately show ?thesis by blast
qed

section \<open>Payment cards\<close>

definition luhn_digit :: "bool \<Rightarrow> nat \<Rightarrow> nat" where
  "luhn_digit double n = (if double then (if 2 * n > 9 then 2 * n - 9 else 2 * n) else n)"

lemma luhn_total_Cons:
  "luhn_total double (c # cs) = luhn_digit double (digit_val c) + luhn_total (\<not> double) cs"
  by (simp add: luhn_digit_def Let_def)

lemma digit_val_bound: "ascii_digit c \<Longrightarrow> digit_val c \<le> 9"
  unfolding ascii_digit_def chr_in_def digit_val_def by linarith

lemma digit_val_inj: "ascii_digit c \<Longrightarrow> ascii_digit d \<Longrightarrow> digit_val c = digit_val d \<Longrightarrow> c = d"
  by (auto simp: ascii_digit_def chr_in_def digit_val_def)
    (metis char_of_char le_add_diff_inverse)

lemma mod_cancel:
  fixes a b k :: nat
  shows "(a + k) mod 10 = (b + k) mod 10 \<longleftrightarrow> a mod 10 = b mod 10"
proof -
  have "(a + k) mod 10 = (b + k) mod 10 \<longleftrightarrow> int ((a + k) mod 10) = int ((b + k) mod 10)"
    by (simp only: of_nat_eq_iff)
  also have "\<dots> \<longleftrightarrow> (int a + int k) mod 10 = (int b + int k) mod 10"
    by (simp only: zmod_int of_nat_add of_nat_numeral)
  also have "\<dots> \<longleftrightarrow> int a mod 10 = int b mod 10"
    by (simp add: mod_eq_dvd_iff)
  also have "\<dots> \<longleftrightarrow> int (a mod 10) = int (b mod 10)"
    by (simp only: zmod_int of_nat_numeral)
  finally show ?thesis by (simp only: of_nat_eq_iff)
qed

lemma luhn_digit_inj: "m \<le> 9 \<Longrightarrow> n \<le> 9 \<Longrightarrow> luhn_digit double m = luhn_digit double n \<Longrightarrow> m = n"
  unfolding luhn_digit_def by (cases double) (auto split: if_splits; presburger)+

lemma luhn_digit_mod:
  assumes "m \<le> 9" "n \<le> 9" "(luhn_digit double m + k) mod 10 = (luhn_digit double n + k) mod 10"
  shows "m = n"
proof -
  have "luhn_digit double m < 10" "luhn_digit double n < 10"
    using assms(1,2) by (auto simp: luhn_digit_def)
  then have "luhn_digit double m = luhn_digit double n"
    using assms(3) by (simp add: mod_cancel)
  then show ?thesis by (rule luhn_digit_inj [OF assms(1,2)])
qed

lemma mod_cancel_left: "((k :: nat) + a) mod 10 = (k + b) mod 10 \<Longrightarrow> a mod 10 = b mod 10"
  using mod_cancel [of a k b] by (simp add: add.commute)

lemma luhn_total_update:
  assumes "list_all ascii_digit xs" "i < length xs" "ascii_digit c" "c \<noteq> xs ! i"
  shows "luhn_total double (xs[i := c]) mod 10 \<noteq> luhn_total double xs mod 10"
  using assms
proof (induction xs arbitrary: double i)
  case (Cons x xs)
  show ?case
  proof (cases i)
    case 0
    then show ?thesis
      using Cons.prems luhn_digit_mod [of "digit_val c" "digit_val x" double "luhn_total (\<not> double) xs"]
      by (auto simp: luhn_total_Cons simp del: luhn_total.simps dest: digit_val_inj digit_val_bound)
  next
    case (Suc j)
    have "luhn_total (\<not> double) (xs[j := c]) mod 10 \<noteq> luhn_total (\<not> double) xs mod 10"
      using Cons.prems Suc by (intro Cons.IH) auto
    then show ?thesis
      using Suc by (auto simp: luhn_total_Cons simp del: luhn_total.simps dest: mod_cancel_left)
  qed
qed simp

text \<open>
  The payment card check detects every error in one digit: changing a single digit of a number that
  passes gives a number that does not.
\<close>

lemma luhn_detects_single_digit_errors:
  assumes "is_luhn_payment_card xs" "list_all ascii_digit xs" "i < length xs" "ascii_digit c" "c \<noteq> xs ! i"
  shows "\<not> is_luhn_payment_card (xs[i := c])"
proof -
  have digits: "filter ascii_digit ys = ys" if "list_all ascii_digit ys" for ys
    using that by (induction ys) auto
  have upd: "list_all ascii_digit (xs[i := c])"
    using assms(2,4) by (auto simp: list_all_iff dest: set_update_subset_insert [THEN subsetD])
  let ?j = "length xs - Suc i"
  have rev: "rev (xs[i := c]) = (rev xs)[?j := c]"
    using assms(3) by (simp add: rev_update)
  have "luhn_total False ((rev xs)[?j := c]) mod 10 \<noteq> luhn_total False (rev xs) mod 10"
    using assms by (intro luhn_total_update) (auto simp: rev_nth)
  then show ?thesis
    using assms(1) by (auto simp: is_luhn_payment_card_def digits [OF assms(2)] digits [OF upd] rev Let_def)
qed

lemma luhn_detects_single_digit_errors_witness:
  "is_luhn_payment_card ''4111111111111111'' \<and> \<not> is_luhn_payment_card (''4111111111111111''[3 := CHR ''7''])"
proof -
  have "is_luhn_payment_card ''4111111111111111''" "list_all ascii_digit ''4111111111111111''"
    "3 < length ''4111111111111111''" "ascii_digit (CHR ''7'')" "CHR ''7'' \<noteq> ''4111111111111111'' ! 3"
    by code_simp+
  from luhn_detects_single_digit_errors [OF this] this(1) show ?thesis by blast
qed

end
