(* ===== verification/Chunking.thy ===== *)
theory Chunking
  imports ThreadModels AppendDelta Regex
begin

text \<open>
  Token windows (\<^verbatim>\<open>memory/ingestion/tokenizer.py\<close>), the chunks of a conversation, the batches
  sent to the embedding provider and the embedding rows
  (\<^verbatim>\<open>memory/ingestion/mvp_ingestion.py\<close>). The third-party tokenizer (\<open>_get_encoding\<close>) and the
  embedding provider are arguments; a vector is a list of floats, given by their \<open>repr\<close>.
\<close>

section \<open>Tokens\<close>

record tokenizer =
  tk_encode :: "string \<Rightarrow> nat list"
  tk_decode :: "nat list \<Rightarrow> string"

type_synonym encodings = "string \<Rightarrow> tokenizer option"

text \<open>The spans of the matches of \<open>\\w+|[^\\w\\s]\<close>, as \<open>finditer\<close> gives them.\<close>

definition FALLBACK_PATTERN :: rx where
  "FALLBACK_PATTERN = RAlt (rplus (RChar py_word)) (RChar (\<lambda>c. \<not> py_word c \<and> \<not> py_space c))"

function rx_spans :: "rx \<Rightarrow> string \<Rightarrow> string \<Rightarrow> (nat \<times> nat) list" where
  "rx_spans r b [] = []"
| "rx_spans r b (x # xs) =
     (case rx_first r (b, x # xs, []) of
        None \<Rightarrow> rx_spans r (x # b) xs
      | Some (b', s', c) \<Rightarrow>
          (if length s' < length (x # xs) then (length b, length b') # rx_spans r b' s'
           else rx_spans r (x # b) xs))"
  by pat_completeness auto
termination
  by (relation "measure (\<lambda>(r, b, s). length s)") auto

definition fallback_token_matches :: "string \<Rightarrow> (nat \<times> nat) list" where
  "fallback_token_matches s = rx_spans FALLBACK_PATTERN [] s"

definition rstrip :: "string \<Rightarrow> string" where
  "rstrip s = rev (dropWhile py_space (rev s))"

definition count_tokens :: "encodings \<Rightarrow> string \<Rightarrow> string \<Rightarrow> nat" where
  "count_tokens encs s encoding =
     (case encs encoding of
        Some t \<Rightarrow> length (tk_encode t s)
      | None \<Rightarrow> length (fallback_token_matches s))"

definition truncate_to_tokens :: "encodings \<Rightarrow> string \<Rightarrow> int \<Rightarrow> string \<Rightarrow> string" where
  "truncate_to_tokens encs s max_tokens encoding =
     (if max_tokens \<le> 0 then []
      else case encs encoding of
        Some t \<Rightarrow>
          (let ids = tk_encode t s in
           if int (length ids) \<le> max_tokens then s else rstrip (tk_decode t (take (nat max_tokens) ids)))
      | None \<Rightarrow>
          (let ms = fallback_token_matches s in
           if int (length ms) \<le> max_tokens then s
           else rstrip (take (snd (ms ! (nat max_tokens - 1))) s)))"

text \<open>
  \<open>for start in range(0, n, step)\<close> with its \<open>break\<close>: the windows as pairs of first and last
  position.
\<close>

function token_windows :: "nat \<Rightarrow> nat \<Rightarrow> nat \<Rightarrow> nat \<Rightarrow> (nat \<times> nat) list" where
  "token_windows n width step start =
     (if n \<le> start \<or> step = 0 then []
      else (start, min (start + width) n)
        # (if n \<le> start + width then [] else token_windows n width step (start + step)))"
  by pat_completeness auto
termination
  by (relation "measure (\<lambda>(n, size, step, start). n - start)") auto

declare token_windows.simps [simp del]

definition split_token_windows :: "encodings \<Rightarrow> string \<Rightarrow> int \<Rightarrow> int \<Rightarrow> string \<Rightarrow> string list result" where
  "split_token_windows encs s max_tokens overlap_tokens encoding =
     (if max_tokens \<le> 0 then Inl (ValueError ''max_tokens must be positive'')
      else if overlap_tokens < 0 then Inl (ValueError ''overlap_tokens must be non-negative'')
      else if overlap_tokens \<ge> max_tokens then Inl (ValueError ''overlap_tokens must be less than max_tokens'')
      else
        let width = nat max_tokens; step = nat (max_tokens - overlap_tokens) in
        case encs encoding of
          Some t \<Rightarrow>
            (let ids = tk_encode t s in
             if length ids \<le> width then Inr [s]
             else Inr (filter (\<lambda>w. w \<noteq> []) (map (\<lambda>(i, j). py_strip (tk_decode t (take (j - i) (drop i ids))))
                    (token_windows (length ids) width step 0))))
        | None \<Rightarrow>
            (let ms = fallback_token_matches s in
             if length ms \<le> width then Inr [s]
             else Inr (filter (\<lambda>w. w \<noteq> []) (map (\<lambda>(i, j).
                    let from_pos = fst (ms ! i); to_pos = snd (ms ! (j - 1))
                    in py_strip (take (to_pos - from_pos) (drop from_pos s)))
                    (token_windows (length ms) width step 0)))))"

section \<open>Chunks\<close>

record chunk_config =
  cc_strategy :: string
  cc_max_tokens :: int
  cc_overlap_tokens :: int
  cc_encoding :: string

definition message_token_windows :: "encodings \<Rightarrow> chunk_config \<Rightarrow> string \<Rightarrow> string list result" where
  "message_token_windows encs cfg s =
     (if cc_strategy cfg = ''message'' then Inr [s]
      else if cc_overlap_tokens cfg \<ge> cc_max_tokens cfg
        then Inl (ValueError ''chunking.overlap_tokens must be less than chunking.max_tokens'')
      else split_token_windows encs s (cc_max_tokens cfg) (cc_overlap_tokens cfg) (cc_encoding cfg))"

definition mk_chunk :: "string \<Rightarrow> int \<Rightarrow> nat \<Rightarrow> string \<Rightarrow> string \<Rightarrow> nat \<times> string \<Rightarrow> int \<Rightarrow> pydict" where
  "mk_chunk conv start_index offset h role wt i =
     [(''chunk_id'', PStr (conv @ '':'' @ int_str i @ '':'' @ h)), (''chunk_index'', PInt i),
      (''conversation_id'', PStr conv), (''message_hash'', PStr h),
      (''message_index'', PInt (start_index + int offset)), (''token_window_index'', PInt (int (fst wt))),
      (''role'', PStr role), (''text'', PStr (snd wt)), (''index_state'', PStr ''pending_index'')]"

text \<open>One message: its windows, numbered on from the chunks made so far.\<close>

definition chunk_message ::
    "encodings \<Rightarrow> chunk_config \<Rightarrow> string \<Rightarrow> int \<Rightarrow> nat \<times> pyval \<Rightarrow> pydict list \<Rightarrow> pydict list result" where
  "chunk_message encs cfg conv start_index om done =
     bind_result (message_item (snd om) ''hash'') (\<lambda>h.
     bind_result (message_item (snd om) ''role'') (\<lambda>role.
     bind_result (message_item (snd om) ''text'') (\<lambda>t.
     bind_result (message_token_windows encs cfg (py_str t)) (\<lambda>windows.
     Inr (done @ map (\<lambda>(k, wt). mk_chunk conv start_index (fst om) (py_str h) (py_str role) wt (start_index + int (length done + k)))
            (List.enumerate 0 (List.enumerate 0 windows)))))))"

definition chunk_selected_messages ::
    "encodings \<Rightarrow> chunk_config \<Rightarrow> pydict \<Rightarrow> pyval \<Rightarrow> int \<Rightarrow> pydict list result" where
  "chunk_selected_messages encs cfg c ms start_index =
     (case ms of
        PList items \<Rightarrow>
          bind_result (ditem c ''id'') (\<lambda>i.
            fold_result (chunk_message encs cfg (py_str i) start_index) (List.enumerate 0 items) [])
      | _ \<Rightarrow> Inl (ValueError ''Missing or invalid messages key in conversation object''))"

definition chunk_messages :: "encodings \<Rightarrow> chunk_config \<Rightarrow> pydict \<Rightarrow> pydict list result" where
  "chunk_messages encs cfg c = chunk_selected_messages encs cfg c (dget_or c ''messages'' (PList [])) 0"

section \<open>The chunk manifest of a conversation\<close>

definition manifest_entry :: "pydict \<Rightarrow> pyval result" where
  "manifest_entry chunk =
     bind_result (ditem chunk ''chunk_id'') (\<lambda>cid.
     bind_result (bind_result (ditem chunk ''chunk_index'') int_of_pyval) (\<lambda>i.
     bind_result (ditem chunk ''message_hash'') (\<lambda>h.
     bind_result (ditem chunk ''role'') (\<lambda>role.
     bind_result (ditem chunk ''text'') (\<lambda>t.
     Inr (PDict [(''chunk_id'', PStr (py_str cid)), (''chunk_index'', PInt i), (''message_hash'', PStr (py_str h)),
       (''role'', PStr (py_str role)), (''text'', PStr (py_str t)),
       (''index_state'', PStr (py_str (dget_or chunk ''index_state'' (PStr ''pending_index''))))]))))))"

definition attach_index_chunks :: "pydict \<Rightarrow> pydict list \<Rightarrow> pydict result" where
  "attach_index_chunks c cs =
     bind_result (map_result manifest_entry cs) (\<lambda>entries.
     Inr (dset c ''metadata'' (PDict (dset (ensure_metadata c) ''index_chunks'' (PList entries)))))"

definition extend_index_chunks :: "pydict \<Rightarrow> pydict list \<Rightarrow> pydict result" where
  "extend_index_chunks c cs =
     (let m = ensure_metadata c;
          existing = (case dget_none m ''index_chunks'' of PList xs \<Rightarrow> xs | _ \<Rightarrow> []) in
      bind_result (map_result manifest_entry cs) (\<lambda>entries.
      Inr (dset c ''metadata'' (PDict (dset m ''index_chunks'' (PList (existing @ entries)))))))"

definition manifest_indexes :: "pyval list \<Rightarrow> int list result" where
  "manifest_indexes items =
     map_result (\<lambda>d. int_of_pyval (dget_or d ''chunk_index'' (PInt (-1)))) (List.map_filter as_dict items)"

definition next_chunk_index :: "pydict \<Rightarrow> int \<Rightarrow> int result" where
  "next_chunk_index c fallback =
     (case metadata_of c of
        None \<Rightarrow> Inr fallback
      | Some m \<Rightarrow>
          (case dget_none m ''index_chunks'' of
             PList items \<Rightarrow> bind_result (manifest_indexes items) (\<lambda>indexes.
               Inr (if indexes = [] then fallback else Max (set indexes) + 1))
           | _ \<Rightarrow> Inr fallback))"

section \<open>Embedding batches\<close>

definition json_bytes :: "string \<Rightarrow> int" where
  "json_bytes s = int (utf8_length (json_str s))"

definition embedding_batch_input_bytes :: "string list \<Rightarrow> int" where
  "embedding_batch_input_bytes texts = int (utf8_length (json_dumps (PList (map PStr texts))))"

definition limit_of :: "pyval \<Rightarrow> int option" where
  "limit_of v = (case v of PInt i \<Rightarrow> Some i | _ \<Rightarrow> None)"

text \<open>The loop: the current batch and its bytes; a full batch is closed before the text is added.\<close>

fun batch_loop ::
    "int \<Rightarrow> int option \<Rightarrow> string list \<Rightarrow> string list list \<Rightarrow> string list \<Rightarrow> int \<Rightarrow> string list list result" where
  "batch_loop size_limit byte_limit [] batches current current_bytes =
     Inr (if current \<noteq> [] then batches @ [current] else batches)"
| "batch_loop size_limit byte_limit (t # ts) batches current current_bytes =
     (let text_bytes = json_bytes t;
          over = (\<lambda>n. case byte_limit of None \<Rightarrow> False | Some b \<Rightarrow> n > b);
          sep = (if current \<noteq> [] then 1 else 0)
      in if over (2 + text_bytes)
         then Inl (ValueError ''Embedding input exceeds provider max_batch_input_bytes'')
         else if current \<noteq> [] \<and> (int (length current) \<ge> size_limit \<or> over (current_bytes + sep + text_bytes))
         then batch_loop size_limit byte_limit ts (batches @ [current]) [t] (2 + text_bytes)
         else batch_loop size_limit byte_limit ts batches (current @ [t]) (current_bytes + sep + text_bytes))"

definition embedding_text_batches :: "string list \<Rightarrow> pyval \<Rightarrow> pyval \<Rightarrow> string list list result" where
  "embedding_text_batches texts max_batch_size max_batch_input_bytes =
     (let size_limit = (case limit_of max_batch_size of
            Some n \<Rightarrow> n | None \<Rightarrow> if texts = [] then 1 else int (length texts));
          byte_limit = limit_of max_batch_input_bytes
      in if size_limit < 1 \<or> (case byte_limit of None \<Rightarrow> False | Some b \<Rightarrow> b < 1)
         then Inl (ValueError ''Embedding provider batch limits must be positive integers'')
         else batch_loop size_limit byte_limit texts [] [] 2)"

section \<open>Embedding rows\<close>

type_synonym vec = "string list"

record embedder =
  em_embed :: "string list \<Rightarrow> vec list result"
  em_max_batch_size :: pyval
  em_max_batch_input_bytes :: pyval

definition embed_batch :: "embedder \<Rightarrow> string list \<Rightarrow> vec list \<Rightarrow> vec list result" where
  "embed_batch em batch vectors =
     bind_result (em_embed em batch) (\<lambda>vs.
     if length vs \<noteq> length batch
     then Inl (ValueError ''Embedding provider must return one vector per input'')
     else Inr (vectors @ vs))"

definition embedding_row :: "string option \<Rightarrow> string option \<Rightarrow> pydict \<times> vec \<Rightarrow> pydict result" where
  "embedding_row project_id owner_id cv =
     (let chunk = fst cv in
      bind_result (ditem chunk ''chunk_index'') (\<lambda>i.
      bind_result (ditem chunk ''role'') (\<lambda>role.
      bind_result (ditem chunk ''text'') (\<lambda>t.
      Inr [(''chunk_id'', dget_none chunk ''chunk_id''), (''chunk_index'', i),
        (''conversation_id'', dget_none chunk ''conversation_id''),
        (''project_id'', of_opt project_id), (''owner_id'', of_opt owner_id),
        (''message_hash'', dget_none chunk ''message_hash''), (''index_state'', PStr ''indexed''),
        (''role'', role), (''text'', t), (''vector'', PList (map PFloat (snd cv)))]))))"

definition embed_chunks ::
    "embedder \<Rightarrow> pydict list \<Rightarrow> string option \<Rightarrow> string option \<Rightarrow> pydict list result" where
  "embed_chunks em cs project_id owner_id =
     bind_result (map_result (\<lambda>c. bind_result (ditem c ''text'') (\<lambda>t. Inr (py_str t))) cs) (\<lambda>texts.
     bind_result (embedding_text_batches texts (em_max_batch_size em) (em_max_batch_input_bytes em)) (\<lambda>batches.
     bind_result (fold_result (embed_batch em) batches []) (\<lambda>vectors.
     if length vectors \<noteq> length cs
     then Inl (ValueError ''Embedding provider must return one vector per chunk'')
     else map_result (embedding_row project_id owner_id) (zip cs vectors))))"

end
