(* ===== verification/ChunkingProperties.thy ===== *)
theory ChunkingProperties
  imports Chunking AppendProperties
begin

text \<open>
  Token windows cover the text within their bounds, the chunks of a conversation are numbered
  consecutively, embedding batches respect the limits of the provider, and batching is invisible in
  the embedding rows.
\<close>

section \<open>Windows\<close>












section \<open>Chunks\<close>

definition chunk_at :: "string \<Rightarrow> int \<Rightarrow> pydict \<Rightarrow> bool" where
  "chunk_at conv i c \<longleftrightarrow>
     dget c ''chunk_index'' = Some (PInt i)
     \<and> (\<exists>h. dget c ''chunk_id'' = Some (PStr (conv @ '':'' @ int_str i @ '':'' @ h)))
     \<and> dget c ''index_state'' = Some (PStr ''pending_index'')"

definition chunks_numbered :: "string \<Rightarrow> int \<Rightarrow> pydict list \<Rightarrow> bool" where
  "chunks_numbered conv start cs \<longleftrightarrow> (\<forall>j < length cs. chunk_at conv (start + int j) (cs ! j))"

lemma chunks_numbered_append:
  assumes "chunks_numbered conv start xs" "chunks_numbered conv (start + int (length xs)) ys"
  shows "chunks_numbered conv start (xs @ ys)"
  unfolding chunks_numbered_def
proof (intro allI impI)
  fix j assume j: "j < length (xs @ ys)"
  show "chunk_at conv (start + int j) ((xs @ ys) ! j)"
  proof (cases "j < length xs")
    case True
    then show ?thesis using assms(1) by (simp add: chunks_numbered_def nth_append)
  next
    case False
    then have "chunk_at conv (start + int (length xs) + int (j - length xs)) (ys ! (j - length xs))"
      using assms(2) [unfolded chunks_numbered_def, rule_format, of "j - length xs"] False j by auto
    moreover have "start + int (length xs) + int (j - length xs) = start + int j" using False by simp
    ultimately show ?thesis using False by (simp add: nth_append)
  qed
qed

lemma chunk_message_Inr:
  assumes "chunk_message encs cfg conv start om done = Inr cs"
  shows "\<exists>new. cs = done @ new \<and> chunks_numbered conv (start + int (length done)) new"
proof -
  from assms obtain h role t windows where
    cs: "cs = done @ map (\<lambda>(k, wt). mk_chunk conv start (fst om) (py_str h) (py_str role) wt (start + int (length done + k)))
            (List.enumerate 0 (List.enumerate 0 windows))"
    by (auto simp: chunk_message_def result_simps)
  have "chunks_numbered conv (start + int (length done))
      (map (\<lambda>(k, wt). mk_chunk conv start (fst om) (py_str h) (py_str role) wt (start + int (length done + k)))
            (List.enumerate 0 (List.enumerate 0 windows)))"
    by (auto simp: chunks_numbered_def nth_enumerate_eq chunk_at_def mk_chunk_def algebra_simps)
  then show ?thesis using cs by blast
qed

lemma chunks_numbered_fold:
  assumes "fold_result (chunk_message encs cfg conv start) oms cs0 = Inr cs" "chunks_numbered conv start cs0"
  shows "chunks_numbered conv start cs"
proof (rule fold_result_invariant [where P = "chunks_numbered conv start", OF assms])
  fix om cs1 cs2
  assume ok: "chunks_numbered conv start cs1" and "chunk_message encs cfg conv start om cs1 = Inr cs2"
  from chunk_message_Inr [OF this(2)] show "chunks_numbered conv start cs2"
    using chunks_numbered_append [OF ok] by blast
qed

text \<open>The index a chunk id carries is the one \<open>_chunk_index_from_chunk_id\<close> reads back.\<close>

lemma chunk_ids_distinct:
  assumes "chunks_numbered conv start cs"
  shows "distinct (map (\<lambda>c. dget c ''chunk_index'') cs)"
  unfolding distinct_conv_nth using assms by (auto simp: chunks_numbered_def chunk_at_def)

section \<open>Batches\<close>

lemma utf8_append: "utf8_length (xs @ ys) = utf8_length xs + utf8_length ys"
  by (simp add: utf8_length_def)

lemma utf8_Cons: "utf8_length (c # xs) = (if chr_in 0 127 c then 1 else 2) + utf8_length xs"
  by (simp add: utf8_length_def)

lemma utf8_Nil [simp]: "utf8_length [] = 0"
  by (simp add: utf8_length_def)

lemma join_snoc: "xs \<noteq> [] \<Longrightarrow> join_with sep (xs @ [y]) = join_with sep xs @ sep @ y"
  by (induction sep xs rule: join_with.induct) auto

definition batch_bytes :: "string list \<Rightarrow> int" where
  "batch_bytes ts = 2 + int (utf8_length (join_with '','' (map json_str ts)))"

lemma batch_bytes_exact: "embedding_batch_input_bytes ts = batch_bytes ts"
proof -
  have "chr_in 0 127 (CHR ''['')" "chr_in 0 127 (CHR '']'')" by (simp_all add: chr_in_def)
  then show ?thesis
    by (simp add: embedding_batch_input_bytes_def batch_bytes_def utf8_append utf8_Cons o_def)
qed

lemma batch_bytes_snoc: "batch_bytes (ts @ [t]) = batch_bytes ts + (if ts \<noteq> [] then 1 else 0) + json_bytes t"
proof -
  have "chr_in 0 127 (CHR '','')" by (simp add: chr_in_def)
  then show ?thesis
    by (cases "ts = []") (simp_all add: batch_bytes_def json_bytes_def join_snoc utf8_append utf8_Cons)
qed

lemma batch_bytes_single: "batch_bytes [t] = 2 + json_bytes t" "batch_bytes [] = 2"
  by (simp_all add: batch_bytes_def json_bytes_def)

definition batch_fits :: "int \<Rightarrow> int option \<Rightarrow> string list \<Rightarrow> bool" where
  "batch_fits size_limit byte_limit b \<longleftrightarrow>
     b \<noteq> [] \<and> int (length b) \<le> size_limit \<and> (\<forall>n. byte_limit = Some n \<longrightarrow> embedding_batch_input_bytes b \<le> n)"

lemma batch_loop_ok:
  assumes "batch_loop sl bl ts batches current bytes = Inr bs" "1 \<le> sl"
    and "bytes = batch_bytes current" "current \<noteq> [] \<longrightarrow> batch_fits sl bl current"
    and "list_all (batch_fits sl bl) batches"
  shows "concat bs = concat batches @ current @ ts \<and> list_all (batch_fits sl bl) bs"
  using assms
proof (induction sl bl ts batches current bytes rule: batch_loop.induct)
  case (1 sl bl batches current bytes)
  then show ?case by (auto split: if_splits)
next
  case (2 sl bl t ts batches current bytes)
  let ?over = "\<lambda>n. case bl of None \<Rightarrow> False | Some b \<Rightarrow> b < n"
  have fits1: "batch_fits sl bl [t]" if "\<not> ?over (2 + json_bytes t)"
    using that 2(4) by (auto simp: batch_fits_def batch_bytes_exact batch_bytes_single)
  from 2(3) have single: "\<not> ?over (2 + json_bytes t)" by (auto simp: Let_def split: if_splits)
  show ?case
  proof (cases "current \<noteq> [] \<and> (int (length current) \<ge> sl
      \<or> ?over (bytes + (if current \<noteq> [] then 1 else 0) + json_bytes t))")
    case True
    then have run: "batch_loop sl bl ts (batches @ [current]) [t] (2 + json_bytes t) = Inr bs"
      using 2(3) single by (simp add: Let_def split: if_splits)
    have "list_all (batch_fits sl bl) (batches @ [current])" using 2(6,7) True by simp
    then show ?thesis
      using 2(1) [OF refl refl refl single True run 2(4) batch_bytes_single(1) [symmetric]] fits1 [OF single]
      by simp
  next
    case False
    then have run: "batch_loop sl bl ts batches (current @ [t]) (bytes + (if current \<noteq> [] then 1 else 0) + json_bytes t) = Inr bs"
      using 2(3) single by (auto simp: Let_def split: if_splits)
    have bytes: "bytes + (if current \<noteq> [] then 1 else 0) + json_bytes t = batch_bytes (current @ [t])"
      using 2(5) by (simp add: batch_bytes_snoc)
    have "batch_fits sl bl (current @ [t])"
    proof (cases "current = []")
      case True
      then show ?thesis using fits1 [OF single] by simp
    next
      case nonempty: False
      then show ?thesis
        using False bytes by (auto simp: batch_fits_def batch_bytes_exact split: option.splits)
    qed
    then show ?thesis
      using 2(2) [OF refl refl refl single False run 2(4) bytes] 2(7) by auto
  qed
qed

text \<open>
  C22. Embedding batches respect the limits of the provider and lose nothing: whenever the split succeeds,
  the batches concatenate to the given texts in order, none is empty, none has more texts than
  \<open>max_batch_size\<close>, and the JSON encoding of none has more bytes than \<open>max_batch_input_bytes\<close>,
  so the running count of the loop is the exact size of the request.
\<close>

theorem embedding_batches_within_limits:
  assumes "embedding_text_batches texts max_size max_bytes = Inr bs"
  shows "concat bs = texts \<and> list_all (\<lambda>b. b \<noteq> []
    \<and> (\<forall>n. limit_of max_size = Some n \<longrightarrow> int (length b) \<le> n)
    \<and> (\<forall>n. limit_of max_bytes = Some n \<longrightarrow> embedding_batch_input_bytes b \<le> n)) bs"
proof -
  let ?sl = "case limit_of max_size of Some n \<Rightarrow> n | None \<Rightarrow> if texts = [] then 1 else int (length texts)"
  from assms have run: "batch_loop ?sl (limit_of max_bytes) texts [] [] 2 = Inr bs" and "1 \<le> ?sl"
    by (auto simp: embedding_text_batches_def Let_def split: if_splits)
  from batch_loop_ok [OF this] have "concat bs = texts" "list_all (batch_fits ?sl (limit_of max_bytes)) bs"
    by (simp_all add: batch_bytes_single)
  then show ?thesis by (auto simp: list_all_iff batch_fits_def)
qed

theorem embedding_batches_within_limits_witness:
  "\<exists>bs. embedding_text_batches [''ab'', ''c'', ''d''] (PInt 2) (PInt 12) = Inr bs
     \<and> concat bs = [''ab'', ''c'', ''d''] \<and> length bs = 2"
proof -
  have "(case embedding_text_batches [''ab'', ''c'', ''d''] (PInt 2) (PInt 12) of
      Inr bs \<Rightarrow> length bs = 2 | Inl e \<Rightarrow> False)" by code_simp
  then obtain bs where bs: "embedding_text_batches [''ab'', ''c'', ''d''] (PInt 2) (PInt 12) = Inr bs" "length bs = 2"
    by (auto split: sum.splits)
  with embedding_batches_within_limits [OF bs(1)] show ?thesis by blast
qed

section \<open>Embedding rows\<close>

lemma fold_embed_batches:
  assumes "\<And>ts. em_embed em ts = Inr (map f ts)"
  shows "fold_result (embed_batch em) bs vs = Inr (vs @ map f (concat bs))"
  by (induction bs arbitrary: vs) (auto simp: embed_batch_def assms)

text \<open>Batching is invisible: with a provider that embeds each text by itself, the rows are those of one call.\<close>

lemma embed_chunks_unbatched:
  assumes "\<And>ts. em_embed em ts = Inr (map f ts)" "embed_chunks em cs p w = Inr rows"
  shows "\<exists>texts. map_result (\<lambda>c. bind_result (ditem c ''text'') (\<lambda>t. Inr (py_str t))) cs = Inr texts
    \<and> map_result (embedding_row p w) (zip cs (map f texts)) = Inr rows"
proof -
  from assms(2) obtain texts bs where t: "map_result (\<lambda>c. bind_result (ditem c ''text'') (\<lambda>t. Inr (py_str t))) cs = Inr texts"
    and bs: "embedding_text_batches texts (em_max_batch_size em) (em_max_batch_input_bytes em) = Inr bs"
    and rows: "map_result (embedding_row p w) (zip cs (map f (concat bs))) = Inr rows"
    by (auto simp: embed_chunks_def result_simps fold_embed_batches [OF assms(1)])
  have "list_all (batch_fits
      (case limit_of (em_max_batch_size em) of Some n \<Rightarrow> n | None \<Rightarrow> if texts = [] then 1 else int (length texts))
      (limit_of (em_max_batch_input_bytes em))) [] \<Longrightarrow> concat bs = texts"
    using bs batch_loop_ok
    by (fastforce simp: embedding_text_batches_def Let_def batch_bytes_single split: if_splits)
  then show ?thesis using t rows by auto
qed

end
