(* ===== verification/VectorStore.thy ===== *)
theory VectorStore
  imports Chunking
begin

text \<open>
  Filters on vector payloads (\<^verbatim>\<open>memory/backend/contracts.py\<close>) and the in-memory vector store
  (\<open>InMemoryVectorStore\<close> of \<^verbatim>\<open>memory/backend/vector_store.py\<close>). A float is given by its \<open>repr\<close>;
  the IEEE operations and the numerical order of floats are arguments.
\<close>

section \<open>Floats\<close>

type_synonym flt = string

record float_env =
  fl_of :: "pyval \<Rightarrow> flt result" \<comment> \<open>float(v)\<close>
  fl_add :: "flt \<times> flt \<Rightarrow> flt"
  fl_sub :: "flt \<times> flt \<Rightarrow> flt"
  fl_mul :: "flt \<times> flt \<Rightarrow> flt"
  fl_div :: "flt \<times> flt \<Rightarrow> flt"
  fl_sqrt :: "flt \<Rightarrow> flt"
  fl_rank :: "flt \<Rightarrow> int" \<comment> \<open>the position of a float in their order\<close>

definition fl_zero :: "flt \<Rightarrow> bool" where
  "fl_zero x \<longleftrightarrow> x = ''0.0'' \<or> x = ''-0.0''"

text \<open>One round of the loop over \<open>zip(a, b)\<close>: the dot product and the two norms.\<close>

definition cosine_step :: "float_env \<Rightarrow> flt \<times> flt \<Rightarrow> flt \<times> flt \<times> flt \<Rightarrow> flt \<times> flt \<times> flt" where
  "cosine_step fe xy acc =
     (let (x, y) = xy; (dot, na, nb) = acc
      in (fl_add fe (dot, fl_mul fe (x, y)), fl_add fe (na, fl_mul fe (x, x)), fl_add fe (nb, fl_mul fe (y, y))))"

definition cosine_distance :: "float_env \<Rightarrow> vec \<Rightarrow> vec \<Rightarrow> flt result" where
  "cosine_distance fe a b =
     (if length a \<noteq> length b then Inl (ValueError ''Vector dimensions must match'')
      else if a = [] then Inr ''1.0''
      else
        let (dot, na, nb) = fold (cosine_step fe) (zip a b) (''0.0'', ''0.0'', ''0.0'') in
        if fl_zero na \<or> fl_zero nb then Inr ''1.0''
        else Inr (fl_sub fe (''1.0'', fl_div fe (dot, fl_mul fe (fl_sqrt fe na, fl_sqrt fe nb)))))"

section \<open>Filters\<close>

text \<open>
  \<open>==\<close> on JSON values: booleans are integers, and an integer equals the float of the same value (its
  \<open>repr\<close> has no exponent below \<open>1e16\<close>, the range of the model).
\<close>

definition as_number :: "pyval \<Rightarrow> string option" where
  "as_number v =
     (case v of
        PBool b \<Rightarrow> Some (if b then ''1.0'' else ''0.0'')
      | PInt i \<Rightarrow> Some (int_str i @ ''.0'')
      | PFloat r \<Rightarrow> Some (if r = ''-0.0'' then ''0.0'' else r)
      | _ \<Rightarrow> None)"

definition scalar_eq :: "pyval \<Rightarrow> pyval \<Rightarrow> bool" where
  "scalar_eq v w =
     (case (as_number v, as_number w) of
        (Some a, Some b) \<Rightarrow> a = b \<and> a \<noteq> ''nan''
      | _ \<Rightarrow> v = w)"

record date_range =
  dr_from :: "string option"
  dr_to :: "string option"

record vector_filters =
  vf_equals :: "(string \<times> pyval) list"
  vf_any_of :: "(string \<times> pyval list) list"
  vf_booleans :: "(string \<times> bool) list"
  vf_date_ranges :: "(string \<times> date_range) list"

definition filter_fields :: "vector_filters \<Rightarrow> string list" where
  "filter_fields f =
     map fst (vf_equals f) @ map fst (vf_any_of f) @ map fst (vf_booleans f) @ map fst (vf_date_ranges f)"

definition filters_empty :: "vector_filters \<Rightarrow> bool" where
  "filters_empty f \<longleftrightarrow> filter_fields f = []"

definition select_filters :: "vector_filters \<Rightarrow> string list \<Rightarrow> bool \<Rightarrow> vector_filters" where
  "select_filters f names incl =
     (let selected = (\<lambda>k. (k \<in> set names) = incl) in
      \<lparr>vf_equals = filter (\<lambda>kv. selected (fst kv)) (vf_equals f),
       vf_any_of = filter (\<lambda>kv. selected (fst kv)) (vf_any_of f),
       vf_booleans = filter (\<lambda>kv. selected (fst kv)) (vf_booleans f),
       vf_date_ranges = filter (\<lambda>kv. selected (fst kv)) (vf_date_ranges f)\<rparr>)"

definition filters_only :: "vector_filters \<Rightarrow> string list \<Rightarrow> vector_filters" where
  "filters_only f names = select_filters f names True"

definition filters_without :: "vector_filters \<Rightarrow> string list \<Rightarrow> vector_filters" where
  "filters_without f names = select_filters f names False"

definition any_of_ok :: "pyval list \<Rightarrow> pyval \<Rightarrow> bool" where
  "any_of_ok expected value =
     (case value of
        PList xs \<Rightarrow> list_ex (\<lambda>x. list_ex (scalar_eq x) expected) xs
      | _ \<Rightarrow> list_ex (scalar_eq value) expected)"

definition in_range :: "date_range \<Rightarrow> pyval \<Rightarrow> bool" where
  "in_range r value \<longleftrightarrow>
     value \<noteq> PNone
     \<and> (case dr_from r of None \<Rightarrow> True | Some lo \<Rightarrow> lo \<le> py_str value)
     \<and> (case dr_to r of None \<Rightarrow> True | Some hi \<Rightarrow> py_str value \<le> hi)"

definition filters_match :: "vector_filters \<Rightarrow> pydict \<Rightarrow> bool" where
  "filters_match f payload \<longleftrightarrow>
     list_all (\<lambda>(k, expected). scalar_eq (dget_none payload k) expected) (vf_equals f)
     \<and> list_all (\<lambda>(k, expected). any_of_ok expected (dget_none payload k)) (vf_any_of f)
     \<and> list_all (\<lambda>(k, expected). truthy (dget_none payload k) = expected) (vf_booleans f)
     \<and> list_all (\<lambda>(k, bounds). in_range bounds (dget_none payload k)) (vf_date_ranges f)"

text \<open>Pushing a part of the filters into the store and checking the rest afterwards loses nothing.\<close>

lemma list_all_split:
  "list_all p xs \<longleftrightarrow> list_all p (filter q xs) \<and> list_all p (filter (\<lambda>x. \<not> q x) xs)"
  by (auto simp: list_all_iff)

lemma filters_only_without:
  "filters_match f payload \<longleftrightarrow>
     filters_match (filters_only f names) payload \<and> filters_match (filters_without f names) payload"
  unfolding filters_match_def filters_only_def filters_without_def select_filters_def Let_def
  using list_all_split [of _ "vf_equals f" "\<lambda>kv. fst kv \<in> set names"]
    list_all_split [of _ "vf_any_of f" "\<lambda>kv. fst kv \<in> set names"]
    list_all_split [of _ "vf_booleans f" "\<lambda>kv. fst kv \<in> set names"]
    list_all_split [of _ "vf_date_ranges f" "\<lambda>kv. fst kv \<in> set names"]
  by auto

section \<open>The in-memory store\<close>

record vec_row =
  vr_memory :: string
  vr_project :: string
  vr_owner :: string
  vr_chunk :: string
  vr_index :: int
  vr_hash :: string
  vr_role :: string
  vr_text :: string
  vr_vector :: vec

definition row_payload :: "vec_row \<Rightarrow> pydict" where
  "row_payload r =
     [(''memory_id'', PStr (vr_memory r)), (''project_id'', PStr (vr_project r)),
      (''owner_id'', PStr (vr_owner r)), (''chunk_id'', PStr (vr_chunk r)),
      (''chunk_index'', PInt (vr_index r)), (''message_hash'', PStr (vr_hash r)),
      (''role'', PStr (vr_role r)), (''text'', PStr (vr_text r)),
      (''vector'', PList (map PFloat (vr_vector r)))]"

definition py_iter :: "pyval \<Rightarrow> pyval list result" where
  "py_iter v =
     (case v of
        PList xs \<Rightarrow> Inr xs
      | PStr s \<Rightarrow> Inr (map (\<lambda>c. PStr [c]) s)
      | PDict d \<Rightarrow> Inr (map (\<lambda>kv. PStr (fst kv)) d)
      | _ \<Rightarrow> Inl (TypeError ''object is not iterable''))"

definition check_dimension :: "nat \<Rightarrow> vec \<Rightarrow> string \<Rightarrow> unit result" where
  "check_dimension dim v operation =
     guard_result (length v = dim)
       (VectorDimensionError (''Vector dimensionality mismatch during '' @ operation @ '': expected ''
          @ nat_str dim @ '', got '' @ nat_str (length v)))"

definition chunk_id_of_item :: "string \<Rightarrow> pydict \<Rightarrow> string result" where
  "chunk_id_of_item memory_id item =
     (if truthy (dget_none item ''chunk_id'') then Inr (py_str (dget_none item ''chunk_id''))
      else bind_result (bind_result (ditem item ''chunk_index'') int_of_pyval) (\<lambda>i.
        Inr (memory_id @ '':'' @ int_str i)))"

definition vec_row_of :: "float_env \<Rightarrow> nat \<Rightarrow> string \<Rightarrow> pydict \<Rightarrow> vec_row result" where
  "vec_row_of fe dim memory_id item =
     bind_result (bind_result (ditem item ''vector'') py_iter) (\<lambda>xs.
     bind_result (map_result (fl_of fe) xs) (\<lambda>vector.
     bind_result (check_dimension dim vector ''insert'') (\<lambda>_.
     bind_result (chunk_id_of_item memory_id item) (\<lambda>cid.
     bind_result (bind_result (ditem item ''chunk_index'') int_of_pyval) (\<lambda>idx.
     bind_result (ditem item ''role'') (\<lambda>role.
     bind_result (ditem item ''text'') (\<lambda>t.
     Inr \<lparr>vr_memory = memory_id, vr_project = py_str (dget_or item ''project_id'' (PStr [])),
          vr_owner = py_str (dget_or item ''owner_id'' (PStr [])), vr_chunk = cid, vr_index = idx,
          vr_hash = py_str (dget_or item ''message_hash'' (PStr [])), vr_role = py_str role,
          vr_text = py_str t, vr_vector = vector\<rparr>)))))))"

text \<open>
  The rows are appended one at a time and there is no transaction: when an item raises, the rows before
  it stay. The outcome and the rows are returned separately.
\<close>

fun vec_append ::
    "float_env \<Rightarrow> nat \<Rightarrow> string \<Rightarrow> pydict list \<Rightarrow> vec_row list \<Rightarrow> unit result \<times> vec_row list" where
  "vec_append fe dim memory_id [] rows = (Inr (), rows)"
| "vec_append fe dim memory_id (item # items) rows =
     (case vec_row_of fe dim memory_id item of
        Inl e \<Rightarrow> (Inl e, rows)
      | Inr r \<Rightarrow> vec_append fe dim memory_id items (rows @ [r]))"

definition vec_insert ::
    "float_env \<Rightarrow> nat \<Rightarrow> string \<Rightarrow> pydict list \<Rightarrow> bool \<Rightarrow> vec_row list \<Rightarrow> unit result \<times> vec_row list" where
  "vec_insert fe dim memory_id embeddings replace rows =
     vec_append fe dim memory_id embeddings
       (if replace then filter (\<lambda>r. vr_memory r \<noteq> memory_id) rows else rows)"

text \<open>\<open>xs[:k]\<close>: a negative bound counts from the end.\<close>

definition py_take :: "int \<Rightarrow> 'a list \<Rightarrow> 'a list" where
  "py_take k xs = take (nat (if k < 0 then int (length xs) + k else k)) xs"

definition vec_hit :: "flt \<times> vec_row \<Rightarrow> pydict" where
  "vec_hit sr =
     (let r = snd sr in
      [(''memory_id'', PStr (vr_memory r)), (''project_id'', PStr (vr_project r)),
       (''owner_id'', PStr (vr_owner r)), (''chunk_id'', PStr (vr_chunk r)),
       (''chunk_index'', PInt (vr_index r)), (''message_hash'', PStr (vr_hash r)),
       (''role'', PStr (vr_role r)), (''text'', PStr (vr_text r)), (''score'', PFloat (fst sr))])"

definition row_selected :: "vector_filters option \<Rightarrow> vec_row \<Rightarrow> bool" where
  "row_selected filters r = (case filters of None \<Rightarrow> True | Some f \<Rightarrow> filters_match f (row_payload r))"

definition vec_scored ::
    "float_env \<Rightarrow> vec \<Rightarrow> vector_filters option \<Rightarrow> vec_row list \<Rightarrow> (flt \<times> vec_row) list result" where
  "vec_scored fe query filters rows =
     map_result (\<lambda>r. bind_result (cosine_distance fe query (vr_vector r)) (\<lambda>s. Inr (s, r)))
       (filter (row_selected filters) rows)"

definition vec_search ::
    "float_env \<Rightarrow> nat \<Rightarrow> vec \<Rightarrow> int \<Rightarrow> vector_filters option \<Rightarrow> vec_row list \<Rightarrow> pydict list result" where
  "vec_search fe dim query top_k filters rows =
     bind_result (check_dimension dim query ''search'') (\<lambda>_.
     bind_result (vec_scored fe query filters rows) (\<lambda>scored.
     Inr (map vec_hit (py_take top_k (sort_key (\<lambda>sr. fl_rank fe (fst sr)) scored)))))"

definition vec_delete :: "string list \<Rightarrow> vec_row list \<Rightarrow> vec_row list" where
  "vec_delete ids rows = filter (\<lambda>r. vr_memory r \<notin> set ids) rows"

definition vec_chunk_ids :: "string \<Rightarrow> vec_row list \<Rightarrow> string list" where
  "vec_chunk_ids memory_id rows = map vr_chunk (filter (\<lambda>r. vr_memory r = memory_id) rows)"

section \<open>Lemmas\<close>

lemma vec_row_memory: "vec_row_of fe dim i x = Inr r \<Longrightarrow> vr_memory r = i"
  by (auto simp: vec_row_of_def result_simps)

lemma vec_rows_memory: "map_result (vec_row_of fe dim i) items = Inr new \<Longrightarrow> list_all (\<lambda>r. vr_memory r = i) new"
  by (induction items arbitrary: new) (auto simp: result_simps vec_row_memory)

lemma vec_append_rows:
  "vec_append fe dim i items rows = (res, rows') \<Longrightarrow> \<exists>new. rows' = rows @ new \<and> list_all (\<lambda>r. vr_memory r = i) new"
proof (induction items arbitrary: rows)
  case (Cons x xs)
  show ?case
  proof (cases "vec_row_of fe dim i x")
    case (Inr r)
    then obtain new where "rows' = (rows @ [r]) @ new" "list_all (\<lambda>r. vr_memory r = i) new"
      using Cons.IH [of "rows @ [r]"] Cons.prems by auto
    moreover have "vr_memory r = i" using Inr by (rule vec_row_memory)
    ultimately show ?thesis by auto
  qed (use Cons.prems in auto)
qed auto

lemma vec_append_ok:
  "vec_append fe dim i items rows = (Inr (), rows') \<longleftrightarrow>
     (\<exists>new. map_result (vec_row_of fe dim i) items = Inr new \<and> rows' = rows @ new)"
  by (induction items arbitrary: rows) (auto simp: result_simps split: sum.splits)

text \<open>The other memories keep their rows, whatever the outcome.\<close>

lemma vec_insert_other:
  assumes "vec_insert fe dim i items b rows = (res, rows')" "i \<noteq> j"
  shows "filter (\<lambda>r. vr_memory r = j) rows' = filter (\<lambda>r. vr_memory r = j) rows"
proof -
  obtain new where "rows' = (if b then filter (\<lambda>r. vr_memory r \<noteq> i) rows else rows) @ new"
    "list_all (\<lambda>r. vr_memory r = i) new"
    using vec_append_rows assms(1) unfolding vec_insert_def by blast
  then show ?thesis
    using assms(2) by (auto simp: list_all_iff filter_empty_conv intro!: filter_cong)
qed

lemma vec_insert_replaces:
  assumes "vec_insert fe dim i items True rows = (Inr (), rows')"
  shows "\<exists>new. map_result (vec_row_of fe dim i) items = Inr new \<and> filter (\<lambda>r. vr_memory r = i) rows' = new"
proof -
  obtain new where new: "map_result (vec_row_of fe dim i) items = Inr new"
    "rows' = filter (\<lambda>r. vr_memory r \<noteq> i) rows @ new"
    using assms by (auto simp: vec_insert_def vec_append_ok)
  have "list_all (\<lambda>r. vr_memory r = i) new" using new(1) by (rule vec_rows_memory)
  then show ?thesis using new by (auto simp: list_all_iff)
qed

end
