(* ===== verification/VectorProperties.thy ===== *)
theory VectorProperties
  imports VectorStore
begin

text \<open>
  What a search of the in-memory vector store returns, and what an insert leaves behind.
\<close>

lemma sorted_take_drop:
  "sorted (map f xs) \<Longrightarrow> x \<in> set (take n xs) \<Longrightarrow> y \<in> set (drop n xs) \<Longrightarrow> f x \<le> f y"
proof -
  assume s: "sorted (map f xs)" and x: "x \<in> set (take n xs)" and y: "y \<in> set (drop n xs)"
  have "sorted (map f (take n xs) @ map f (drop n xs))"
    using s by (simp flip: map_append)
  then show "f x \<le> f y" using x y by (auto simp: sorted_append)
qed

lemma vec_scored_iff:
  assumes "vec_scored fe q filters rows = Inr scored"
  shows "(s, r) \<in> set scored \<longleftrightarrow>
     r \<in> set rows \<and> row_selected filters r \<and> cosine_distance fe q (vr_vector r) = Inr s"
    and "length scored = length (filter (row_selected filters) rows)"
proof -
  let ?sel = "filter (row_selected filters) rows"
  have len: "length scored = length ?sel"
    using assms unfolding vec_scored_def by (rule map_result_Inr_length)
  have each: "\<forall>n < length ?sel. \<exists>s. cosine_distance fe q (vr_vector (?sel ! n)) = Inr s \<and> scored ! n = (s, ?sel ! n)"
    using assms by (auto simp: vec_scored_def map_result_Inr_list_all2 list_all2_conv_all_nth result_simps)
  show "length scored = length ?sel" by (rule len)
  show "(s, r) \<in> set scored \<longleftrightarrow>
     r \<in> set rows \<and> row_selected filters r \<and> cosine_distance fe q (vr_vector r) = Inr s"
  proof
    assume "(s, r) \<in> set scored"
    then obtain n where n: "n < length ?sel" "scored ! n = (s, r)" by (auto simp: in_set_conv_nth len)
    with each have "cosine_distance fe q (vr_vector r) = Inr s \<and> r = ?sel ! n" by force
    moreover have "?sel ! n \<in> set ?sel" using n(1) by (rule nth_mem)
    ultimately show "r \<in> set rows \<and> row_selected filters r \<and> cosine_distance fe q (vr_vector r) = Inr s"
      by auto
  next
    assume r: "r \<in> set rows \<and> row_selected filters r \<and> cosine_distance fe q (vr_vector r) = Inr s"
    then have "r \<in> set ?sel" by simp
    then obtain n where n: "n < length ?sel" "?sel ! n = r" by (auto simp only: in_set_conv_nth)
    with each r have "scored ! n = (s, r)" by force
    then show "(s, r) \<in> set scored" using n(1) len by (metis nth_mem)
  qed
qed

text \<open>
  C19. A vector search is exact: the hits are stored rows that satisfy the filters, with their cosine
  distance to the query, the nearest first; there are as many as asked for or as many as satisfy the
  filters, and no row that was left out is nearer than one that was returned.
\<close>

theorem vector_search_exact:
  assumes "vec_search fe dim q k filters rows = Inr hits" "0 \<le> k"
  shows "\<exists>kept. hits = map vec_hit kept
    \<and> length kept = min (nat k) (length (filter (row_selected filters) rows))
    \<and> sorted (map (\<lambda>sr. fl_rank fe (fst sr)) kept)
    \<and> (\<forall>s r. (s, r) \<in> set kept \<longrightarrow>
          r \<in> set rows \<and> row_selected filters r \<and> cosine_distance fe q (vr_vector r) = Inr s)
    \<and> (\<forall>s r s' r'. (s, r) \<in> set kept \<longrightarrow> r' \<in> set rows \<longrightarrow> row_selected filters r' \<longrightarrow>
          cosine_distance fe q (vr_vector r') = Inr s' \<longrightarrow> (s', r') \<notin> set kept \<longrightarrow>
          fl_rank fe s \<le> fl_rank fe s')"
proof -
  obtain scored where sc: "vec_scored fe q filters rows = Inr scored"
    and hits: "hits = map vec_hit (py_take k (sort_key (\<lambda>sr. fl_rank fe (fst sr)) scored))"
    using assms(1) by (auto simp: vec_search_def result_simps)
  let ?f = "\<lambda>sr. fl_rank fe (fst sr)" and ?all = "sort_key (\<lambda>sr. fl_rank fe (fst sr)) scored"
  let ?kept = "take (nat k) ?all"
  have kept: "hits = map vec_hit ?kept" using hits assms(2) by (simp add: py_take_def)
  have sorted: "sorted (map ?f ?all)" by simp
  have len: "length ?kept = min (nat k) (length (filter (row_selected filters) rows))"
    using vec_scored_iff(2) [OF sc] by simp
  have members: "r \<in> set rows \<and> row_selected filters r \<and> cosine_distance fe q (vr_vector r) = Inr s"
    if "(s, r) \<in> set ?kept" for s r
    using that vec_scored_iff(1) [OF sc, of s r] by (auto dest: in_set_takeD)
  have nearest: "fl_rank fe s \<le> fl_rank fe s'"
    if kept: "(s, r) \<in> set ?kept" and other: "r' \<in> set rows" "row_selected filters r'"
      "cosine_distance fe q (vr_vector r') = Inr s'" "(s', r') \<notin> set ?kept" for s r s' r'
  proof -
    have "(s', r') \<in> set ?all" using vec_scored_iff(1) [OF sc, of s' r'] other by simp
    then have "(s', r') \<in> set ?kept \<union> set (drop (nat k) ?all)"
      by (metis append_take_drop_id set_append)
    then have "(s', r') \<in> set (drop (nat k) ?all)" using other(4) by blast
    from sorted_take_drop [OF sorted kept this] show ?thesis by simp
  qed
  have "sorted (map ?f ?kept)" using sorted by (simp only: take_map [symmetric] sorted_wrt_take)
  then show ?thesis using kept len members nearest by blast
qed

text \<open>Integers stand for the floats here: enough arithmetic to rank the rows of a small store.\<close>

definition demo_floats :: float_env where
  "demo_floats =
     \<lparr>fl_of = (\<lambda>v. case v of PFloat r \<Rightarrow> Inr r | _ \<Rightarrow> Inl (ValueError [])),
      fl_add = (\<lambda>(x, y). int_str (int (digits_val x) + int (digits_val y))),
      fl_sub = (\<lambda>(x, y). y), fl_mul = (\<lambda>(x, y). int_str (int (digits_val x) * int (digits_val y))),
      fl_div = (\<lambda>(x, y). x), fl_sqrt = id, fl_rank = (\<lambda>x. - int (digits_val x))\<rparr>"

definition demo_row :: "string \<Rightarrow> string \<Rightarrow> vec \<Rightarrow> vec_row" where
  "demo_row memory project v =
     \<lparr>vr_memory = memory, vr_project = project, vr_owner = ''None'', vr_chunk = memory @ '':0'', vr_index = 0,
      vr_hash = [], vr_role = ''user'', vr_text = ''t'', vr_vector = v\<rparr>"

definition demo_rows :: "vec_row list" where
  "demo_rows = [demo_row ''a'' ''p'' [''1'', ''2''], demo_row ''b'' ''p'' [''3'', ''1''],
     demo_row ''c'' ''q'' [''9'', ''9'']]"

definition demo_filters :: vector_filters where
  "demo_filters = \<lparr>vf_equals = [(''project_id'', PStr ''p'')], vf_any_of = [], vf_booleans = [], vf_date_ranges = []\<rparr>"

theorem vector_search_exact_witness:
  "\<exists>kept. [vec_hit (''7'', demo_row ''b'' ''p'' [''3'', ''1''])] = map vec_hit kept \<and> length kept = 1
     \<and> (\<forall>s r. (s, r) \<in> set kept \<longrightarrow> row_selected (Some demo_filters) r)"
proof -
  have run: "vec_search demo_floats 2 [''2'', ''1''] 1 (Some demo_filters) demo_rows
      = Inr [vec_hit (''7'', demo_row ''b'' ''p'' [''3'', ''1''])]" by code_simp
  have rows: "length (filter (row_selected (Some demo_filters)) demo_rows) = 2" by code_simp
  obtain kept where "[vec_hit (''7'', demo_row ''b'' ''p'' [''3'', ''1''])] = map vec_hit kept"
      "length kept = min (nat 1) (length (filter (row_selected (Some demo_filters)) demo_rows))"
      "\<forall>s r. (s, r) \<in> set kept \<longrightarrow> r \<in> set demo_rows \<and> row_selected (Some demo_filters) r
        \<and> cosine_distance demo_floats [''2'', ''1''] (vr_vector r) = Inr s"
    using vector_search_exact [OF run zero_le_one] by (elim exE conjE) (rule that; assumption)
  then show ?thesis using rows by (intro exI [of _ kept]) auto
qed

end
