(* ===== verification/Effects.thy ===== *)
theory Effects
  imports Prelude
begin

text \<open>
  Actions: code that runs several steps on a state and may raise in between. What it did before it
  raised stays, so an action gives its outcome and the state it leaves. The transactions of the stores
  are functions into \<open>'a result\<close>; an action runs them on its state.
\<close>

named_theorems act_rules \<open>actions that keep a predicate\<close>
named_theorems act_simps \<open>outcomes of composed actions\<close>

type_synonym ('a, 's) eff = "'s \<Rightarrow> 'a result \<times> 's"

definition act_ret :: "'a \<Rightarrow> ('a, 's) eff" where
  "act_ret x h = (Inr x, h)"

definition act_of :: "'a result \<Rightarrow> ('a, 's) eff" where
  "act_of r h = (r, h)"

definition act_bind :: "('a, 's) eff \<Rightarrow> ('a \<Rightarrow> ('b, 's) eff) \<Rightarrow> ('b, 's) eff" where
  "act_bind m f h = (case m h of (Inl e, h1) \<Rightarrow> (Inl e, h1) | (Inr x, h1) \<Rightarrow> f x h1)"

text \<open>\<open>try ... except Exception: handler; raise\<close>: the error of the handler wins when it raises too.\<close>

definition act_on_error :: "('a, 's) eff \<Rightarrow> (unit, 's) eff \<Rightarrow> ('a, 's) eff" where
  "act_on_error m handler h =
     (case m h of
        (Inr x, h1) \<Rightarrow> (Inr x, h1)
      | (Inl e, h1) \<Rightarrow> (case handler h1 of (Inr u, h2) \<Rightarrow> (Inl e, h2) | (Inl e2, h2) \<Rightarrow> (Inl e2, h2)))"

definition act_read :: "('s \<Rightarrow> 'a result) \<Rightarrow> ('a, 's) eff" where
  "act_read f h = (f h, h)"

section \<open>Outcomes\<close>

lemma act_bind_Inr_iff [act_simps]:
  "act_bind m f h = (Inr y, h') \<longleftrightarrow> (\<exists>x h1. m h = (Inr x, h1) \<and> f x h1 = (Inr y, h'))"
  by (auto simp: act_bind_def split: prod.splits sum.splits)

lemma act_bind_Inl_iff:
  "act_bind m f h = (Inl e, h') \<longleftrightarrow> m h = (Inl e, h') \<or> (\<exists>x h1. m h = (Inr x, h1) \<and> f x h1 = (Inl e, h'))"
  by (auto simp: act_bind_def split: prod.splits sum.splits)

lemma act_of_iff [act_simps]: "act_of r h = (r', h') \<longleftrightarrow> r = r' \<and> h' = h"
  by (auto simp: act_of_def)

lemma act_ret_iff [act_simps]: "act_ret x h = (r', h') \<longleftrightarrow> r' = Inr x \<and> h' = h"
  by (auto simp: act_ret_def)

lemma act_read_iff [act_simps]: "act_read f h = (r', h') \<longleftrightarrow> f h = r' \<and> h' = h"
  by (auto simp: act_read_def)

section \<open>What actions keep\<close>

definition act_inv :: "('s \<Rightarrow> bool) \<Rightarrow> ('a, 's) eff \<Rightarrow> bool" where
  "act_inv P m \<longleftrightarrow> (\<forall>h. P h \<longrightarrow> P (snd (m h)))"

lemma act_invD: "act_inv P m \<Longrightarrow> P h \<Longrightarrow> m h = (r, h') \<Longrightarrow> P h'"
  unfolding act_inv_def by (metis snd_conv)

lemma inv_bind [act_rules]: "act_inv P m \<Longrightarrow> (\<And>x. act_inv P (f x)) \<Longrightarrow> act_inv P (act_bind m f)"
  by (auto simp: act_inv_def act_bind_def split: prod.splits sum.splits)

lemma inv_ret [act_rules]: "act_inv P (act_ret x)" by (simp add: act_inv_def act_ret_def)
lemma inv_of [act_rules]: "act_inv P (act_of r)" by (simp add: act_inv_def act_of_def)
lemma inv_read [act_rules]: "act_inv P (act_read f)" by (simp add: act_inv_def act_read_def)

lemma inv_if [act_rules]: "(b \<Longrightarrow> act_inv P m) \<Longrightarrow> (\<not> b \<Longrightarrow> act_inv P k) \<Longrightarrow> act_inv P (if b then m else k)"
  by simp

lemma inv_option [act_rules]:
  "act_inv P m \<Longrightarrow> (\<And>x. act_inv P (f x)) \<Longrightarrow> act_inv P (case y of None \<Rightarrow> m | Some x \<Rightarrow> f x)"
  by (cases y) auto

lemma inv_sum [act_rules]:
  "(\<And>x. act_inv P (f x)) \<Longrightarrow> (\<And>x. act_inv P (g x)) \<Longrightarrow> act_inv P (case y of Inl x \<Rightarrow> f x | Inr x \<Rightarrow> g x)"
  by (cases y) auto

lemma inv_prod [act_rules]: "(\<And>a b. act_inv P (f a b)) \<Longrightarrow> act_inv P (case p of (a, b) \<Rightarrow> f a b)"
  by (cases p) auto

lemma inv_prod_arg [act_rules]: "(\<And>a b. act_inv P (f a b z)) \<Longrightarrow> act_inv P ((case p of (a, b) \<Rightarrow> f a b) z)"
  by (cases p) auto

lemma inv_on_error [act_rules]: "act_inv P m \<Longrightarrow> act_inv P k \<Longrightarrow> act_inv P (act_on_error m k)"
  unfolding act_inv_def act_on_error_def by (auto split: prod.splits sum.splits)

end
