(* ===== verification/IndexRepair.thy ===== *)
theory IndexRepair
  imports Chunking
begin

text \<open>
  The manifest of index chunks that a conversation carries in its metadata, as ingestion reads, repairs
  and updates it (\<^verbatim>\<open>memory/ingestion/mvp_ingestion.py\<close>). Functions that change a conversation or its
  chunks in place return the changed values; when they raise, the values in the model are the old ones
  (the code can raise half way only on a stored chunk index that is an infinite float).
\<close>

definition index_chunk_manifest :: "pydict \<Rightarrow> pydict list" where
  "index_chunk_manifest c =
     (case dget_none c ''metadata'' of
        PDict m \<Rightarrow> (case dget_none m ''index_chunks'' of PList xs \<Rightarrow> List.map_filter as_dict xs | _ \<Rightarrow> [])
      | _ \<Rightarrow> [])"

definition has_pending_index_chunks :: "pydict \<Rightarrow> bool" where
  "has_pending_index_chunks c \<longleftrightarrow>
     list_ex (\<lambda>chunk. dget_none chunk ''index_state'' = PStr ''pending_index'') (index_chunk_manifest c)"

text \<open>\<open>int(value)\<close>, with \<open>None\<close> for a \<open>TypeError\<close> or a \<open>ValueError\<close>.\<close>

definition manifest_chunk_index :: "pydict \<Rightarrow> int \<Rightarrow> int option result" where
  "manifest_chunk_index item fallback =
     (case int_of_pyval (dget_or item ''chunk_index'' (PInt fallback)) of
        Inr i \<Rightarrow> Inr (Some i)
      | Inl (TypeError _) \<Rightarrow> Inr None
      | Inl (ValueError _) \<Rightarrow> Inr None
      | Inl e \<Rightarrow> Inl e)"

definition legacy_manifest_chunk_id :: "string \<Rightarrow> int \<Rightarrow> pydict \<Rightarrow> string" where
  "legacy_manifest_chunk_id memory_id chunk_index item =
     (let h = py_strip (py_str (dget_or item ''message_hash'' (PStr []))) in
      if h \<noteq> [] then memory_id @ '':'' @ int_str chunk_index @ '':'' @ h
      else memory_id @ '':'' @ int_str chunk_index)"

definition or_empty :: "pydict \<Rightarrow> string \<Rightarrow> string" where
  "or_empty d k = (if truthy (dget_none d k) then py_str (dget_none d k) else [])"

definition repaired_chunk_id :: "string \<Rightarrow> pydict \<Rightarrow> int \<Rightarrow> (int \<times> string) list \<Rightarrow> string" where
  "repaired_chunk_id memory_id item chunk_index by_index =
     (if or_empty item ''chunk_id'' \<noteq> [] then or_empty item ''chunk_id''
      else case map_of by_index chunk_index of
             Some (c # cs) \<Rightarrow> c # cs
           | _ \<Rightarrow> legacy_manifest_chunk_id memory_id chunk_index item)"

definition manifest_chunk_for_index_repair ::
    "string \<Rightarrow> pydict \<Rightarrow> int \<Rightarrow> (int \<times> string) list \<Rightarrow> pydict option result" where
  "manifest_chunk_for_index_repair memory_id item fallback by_index =
     bind_result (manifest_chunk_index item fallback) (\<lambda>chunk_index.
     Inr (case chunk_index of
            None \<Rightarrow> None
          | Some i \<Rightarrow> Some
              [(''chunk_id'', PStr (repaired_chunk_id memory_id item i by_index)),
               (''chunk_index'', PInt i),
               (''message_hash'', PStr (py_str (dget_or item ''message_hash'' (PStr [])))),
               (''role'', PStr (py_str (dget_or item ''role'' (PStr [])))),
               (''text'', PStr (py_str (dget_or item ''text'' (PStr [])))),
               (''index_state'', PStr (py_str (dget_or item ''index_state'' (PStr ''pending_index''))))]))"

definition repair_item ::
    "string \<Rightarrow> string list \<Rightarrow> identity_set \<Rightarrow> (int \<times> string) list \<Rightarrow> nat \<times> pydict \<Rightarrow> pydict list \<Rightarrow>
     pydict list result" where
  "repair_item memory_id indexed targets by_index ni done =
     bind_result (if indexed = [] then Inr True else identity_matches targets (snd ni)) (\<lambda>hit.
     if \<not> hit then Inr done
     else bind_result (manifest_chunk_for_index_repair memory_id (snd ni) (int (fst ni)) by_index) (\<lambda>chunk.
       Inr (case chunk of None \<Rightarrow> done | Some d \<Rightarrow> done @ [d])))"

text \<open>\<open>indexed\<close> is the set \<open>indexed_chunk_ids\<close> as a list, empty for \<open>None\<close>.\<close>

definition manifest_chunks_for_index_repair :: "pydict \<Rightarrow> string list \<Rightarrow> pydict list result" where
  "manifest_chunks_for_index_repair c indexed =
     (let ids = sort (remdups indexed) in
      bind_result (from_chunk_ids ids) (\<lambda>targets.
      bind_result (index_chunk_ids_by_chunk_index ids) (\<lambda>by_index.
      fold_result (repair_item (py_str (dget_or c ''id'' (PStr []))) ids targets by_index)
        (List.enumerate 0 (index_chunk_manifest c)) [])))"

section \<open>Setting the state of chunks\<close>

record manifest_scan =
  ms_items :: "pyval list"
  ms_ids :: "string list"
  ms_indexes :: "int list"

definition set_item_state ::
    "identity_set \<Rightarrow> (int \<times> string) list \<Rightarrow> index_state \<Rightarrow> pyval \<Rightarrow> manifest_scan \<Rightarrow> manifest_scan result" where
  "set_item_state targets by_index state item s =
     (case item of
        PDict d \<Rightarrow>
          bind_result (identity_matches targets d) (\<lambda>hit.
          if \<not> hit then Inr (s\<lparr>ms_items := ms_items s @ [item]\<rparr>)
          else bind_result (manifest_chunk_index d (-1)) (\<lambda>chunk_index.
            let cid = py_str (dget_or d ''chunk_id'' (PStr []));
                found = (case chunk_index of Some i \<Rightarrow> map_of by_index i | None \<Rightarrow> None);
                d1 = (if cid = [] then (case found of Some f \<Rightarrow> dset d ''chunk_id'' (PStr f) | None \<Rightarrow> d) else d);
                cid1 = (if cid = [] then (case found of Some f \<Rightarrow> f | None \<Rightarrow> cid) else cid)
            in Inr \<lparr>ms_items = ms_items s @ [PDict (dset d1 ''index_state'' (PStr (state_value state)))],
                 ms_ids = (if cid1 \<noteq> [] then ms_ids s @ [cid1] else ms_ids s),
                 ms_indexes = (case chunk_index of Some i \<Rightarrow> ms_indexes s @ [i] | None \<Rightarrow> ms_indexes s)\<rparr>))
      | _ \<Rightarrow> Inr (s\<lparr>ms_items := ms_items s @ [item]\<rparr>))"

definition with_state :: "index_state \<Rightarrow> pydict \<Rightarrow> pydict" where
  "with_state state chunk = dset chunk ''index_state'' (PStr (state_value state))"

definition missing_chunk :: "manifest_scan \<Rightarrow> pydict \<Rightarrow> bool result" where
  "missing_chunk s chunk =
     bind_result (ditem chunk ''chunk_id'') (\<lambda>cid.
     if py_str cid \<in> set (ms_ids s) then Inr False
     else bind_result (bind_result (ditem chunk ''chunk_index'') int_of_pyval) (\<lambda>i.
       Inr (i \<notin> set (ms_indexes s))))"

definition missing_chunks :: "manifest_scan \<Rightarrow> pydict list \<Rightarrow> pydict list result" where
  "missing_chunks s cs =
     fold_result (\<lambda>chunk acc. bind_result (missing_chunk s chunk) (\<lambda>b. Inr (if b then acc @ [chunk] else acc))) cs []"

text \<open>The changed conversation and the changed chunks.\<close>

definition set_index_chunks_state :: "pydict \<Rightarrow> pydict list \<Rightarrow> index_state \<Rightarrow> (pydict \<times> pydict list) result" where
  "set_index_chunks_state c cs state =
     (let cs1 = map (with_state state) cs; m = ensure_metadata c in
      case dget_none m ''index_chunks'' of
        PList existing \<Rightarrow>
          bind_result (map_result (\<lambda>d. bind_result (ditem d ''chunk_id'') (\<lambda>v. Inr (py_str v))) cs1) (\<lambda>ids.
          bind_result (from_chunk_ids ids) (\<lambda>targets.
          bind_result (index_chunk_ids_by_chunk_index ids) (\<lambda>by_index.
          bind_result (fold_result (set_item_state targets by_index state) existing
              \<lparr>ms_items = [], ms_ids = [], ms_indexes = []\<rparr>) (\<lambda>s.
          let c1 = dset c ''metadata'' (PDict (dset m ''index_chunks'' (PList (ms_items s)))) in
          bind_result (missing_chunks s cs1) (\<lambda>missing.
          if missing = [] then Inr (c1, cs1)
          else bind_result (extend_index_chunks c1 missing) (\<lambda>c2. Inr (c2, cs1)))))))
      | _ \<Rightarrow> bind_result (attach_index_chunks c cs1) (\<lambda>c1. Inr (c1, cs1)))"

end
