(* ===== verification/Enrichment.thy ===== *)
theory Enrichment
  imports ThreadModels AppendDelta Regex
begin

text \<open>
  Topics and automatic tags of a conversation (\<open>enrich_topics\<close>, \<open>enrich_auto_tags\<close> in
  \<^verbatim>\<open>memory/ingestion/mvp_ingestion.py\<close>). The facts that \<open>extract_facts\<close> finds in the conversation
  are an argument.
\<close>

section \<open>Topics\<close>

definition word_rx :: "rx list \<Rightarrow> rx" where
  "word_rx rs = rseq [RWordB, ralt rs, RWordB]"

definition TOPIC_PATTERNS :: "(string \<times> rx) list" where
  "TOPIC_PATTERNS =
     [(''python'', word_rx [rlit_ci ''python'']),
      (''javascript'', word_rx [rlit_ci ''javascript'', rlit_ci ''js'',
         rseq [rlit_ci ''node'', ropt (rlit ''.''), rlit_ci ''js''], rlit_ci ''typescript'', rlit_ci ''ts'']),
      (''sql'', word_rx (map rlit_ci [''sql'', ''sqlite'', ''postgres'', ''mysql'', ''database'', ''db''])),
      (''api'', word_rx (map rlit_ci [''api'', ''rest'', ''endpoint'', ''http'', ''json-rpc''])),
      (''mcp'', word_rx (map rlit_ci [''mcp'', ''model context protocol''])),
      (''docker'', word_rx (map rlit_ci [''docker'', ''container'', ''kubernetes'', ''k8s''])),
      (''testing'', word_rx (map rlit_ci [''test'', ''tests'', ''pytest'', ''unit test'', ''integration test''])),
      (''machine-learning'', word_rx (map rlit_ci [''ai'', ''llm'', ''rag'', ''embedding'', ''vector''])),
      (''frontend'', word_rx (map rlit_ci [''frontend'', ''ui'', ''css'', ''html'', ''react'', ''vue'', ''angular''])),
      (''backend'', word_rx (map rlit_ci [''backend'', ''fastapi'', ''flask'', ''server'']))]"

text \<open>\<open>str(message.get("text", ""))\<close>: a message that is not a dictionary raises.\<close>

definition message_text :: "pyval \<Rightarrow> string result" where
  "message_text m =
     (case m of
        PDict d \<Rightarrow> Inr (py_str (dget_or d ''text'' (PStr [])))
      | _ \<Rightarrow> Inl (AttributeError ''get''))"

definition infer_topics :: "pyval list \<Rightarrow> string list result" where
  "infer_topics ms =
     bind_result (map_result message_text ms) (\<lambda>texts.
     let blob = join_with '' '' texts in
     Inr (map fst (filter (\<lambda>(topic, r). rx_matches r blob) TOPIC_PATTERNS)))"

definition enrich_topics :: "pydict \<Rightarrow> pydict result" where
  "enrich_topics c =
     (case dget_none c ''metadata'' of
        PDict m \<Rightarrow>
          bind_result (message_list_copy c) (\<lambda>ms.
          bind_result (infer_topics ms) (\<lambda>inferred.
          let existing = dget_none m ''topics'' in
          if inferred = [] \<and> as_list existing = None then Inr c
          else Inr (dset c ''metadata'' (PDict (dset m ''topics''
                 (PList (map PStr (unique_in_order [] (str_items existing @ inferred)))))))))
      | _ \<Rightarrow> Inr c)"

section \<open>Automatic tags\<close>

definition tag_char :: "char \<Rightarrow> bool" where
  "tag_char c \<longleftrightarrow> ascii_alnum c \<or> one_of '':_-'' c"

definition normalize_auto_tag :: "string \<Rightarrow> string" where
  "normalize_auto_tag value =
     (let dashed = rx_sub (rplus (RChar (\<lambda>c. \<not> tag_char c))) (\<lambda>c. ''-'') [] (py_lower (py_strip value));
          single = rx_sub (rmin 2 (RChar (\<lambda>c. c = CHR ''-''))) (\<lambda>c. ''-'') [] dashed
      in take 80 (strip_chars (one_of ''-_:'') single))"

text \<open>The dictionary \<open>tag_sources\<close> in insertion order.\<close>

type_synonym tag_sources = "(string \<times> string list) list"

fun tag_add :: "string \<Rightarrow> string \<Rightarrow> tag_sources \<Rightarrow> tag_sources" where
  "tag_add tag source [] = [(tag, [source])]"
| "tag_add tag source ((t, ss) # rest) =
     (if t = tag then (t, if source \<in> set ss then ss else ss @ [source]) # rest
      else (t, ss) # tag_add tag source rest)"

definition add_auto_tag :: "string \<times> string \<Rightarrow> tag_sources \<Rightarrow> tag_sources" where
  "add_auto_tag ts sources =
     (let normalized = normalize_auto_tag (fst ts) in
      if normalized = [] then sources else tag_add normalized (snd ts) sources)"

definition auto_tags_from_source :: "pydict \<Rightarrow> string list" where
  "auto_tags_from_source c =
     (let source = py_strip (py_str (dget_or c ''source'' (PStr [])))
      in if source \<noteq> [] then [''source:'' @ source] else [])"

definition auto_tags_from_topics :: "pydict \<Rightarrow> string list" where
  "auto_tags_from_topics m = str_items (dget_none m ''topics'')"

definition NAME_RX :: rx where
  "NAME_RX =
     (let upper = RChar (\<lambda>c. chr_in 65 90 c); name = rseq [upper, rplus (RChar ascii_alnum)]
      in rseq [RWordB, name, rrange 1 4 (rseq [rplus (RChar py_space), name]), RWordB])"

definition entity_names :: "pyval \<Rightarrow> string list" where
  "entity_names message =
     (case message of
        PDict d \<Rightarrow> (case dget_none d ''text'' of PStr s \<Rightarrow> rx_findall NAME_RX [] s | _ \<Rightarrow> [])
      | _ \<Rightarrow> [])"

definition auto_tags_from_entities :: "pydict \<Rightarrow> string list result" where
  "auto_tags_from_entities c =
     bind_result (message_list_copy c) (\<lambda>ms.
     Inr ((case dget_none c ''title'' of PStr s \<Rightarrow> [s] | _ \<Rightarrow> []) @ concat (map entity_names ms)))"

definition auto_tags_from_fact_predicates :: "pydict list \<Rightarrow> string list" where
  "auto_tags_from_fact_predicates facts =
     map (\<lambda>p. ''fact:'' @ p) (sort (remdups (map (\<lambda>f. py_str (dget_none f ''predicate''))
       (filter (\<lambda>f. truthy (dget_none f ''predicate'')) facts))))"

definition manual_tag_set :: "pydict \<Rightarrow> string list" where
  "manual_tag_set m = map normalize_auto_tag (str_items (dget_none m ''tags''))"

definition MAX_AUTO_TAGS :: nat where
  "MAX_AUTO_TAGS = 24"

definition enrich_auto_tags :: "pydict list \<Rightarrow> pydict \<Rightarrow> pydict result" where
  "enrich_auto_tags facts c =
     (case dget_none c ''metadata'' of
        PDict m \<Rightarrow>
          bind_result (auto_tags_from_entities c) (\<lambda>entities.
          let tagged = map (\<lambda>t. (t, ''source'')) (auto_tags_from_source c)
                @ map (\<lambda>t. (t, ''topic'')) (auto_tags_from_topics m)
                @ map (\<lambda>t. (t, ''entity'')) entities
                @ map (\<lambda>t. (t, ''fact_predicate'')) (auto_tags_from_fact_predicates facts);
              sources = fold add_auto_tag tagged [];
              auto = take MAX_AUTO_TAGS (filter (\<lambda>(t, ss). t \<notin> set (manual_tag_set m)) sources)
          in Inr (dset c ''metadata'' (PDict (dset (dset m ''auto_tags'' (PList (map (\<lambda>(t, ss). PStr t) auto)))
                ''tag_sources'' (PDict (map (\<lambda>(t, ss). (t, PList (map PStr ss))) auto))))))
      | _ \<Rightarrow> Inr c)"

section \<open>Lemmas\<close>

lemma keys_tag_add: "fst ` set (tag_add t s xs) = insert t (fst ` set xs)"
  by (induction t s xs rule: tag_add.induct) auto

lemma distinct_tag_add: "distinct (map fst xs) \<Longrightarrow> distinct (map fst (tag_add t s xs))"
proof (induction t s xs rule: tag_add.induct)
  case (2 tag source t ss rest)
  then show ?case using keys_tag_add [of tag source rest] by auto
qed simp

lemma distinct_auto_tags: "distinct (map fst xs) \<Longrightarrow> distinct (map fst (fold add_auto_tag ts xs))"
  by (induction ts arbitrary: xs) (auto simp: add_auto_tag_def Let_def intro: distinct_tag_add)

text \<open>Enrichment touches only \<open>topics\<close>, \<open>auto_tags\<close> and \<open>tag_sources\<close> of the metadata.\<close>

lemma enrich_topics_frame:
  assumes "enrich_topics c = Inr c'" "dget_none c ''metadata'' = PDict m"
  obtains m' where "c' = dset c ''metadata'' (PDict m')"
    "\<And>k. k \<noteq> ''topics'' \<Longrightarrow> dget m' k = dget m k"
proof -
  have same: "c = dset c ''metadata'' (PDict m)"
    using assms(2) by (auto simp: dget_none_def dget_or_def dset_same split: option.splits)
  show thesis
  proof (cases "c' = c")
    case True
    then show thesis using that [of m] same by simp
  next
    case False
    with assms obtain v where "c' = dset c ''metadata'' (PDict (dset m ''topics'' v))"
      by (auto simp: enrich_topics_def Let_def result_simps split: if_splits)
    then show thesis using that [of "dset m ''topics'' v"] by simp
  qed
qed

lemma enrich_auto_tags_frame:
  assumes "enrich_auto_tags fs c = Inr c'" "dget_none c ''metadata'' = PDict m"
  obtains m' where "c' = dset c ''metadata'' (PDict m')"
    "\<And>k. k \<noteq> ''auto_tags'' \<Longrightarrow> k \<noteq> ''tag_sources'' \<Longrightarrow> dget m' k = dget m k"
proof -
  from assms obtain v w where "c' = dset c ''metadata'' (PDict (dset (dset m ''auto_tags'' v) ''tag_sources'' w))"
    by (auto simp: enrich_auto_tags_def Let_def result_simps)
  then show thesis using that [of "dset (dset m ''auto_tags'' v) ''tag_sources'' w"] by simp
qed

end
