(* ===== verification/Summaries.thy ===== *)
theory Summaries
  imports Enrichment AuditStore MemoryAccess
begin

text \<open>
  Generated summaries of a conversation, its topics and its project
  (\<open>_attach_generated_summaries\<close> of \<^verbatim>\<open>memory/ingestion/mvp_ingestion.py\<close>, with the models of
  \<^verbatim>\<open>memory/ingestion/summary_models.py\<close>, whose \<open>model_dump\<close> lists the declared fields in order).
\<close>

section \<open>Summary text\<close>

definition truncate_summary_text :: "int \<Rightarrow> string \<Rightarrow> string" where
  "truncate_summary_text limit s =
     (let value = join_with '' '' (split_ws (py_strip s)) in
      if int (length value) \<le> limit then value
      else rev (dropWhile py_space (rev (take (nat (limit - 1)) value))) @ ''...'')"

text \<open>\<open>re.split(r"(?<=[.!?])\\s+", value, maxsplit=1)[0]\<close>.\<close>

fun first_sentence :: "bool \<Rightarrow> string \<Rightarrow> string" where
  "first_sentence after_end [] = []"
| "first_sentence after_end (c # cs) =
     (if after_end \<and> py_space c then [] else c # first_sentence (one_of ''.!?'' c) cs)"

definition compact_summary_text :: "string \<Rightarrow> string" where
  "compact_summary_text s =
     (let value = join_with '' '' (split_ws (py_strip s)) in
      if value = [] then [] else truncate_summary_text 220 (first_sentence False value))"

definition conversation_topics :: "pydict \<Rightarrow> string list" where
  "conversation_topics c =
     (case metadata_of c of None \<Rightarrow> [] | Some m \<Rightarrow> unique_strings (str_items (dget_none m ''topics'')))"

definition message_indexes :: "pydict \<Rightarrow> pyval list" where
  "message_indexes c =
     (case dget_or c ''messages'' (PList []) of
        PList ms \<Rightarrow> map (\<lambda>i. PInt (int i)) [0..<length ms]
      | _ \<Rightarrow> [])"

definition str_or :: "pyval \<Rightarrow> string \<Rightarrow> string" where
  "str_or v d = (if truthy v then py_str v else d)"

definition conversation_summary_subject :: "pydict \<Rightarrow> string" where
  "conversation_summary_subject c =
     (let title = py_strip (str_or (dget_none c ''title'') []); topics = conversation_topics c in
      if title \<noteq> [] then title
      else if topics \<noteq> [] then ''Conversation about '' @ join_with '', '' (take 4 topics)
      else py_strip (str_or (dget_none c ''source'') ''conversation'') @ '' conversation'')"

definition message_snippet :: "pyval \<Rightarrow> string option" where
  "message_snippet message =
     (case message of
        PDict d \<Rightarrow>
          (let role = py_strip (py_str (dget_or d ''role'' (PStr [])));
               t = compact_summary_text (py_str (dget_or d ''text'' (PStr [])))
           in if t = [] then None
              else Some ((if role = [] then ''message'' else role) @ '': '' @ t))
      | _ \<Rightarrow> None)"

definition conversation_summary_text :: "pydict \<Rightarrow> string" where
  "conversation_summary_text c =
     (let snippets = (case dget_or c ''messages'' (PList []) of
            PList ms \<Rightarrow> take 3 (List.map_filter message_snippet ms) | _ \<Rightarrow> []);
          body = (if snippets \<noteq> [] then join_with ''; '' snippets else ''No message text was available.'')
      in truncate_summary_text 600 (conversation_summary_subject c @ '': '' @ body))"

section \<open>Summary records\<close>

definition generated_summary_id ::
    "store_env \<Rightarrow> string \<Rightarrow> string \<Rightarrow> string option \<Rightarrow> pydict \<Rightarrow> string" where
  "generated_summary_id env summary_type target_id project_id flts =
     ''summary:'' @ take 32 (env_sha256 env (json_dumps (PDict
       [(''type'', PStr summary_type), (''target_id'', PStr target_id), (''project_id'', of_opt project_id),
        (''filters'', PDict (sort_key fst (filter (\<lambda>kv. snd kv \<noteq> PNone) flts)))])))"

definition optional_string :: "pyval \<Rightarrow> pyval" where
  "optional_string v = (if v = PNone then PNone else PStr (py_str v))"

definition summary_provenance :: "pydict \<Rightarrow> pydict" where
  "summary_provenance c =
     (let cid = PStr (conv_id c) in
      [(''fact_id'', PNone), (''conversation_id'', cid), (''predicate'', PNone),
       (''source'', optional_string (dget_none c ''source'')), (''title'', optional_string (dget_none c ''title'')),
       (''source_conversation_id'', cid), (''source_message_indexes'', PList (message_indexes c)),
       (''last_confirmed_at'', PNone)])"

definition generated_summary ::
    "string \<times> string \<times> string \<Rightarrow> string option \<Rightarrow> string option \<Rightarrow> string \<Rightarrow> string \<Rightarrow> pydict \<Rightarrow> pydict \<Rightarrow> clock \<Rightarrow> pydict" where
  "generated_summary ident project_id owner_id t basis flts c at =
     (let (sid, summary_type, target) = ident in
      [(''id'', PStr sid), (''type'', PStr summary_type), (''target_id'', PStr target),
       (''project_id'', of_opt project_id), (''owner_id'', of_opt owner_id), (''text'', PStr t),
       (''basis'', PStr basis), (''provenance_status'', PStr ''conversation_ids''), (''fact_count'', PInt 0),
       (''active_fact_count'', PInt 0), (''freshest_at'', PNone), (''source_quality_counts'', PDict []),
       (''confidence_counts'', PDict []), (''filters'', PDict flts),
       (''provenance'', PList [PDict (summary_provenance c)]), (''generated_at'', PStr at)])"

definition conversation_summary ::
    "store_env \<Rightarrow> clock \<Rightarrow> string option \<Rightarrow> string option \<Rightarrow> pydict \<Rightarrow> pydict" where
  "conversation_summary env at owner_id project_id c =
     generated_summary (generated_summary_id env ''conversation'' (conv_id c) project_id [], ''conversation'', conv_id c)
       project_id owner_id (conversation_summary_text c) ''conversation_messages'' [] c at"

definition topic_summary ::
    "store_env \<Rightarrow> clock \<Rightarrow> string option \<Rightarrow> string option \<Rightarrow> string \<Rightarrow> pydict \<Rightarrow> string \<Rightarrow> pydict" where
  "topic_summary env at owner_id project_id summary_text c topic =
     generated_summary
       (generated_summary_id env ''topic'' topic project_id [(''conversation_id'', PStr (conv_id c))], ''topic'', topic)
       project_id owner_id (topic @ '': '' @ summary_text) ''topic_conversations''
       [(''topic'', PStr topic), (''conversation_id'', PStr (conv_id c))] c at"

definition project_summary ::
    "store_env \<Rightarrow> clock \<Rightarrow> string option \<Rightarrow> string option \<Rightarrow> string \<Rightarrow> pydict \<Rightarrow> pydict" where
  "project_summary env at owner_id project_id summary_text c =
     (let target = (case project_id of Some (x # xs) \<Rightarrow> x # xs | _ \<Rightarrow> LOCAL_DEFAULT_PROJECT_ID) in
      generated_summary
        (generated_summary_id env ''project'' target project_id [(''conversation_id'', PStr (conv_id c))], ''project'', target)
        project_id owner_id (target @ '': '' @ summary_text) ''project_conversations''
        [(''conversation_id'', PStr (conv_id c))] c at)"

section \<open>Attaching summaries to a conversation\<close>

text \<open>
  \<open>clk n\<close> is the clock at its \<open>n\<close>-th reading. The summaries in the order they are stored: the
  conversation's, one per topic, the project's.
\<close>

definition topic_summaries ::
    "store_env \<Rightarrow> (nat \<Rightarrow> clock) \<Rightarrow> string option \<Rightarrow> string option \<Rightarrow> pydict \<Rightarrow> pydict list" where
  "topic_summaries env clk owner_id project_id c =
     map (\<lambda>(n, topic). topic_summary env (clk n) owner_id project_id (conversation_summary_text c) c topic)
       (List.enumerate 1 (conversation_topics c))"

definition summaries_of ::
    "store_env \<Rightarrow> (nat \<Rightarrow> clock) \<Rightarrow> string option \<Rightarrow> string option \<Rightarrow> pydict \<Rightarrow> pydict list" where
  "summaries_of env clk owner_id project_id c =
     conversation_summary env (clk 0) owner_id project_id c
       # topic_summaries env clk owner_id project_id c
       @ [project_summary env (clk (Suc (length (conversation_topics c)))) owner_id project_id
            (conversation_summary_text c) c]"

definition summary_metadata :: "pydict \<Rightarrow> pydict" where
  "summary_metadata s =
     map (\<lambda>k. (k, dget_none s k)) [''id'', ''type'', ''text'', ''basis'', ''provenance_status'', ''generated_at'']"

definition with_summaries ::
    "store_env \<Rightarrow> (nat \<Rightarrow> clock) \<Rightarrow> string option \<Rightarrow> string option \<Rightarrow> pydict \<Rightarrow> pydict" where
  "with_summaries env clk owner_id project_id c =
     (let ss = summaries_of env clk owner_id project_id c;
          m1 = dset (ensure_metadata c) ''generated_summary'' (PDict (summary_metadata (hd ss)));
          m2 = dset m1 ''generated_topic_summary_ids''
                 (PList (map (\<lambda>s. dget_none s ''id'') (topic_summaries env clk owner_id project_id c)))
      in dset c ''metadata'' (PDict (dset m2 ''generated_project_summary_id'' (dget_none (last ss) ''id''))))"

definition store_summaries :: "clock \<Rightarrow> pydict list \<Rightarrow> summary_row list \<Rightarrow> summary_row list result" where
  "store_summaries now ss rows =
     fold_result (\<lambda>s rows. bind_result (upsert_generated_summary now s rows) (\<lambda>r. Inr (snd r))) ss rows"

section \<open>Lemmas\<close>

text \<open>A truncated text can be two characters longer than its limit.\<close>

lemma truncate_summary_length: "1 \<le> limit \<Longrightarrow> int (length (truncate_summary_text limit s)) \<le> limit + 2"
proof -
  assume lim: "1 \<le> limit"
  have "length (dropWhile p (rev xs)) \<le> length xs" for p and xs :: string
    using length_dropWhile_le [of p "rev xs"] by simp
  then have "length (dropWhile py_space (rev (take (nat (limit - 1)) v))) \<le> nat (limit - 1)" for v
    by (metis (no_types, lifting) le_trans length_take min.cobounded2)
  then show ?thesis using lim by (auto simp: truncate_summary_text_def Let_def) (smt (verit) nat_eq_iff of_nat_mono)
qed

lemma text_column_of_opt [simp]: "text_column (of_opt x) = Inr x"
  by (cases x) (simp_all add: text_column_def of_opt_def)

lemma summary_store_total:
  "\<exists>rows'. upsert_generated_summary now (generated_summary i p w t b f c at) rows = Inr (fst i, rows')"
  by (cases i) (simp add: generated_summary_def upsert_generated_summary_def str_item_def text_item_def
      ditem_def dget_none_def dget_or_def)

lemma with_summaries_frame:
  obtains m where "with_summaries env clk w p c = dset c ''metadata'' (PDict m)"
    "\<And>k. k \<noteq> ''generated_summary'' \<Longrightarrow> k \<noteq> ''generated_topic_summary_ids'' \<Longrightarrow>
       k \<noteq> ''generated_project_summary_id'' \<Longrightarrow> dget m k = dget (ensure_metadata c) k"
proof (rule that)
  show "with_summaries env clk w p c = dset c ''metadata'' (PDict (dset (dset (dset (ensure_metadata c)
      ''generated_summary'' (PDict (summary_metadata (hd (summaries_of env clk w p c)))))
      ''generated_topic_summary_ids'' (PList (map (\<lambda>s. dget_none s ''id'') (topic_summaries env clk w p c))))
      ''generated_project_summary_id'' (dget_none (last (summaries_of env clk w p c)) ''id'')))"
    by (simp only: with_summaries_def Let_def)
qed simp

end
