(* ===== verification/Pipeline.thy ===== *)
theory Pipeline
  imports Effects IndexRepair Summaries FactStore Normalize SensitiveScan
begin

text \<open>
  The runtime behind the ingestion functions (\<open>RuntimeDependencies\<close> and the helpers around the metadata
  store, the vector store and the audit log in \<^verbatim>\<open>memory/ingestion/mvp_ingestion.py\<close>). A store operation
  is a transaction: it commits or leaves its tables alone. A function of the pipeline runs several of
  them, so what it did before it raised stays; it is an action that gives its outcome and the state it
  leaves. The metadata store is the SQLite one, which has every operation the code probes for with
  \<open>hasattr\<close>. The vector store is given by its operations, over a state of its own.
\<close>

section \<open>State and actions\<close>

record 'v vector_ops =
  vo_insert :: "string \<Rightarrow> pydict list \<Rightarrow> bool \<Rightarrow> 'v \<Rightarrow> unit result \<times> 'v"
  vo_chunk_ids :: "(string \<Rightarrow> 'v \<Rightarrow> string list result) option" \<comment> \<open>\<open>get_indexed_chunk_ids\<close>, when there is one\<close>

record 'v runtime =
  rt_env :: ingest_env
  rt_encodings :: encodings
  rt_chunking :: chunk_config
  rt_embedder :: embedder
  rt_vectors :: "'v vector_ops"
  rt_vector_provider :: string
  rt_trusted_appends :: bool
  rt_facts :: "pydict \<Rightarrow> pyval list \<Rightarrow> nat \<Rightarrow> pydict list result" \<comment> \<open>\<open>extract_facts_from_messages\<close>\<close>
  rt_graph :: "pydict \<Rightarrow> pyval list \<Rightarrow> nat \<Rightarrow> (nat \<times> nat) result" \<comment> \<open>entities and relationships stored\<close>
  rt_now :: "nat \<Rightarrow> clock" \<comment> \<open>\<open>_utc_now_iso()\<close> at its n-th reading\<close>
  rt_sql_now :: "nat \<Rightarrow> clock" \<comment> \<open>\<open>CURRENT_TIMESTAMP\<close>\<close>
  rt_uuid :: "nat \<Rightarrow> string"
  rt_surface :: string
  rt_request :: "string option"

record 'v hub =
  hub_mem :: mem_db
  hub_facts :: "fact_row list"
  hub_summaries :: "summary_row list"
  hub_audit :: "audit_row list"
  hub_vectors :: 'v
  hub_ticks :: nat

type_synonym ('a, 'v) act = "('a, 'v hub) eff"

definition act_tick :: "(nat, 'v) act" where
  "act_tick h = (Inr (hub_ticks h), h\<lparr>hub_ticks := Suc (hub_ticks h)\<rparr>)"

text \<open>A transaction on the conversation and account tables.\<close>

definition act_mem :: "(mem_db \<Rightarrow> ('a \<times> mem_db) result) \<Rightarrow> ('a, 'v) act" where
  "act_mem f h = (case f (hub_mem h) of Inl e \<Rightarrow> (Inl e, h) | Inr (x, db) \<Rightarrow> (Inr x, h\<lparr>hub_mem := db\<rparr>))"

definition act_facts :: "(fact_row list \<Rightarrow> fact_row list result) \<Rightarrow> (unit, 'v) act" where
  "act_facts f h = (case f (hub_facts h) of Inl e \<Rightarrow> (Inl e, h) | Inr rows \<Rightarrow> (Inr (), h\<lparr>hub_facts := rows\<rparr>))"

definition act_vectors :: "('v \<Rightarrow> unit result \<times> 'v) \<Rightarrow> (unit, 'v) act" where
  "act_vectors f h = (case f (hub_vectors h) of (r, vs) \<Rightarrow> (r, h\<lparr>hub_vectors := vs\<rparr>))"

definition utc_now :: "'v runtime \<Rightarrow> (clock, 'v) act" where
  "utc_now rt = act_bind act_tick (\<lambda>n. act_ret (rt_now rt n))"

section \<open>The audit log\<close>

record audit_call =
  ac_owner :: "string option"
  ac_project :: "string option"
  ac_memory :: "string option"
  ac_fact :: "string option"
  ac_outcome :: string
  ac_reason :: "string option"
  ac_metadata :: pydict

text \<open>The default arguments of \<open>_record_audit_event\<close>, with the owner and the project of the call.\<close>

definition audit_args :: "string option \<Rightarrow> string option \<Rightarrow> audit_call" where
  "audit_args owner_id project_id =
     \<lparr>ac_owner = owner_id, ac_project = project_id, ac_memory = None, ac_fact = None,
      ac_outcome = ''ok'', ac_reason = None, ac_metadata = []\<rparr>"

definition audit_event :: "'v runtime \<Rightarrow> nat \<Rightarrow> string \<Rightarrow> audit_call \<Rightarrow> pydict" where
  "audit_event rt n event_type a =
     [(''id'', PStr (rt_uuid rt n)), (''event_type'', PStr event_type), (''actor_id'', of_opt (ac_owner a)),
      (''project_id'', of_opt (ac_project a)), (''memory_id'', of_opt (ac_memory a)),
      (''fact_id'', of_opt (ac_fact a)), (''request_id'', of_opt (rt_request rt)),
      (''source_surface'', PStr (rt_surface rt)), (''outcome'', PStr (ac_outcome a)),
      (''reason_code'', of_opt (ac_reason a)), (''metadata'', PDict (ac_metadata a)),
      (''created_at'', PStr (rt_now rt n))]"

text \<open>A failure to persist the event is logged and swallowed.\<close>

definition record_audit_event :: "'v runtime \<Rightarrow> string \<Rightarrow> audit_call \<Rightarrow> (unit, 'v) act" where
  "record_audit_event rt event_type a =
     act_bind act_tick (\<lambda>n h.
       (Inr (), case append_audit_event (ie_store (rt_env rt)) [] (rt_now rt n)
                  (PDict (audit_event rt n event_type a)) (hub_audit h) of
                  Inr (d, rows) \<Rightarrow> h\<lparr>hub_audit := rows\<rparr>
                | Inl e \<Rightarrow> h))"

section \<open>Projects\<close>

definition act_denied :: "'v runtime \<Rightarrow> string option \<Rightarrow> string \<Rightarrow> string \<Rightarrow> string \<Rightarrow> ('a, 'v) act" where
  "act_denied rt owner_id project reason role =
     act_bind (record_audit_event rt ''project.access_denied''
         (audit_args owner_id (Some project)\<lparr>ac_outcome := ''denied'', ac_reason := Some reason,
            ac_metadata := [(''required_role'', PStr role)]\<rparr>)) (\<lambda>_.
     act_of (Inl (PermissionError ''project access denied'')))"

definition resolve_project ::
    "'v runtime \<Rightarrow> string option \<Rightarrow> string option \<Rightarrow> string \<Rightarrow> (string, 'v) act" where
  "resolve_project rt owner_id project_id role =
     (case project_id of
        None \<Rightarrow>
          act_bind act_tick (\<lambda>n.
          act_bind (act_mem (\<lambda>db. bind_result
              (ensure_default_project (ie_store (rt_env rt)) (rt_sql_now rt n) owner_id (accounts db))
              (\<lambda>(p, acc). Inr (p, db\<lparr>accounts := acc\<rparr>)))) (\<lambda>p.
          act_of (bind_result (ditem p ''id'') (\<lambda>i. Inr (py_str i)))))
      | Some p \<Rightarrow>
          act_bind (act_of (validate_project_id p)) (\<lambda>project.
          case owner_id of
            None \<Rightarrow>
              (if project \<noteq> LOCAL_DEFAULT_PROJECT_ID
               then act_denied rt None project ''anonymous_non_default_project'' role
               else act_ret project)
          | Some w \<Rightarrow>
              act_bind (act_read (\<lambda>h. project_has_role project (Some w) role (accounts (hub_mem h)))) (\<lambda>ok.
              if ok then act_ret project
              else act_denied rt (Some w) project ''missing_project_role'' role)))"

section \<open>Lookups\<close>

definition act_get :: "string \<Rightarrow> (pydict option, 'v) act" where
  "act_get memory_id = act_read (\<lambda>h. get_conv (PStr memory_id) (hub_mem h))"

definition lookup_by_conversation_hash :: "string option \<Rightarrow> string option \<Rightarrow> mem_db \<Rightarrow> pydict option" where
  "lookup_by_conversation_hash h project_id db =
     (case h of None \<Rightarrow> None | Some x \<Rightarrow> get_by_conversation_hash (Some x) project_id db)"

definition if_allowed :: "string option \<Rightarrow> string option \<Rightarrow> pydict option \<Rightarrow> pydict option" where
  "if_allowed owner_id project_id c =
     (if c \<noteq> None \<and> conversation_allowed c owner_id project_id then c else None)"

text \<open>\<open>isinstance(v, str) and v\<close>.\<close>

definition text_value :: "pyval \<Rightarrow> string option" where
  "text_value v = (case v of PStr (c # cs) \<Rightarrow> Some (c # cs) | _ \<Rightarrow> None)"

definition lookup_same_thread ::
    "bool \<Rightarrow> pydict \<Rightarrow> string option \<Rightarrow> string option \<Rightarrow> mem_db \<Rightarrow> pydict option result" where
  "lookup_same_thread trusted incoming owner_id project_id db =
     (let meta = (\<lambda>k. case metadata_of incoming of None \<Rightarrow> None | Some m \<Rightarrow> text_value (dget_none m k)) in
      case (meta ''imported_session_identity'', project_id) of
        (Some identity, Some p) \<Rightarrow>
          bind_result (get_by_imported_session identity p db) (\<lambda>c. Inr (if_allowed owner_id project_id c))
      | _ \<Rightarrow>
        (if \<not> trusted then Inr None
         else
           let memory_id = conv_id incoming in
           bind_result (if memory_id = [] then Inr None else get_conv (PStr memory_id) db) (\<lambda>existing.
           case existing of
             Some c \<Rightarrow> Inr (if_allowed owner_id project_id (Some c))
           | None \<Rightarrow>
               (case meta ''upstream_thread_id'' of
                  None \<Rightarrow> Inr None
                | Some up \<Rightarrow> Inr (if_allowed owner_id project_id (get_by_upstream_thread
                      (py_str (dget_or incoming ''source'' (PStr []))) up project_id db))))))"

section \<open>Writing conversations\<close>

text \<open>The conversation comes back as the store stamped it.\<close>

definition insert_new_conversation :: "'v runtime \<Rightarrow> pydict \<Rightarrow> ((string \<times> bool) \<times> pydict, 'v) act" where
  "insert_new_conversation rt c =
     act_bind act_tick (\<lambda>n. act_mem (insert_new (ie_store (rt_env rt)) (rt_sql_now rt n) c))"

definition store_insert :: "'v runtime \<Rightarrow> pydict \<Rightarrow> (string \<times> pydict, 'v) act" where
  "store_insert rt c =
     act_bind act_tick (\<lambda>n. act_mem (insert_conv (ie_store (rt_env rt)) (rt_sql_now rt n) c))"

definition persist_appended_conversation :: "'v runtime \<Rightarrow> pydict \<Rightarrow> pydict \<Rightarrow> (string \<times> pydict, 'v) act" where
  "persist_appended_conversation rt existing updated =
     act_bind act_tick (\<lambda>n.
       act_mem (append_messages (ie_store (rt_env rt)) (rt_sql_now rt n) updated (conv_hash existing)))"

definition store_facts :: "pydict list \<Rightarrow> (unit, 'v) act" where
  "store_facts facts = (if facts = [] then act_ret () else act_facts (insert_facts facts))"

definition store_facts_for_messages ::
    "'v runtime \<Rightarrow> pydict \<Rightarrow> pyval list \<Rightarrow> nat \<Rightarrow> (unit, 'v) act" where
  "store_facts_for_messages rt c ms start_index =
     act_bind (act_of (rt_facts rt c ms start_index)) store_facts"

definition store_facts_for_conversation :: "'v runtime \<Rightarrow> pydict \<Rightarrow> (unit, 'v) act" where
  "store_facts_for_conversation rt c = store_facts_for_messages rt c (message_list c) 0"

definition store_graph_for_conversation :: "'v runtime \<Rightarrow> pydict \<Rightarrow> (nat \<times> nat, 'v) act" where
  "store_graph_for_conversation rt c = act_of (rt_graph rt c (message_list c) 0)"

definition attach_generated_summaries ::
    "'v runtime \<Rightarrow> string option \<Rightarrow> string option \<Rightarrow> pydict \<Rightarrow> (pydict, 'v) act" where
  "attach_generated_summaries rt owner_id project_id c h =
     (let t = hub_ticks h; at = (\<lambda>n. rt_now rt (t + n));
          ss = summaries_of (ie_store (rt_env rt)) at owner_id project_id c;
          h1 = h\<lparr>hub_ticks := t + length ss\<rparr>
      in case store_summaries (rt_sql_now rt t) ss (hub_summaries h) of
           Inl e \<Rightarrow> (Inl e, h1)
         | Inr rows \<Rightarrow> (Inr (with_summaries (ie_store (rt_env rt)) at owner_id project_id c),
             h1\<lparr>hub_summaries := rows\<rparr>))"

section \<open>Vectors and index states\<close>

definition store_vectors :: "'v runtime \<Rightarrow> string \<Rightarrow> pydict list \<Rightarrow> bool \<Rightarrow> (unit, 'v) act" where
  "store_vectors rt memory_id embeddings replace =
     act_vectors (vo_insert (rt_vectors rt) memory_id embeddings replace)"

text \<open>An adapter that raises, or has no such operation, has no known chunks.\<close>

definition vector_indexed_chunk_ids :: "'v runtime \<Rightarrow> string \<Rightarrow> 'v \<Rightarrow> string list" where
  "vector_indexed_chunk_ids rt memory_id vs =
     (case vo_chunk_ids (rt_vectors rt) of
        None \<Rightarrow> []
      | Some g \<Rightarrow> (case g memory_id vs of Inl e \<Rightarrow> [] | Inr ids \<Rightarrow> remdups (filter (\<lambda>i. i \<noteq> []) ids)))"

definition fully_indexed :: "'v runtime \<Rightarrow> string \<Rightarrow> mem_db \<Rightarrow> bool result" where
  "fully_indexed rt memory_id db =
     (if rt_vector_provider rt = ''memory'' then Inr False else is_fully_indexed (PStr memory_id) db)"

definition chunk_ids_of :: "pydict list \<Rightarrow> string list result" where
  "chunk_ids_of cs = map_result (\<lambda>c. bind_result (ditem c ''chunk_id'') (\<lambda>v. Inr (py_str v))) cs"

text \<open>\<open>_mark_chunks_indexed\<close> and \<open>_mark_chunks_indexing_failed\<close>.\<close>

definition mark_chunks :: "string \<Rightarrow> pydict list \<Rightarrow> pydict \<Rightarrow> index_state \<Rightarrow> (pydict, 'v) act" where
  "mark_chunks memory_id cs c state =
     act_bind (act_of (set_index_chunks_state c cs state)) (\<lambda>(c1, cs1).
     act_bind (act_of (chunk_ids_of cs1)) (\<lambda>ids.
     act_bind (act_mem (mark_chunks_state (PStr memory_id) ids state)) (\<lambda>_. act_ret c1)))"

definition duplicate_index_is_complete :: "'v runtime \<Rightarrow> string \<Rightarrow> pydict \<Rightarrow> 'v hub \<Rightarrow> bool result" where
  "duplicate_index_is_complete rt memory_id c h =
     (let manifest = index_chunk_manifest c;
          expected = map (\<lambda>chunk. or_empty chunk ''chunk_id'') manifest
      in if manifest = [] \<or> list_ex (\<lambda>chunk. dget_none chunk ''index_state'' \<noteq> PStr ''indexed'') manifest
         then Inr False
         else if [] \<in> set expected then fully_indexed rt memory_id (hub_mem h)
         else if vo_chunk_ids (rt_vectors rt) \<noteq> None
         then Inr (list_all (\<lambda>i. i \<in> set (vector_indexed_chunk_ids rt memory_id (hub_vectors h))) expected)
         else fully_indexed rt memory_id (hub_mem h))"

definition repair_chunks :: "'v runtime \<Rightarrow> string \<Rightarrow> pydict \<Rightarrow> 'v hub \<Rightarrow> pydict list result" where
  "repair_chunks rt memory_id c h =
     (let ids = vector_indexed_chunk_ids rt memory_id (hub_vectors h) in
      bind_result (if ids \<noteq> [] then manifest_chunks_for_index_repair c ids else Inr []) (\<lambda>cs.
      if cs \<noteq> [] then Inr cs
      else bind_result (fully_indexed rt memory_id (hub_mem h)) (\<lambda>full.
        if full then manifest_chunks_for_index_repair c [] else Inr [])))"

definition repair_retrieved_index_chunks :: "'v runtime \<Rightarrow> string \<Rightarrow> pydict \<Rightarrow> (pydict, 'v) act" where
  "repair_retrieved_index_chunks rt memory_id c =
     (if \<not> has_pending_index_chunks c then act_ret c
      else act_bind (act_read (repair_chunks rt memory_id c)) (\<lambda>cs.
        if cs = [] then act_ret c
        else act_bind (mark_chunks memory_id cs c Indexed) (\<lambda>c1.
             act_bind (act_get memory_id) (\<lambda>refreshed.
             act_ret (case refreshed of Some r \<Rightarrow> r | None \<Rightarrow> c1)))))"

end
