(* ===== verification/Ingest.thy ===== *)
theory Ingest
  imports Pipeline
begin

text \<open>
  Ingestion, quarantine and review of conversations (\<open>validate_messages\<close>, \<open>ingest_messages\<close>,
  \<open>store_pending_review_memory\<close>, \<open>approve_pending_memory\<close>, \<open>reject_pending_memory\<close> of
  \<^verbatim>\<open>memory/ingestion/mvp_ingestion.py\<close>). Other writers run between the look-up of a conversation
  and the append to it: what they do to the tables is an argument, \<open>others\<close>, indexed by the attempt.
\<close>

text \<open>
  Normalisation does not copy the metadata dictionary of its argument, so what ingestion writes into the
  metadata shows in the dictionary that the caller passed. \<open>('v) ingestion\<close> is an action that answers
  with the result and with the conversation that holds this metadata in the end.
\<close>

type_synonym 'v ingestion = "(pydict \<times> pydict, 'v) act"

type_synonym interference = "nat \<Rightarrow> mem_db \<Rightarrow> mem_db"

record scope =
  sc_owner :: "string option"
  sc_project :: "string option"

section \<open>Results\<close>

definition with_graph_counts :: "pydict \<Rightarrow> nat \<times> nat \<Rightarrow> pydict" where
  "with_graph_counts result counts =
     (if fst counts \<noteq> 0 \<or> snd counts \<noteq> 0
      then dset result ''graph'' (PDict [(''entities'', PInt (int (fst counts))), (''relationships'', PInt (int (snd counts)))])
      else result)"

definition inserted_result :: "string \<Rightarrow> bool \<Rightarrow> nat \<Rightarrow> nat \<Rightarrow> pydict" where
  "inserted_result memory_id dedup appended embedded =
     [(''status'', PStr ''ok''), (''id'', PStr memory_id), (''deduplicated'', PBool dedup),
      (''appended_messages'', PInt (int appended)), (''embedded_chunks'', PInt (int embedded)),
      (''chunks'', PInt (int embedded))]"

definition audit_inserted ::
    "'v runtime \<Rightarrow> scope \<Rightarrow> string \<Rightarrow> bool \<Rightarrow> nat \<Rightarrow> nat \<Rightarrow> pydict \<Rightarrow> (unit, 'v) act" where
  "audit_inserted rt sc memory_id dedup appended embedded c =
     record_audit_event rt ''memory.inserted'' (audit_args (sc_owner sc) (sc_project sc)
       \<lparr>ac_memory := Some memory_id, ac_metadata :=
          [(''deduplicated'', PBool dedup), (''appended_messages'', PInt (int appended)),
           (''embedded_chunks'', PInt (int embedded)), (''memory_status'', PStr (memory_status (Some c)))]\<rparr>)"

definition str_id :: "pydict \<Rightarrow> string result" where
  "str_id c = bind_result (ditem c ''id'') (\<lambda>i. Inr (py_str i))"

definition deduplicated_ingestion_result :: "'v runtime \<Rightarrow> scope \<Rightarrow> pydict \<Rightarrow> (pydict, 'v) act" where
  "deduplicated_ingestion_result rt sc c =
     act_bind (act_of (str_id c)) (\<lambda>memory_id.
     act_bind (audit_inserted rt sc memory_id True 0 0 c) (\<lambda>_.
     act_ret (inserted_result memory_id True 0 0)))"

definition stale_snapshot_ingestion_result :: "'v runtime \<Rightarrow> scope \<Rightarrow> pydict \<Rightarrow> (pydict, 'v) act" where
  "stale_snapshot_ingestion_result rt sc c =
     act_bind (act_of (str_id c)) (\<lambda>memory_id.
     act_bind (record_audit_event rt ''memory.inserted'' (audit_args (sc_owner sc) (sc_project sc)
       \<lparr>ac_memory := Some memory_id, ac_metadata :=
          [(''deduplicated'', PBool False), (''stale'', PBool True), (''appended_messages'', PInt 0),
           (''embedded_chunks'', PInt 0), (''memory_status'', PStr (memory_status (Some c)))]\<rparr>)) (\<lambda>_.
     act_ret [(''status'', PStr ''ok''), (''id'', PStr memory_id), (''deduplicated'', PBool False),
       (''stale'', PBool True), (''appended_messages'', PInt 0), (''embedded_chunks'', PInt 0),
       (''chunks'', PInt 0), (''facts'', PInt 0), (''graph_entities'', PInt 0), (''graph_relationships'', PInt 0)]))"

section \<open>Memories under review\<close>

record review =
  rv_status :: string
  rv_received_key :: string
  rv_return :: string
  rv_event :: string
  rv_outcome :: string
  rv_reason :: "string option"
  rv_audit :: pydict

definition unauthorized_update :: "'a result" where
  "unauthorized_update = Inl (ValueError ''unauthorized_update: conversation id already exists'')"

definition check_review_target :: "scope \<Rightarrow> pydict \<Rightarrow> pydict option \<Rightarrow> unit result" where
  "check_review_target sc m existing =
     (case existing of
        None \<Rightarrow> Inr ()
      | Some e \<Rightarrow>
          (if \<not> conversation_authorized (Some e) (sc_owner sc) (sc_project sc) then unauthorized_update
           else bind_result (ditem m ''conversation_hash'') (\<lambda>h.
             if of_opt (conv_hash e) \<noteq> h then unauthorized_update else Inr ())))"

definition store_review_memory :: "'v runtime \<Rightarrow> scope \<Rightarrow> review \<Rightarrow> pydict \<Rightarrow> 'v ingestion" where
  "store_review_memory rt sc rv c =
     act_bind (utc_now rt) (\<lambda>now.
     let m = dset (dset (ensure_metadata c) ''memory_status'' (PStr (rv_status rv))) (rv_received_key rv) (PStr now);
         c1 = dset c ''metadata'' (PDict m) in
     act_bind (act_get (conv_id c1)) (\<lambda>existing.
     act_bind (act_of (check_review_target sc m existing)) (\<lambda>_.
     act_bind (insert_new_conversation rt c1) (\<lambda>((memory_id, inserted), c2).
     act_bind (record_audit_event rt (rv_event rv) (audit_args (sc_owner sc) (sc_project sc)
       \<lparr>ac_memory := Some memory_id, ac_outcome := rv_outcome rv, ac_reason := rv_reason rv, ac_metadata :=
          dupdate [(''memory_status'', PStr (rv_status rv)), (''inserted'', PBool inserted),
            (''embedded_chunks'', PInt 0)] (rv_audit rv)\<rparr>)) (\<lambda>_.
     act_ret ([(''status'', PStr (rv_return rv)), (''id'', PStr memory_id),
       (''memory_status'', PStr (rv_status rv)), (''inserted'', PBool inserted), (''chunks'', PInt 0)], c2))))))"

definition finding_dict :: "finding \<Rightarrow> pydict" where
  "finding_dict f =
     [(''reason_code'', PStr (fi_reason f)), (''location'', PStr (fi_location f)), (''match_hash'', PStr (fi_hash f))]"

definition store_quarantined_memory :: "'v runtime \<Rightarrow> scope \<Rightarrow> finding list \<Rightarrow> pydict \<Rightarrow> 'v ingestion" where
  "store_quarantined_memory rt sc findings c =
     (let reasons = PList (map PStr (unique_strings (map fi_reason findings)));
          m = dset (dset (ensure_metadata c) ''quarantine_reason_codes'' reasons)
                ''quarantine_findings'' (PList (map (\<lambda>f. PDict (finding_dict f)) findings))
      in act_bind (store_review_memory rt sc
           \<lparr>rv_status = ''quarantined'', rv_received_key = ''quarantine_received_at'', rv_return = ''quarantined'',
            rv_event = ''memory.quarantined'', rv_outcome = ''quarantined'', rv_reason = Some ''sensitive_content'',
            rv_audit = [(''reason_codes'', reasons), (''finding_count'', PInt (int (length findings)))]\<rparr>
           (dset c ''metadata'' (PDict m))) (\<lambda>(result, c1).
         act_ret (dset result ''quarantine_reason_codes'' reasons, c1)))"

section \<open>Preparing a conversation\<close>

definition prepare :: "'v runtime \<Rightarrow> scope \<Rightarrow> bool \<Rightarrow> bool \<Rightarrow> pyval \<Rightarrow> (pydict, 'v) act" where
  "prepare rt sc strict imported payload =
     act_bind act_tick (\<lambda>n.
     act_bind (act_of (prepare_incoming (rt_env rt) (rt_now rt n) (rt_uuid rt n) payload strict imported
         (sc_owner sc) (case sc_project sc of Some p \<Rightarrow> p | None \<Rightarrow> []))) (\<lambda>c.
     act_bind (act_of (ie_schema_ok (rt_env rt) c)) (\<lambda>_. act_ret c)))"

definition check_lineage :: "scope \<Rightarrow> pydict \<Rightarrow> (unit, 'v) act" where
  "check_lineage sc c =
     act_read (\<lambda>h. validate_lineage_parent (\<lambda>i. get_conv (PStr i) (hub_mem h)) c (sc_owner sc)
       (case sc_project sc of Some p \<Rightarrow> p | None \<Rightarrow> []))"

definition enrich :: "'v runtime \<Rightarrow> pydict \<Rightarrow> pydict result" where
  "enrich rt c =
     bind_result (enrich_topics c) (\<lambda>c1.
     bind_result (rt_facts rt c1 (message_list c1) 0) (\<lambda>facts. enrich_auto_tags facts c1))"

definition in_scope ::
    "'v runtime \<Rightarrow> string option \<Rightarrow> string option \<Rightarrow> (scope \<Rightarrow> ('a, 'v) act) \<Rightarrow> ('a, 'v) act" where
  "in_scope rt owner_id project_id f =
     act_bind (resolve_project rt owner_id project_id ''writer'') (\<lambda>p.
     f \<lparr>sc_owner = owner_id, sc_project = Some p\<rparr>)"

definition validate_messages ::
    "'v runtime \<Rightarrow> bool \<Rightarrow> string option \<Rightarrow> string option \<Rightarrow> pyval \<Rightarrow> (unit, 'v) act" where
  "validate_messages rt strict owner_id project_id payload =
     in_scope rt owner_id project_id (\<lambda>sc.
     act_bind (prepare rt sc strict True payload) (check_lineage sc))"

section \<open>Indexing\<close>

text \<open>Embed and write vectors; on any error the chunks are marked as failed and the error goes on.\<close>

definition index_conversation ::
    "'v runtime \<Rightarrow> scope \<Rightarrow> string \<Rightarrow> pydict \<Rightarrow> pydict list \<Rightarrow> bool \<Rightarrow> (pydict, 'v) act" where
  "index_conversation rt sc memory_id c cs replace =
     act_on_error
       (act_bind (act_of (embed_chunks (rt_embedder rt) cs (sc_project sc) (sc_owner sc))) (\<lambda>embeddings.
        act_bind (store_vectors rt memory_id embeddings replace) (\<lambda>_.
        mark_chunks memory_id cs c Indexed)))
       (act_bind (mark_chunks memory_id cs c Failed) (\<lambda>_. act_ret ()))"

section \<open>Appending to the same thread\<close>

definition MAX_APPEND_ATTEMPTS :: nat where
  "MAX_APPEND_ATTEMPTS = 3"

text \<open>One attempt: the updated conversation, its new chunks, and the index of the first new message.\<close>

definition build_append ::
    "'v runtime \<Rightarrow> pydict \<Rightarrow> pydict \<Rightarrow> append_delta \<Rightarrow> (pydict \<times> pydict list \<times> nat) result" where
  "build_append rt same incoming delta =
     (let start = length (message_list same) in
      bind_result (append_conversation (rt_env rt) same incoming (ad_messages delta) (ad_covers delta)) (\<lambda>u.
      bind_result (enrich rt u) (\<lambda>u1.
      bind_result (next_chunk_index u1 (int start)) (\<lambda>k.
      bind_result (chunk_selected_messages (rt_encodings rt) (rt_chunking rt) u1 (PList (ad_messages delta)) k) (\<lambda>cs.
      bind_result (extend_index_chunks u1 cs) (\<lambda>u2. Inr (u2, cs, start)))))))"

text \<open>\<open>try: m except ConcurrentAppendError: k else: f\<close>.\<close>

definition act_on_conflict ::
    "('a, 'v) act \<Rightarrow> ('a \<Rightarrow> ('b, 'v) act) \<Rightarrow> ('b, 'v) act \<Rightarrow> ('b, 'v) act" where
  "act_on_conflict m f k h =
     (case m h of
        (Inr x, h1) \<Rightarrow> f x h1
      | (Inl (ConcurrentAppendError s), h1) \<Rightarrow> k h1
      | (Inl e, h1) \<Rightarrow> (Inl e, h1))"

text \<open>A later append owns the transcript: the refresh of the summaries gives way to it.\<close>

definition persist_summaries :: "'v runtime \<Rightarrow> pydict \<Rightarrow> (unit, 'v) act" where
  "persist_summaries rt c =
     act_on_conflict (persist_appended_conversation rt c c) (\<lambda>_. act_ret ()) (act_ret ())"

datatype append_outcome =
    Stale pydict
  | Unchanged pydict
  | Appended pydict "pydict list" nat "pyval list"

definition interfere :: "interference \<Rightarrow> nat \<Rightarrow> (unit, 'v) act" where
  "interfere others attempt h = (Inr (), h\<lparr>hub_mem := others attempt (hub_mem h)\<rparr>)"

definition append_conflict :: "string \<Rightarrow> 'a result" where
  "append_conflict m = Inl (ValueError (''concurrent_append_conflict: '' @ m))"

fun append_loop ::
    "nat \<Rightarrow> 'v runtime \<Rightarrow> interference \<Rightarrow> scope \<Rightarrow> pydict \<Rightarrow> pydict \<Rightarrow> (append_outcome, 'v) act" where
  "append_loop 0 rt others sc incoming same = act_of (append_conflict ''retry import'')"
| "append_loop (Suc left) rt others sc incoming same =
     act_bind (act_of (detect_append_delta same incoming)) (\<lambda>delta.
     case ad_relation delta of
       STALE \<Rightarrow> act_ret (Stale same)
     | EQUAL \<Rightarrow> act_ret (Unchanged same)
     | APPEND \<Rightarrow>
         act_bind (act_of (build_append rt same incoming delta)) (\<lambda>(updated, cs, start).
         act_bind (interfere others (MAX_APPEND_ATTEMPTS - Suc left)) (\<lambda>_.
         act_on_conflict (persist_appended_conversation rt same updated)
           (\<lambda>(i, u).
             act_bind (attach_generated_summaries rt (sc_owner sc) (sc_project sc) u) (\<lambda>u1.
             act_bind (persist_summaries rt u1) (\<lambda>_.
             act_ret (Appended u1 cs start (ad_messages delta)))))
           (if left = 0 then act_of (append_conflict ''retry import'')
            else act_bind (act_read (\<lambda>h. lookup_same_thread (rt_trusted_appends rt) incoming (sc_owner sc)
                     (sc_project sc) (hub_mem h))) (\<lambda>refreshed.
                   case refreshed of
                     None \<Rightarrow> act_of (append_conflict ''conversation no longer available'')
                   | Some r \<Rightarrow> append_loop left rt others sc incoming r)))))"

definition finish_append ::
    "'v runtime \<Rightarrow> scope \<Rightarrow> pydict \<Rightarrow> pydict list \<Rightarrow> nat \<Rightarrow> pyval list \<Rightarrow> (pydict, 'v) act" where
  "finish_append rt sc updated cs start new_messages =
     act_bind (act_of (str_id updated)) (\<lambda>memory_id.
     act_bind (index_conversation rt sc memory_id updated cs (start = 0)) (\<lambda>u.
     act_bind (if new_messages = [] then act_ret (0, 0)
               else act_bind (store_facts_for_messages rt u new_messages start) (\<lambda>_.
                    act_of (rt_graph rt u new_messages start))) (\<lambda>counts.
     act_bind (audit_inserted rt sc memory_id (new_messages = []) (length new_messages) (length cs) u) (\<lambda>_.
     act_ret (with_graph_counts
       (inserted_result memory_id (new_messages = []) (length new_messages) (length cs)) counts)))))"

text \<open>An equal snapshot whose index is incomplete is indexed again from its stored messages.\<close>

definition reindex_equal :: "'v runtime \<Rightarrow> scope \<Rightarrow> pydict \<Rightarrow> (pydict, 'v) act" where
  "reindex_equal rt sc same =
     act_bind (act_of (chunk_selected_messages (rt_encodings rt) (rt_chunking rt) same
         (dget_or same ''messages'' (PList [])) 0)) (\<lambda>cs.
     act_bind (act_of (attach_index_chunks same cs)) (\<lambda>u.
     act_bind (store_insert rt u) (\<lambda>(i, u1). finish_append rt sc u1 cs 0 [])))"

definition ingest_same_thread ::
    "'v runtime \<Rightarrow> interference \<Rightarrow> scope \<Rightarrow> pydict \<Rightarrow> bool \<Rightarrow> pydict \<Rightarrow> (pydict, 'v) act" where
  "ingest_same_thread rt others sc incoming dup same =
     act_bind (append_loop MAX_APPEND_ATTEMPTS rt others sc incoming same) (\<lambda>res.
     case res of
       Stale c \<Rightarrow> stale_snapshot_ingestion_result rt sc c
     | Unchanged c \<Rightarrow> (if dup then reindex_equal rt sc c else deduplicated_ingestion_result rt sc c)
     | Appended u cs start ms \<Rightarrow> finish_append rt sc u cs start ms)"

section \<open>A new conversation\<close>

definition ingest_new :: "'v runtime \<Rightarrow> scope \<Rightarrow> string option \<Rightarrow> pydict \<Rightarrow> 'v ingestion" where
  "ingest_new rt sc dup c =
     act_bind (attach_generated_summaries rt (sc_owner sc) (sc_project sc) c) (\<lambda>c1.
     act_bind (act_of (chunk_messages (rt_encodings rt) (rt_chunking rt) c1)) (\<lambda>cs.
     act_bind (act_of (attach_index_chunks c1 cs)) (\<lambda>c2.
     act_bind (case dup of
         Some i \<Rightarrow> act_ret ((i, False), c2)
       | None \<Rightarrow> insert_new_conversation rt c2) (\<lambda>((memory_id, inserted), c3).
     act_bind (index_conversation rt sc memory_id c3 cs (\<not> inserted)) (\<lambda>c4.
     act_bind (if \<not> inserted then act_ret (0, 0)
               else act_bind (store_facts_for_conversation rt c4) (\<lambda>_. store_graph_for_conversation rt c4)) (\<lambda>counts.
     act_bind (audit_inserted rt sc memory_id (\<not> inserted) 0 (length cs) c4) (\<lambda>_.
     act_ret (with_graph_counts (inserted_result memory_id (\<not> inserted) 0 (length cs)) counts, c4))))))))"

section \<open>Ingestion\<close>

text \<open>
  The stored conversation with the same hash: a complete one is the answer; an incomplete one lends its
  id to the conversation.
\<close>

definition dedupe :: "'v runtime \<Rightarrow> scope \<Rightarrow> pydict \<Rightarrow> (pydict + string option, 'v) act" where
  "dedupe rt sc c =
     act_bind (act_read (\<lambda>h. Inr (lookup_by_conversation_hash (conv_hash c) (sc_project sc) (hub_mem h)))) (\<lambda>duplicate.
     case if_allowed (sc_owner sc) (sc_project sc) duplicate of
       None \<Rightarrow> act_ret (Inr None)
     | Some d \<Rightarrow>
         act_bind (act_of (str_id d)) (\<lambda>memory_id.
         act_bind (repair_retrieved_index_chunks rt memory_id d) (\<lambda>d1.
         act_bind (act_read (duplicate_index_is_complete rt memory_id d1)) (\<lambda>complete.
         act_ret (if complete then Inl d1 else Inr (Some memory_id))))))"

definition check_existing :: "'v runtime \<Rightarrow> scope \<Rightarrow> pydict \<Rightarrow> pydict option \<Rightarrow> unit result" where
  "check_existing rt sc c existing =
     (case existing of
        None \<Rightarrow> Inr ()
      | Some e \<Rightarrow>
          (if \<not> conversation_allowed (Some e) (sc_owner sc) (sc_project sc) then unauthorized_update
           else if \<not> rt_trusted_appends rt \<and> conv_hash e \<noteq> conv_hash c then unauthorized_update
           else Inr ()))"

definition ingest_prepared ::
    "'v runtime \<Rightarrow> interference \<Rightarrow> scope \<Rightarrow> pydict \<Rightarrow> 'v ingestion" where
  "ingest_prepared rt others sc c =
     act_bind (dedupe rt sc c) (\<lambda>found.
     case found of
       Inl d \<Rightarrow> act_bind (deduplicated_ingestion_result rt sc d) (\<lambda>r. act_ret (r, c))
     | Inr dup \<Rightarrow>
         (let c1 = (case dup of Some i \<Rightarrow> dset c ''id'' (PStr i) | None \<Rightarrow> c) in
          act_bind (act_get (conv_id c1)) (\<lambda>existing.
          act_bind (act_of (check_existing rt sc c1 existing)) (\<lambda>_.
          act_bind (act_read (\<lambda>h. lookup_same_thread (rt_trusted_appends rt) c1 (sc_owner sc) (sc_project sc)
              (hub_mem h))) (\<lambda>same.
          case same of
            Some s \<Rightarrow> act_bind (ingest_same_thread rt others sc c1 (dup \<noteq> None) s) (\<lambda>r. act_ret (r, c1))
          | None \<Rightarrow> ingest_new rt sc dup c1)))))"

definition ingest_in_scope ::
    "'v runtime \<Rightarrow> interference \<Rightarrow> bool \<Rightarrow> pyval \<Rightarrow> scope \<Rightarrow> 'v ingestion" where
  "ingest_in_scope rt others strict payload sc =
     act_bind (prepare rt sc strict True payload) (\<lambda>c.
     act_bind (check_lineage sc c) (\<lambda>_.
     act_bind (act_of (enrich rt c)) (\<lambda>c1.
     let findings = detect_sensitive_content (rt_env rt) c1 in
     if findings \<noteq> [] then store_quarantined_memory rt sc findings c1
     else ingest_prepared rt others sc c1)))"

definition ingest_run ::
    "'v runtime \<Rightarrow> interference \<Rightarrow> bool \<Rightarrow> string option \<Rightarrow> string option \<Rightarrow> pyval \<Rightarrow> 'v ingestion" where
  "ingest_run rt others strict owner_id project_id payload =
     in_scope rt owner_id project_id (ingest_in_scope rt others strict payload)"

definition ingest_messages ::
    "'v runtime \<Rightarrow> interference \<Rightarrow> bool \<Rightarrow> string option \<Rightarrow> string option \<Rightarrow> pyval \<Rightarrow> (pydict, 'v) act" where
  "ingest_messages rt others strict owner_id project_id payload =
     act_bind (ingest_run rt others strict owner_id project_id payload) (\<lambda>(result, c). act_ret result)"

section \<open>Review\<close>

definition pending_review :: review where
  "pending_review =
     \<lparr>rv_status = ''pending_review'', rv_received_key = ''pending_review_received_at'', rv_return = ''pending_review'',
      rv_event = ''memory.inserted'', rv_outcome = ''pending_review'', rv_reason = None, rv_audit = []\<rparr>"

definition store_pending_review_memory ::
    "'v runtime \<Rightarrow> bool \<Rightarrow> string option \<Rightarrow> string option \<Rightarrow> pyval \<Rightarrow> (pydict, 'v) act" where
  "store_pending_review_memory rt strict owner_id project_id payload =
     in_scope rt owner_id project_id (\<lambda>sc.
     act_bind (prepare rt sc strict False payload) (\<lambda>c.
     act_bind (act_of (enrich rt c)) (\<lambda>c1.
     let findings = detect_sensitive_content (rt_env rt) c1 in
     act_bind (if findings \<noteq> [] then store_quarantined_memory rt sc findings c1
               else store_review_memory rt sc pending_review c1) (\<lambda>(result, c2). act_ret result))))"

text \<open>What \<open>approve_pending_memory\<close> and \<open>reject_pending_memory\<close> answer when they do nothing.\<close>

definition review_not_found :: "'v runtime \<Rightarrow> scope \<Rightarrow> string \<Rightarrow> string \<Rightarrow> (pydict, 'v) act" where
  "review_not_found rt sc event memory_id =
     act_bind (record_audit_event rt event (audit_args (sc_owner sc) (sc_project sc)
       \<lparr>ac_memory := Some memory_id, ac_outcome := ''not_found'', ac_reason := Some ''not_visible''\<rparr>)) (\<lambda>_.
     act_ret [(''status'', PStr ''not_found''), (''id'', PStr memory_id)])"

definition review_not_pending :: "'v runtime \<Rightarrow> scope \<Rightarrow> string \<Rightarrow> string \<Rightarrow> string \<Rightarrow> (pydict, 'v) act" where
  "review_not_pending rt sc event memory_id status =
     act_bind (record_audit_event rt event (audit_args (sc_owner sc) (sc_project sc)
       \<lparr>ac_memory := Some memory_id, ac_outcome := ''error'', ac_reason := Some ''memory_not_pending_review'',
        ac_metadata := [(''memory_status'', PStr status)]\<rparr>)) (\<lambda>_.
     act_ret [(''status'', PStr ''error''), (''error_code'', PStr ''memory_not_pending_review''),
       (''error_message'', PStr ''memory is not pending review''), (''id'', PStr memory_id),
       (''memory_status'', PStr status)])"

definition reviewed ::
    "'v runtime \<Rightarrow> string \<Rightarrow> string \<Rightarrow> scope \<Rightarrow> (pydict \<Rightarrow> string \<Rightarrow> (pydict, 'v) act) \<Rightarrow> (pydict, 'v) act" where
  "reviewed rt event memory_id sc decide =
     act_bind (act_get memory_id) (\<lambda>c.
     if \<not> conversation_authorized c (sc_owner sc) (sc_project sc) then review_not_found rt sc event memory_id
     else case c of
       Some d \<Rightarrow>
         (if memory_status c \<in> set REVIEWABLE_MEMORY_STATUSES then decide d (memory_status c)
          else review_not_pending rt sc event memory_id (memory_status c))
     | None \<Rightarrow> review_not_pending rt sc event memory_id (memory_status c))"

definition approved_metadata :: "clock \<Rightarrow> string \<Rightarrow> pydict \<Rightarrow> pydict" where
  "approved_metadata now status m =
     (let m1 = dset (dset (dset m ''memory_status'' (PStr ''active'')) ''approved_at'' (PStr now))
                 ''review_status_before_approval'' (PStr status);
          m2 = (if truthy (dget_none m1 ''quarantine_reason_codes'')
                then dset (dset (dset m1 ''quarantine_reviewed_at'' (PStr now)) ''quarantine_decision'' (PStr ''approved''))
                       ''sensitive_content_approved'' (PBool True)
                else m1)
      in dsetdefault m2 ''save_intent'' (PStr ''user_confirmed''))"

definition approve_reviewed ::
    "'v runtime \<Rightarrow> interference \<Rightarrow> string \<Rightarrow> scope \<Rightarrow> pydict \<Rightarrow> string \<Rightarrow> (pydict, 'v) act" where
  "approve_reviewed rt others memory_id sc c status =
     act_bind (utc_now rt) (\<lambda>now.
     act_bind (store_insert rt (dset c ''metadata'' (PDict (approved_metadata now status (ensure_metadata c))))) (\<lambda>(i, c1).
     act_bind (ingest_run rt others False (sc_owner sc) (sc_project sc) (PDict c1)) (\<lambda>(result, c2).
     let c3 = dset c1 ''metadata'' (PDict (ensure_metadata c2)) in
     act_bind (store_facts_for_conversation rt c3) (\<lambda>_.
     act_bind (store_graph_for_conversation rt c3) (\<lambda>_.
     act_bind (record_audit_event rt ''memory.approved'' (audit_args (sc_owner sc) (sc_project sc)
       \<lparr>ac_memory := Some memory_id, ac_metadata :=
          [(''memory_status'', PStr ''active''), (''review_status_before_approval'', PStr status)]\<rparr>)) (\<lambda>_.
     act_ret (dset result ''memory_status'' (PStr ''active''))))))))"

definition approve_pending_memory ::
    "'v runtime \<Rightarrow> interference \<Rightarrow> string \<Rightarrow> string option \<Rightarrow> string option \<Rightarrow> (pydict, 'v) act" where
  "approve_pending_memory rt others memory_id owner_id project_id =
     in_scope rt owner_id project_id (\<lambda>sc.
     reviewed rt ''memory.approved'' memory_id sc (approve_reviewed rt others memory_id sc))"

definition rejected_metadata :: "clock \<Rightarrow> string \<Rightarrow> pydict \<Rightarrow> pydict" where
  "rejected_metadata now status m =
     (let m1 = dset (dset (dset m ''memory_status'' (PStr ''rejected'')) ''rejected_at'' (PStr now))
                 ''review_status_before_rejection'' (PStr status)
      in if truthy (dget_none m1 ''quarantine_reason_codes'')
         then dset (dset m1 ''quarantine_reviewed_at'' (PStr now)) ''quarantine_decision'' (PStr ''rejected'')
         else m1)"

definition reject_reviewed :: "'v runtime \<Rightarrow> string \<Rightarrow> scope \<Rightarrow> pydict \<Rightarrow> string \<Rightarrow> (pydict, 'v) act" where
  "reject_reviewed rt memory_id sc c status =
     act_bind (utc_now rt) (\<lambda>now.
     act_bind (store_insert rt (dset c ''metadata'' (PDict (rejected_metadata now status (ensure_metadata c))))) (\<lambda>_.
     act_bind (record_audit_event rt ''memory.rejected'' (audit_args (sc_owner sc) (sc_project sc)
       \<lparr>ac_memory := Some memory_id, ac_metadata := [(''memory_status'', PStr ''rejected'')]\<rparr>)) (\<lambda>_.
     act_ret [(''status'', PStr ''ok''), (''id'', PStr memory_id), (''memory_status'', PStr ''rejected'')])))"

definition reject_pending_memory ::
    "'v runtime \<Rightarrow> string \<Rightarrow> string option \<Rightarrow> string option \<Rightarrow> (pydict, 'v) act" where
  "reject_pending_memory rt memory_id owner_id project_id =
     in_scope rt owner_id project_id (\<lambda>sc.
     reviewed rt ''memory.rejected'' memory_id sc (reject_reviewed rt memory_id sc))"

end
