(* ===== verification/PipelineLaws.thy ===== *)
theory PipelineLaws
  imports Ingest ConversationProperties
begin

text \<open>
  What every action of the pipeline keeps. A predicate on the state is a contract of three grades: it
  survives readings of the clock and audit events (\<open>hub_frame\<close>), account and conversation
  transactions (\<open>hub_store\<close>), and writes of vectors, facts and summaries (\<open>hub_pipeline\<close>). Each
  function of \<open>Ingest\<close> keeps every predicate of the grade of what it does, whether it answers or
  raises.
\<close>

lemma act_tick_iff [act_simps]: "act_tick h = (Inr n, h') \<longleftrightarrow> n = hub_ticks h \<and> h' = h\<lparr>hub_ticks := Suc (hub_ticks h)\<rparr>"
  by (auto simp: act_tick_def)

lemma act_mem_Inr_iff [act_simps]:
  "act_mem f h = (Inr x, h') \<longleftrightarrow> (\<exists>db. f (hub_mem h) = Inr (x, db) \<and> h' = h\<lparr>hub_mem := db\<rparr>)"
  by (auto simp: act_mem_def split: sum.splits)

lemma act_mem_Inl_iff: "act_mem f h = (Inl e, h') \<longleftrightarrow> f (hub_mem h) = Inl e \<and> h' = h"
  by (auto simp: act_mem_def split: sum.splits)

lemma inv_relation [act_rules]:
  "act_inv P m \<Longrightarrow> act_inv P k \<Longrightarrow> act_inv P l \<Longrightarrow> act_inv P (case r of EQUAL \<Rightarrow> m | APPEND \<Rightarrow> k | STALE \<Rightarrow> l)"
  by (cases r) auto

lemma inv_on_conflict [act_rules]:
  assumes "act_inv P m" "\<And>x. act_inv P (f x)" "act_inv P k"
  shows "act_inv P (act_on_conflict m f k)"
  unfolding act_inv_def
proof (intro allI impI)
  fix h assume h: "P h"
  obtain r h1 where m: "m h = (r, h1)" by (cases "m h")
  then have "P h1" using act_invD [OF assms(1) h] by simp
  then show "P (snd (act_on_conflict m f k h))"
    using assms(2,3) m by (cases r) (auto simp: act_on_conflict_def act_inv_def split: py_error.splits)
qed

lemma inv_outcome [act_rules]:
  "(\<And>c. act_inv P (f c)) \<Longrightarrow> (\<And>c. act_inv P (g c)) \<Longrightarrow> (\<And>a b c d. act_inv P (k a b c d)) \<Longrightarrow>
   act_inv P (case x of Stale c \<Rightarrow> f c | Unchanged c \<Rightarrow> g c | Appended a b c d \<Rightarrow> k a b c d)"
  by (cases x) auto

lemma inv_mem: "(\<And>h x db. P h \<Longrightarrow> f (hub_mem h) = Inr (x, db) \<Longrightarrow> P (h\<lparr>hub_mem := db\<rparr>)) \<Longrightarrow> act_inv P (act_mem f)"
  by (auto simp: act_inv_def act_mem_def split: sum.splits)

section \<open>Audit events and the clock\<close>

locale hub_frame =
  fixes P :: "'v hub \<Rightarrow> bool"
  assumes ticks: "P h \<Longrightarrow> P (h\<lparr>hub_ticks := n\<rparr>)"
    and audit: "P h \<Longrightarrow> append_audit_event env i now e (hub_audit h) = Inr (d, rows) \<Longrightarrow> P (h\<lparr>hub_audit := rows\<rparr>)"
begin

lemma tick: "act_inv P act_tick"
  by (simp add: act_inv_def act_tick_def ticks)

lemma clock: "act_inv P (utc_now rt)"
  unfolding utc_now_def by (intro act_rules tick)

lemma audited: "act_inv P (record_audit_event rt ev a)"
  unfolding record_audit_event_def
  by (intro act_rules tick) (auto simp: act_inv_def intro: audit split: sum.splits)

lemma denied: "act_inv P (act_denied rt w p reason role)"
  unfolding act_denied_def by (intro act_rules audited)

lemma inserted: "act_inv P (audit_inserted rt sc i d n k c)"
  unfolding audit_inserted_def by (rule audited)

lemma dedup_result: "act_inv P (deduplicated_ingestion_result rt sc c)"
  unfolding deduplicated_ingestion_result_def by (intro act_rules inserted)

lemma stale_result: "act_inv P (stale_snapshot_ingestion_result rt sc c)"
  unfolding stale_snapshot_ingestion_result_def by (intro act_rules audited)

lemma prepared: "act_inv P (prepare rt sc strict imported payload)"
  unfolding prepare_def by (intro act_rules tick)

lemma no_review: "act_inv P (review_not_found rt sc ev i)" "act_inv P (review_not_pending rt sc ev i s)"
  unfolding review_not_found_def review_not_pending_def by (intro act_rules audited)+

lemma lineage_checked: "act_inv P (check_lineage sc c)"
  unfolding check_lineage_def by (rule inv_read)

lemma got: "act_inv P (act_get i)"
  unfolding act_get_def by (rule inv_read)

end

section \<open>The default project\<close>

locale hub_scope = hub_frame P for P :: "'v hub \<Rightarrow> bool" +
  assumes accounts: "P h \<Longrightarrow> ensure_default_project env now w (accounts (hub_mem h)) = Inr (p, acc) \<Longrightarrow>
      P (h\<lparr>hub_mem := (hub_mem h)\<lparr>accounts := acc\<rparr>\<rparr>)"
begin

lemma resolved: "act_inv P (resolve_project rt w p role)"
  unfolding resolve_project_def
  by (intro act_rules tick denied inv_mem) (auto simp: result_simps intro: accounts)

lemma scoped: "(\<And>sc. act_inv P (f sc)) \<Longrightarrow> act_inv P (in_scope rt w p f)"
  unfolding in_scope_def by (intro act_rules resolved)

lemma validated: "act_inv P (validate_messages rt strict w p payload)"
  unfolding validate_messages_def by (intro scoped act_rules prepared lineage_checked)

end

section \<open>Conversations\<close>

locale hub_store = hub_scope P for P :: "'v hub \<Rightarrow> bool" +
  assumes insert: "P h \<Longrightarrow> insert_conv env now c (hub_mem h) = Inr (x, db) \<Longrightarrow> P (h\<lparr>hub_mem := db\<rparr>)"
    and insert_new: "P h \<Longrightarrow> insert_new env now c (hub_mem h) = Inr (y, db) \<Longrightarrow> P (h\<lparr>hub_mem := db\<rparr>)"
    and append: "P h \<Longrightarrow> append_messages env now c e (hub_mem h) = Inr (x, db) \<Longrightarrow> P (h\<lparr>hub_mem := db\<rparr>)"
    and mark: "P h \<Longrightarrow> mark_chunks_state i ids st (hub_mem h) = Inr (u, db) \<Longrightarrow> P (h\<lparr>hub_mem := db\<rparr>)"
begin

lemma stored: "act_inv P (store_insert rt c)"
  unfolding store_insert_def by (intro act_rules tick inv_mem) (rule insert)

lemma stored_new: "act_inv P (insert_new_conversation rt c)"
  unfolding insert_new_conversation_def by (intro act_rules tick inv_mem) (rule insert_new)

lemma persisted: "act_inv P (persist_appended_conversation rt c d)"
  unfolding persist_appended_conversation_def by (intro act_rules tick inv_mem) (rule append)

lemma marked: "act_inv P (mark_chunks i cs c st)"
  unfolding mark_chunks_def by (intro act_rules inv_mem) (rule mark)

lemma repaired: "act_inv P (repair_retrieved_index_chunks rt i c)"
  unfolding repair_retrieved_index_chunks_def by (intro act_rules marked got)

lemma deduped: "act_inv P (dedupe rt sc c)"
  unfolding dedupe_def by (intro act_rules repaired)

lemma review_stored: "act_inv P (store_review_memory rt sc rv c)"
  unfolding store_review_memory_def Let_def by (intro act_rules clock got stored_new audited)

lemma quarantined: "act_inv P (store_quarantined_memory rt sc fs c)"
  unfolding store_quarantined_memory_def Let_def by (intro act_rules review_stored)

lemma pending_stored: "act_inv P (store_pending_review_memory rt strict w p payload)"
  unfolding store_pending_review_memory_def Let_def
  by (intro scoped act_rules prepared quarantined review_stored)

lemma rejected: "act_inv P (reject_pending_memory rt i w p)"
  unfolding reject_pending_memory_def reviewed_def reject_reviewed_def
  by (intro scoped act_rules got no_review clock stored audited)

end

section \<open>Vectors, facts and summaries\<close>

locale hub_pipeline = hub_store P for P :: "'v hub \<Rightarrow> bool" +
  assumes vectors: "P h \<Longrightarrow> P (h\<lparr>hub_vectors := vs\<rparr>)"
    and facts: "P h \<Longrightarrow> insert_facts fs (hub_facts h) = Inr rows \<Longrightarrow> P (h\<lparr>hub_facts := rows\<rparr>)"
    and summaries: "P h \<Longrightarrow> store_summaries now ss (hub_summaries h) = Inr srows \<Longrightarrow> P (h\<lparr>hub_summaries := srows\<rparr>)"
begin

lemma vectors_stored: "act_inv P (store_vectors rt i es b)"
  by (auto simp: act_inv_def store_vectors_def act_vectors_def intro: vectors split: prod.splits)

lemma facts_stored: "act_inv P (store_facts fs)"
  unfolding store_facts_def
  by (intro act_rules) (auto simp: act_inv_def act_facts_def intro: facts split: sum.splits)

lemma message_facts_stored: "act_inv P (store_facts_for_messages rt c ms n)"
  unfolding store_facts_for_messages_def by (intro act_rules facts_stored)

lemma conversation_facts_stored: "act_inv P (store_facts_for_conversation rt c)"
  unfolding store_facts_for_conversation_def by (rule message_facts_stored)

lemma graph_stored: "act_inv P (store_graph_for_conversation rt c)"
  unfolding store_graph_for_conversation_def by (rule inv_of)

lemma summarised: "act_inv P (attach_generated_summaries rt w p c)"
  unfolding act_inv_def
proof (intro allI impI)
  fix h assume "P h"
  then show "P (snd (attach_generated_summaries rt w p c h))"
    using summaries [where h = "h\<lparr>hub_ticks := n\<rparr>" for n]
    by (auto simp: attach_generated_summaries_def Let_def ticks split: sum.splits)
qed

lemma summaries_persisted: "act_inv P (persist_summaries rt c)"
  unfolding persist_summaries_def by (intro act_rules persisted)

lemma indexed: "act_inv P (index_conversation rt sc i c cs b)"
  unfolding index_conversation_def by (intro act_rules vectors_stored marked)

lemma append_finished: "act_inv P (finish_append rt sc u cs n ms)"
  unfolding finish_append_def by (intro act_rules indexed message_facts_stored inserted)

lemma equal_reindexed: "act_inv P (reindex_equal rt sc c)"
  unfolding reindex_equal_def by (intro act_rules stored append_finished)

lemma new_ingested: "act_inv P (ingest_new rt sc dup c)"
  unfolding ingest_new_def
  by (intro act_rules summarised stored_new indexed conversation_facts_stored graph_stored inserted)

lemma appended:
  assumes "\<And>h n. P h \<Longrightarrow> P (h\<lparr>hub_mem := others n (hub_mem h)\<rparr>)"
  shows "act_inv P (append_loop k rt others sc incoming same)"
proof (induction k arbitrary: same)
  case 0
  then show ?case by (simp add: inv_of)
next
  case (Suc k)
  have interfered: "act_inv P (interfere others n)" for n
    by (simp add: act_inv_def interfere_def assms)
  show ?case
    unfolding append_loop.simps by (intro act_rules interfered persisted summarised summaries_persisted Suc.IH)
qed

lemma same_thread_ingested:
  assumes "\<And>h n. P h \<Longrightarrow> P (h\<lparr>hub_mem := others n (hub_mem h)\<rparr>)"
  shows "act_inv P (ingest_same_thread rt others sc c dup same)"
  unfolding ingest_same_thread_def
  by (intro act_rules appended [OF assms] stale_result equal_reindexed dedup_result append_finished)

lemma prepared_ingested:
  assumes "\<And>h n. P h \<Longrightarrow> P (h\<lparr>hub_mem := others n (hub_mem h)\<rparr>)"
  shows "act_inv P (ingest_prepared rt others sc c)"
  unfolding ingest_prepared_def Let_def
  by (intro act_rules deduped dedup_result got same_thread_ingested [OF assms] new_ingested)

lemma ingested:
  assumes "\<And>h n. P h \<Longrightarrow> P (h\<lparr>hub_mem := others n (hub_mem h)\<rparr>)"
  shows "act_inv P (ingest_run rt others strict w p payload)"
  unfolding ingest_run_def ingest_in_scope_def Let_def
  by (intro scoped act_rules prepared lineage_checked quarantined prepared_ingested [OF assms])

lemma messages_ingested:
  assumes "\<And>h n. P h \<Longrightarrow> P (h\<lparr>hub_mem := others n (hub_mem h)\<rparr>)"
  shows "act_inv P (ingest_messages rt others strict w p payload)"
  unfolding ingest_messages_def by (intro act_rules ingested [OF assms])

lemma approved:
  assumes "\<And>h n. P h \<Longrightarrow> P (h\<lparr>hub_mem := others n (hub_mem h)\<rparr>)"
  shows "act_inv P (approve_pending_memory rt others i w p)"
  unfolding approve_pending_memory_def reviewed_def approve_reviewed_def Let_def
  by (intro scoped act_rules got no_review clock stored ingested [OF assms] conversation_facts_stored
      graph_stored audited)

end

end
