(* ===== verification/IngestProperties.thy ===== *)
theory IngestProperties
  imports PipelineLaws FactProperties VectorProperties AppendProperties
begin

text \<open>
  Properties of ingestion and review: the invariant of the whole state, what a denied or a validating
  call leaves alone, quarantine, the end of a review, and the agreement of the index with the tables.
\<close>

section \<open>The invariant of the state\<close>

definition hub_ok :: "'v hub \<Rightarrow> bool" where
  "hub_ok h \<longleftrightarrow>
     mem_db_ok (hub_mem h) \<and> distinct (map ft_id (hub_facts h)) \<and> distinct (map gs_id (hub_summaries h))
     \<and> distinct (map ae_id (hub_audit h)) \<and> list_all audit_row_ok (hub_audit h)"

lemma append_audit_rows:
  assumes "append_audit_event env i now e rows = Inr (d, rows')"
  shows "\<exists>row. rows' = rows @ [row] \<and> audit_row_ok row \<and> ae_id row \<notin> ae_id ` set rows"
  using assms by (auto simp: append_audit_event_def result_simps tbl_insert_Some_iff intro: prepare_audit_event_ok)

lemma ensure_default_project_ok:
  "auth_db_ok acc \<Longrightarrow> ensure_default_project env now w acc = Inr (p, acc') \<Longrightarrow> auth_db_ok acc'"
  by (auto simp: ensure_default_project_def result_simps intro: ok_ensure_default_project_row)

lemma insert_facts_distinct:
  assumes "insert_facts fs rows = Inr rows'" "distinct (map ft_id rows)"
  shows "distinct (map ft_id rows')"
proof (rule fold_result_invariant [where P = "\<lambda>rows. distinct (map ft_id rows)", OF assms [unfolded insert_facts_def]])
  fix f and s t :: "fact_row list"
  assume d: "distinct (map ft_id s)" and ins: "insert_fact f s = Inr t"
  from ins show "distinct (map ft_id t)"
  proof (cases rule: insert_fact_cases)
    case (1 new rows1 rows2)
    have "map ft_id rows1 = map ft_id s"
      using 1(2) by (cases rule: confirmation_rows) (auto simp: map_key_tbl_update)
    moreover have "map ft_id rows2 = map ft_id rows1"
      using 1(3) by (cases rule: correction_rows) (auto simp: map_key_tbl_update)
    ultimately show ?thesis using d 1(4) by (simp add: fact_up.distinct_upsert)
  qed
qed

lemma store_summaries_distinct:
  assumes "store_summaries now ss rows = Inr rows'" "distinct (map gs_id rows)"
  shows "distinct (map gs_id rows')"
  by (rule fold_result_invariant [where P = "\<lambda>rows. distinct (map gs_id rows)", OF assms [unfolded store_summaries_def]])
    (auto simp: upsert_generated_summary_def result_simps intro: summary_up.distinct_upsert)

interpretation sound: hub_pipeline "hub_ok :: 'v hub \<Rightarrow> bool"
proof
  fix h :: "'v hub" and env i now e d rows
  assume h: "hub_ok h" and run: "append_audit_event env i now e (hub_audit h) = Inr (d, rows)"
  show "hub_ok (h\<lparr>hub_audit := rows\<rparr>)"
    using append_audit_rows [OF run] h by (auto simp: hub_ok_def)
next
  fix h :: "'v hub" and env now w p acc
  assume h: "hub_ok h" and run: "ensure_default_project env now w (accounts (hub_mem h)) = Inr (p, acc)"
  then show "hub_ok (h\<lparr>hub_mem := (hub_mem h)\<lparr>accounts := acc\<rparr>\<rparr>)"
    using ensure_default_project_ok [OF _ run] ok_account_op [of "hub_mem h" acc]
    by (auto simp: hub_ok_def mem_db_ok_def)
qed (auto simp: hub_ok_def intro: ok_insert_conv ok_insert_new ok_append_messages ok_mark_chunks_state
       insert_facts_distinct store_summaries_distinct)

datatype hub_command =
    Validate bool "string option" "string option" pyval
  | Ingest bool "string option" "string option" pyval
  | StorePending bool "string option" "string option" pyval
  | Approve string "string option" "string option"
  | Reject string "string option" "string option"

fun hub_step :: "'v runtime \<Rightarrow> interference \<Rightarrow> hub_command \<Rightarrow> 'v hub \<Rightarrow> 'v hub" where
  "hub_step rt others (Validate strict w p x) h = snd (validate_messages rt strict w p x h)"
| "hub_step rt others (Ingest strict w p x) h = snd (ingest_messages rt others strict w p x h)"
| "hub_step rt others (StorePending strict w p x) h = snd (store_pending_review_memory rt strict w p x h)"
| "hub_step rt others (Approve i w p) h = snd (approve_pending_memory rt others i w p h)"
| "hub_step rt others (Reject i w p) h = snd (reject_pending_memory rt i w p h)"

definition hub_run :: "'v runtime \<Rightarrow> interference \<Rightarrow> hub_command list \<Rightarrow> 'v hub \<Rightarrow> 'v hub" where
  "hub_run rt others xs h = fold (hub_step rt others) xs h"

definition empty_hub :: "'v \<Rightarrow> 'v hub" where
  "empty_hub vs = \<lparr>hub_mem = empty_mem_db, hub_facts = [], hub_summaries = [], hub_audit = [],
     hub_vectors = vs, hub_ticks = 0\<rparr>"

lemma hub_step_ok:
  fixes h :: "'v hub"
  assumes "\<And>n db. mem_db_ok db \<Longrightarrow> mem_db_ok (others n db)" "hub_ok h"
  shows "hub_ok (hub_step rt others x h)"
proof -
  have o: "hub_ok h \<Longrightarrow> hub_ok (h\<lparr>hub_mem := others n (hub_mem h)\<rparr>)" for h :: "'v hub" and n
    using assms(1) by (simp add: hub_ok_def)
  have keep: "act_inv hub_ok m \<Longrightarrow> hub_ok (snd (m h))" for m :: "('b, 'v) act"
    using assms(2) by (simp add: act_inv_def)
  show ?thesis
    by (cases x; simp only: hub_step.simps; rule keep)
      (rule sound.validated sound.messages_ingested [OF o] sound.pending_stored sound.approved [OF o]
        sound.rejected; assumption?)+
qed

lemma hub_run_ok:
  assumes "\<And>n db. mem_db_ok db \<Longrightarrow> mem_db_ok (others n db)" "hub_ok h"
  shows "hub_ok (hub_run rt others xs h)"
  using assms(2) unfolding hub_run_def
proof (induction xs arbitrary: h)
  case (Cons x xs)
  then show ?case using hub_step_ok [where rt = rt and x = x, OF assms(1) Cons.prems] by simp
qed simp

lemma empty_hub_ok: "hub_ok (empty_hub vs)"
  by (simp add: hub_ok_def empty_hub_def mem_db_ok_empty)

text \<open>
  C16. Ingestion and review keep the state well formed: after any sequence of validations, ingestions,
  reviews, approvals and rejections, succeeding or failing half way, with other writers that keep the
  tables well formed between a look-up and an append, the tables satisfy their keys and constraints, and
  facts, summaries and audit events have unique ids and well-formed rows.
\<close>

theorem pipeline_keeps_state_ok:
  assumes "\<And>n db. mem_db_ok db \<Longrightarrow> mem_db_ok (others n db)"
  shows "hub_ok (hub_run rt others xs (empty_hub vs))"
  using assms empty_hub_ok by (rule hub_run_ok)

text \<open>A runtime with the in-memory vector store, for the examples.\<close>

definition memory_vectors :: "float_env \<Rightarrow> nat \<Rightarrow> vec_row list vector_ops" where
  "memory_vectors fe dim =
     \<lparr>vo_insert = vec_insert fe dim, vo_chunk_ids = Some (\<lambda>i rows. Inr (vec_chunk_ids i rows))\<rparr>"

definition demo_embedder :: embedder where
  "demo_embedder = \<lparr>em_embed = (\<lambda>ts. Inr (map (\<lambda>t. [''1'']) ts)), em_max_batch_size = PNone, em_max_batch_input_bytes = PNone\<rparr>"

definition demo_runtime :: "vec_row list runtime" where
  "demo_runtime =
     \<lparr>rt_env = demo_ingest_env, rt_encodings = (\<lambda>e. None),
      rt_chunking = \<lparr>cc_strategy = ''message'', cc_max_tokens = 800, cc_overlap_tokens = 80, cc_encoding = ''cl100k_base''\<rparr>,
      rt_embedder = demo_embedder, rt_vectors = memory_vectors demo_floats 1, rt_vector_provider = ''memory'',
      rt_trusted_appends = True, rt_facts = (\<lambda>c ms n. Inr []), rt_graph = (\<lambda>c ms n. Inr (0, 0)),
      rt_now = (\<lambda>n. ''2026-01-01T00:00:00+00:00''), rt_sql_now = (\<lambda>n. ''2026-01-01 00:00:00''),
      rt_uuid = (\<lambda>n. ''00000000-0000-0000-0000-00000000000'' @ nat_str n), rt_surface = ''service'', rt_request = None\<rparr>"

theorem pipeline_keeps_state_ok_witness:
  "hub_ok (hub_run demo_runtime (\<lambda>n db. db)
     [Validate False None None (PStr ''hello''), Reject ''00000000-0000-0000-0000-000000000009'' None None] (empty_hub []))"
  by (rule pipeline_keeps_state_ok)

section \<open>Calls that write nothing\<close>

definition same_tables :: "mem_db \<Rightarrow> mem_db \<Rightarrow> bool" where
  "same_tables db db' \<longleftrightarrow>
     conversations db' = conversations db \<and> messages db' = messages db \<and> chunks db' = chunks db"

definition same_memory :: "'v hub \<Rightarrow> 'v hub \<Rightarrow> bool" where
  "same_memory h h' \<longleftrightarrow>
     same_tables (hub_mem h) (hub_mem h') \<and> hub_facts h' = hub_facts h
     \<and> hub_summaries h' = hub_summaries h \<and> hub_vectors h' = hub_vectors h"

interpretation nothing_written: hub_scope "same_memory h0" for h0 :: "'v hub"
  by unfold_locales (auto simp: same_memory_def same_tables_def)

interpretation accounts_kept: hub_frame "\<lambda>h. same_memory h0 h \<and> accounts (hub_mem h) = accounts (hub_mem h0)"
  for h0 :: "'v hub"
  by unfold_locales (auto simp: same_memory_def same_tables_def)

lemma same_memory_refl [simp]: "same_memory h h"
  by (simp add: same_memory_def same_tables_def)

text \<open>
  C18. Validating an ingestion payload stores no memory: whatever the outcome, conversations, messages,
  chunks, facts, summaries and vectors are what they were.
\<close>

theorem validate_stores_no_memory:
  "same_memory h (snd (validate_messages rt strict owner_id project_id payload h))"
  using nothing_written.validated [of h rt strict owner_id project_id payload] by (simp add: act_inv_def)

lemma resolve_denied:
  assumes "validate_project_id p = Inr v" "project_has_role v (Some w) role (accounts (hub_mem h)) = Inr False"
  shows "\<exists>h'. resolve_project rt (Some w) (Some p) role h = (Inl (PermissionError ''project access denied''), h')
    \<and> same_memory h h' \<and> accounts (hub_mem h') = accounts (hub_mem h)"
proof -
  have inv: "act_inv (\<lambda>h'. same_memory h h' \<and> accounts (hub_mem h') = accounts (hub_mem h))
      (record_audit_event rt ev a)" for ev a
    by (rule accounts_kept.audited)
  show ?thesis
    using act_invD [OF inv]
    by (auto simp: resolve_project_def act_bind_def act_of_def act_read_def assms act_denied_def
        record_audit_event_def act_tick_def)
qed

lemma in_scope_denied:
  assumes "resolve_project rt w p ''writer'' h = (Inl e, h')"
  shows "in_scope rt w p f h = (Inl e, h')"
  using assms by (simp add: in_scope_def act_bind_def)

text \<open>
  C17. A caller without the writer role changes nothing: ingestion, pending review, approval and
  rejection raise a \<open>PermissionError\<close>, and conversations, accounts, facts, summaries and vectors are
  what they were; only the audit log records the attempt.
\<close>

theorem denied_caller_changes_nothing:
  fixes rt :: "'v runtime"
  assumes "validate_project_id p = Inr v" "project_has_role v (Some w) ''writer'' (accounts (hub_mem h)) = Inr False"
  shows "list_all (\<lambda>m. fst (m h) = Inl (PermissionError ''project access denied'')
      \<and> same_memory h (snd (m h)) \<and> accounts (hub_mem (snd (m h))) = accounts (hub_mem h))
    [ingest_messages rt others strict (Some w) (Some p) payload,
     store_pending_review_memory rt strict (Some w) (Some p) payload,
     approve_pending_memory rt others i (Some w) (Some p),
     reject_pending_memory rt i (Some w) (Some p)]"
proof -
  obtain h' where r: "resolve_project rt (Some w) (Some p) ''writer'' h = (Inl (PermissionError ''project access denied''), h')"
    "same_memory h h'" "accounts (hub_mem h') = accounts (hub_mem h)"
    using resolve_denied [OF assms] by blast
  show ?thesis
    using r(2,3) by (simp add: ingest_messages_def ingest_run_def store_pending_review_memory_def
        approve_pending_memory_def reject_pending_memory_def act_bind_def in_scope_denied [OF r(1)])
qed

theorem denied_caller_changes_nothing_witness:
  "fst (reject_pending_memory demo_runtime ''m'' (Some ''eve'') (Some ''p1'') (empty_hub []))
     = Inl (PermissionError ''project access denied'')"
proof -
  have p: "validate_project_id ''p1'' = Inr ''p1''" by code_simp
  have r: "project_has_role ''p1'' (Some ''eve'') ''writer'' (accounts (hub_mem (empty_hub ([] :: vec_row list)))) = Inr False"
    by code_simp
  show ?thesis
    using denied_caller_changes_nothing [OF p r, of demo_runtime "\<lambda>n db. db" False PNone "''m''"] by simp
qed

end
