(* ===== verification/ReviewProperties.thy ===== *)
theory ReviewProperties
  imports IngestProperties
begin

text \<open>
  Sensitive content is quarantined and stays out of the index; a rejected memory stays rejected.
\<close>

section \<open>What quarantine and review leave alone\<close>

definition same_index :: "'v hub \<Rightarrow> 'v hub \<Rightarrow> bool" where
  "same_index h h' \<longleftrightarrow>
     hub_vectors h' = hub_vectors h \<and> hub_facts h' = hub_facts h \<and> hub_summaries h' = hub_summaries h"

interpretation index_kept: hub_store "same_index h0" for h0 :: "'v hub"
  by unfold_locales (auto simp: same_index_def)

interpretation tables_ok: hub_scope "\<lambda>h :: 'b hub. mem_db_ok (hub_mem h)"
proof
  fix h :: "'b hub" and env now w p acc
  assume h: "mem_db_ok (hub_mem h)" and run: "ensure_default_project env now w (accounts (hub_mem h)) = Inr (p, acc)"
  have "auth_db_ok acc" by (rule ensure_default_project_ok [OF _ run]) (use h in \<open>simp add: mem_db_ok_def\<close>)
  then show "mem_db_ok (hub_mem (h\<lparr>hub_mem := (hub_mem h)\<lparr>accounts := acc\<rparr>\<rparr>))"
    using ok_account_op [OF h] by simp
qed simp_all

lemma same_index_refl [simp]: "same_index h h"
  by (simp add: same_index_def)

lemma insert_new_row_created:
  assumes "insert_new env now c db = Inr (((mid, True), c'), db')"
  shows "\<exists>row acc. conv_columns env now c = Inr (row, c') \<and> mid = cv_id row
    \<and> cv_id row \<notin> cv_id ` set (conversations db)
    \<and> replace_child_rows c' (db\<lparr>accounts := acc, conversations := conversations db @ [row]\<rparr>) = Inr db'"
proof -
  from assms have "\<exists>row. conv_columns env now c = Inr (row, c') \<and> insert_new_row env now row c' db = Inr db'
      \<and> mid = cv_id row"
  proof (cases rule: insert_new_cases)
    case (old row c1 m r)
    then show ?thesis
      by (auto simp: resolve_insert_new_conflict_def result_simps Let_def split: option.splits)
  qed auto
  then show ?thesis
    by (auto simp: insert_new_row_def result_simps write_conversations_Inr tbl_insert_Some_iff
        elim!: ensure_project_Inr)
qed

lemma insert_new_created:
  assumes "insert_new env now c db = Inr (((mid, True), c'), db')"
  shows "get_conv (PStr mid) db' = Inr (Some c')"
    "k \<noteq> ''project_id'' \<Longrightarrow> meta_str c' k = meta_str c k"
proof -
  from insert_new_row_created [OF assms] obtain row acc where cols: "conv_columns env now c = Inr (row, c')"
    and mid: "mid = cv_id row" and fresh: "cv_id row \<notin> cv_id ` set (conversations db)"
    and run: "replace_child_rows c' (db\<lparr>accounts := acc, conversations := conversations db @ [row]\<rparr>) = Inr db'"
    by blast
  have "tbl_get cv_id mid (conversations db') = Some row"
    using replace_child_rows_frame [OF run] fresh
    by (simp add: mid tbl_get_append tbl_get_None_iff [THEN iffD2] table_simps)
  moreover have "validate_memory_id (PStr mid) = Inr mid"
    using conv_columns_Inr(4) [OF cols] mid by (auto simp: validate_memory_id_def Let_def split: if_splits)
  ultimately show "get_conv (PStr mid) db' = Inr (Some c')"
    using conv_columns_Inr(2) [OF cols] by (simp add: get_conv_def)
  show "k \<noteq> ''project_id'' \<Longrightarrow> meta_str c' k = meta_str c k"
    using cols by (auto simp: conv_columns_def Let_def result_simps dest: ensure_payload_project_Inr(3))
qed

lemma memory_status_meta:
  "memory_status (Some c) = (case meta_str c ''memory_status'' of None \<Rightarrow> ''active'' | Some s \<Rightarrow> s)"
  by (simp add: memory_status_def conv_meta_def meta_str_def split: option.splits)

lemma not_active_not_allowed: "memory_status c \<noteq> ''active'' \<Longrightarrow> \<not> conversation_allowed c w p"
  by (simp add: conversation_allowed_def conversation_is_active_def)

definition held_back :: "string \<Rightarrow> pydict \<Rightarrow> mem_db \<Rightarrow> bool" where
  "held_back status r db \<longleftrightarrow>
     (\<exists>i c. dget r ''id'' = Some (PStr i) \<and> get_conv (PStr i) db = Inr (Some c)
        \<and> memory_status (Some c) = status \<and> (\<forall>w p. \<not> conversation_allowed (Some c) w p))"

lemma record_audit_mem: "record_audit_event rt ev a h = (r, h') \<Longrightarrow> hub_mem h' = hub_mem h"
  by (auto simp: record_audit_event_def act_bind_def act_tick_def split: sum.splits)

lemma store_review_memory_Inr:
  assumes "store_review_memory rt sc rv c h = (Inr (r, c2), h')" "rv_status rv \<noteq> ''active''"
    and "rv_received_key rv \<noteq> ''memory_status''"
  shows "dget r ''status'' = Some (PStr (rv_return rv))" "dget r ''memory_status'' = Some (PStr (rv_status rv))"
    "dget r ''inserted'' = Some (PBool True) \<Longrightarrow> held_back (rv_status rv) r (hub_mem h')"
proof -
  from assms(1) obtain now m mid ins h1 h2 u where
    m: "m = dset (dset (ensure_metadata c) ''memory_status'' (PStr (rv_status rv))) (rv_received_key rv) (PStr now)"
    and ins: "insert_new_conversation rt (dset c ''metadata'' (PDict m)) h1 = (Inr ((mid, ins), c2), h2)"
    and aud: "\<exists>ev a. record_audit_event rt ev a h2 = (Inr u, h')"
    and r: "r = [(''status'', PStr (rv_return rv)), (''id'', PStr mid),
       (''memory_status'', PStr (rv_status rv)), (''inserted'', PBool ins), (''chunks'', PInt 0)]"
    unfolding store_review_memory_def Let_def by (clarsimp simp: act_simps split: prod.splits) blast
  show "dget r ''status'' = Some (PStr (rv_return rv))" "dget r ''memory_status'' = Some (PStr (rv_status rv))"
    by (simp_all add: r)
  assume "dget r ''inserted'' = Some (PBool True)"
  then have "ins = True" by (simp add: r)
  with ins obtain n db where db: "insert_new (ie_store (rt_env rt)) (rt_sql_now rt n) (dset c ''metadata'' (PDict m))
      (hub_mem h1) = Inr (((mid, True), c2), db)" "hub_mem h2 = db"
    by (auto simp: insert_new_conversation_def act_simps)
  have "hub_mem h' = db" using aud record_audit_mem db(2) by metis
  moreover have "memory_status (Some c2) = rv_status rv"
    using insert_new_created(2) [OF db(1), of "''memory_status''"] assms(3)
    by (simp add: memory_status_meta m dget_none_def dget_or_def)
  ultimately show "held_back (rv_status rv) r (hub_mem h')"
    using insert_new_created(1) [OF db(1)] assms(2) by (auto simp: held_back_def r not_active_not_allowed)
qed

lemma status_inserted_result [simp]:
  "dget (with_graph_counts (inserted_result i d n k) counts) ''status'' = Some (PStr ''ok'')"
  by (simp add: with_graph_counts_def inserted_result_def)

definition answers_ok :: "(pydict, 'v) act \<Rightarrow> bool" where
  "answers_ok m \<longleftrightarrow> (\<forall>h r h'. m h = (Inr r, h') \<longrightarrow> dget r ''status'' = Some (PStr ''ok''))"

lemma answers_ok_bind: "(\<And>x. answers_ok (f x)) \<Longrightarrow> answers_ok (act_bind m f)"
  by (auto simp: answers_ok_def act_simps)

lemma answers_ok_ret: "dget r ''status'' = Some (PStr ''ok'') \<Longrightarrow> answers_ok (act_ret r)"
  by (simp add: answers_ok_def act_simps)

lemma dedup_answers_ok: "answers_ok (deduplicated_ingestion_result rt sc c)"
  unfolding deduplicated_ingestion_result_def
  by (intro answers_ok_bind answers_ok_ret) (simp add: inserted_result_def)

lemma finish_answers_ok: "answers_ok (finish_append rt sc u cs n ms)"
  unfolding finish_append_def by (intro answers_ok_bind answers_ok_ret) simp

lemma same_thread_answers_ok: "answers_ok (ingest_same_thread rt others sc c dup same)"
proof -
  have "answers_ok (stale_snapshot_ingestion_result rt sc c)" for c
    unfolding stale_snapshot_ingestion_result_def by (intro answers_ok_bind answers_ok_ret) simp
  moreover have "answers_ok (reindex_equal rt sc c)" for c
    unfolding reindex_equal_def by (intro answers_ok_bind) (auto intro: finish_answers_ok split: prod.splits)
  ultimately show ?thesis
    unfolding ingest_same_thread_def
    by (intro answers_ok_bind) (auto intro: finish_answers_ok dedup_answers_ok split: append_outcome.splits)
qed

lemma prepared_answers_ok:
  assumes "ingest_prepared rt others sc c h = (Inr (r, c2), h')"
  shows "dget r ''status'' = Some (PStr ''ok'')"
proof -
  from assms obtain found h1 where "dedupe rt sc c h = (Inr found, h1)"
    and rest: "(case found of
       Inl d \<Rightarrow> act_bind (deduplicated_ingestion_result rt sc d) (\<lambda>r. act_ret (r, c))
     | Inr dup \<Rightarrow>
         (let c1 = (case dup of Some i \<Rightarrow> dset c ''id'' (PStr i) | None \<Rightarrow> c) in
          act_bind (act_get (conv_id c1)) (\<lambda>existing.
          act_bind (act_of (check_existing rt sc c1 existing)) (\<lambda>_.
          act_bind (act_read (\<lambda>h. lookup_same_thread (rt_trusted_appends rt) c1 (sc_owner sc) (sc_project sc)
              (hub_mem h))) (\<lambda>same.
          case same of
            Some s \<Rightarrow> act_bind (ingest_same_thread rt others sc c1 (dup \<noteq> None) s) (\<lambda>r. act_ret (r, c1))
          | None \<Rightarrow> ingest_new rt sc dup c1))))) h1 = (Inr (r, c2), h')"
    unfolding ingest_prepared_def act_bind_Inr_iff [of "dedupe rt sc c"] by blast
  show ?thesis
  proof (cases found)
    case (Inl d)
    then show ?thesis using rest dedup_answers_ok [of rt sc d] by (auto simp: act_simps answers_ok_def)
  next
    case (Inr dup)
    define c1 where "c1 = (case dup of Some i \<Rightarrow> dset c ''id'' (PStr i) | None \<Rightarrow> c)"
    from rest Inr obtain same h3 where s: "(case same of
            Some s \<Rightarrow> act_bind (ingest_same_thread rt others sc c1 (dup \<noteq> None) s) (\<lambda>r. act_ret (r, c1))
          | None \<Rightarrow> ingest_new rt sc dup c1) h3 = (Inr (r, c2), h')"
      by (auto simp: act_simps Let_def c1_def [symmetric] simp del: not_None_eq)
    show ?thesis
    proof (cases same)
      case None
      with s have "ingest_new rt sc dup c1 h3 = (Inr (r, c2), h')" by simp
      then show ?thesis by (auto simp: ingest_new_def act_simps split: prod.splits)
    next
      case (Some x)
      with s show ?thesis
        using same_thread_answers_ok [of rt others sc c1 "dup \<noteq> None" x] by (auto simp: act_simps answers_ok_def)
    qed
  qed
qed

lemma quarantined_outcome:
  assumes "store_quarantined_memory rt sc fs c h = (Inr (r, c2), h')"
  shows "dget r ''status'' = Some (PStr ''quarantined'')"
    "dget r ''inserted'' = Some (PBool True) \<Longrightarrow> held_back ''quarantined'' r (hub_mem h')"
proof -
  from assms obtain rv c0 r0 where rv: "rv_status rv = ''quarantined''" "rv_received_key rv = ''quarantine_received_at''"
      "rv_return rv = ''quarantined''"
    and run: "store_review_memory rt sc rv c0 h = (Inr (r0, c2), h')"
    and r: "\<exists>v. r = dset r0 ''quarantine_reason_codes'' v"
    unfolding store_quarantined_memory_def Let_def by (auto simp: act_simps split: prod.splits) force
  have 1: "dget r0 ''status'' = Some (PStr ''quarantined'')"
    "dget r0 ''inserted'' = Some (PBool True) \<Longrightarrow> held_back ''quarantined'' r0 (hub_mem h')"
    using store_review_memory_Inr [OF run] rv by simp_all
  show "dget r ''status'' = Some (PStr ''quarantined'')" using r 1 by auto
  show "dget r ''inserted'' = Some (PBool True) \<Longrightarrow> held_back ''quarantined'' r (hub_mem h')"
    using r 1(2) by (auto simp: held_back_def)
qed

lemma ingest_run_outcome:
  assumes run: "ingest_run rt others strict w p payload h = (Inr (r, c), h')"
  shows "(dget r ''status'' = Some (PStr ''quarantined'') \<and> same_index h h'
      \<and> (dget r ''inserted'' = Some (PBool True) \<longrightarrow> held_back ''quarantined'' r (hub_mem h')))
    \<or> (dget r ''status'' = Some (PStr ''ok'')
      \<and> (\<exists>n q c0 c1. prepare_incoming (rt_env rt) (rt_now rt n) (rt_uuid rt n) payload strict True w q = Inr c0
           \<and> enrich rt c0 = Inr c1 \<and> detect_sensitive_content (rt_env rt) c1 = []))"
proof -
  from run obtain q h1 where scope: "resolve_project rt w p ''writer'' h = (Inr q, h1)"
    and body: "ingest_in_scope rt others strict payload \<lparr>sc_owner = w, sc_project = Some q\<rparr> h1 = (Inr (r, c), h')"
    by (auto simp: ingest_run_def in_scope_def act_simps)
  let ?sc = "\<lparr>sc_owner = w, sc_project = Some q\<rparr>"
  from body obtain n c0 c1 h2 h3 where prep: "prepare rt ?sc strict True payload h1 = (Inr c0, h2)"
    and inc: "prepare_incoming (rt_env rt) (rt_now rt n) (rt_uuid rt n) payload strict True w q = Inr c0"
    and lin: "check_lineage ?sc c0 h2 = (Inr (), h3)" and enr: "enrich rt c0 = Inr c1"
    and rest: "(if detect_sensitive_content (rt_env rt) c1 \<noteq> []
        then store_quarantined_memory rt ?sc (detect_sensitive_content (rt_env rt) c1) c1
        else ingest_prepared rt others ?sc c1) h3 = (Inr (r, c), h')"
    unfolding ingest_in_scope_def Let_def by (auto simp: act_simps prepare_def)
  have 1: "same_index h h1" using act_invD [OF index_kept.resolved _ scope] by simp
  have 2: "same_index h h2" using act_invD [OF index_kept.prepared 1 prep] .
  have 3: "same_index h h3" using act_invD [OF index_kept.lineage_checked 2 lin] .
  show ?thesis
  proof (cases "detect_sensitive_content (rt_env rt) c1 = []")
    case True
    then have "dget r ''status'' = Some (PStr ''ok'')" using rest prepared_answers_ok by auto
    then show ?thesis using True inc enr by blast
  next
    case False
    then have q: "store_quarantined_memory rt ?sc (detect_sensitive_content (rt_env rt) c1) c1 h3 = (Inr (r, c), h')"
      using rest by simp
    then show ?thesis
      using act_invD [OF index_kept.quarantined 3 q] quarantined_outcome [OF q] by blast
  qed
qed

text \<open>
  C12. Sensitive content stays out of the index: an ingestion that answers \<open>ok\<close> scanned the enriched
  conversation without findings; any other answer is \<open>quarantined\<close>, and then vectors, facts and summaries are
  what they were, and the memory, when it is new, is stored as quarantined, where no reader of active
  memories of any project is allowed to see it.
\<close>

theorem sensitive_content_not_indexed:
  "case ingest_run rt others strict w p payload h of
     (Inl e, h') \<Rightarrow> True
   | (Inr (r, c), h') \<Rightarrow>
       (if dget r ''status'' = Some (PStr ''ok'')
        then \<exists>n q c0 c1. prepare_incoming (rt_env rt) (rt_now rt n) (rt_uuid rt n) payload strict True w q = Inr c0
               \<and> enrich rt c0 = Inr c1 \<and> detect_sensitive_content (rt_env rt) c1 = []
        else dget r ''status'' = Some (PStr ''quarantined'') \<and> same_index h h'
          \<and> (if dget r ''inserted'' = Some (PBool True) then held_back ''quarantined'' r (hub_mem h') else True))"
proof -
  obtain out h' where run: "ingest_run rt others strict w p payload h = (out, h')" by fastforce
  show ?thesis
  proof (cases out)
    case (Inr rc)
    obtain r c where "rc = (r, c)" by (cases rc)
    with run Inr have eq: "ingest_run rt others strict w p payload h = (Inr (r, c), h')" by simp
    show ?thesis using ingest_run_outcome [OF eq] unfolding eq by (simp only: prod.case sum.case) auto
  qed (simp add: run)
qed

section \<open>The end of a review\<close>

lemma get_conv_after_insert:
  assumes "mem_db_ok db" "insert_conv env now (dset c ''metadata'' (PDict m)) db = Inr ((i, c1), db')"
    and "get_conv (PStr j) db = Inr (Some c)"
  shows "i = j" "get_conv (PStr j) db' = Inr (Some c1)" "k \<noteq> ''project_id'' \<Longrightarrow> meta_str c1 k = opt_str (dget_none m k)"
proof -
  from assms(2) obtain row where cols: "conv_columns env now (dset c ''metadata'' (PDict m)) = Inr (row, c1)" "i = cv_id row"
    by (rule insert_conv_cases)
  from assms(3) obtain row0 where v: "validate_memory_id (PStr j) = Inr j"
    and row0: "tbl_get cv_id j (conversations db) = Some row0" "cv_payload row0 = c"
    by (auto simp: get_conv_def result_simps validate_memory_id_def Let_def split: if_splits)
  have "row_ok row0" "cv_id row0 = j"
    using assms(1) tbl_get_Some_key [OF row0(1)] by (auto simp: mem_db_ok_def list_all_iff)
  then have "\<exists>x. ditem c ''id'' = Inr x \<and> validate_memory_id x = Inr j"
    using row0(2) by (auto simp: row_ok_def result_simps)
  moreover have "\<exists>x. ditem c ''id'' = Inr x \<and> validate_memory_id x = Inr (cv_id row)"
    using conv_columns_Inr(3,4) [OF cols(1)] by (simp add: ditem_dset_other)
  ultimately show ij: "i = j" using cols(2) by auto
  show "get_conv (PStr j) db' = Inr (Some c1)"
    using insert_reads_back [OF assms(1,2)] ij by simp
  show "k \<noteq> ''project_id'' \<Longrightarrow> meta_str c1 k = opt_str (dget_none m k)"
    using cols(1) by (auto simp: conv_columns_def Let_def result_simps dest: ensure_payload_project_Inr(3))
qed

lemma reviewed_cases:
  assumes "reviewed rt event memory_id sc decide h = (Inr r, h')"
  obtains "same_memory h h'" "dget r ''status'' \<noteq> Some (PStr ''ok'')"
  | c where "get_conv (PStr memory_id) (hub_mem h) = Inr (Some c)" "memory_status (Some c) \<in> set REVIEWABLE_MEMORY_STATUSES"
    "decide c (memory_status (Some c)) h = (Inr r, h')"
proof -
  from assms obtain c where g: "get_conv (PStr memory_id) (hub_mem h) = Inr c"
    and rest: "(if \<not> conversation_authorized c (sc_owner sc) (sc_project sc) then review_not_found rt sc event memory_id
     else case c of
       Some d \<Rightarrow>
         (if memory_status c \<in> set REVIEWABLE_MEMORY_STATUSES then decide d (memory_status c)
          else review_not_pending rt sc event memory_id (memory_status c))
     | None \<Rightarrow> review_not_pending rt sc event memory_id (memory_status c)) h = (Inr r, h')"
    unfolding reviewed_def act_get_def act_bind_Inr_iff act_read_iff by blast
  have quiet: "same_memory h h' \<and> dget r ''status'' \<noteq> Some (PStr ''ok'')"
    if q: "review_not_found rt sc event memory_id h = (Inr r, h') \<or> review_not_pending rt sc event memory_id s h = (Inr r, h')" for s
  proof
    show "same_memory h h'"
      using q act_invD [OF nothing_written.no_review(1) same_memory_refl]
        act_invD [OF nothing_written.no_review(2) same_memory_refl] by blast
    show "dget r ''status'' \<noteq> Some (PStr ''ok'')"
      using q by (auto simp: review_not_found_def review_not_pending_def act_simps)
  qed
  show thesis
  proof (cases "conversation_authorized c (sc_owner sc) (sc_project sc) \<and> (\<exists>d. c = Some d) \<and> memory_status c \<in> set REVIEWABLE_MEMORY_STATUSES")
    case True
    then show thesis using that(2) g rest by auto
  next
    case False
    then have "review_not_found rt sc event memory_id h = (Inr r, h') \<or>
        review_not_pending rt sc event memory_id (memory_status c) h = (Inr r, h')"
      using rest by (auto split: if_splits option.splits)
    then show thesis using that(1) quiet by blast
  qed
qed

lemma get_conv_same: "same_memory h h' \<Longrightarrow> get_conv i (hub_mem h') = get_conv i (hub_mem h)"
  by (simp add: same_memory_def same_tables_def get_conv_def)

lemma same_memory_trans: "same_memory h h1 \<Longrightarrow> same_memory h1 h2 \<Longrightarrow> same_memory h h2"
  by (simp add: same_memory_def same_tables_def)

text \<open>A memory that is not up for review: approving and rejecting it do nothing.\<close>

lemma decided_review:
  assumes "get_conv (PStr i) (hub_mem h) = Inr (Some c)" "memory_status (Some c) \<notin> set REVIEWABLE_MEMORY_STATUSES"
    and "in_scope rt w p (\<lambda>sc. reviewed rt ev i sc (decide sc)) h = (out, h')"
  shows "same_memory h h'" "\<And>r. out = Inr r \<Longrightarrow> dget r ''status'' \<noteq> Some (PStr ''ok'')"
proof -
  obtain q h1 where res: "resolve_project rt w p ''writer'' h = (q, h1)" by fastforce
  have s1: "same_memory h h1" using act_invD [OF nothing_written.resolved same_memory_refl res] .
  have *: "same_memory h h' \<and> (\<forall>r. out = Inr r \<longrightarrow> dget r ''status'' \<noteq> Some (PStr ''ok''))"
  proof (cases q)
    case (Inl e)
    then show ?thesis using assms(3) s1 by (auto simp: in_scope_def act_bind_def res)
  next
    case (Inr x)
    let ?sc = "\<lparr>sc_owner = w, sc_project = Some x\<rparr>"
    have g: "get_conv (PStr i) (hub_mem h1) = Inr (Some c)" using assms(1) get_conv_same [OF s1] by simp
    have "reviewed rt ev i ?sc (decide ?sc) h1 =
        (if conversation_authorized (Some c) w (Some x) then review_not_pending rt ?sc ev i (memory_status (Some c))
         else review_not_found rt ?sc ev i) h1"
      using assms(2) g by (simp add: reviewed_def act_get_def act_bind_def act_read_def)
    then have "(if conversation_authorized (Some c) w (Some x) then review_not_pending rt ?sc ev i (memory_status (Some c))
         else review_not_found rt ?sc ev i) h1 = (out, h')"
      using assms(3) Inr by (simp add: in_scope_def act_bind_def res)
    then have run: "review_not_pending rt ?sc ev i (memory_status (Some c)) h1 = (out, h')
        \<or> review_not_found rt ?sc ev i h1 = (out, h')" by (auto split: if_splits)
    then have "same_memory h h'"
      using act_invD [OF nothing_written.no_review(1) s1] act_invD [OF nothing_written.no_review(2) s1] by blast
    moreover have "dget r ''status'' \<noteq> Some (PStr ''ok'')" if "out = Inr r" for r
      using run that by (auto simp: review_not_found_def review_not_pending_def act_simps)
    ultimately show ?thesis by blast
  qed
  show "same_memory h h'" "\<And>r. out = Inr r \<Longrightarrow> dget r ''status'' \<noteq> Some (PStr ''ok'')" using * by auto
qed

definition rejected_for_good :: "string \<Rightarrow> 'v hub \<Rightarrow> bool" where
  "rejected_for_good i h \<longleftrightarrow>
     (\<forall>rt others w p. list_all (\<lambda>(out, h'). same_memory h h'
        \<and> (case out of Inr r \<Rightarrow> dget r ''status'' \<noteq> Some (PStr ''ok'') | Inl e \<Rightarrow> True))
       [approve_pending_memory rt others i w p h, reject_pending_memory rt i w p h])"

text \<open>
  C15. A rejection is final: when rejecting a memory succeeds, the memory reads back as rejected, no
  reader of active memories is allowed to see it, vectors, facts and summaries are what they were, and
  whoever tries to approve or reject it afterwards gets no success and changes no memory.
\<close>

theorem rejection_is_final:
  assumes "mem_db_ok (hub_mem h)" "reject_pending_memory rt i w p h = (Inr r, h')"
    and "dget r ''status'' = Some (PStr ''ok'')"
  shows "same_index h h' \<and> rejected_for_good i h'
    \<and> (\<exists>c. get_conv (PStr i) (hub_mem h') = Inr (Some c) \<and> memory_status (Some c) = ''rejected''
         \<and> (\<forall>w p. \<not> conversation_allowed (Some c) w p))"
proof -
  from assms(2) obtain q h1 where res: "resolve_project rt w p ''writer'' h = (Inr q, h1)"
    and rev: "reviewed rt ''memory.rejected'' i \<lparr>sc_owner = w, sc_project = Some q\<rparr>
        (reject_reviewed rt i \<lparr>sc_owner = w, sc_project = Some q\<rparr>) h1 = (Inr r, h')"
    by (auto simp: reject_pending_memory_def in_scope_def act_simps)
  have ok1: "hub_mem h1 = hub_mem h \<or> mem_db_ok (hub_mem h1)"
    using act_invD [OF tables_ok.resolved assms(1) res] by simp
  from rev obtain c where g: "get_conv (PStr i) (hub_mem h1) = Inr (Some c)"
    and run: "reject_reviewed rt i \<lparr>sc_owner = w, sc_project = Some q\<rparr> c (memory_status (Some c)) h1 = (Inr r, h')"
    using assms(3) by (cases rule: reviewed_cases) auto
  obtain now h2 where clk: "utc_now rt h1 = (Inr now, h2)" and h2: "hub_mem h2 = hub_mem h1"
    by (simp add: utc_now_def act_bind_def act_tick_def act_ret_def)
  let ?m = "rejected_metadata now (memory_status (Some c)) (ensure_metadata c)"
  from run clk obtain n j c1 db where ins: "insert_conv (ie_store (rt_env rt)) (rt_sql_now rt n)
      (dset c ''metadata'' (PDict ?m)) (hub_mem h1) = Inr ((j, c1), db)" and db: "hub_mem h' = db"
    by (auto simp: reject_reviewed_def store_insert_def act_simps h2 dest!: record_audit_mem)
  have stored: "get_conv (PStr i) (hub_mem h') = Inr (Some c1)" "memory_status (Some c1) = ''rejected''"
    using get_conv_after_insert [OF _ ins g] ok1 assms(1) db
    by (auto simp: memory_status_meta rejected_metadata_def Let_def dget_none_def dget_or_def)
  have "same_index h h'"
    using act_invD [OF index_kept.rejected same_index_refl assms(2)] .
  moreover have "rejected_for_good i h'"
    unfolding rejected_for_good_def approve_pending_memory_def reject_pending_memory_def
    using decided_review [OF stored(1)] stored(2)
    by (auto simp: REVIEWABLE_MEMORY_STATUSES_def split: sum.splits)
  ultimately show ?thesis using stored not_active_not_allowed by auto
qed

definition demo_pending :: pydict where
  "demo_pending =
     [(''id'', PStr demo_id), (''messages'', PList []),
      (''metadata'', PDict [(''project_id'', PStr ''local-default''), (''memory_status'', PStr ''pending_review'')])]"

definition demo_pending_hub :: "vec_row list hub" where
  "demo_pending_hub = (empty_hub [])\<lparr>hub_mem := store_run demo_env [InsertConv ''2026'' demo_pending] empty_mem_db\<rparr>"

theorem rejection_is_final_witness:
  "\<exists>h'. reject_pending_memory demo_runtime demo_id None None demo_pending_hub =
       (Inr [(''status'', PStr ''ok''), (''id'', PStr demo_id), (''memory_status'', PStr ''rejected'')], h')
     \<and> rejected_for_good demo_id h'"
proof -
  let ?run = "reject_pending_memory demo_runtime demo_id None None demo_pending_hub"
  have ok: "mem_db_ok (hub_mem demo_pending_hub)"
    using store_run_ok [OF mem_db_ok_empty] by (simp add: demo_pending_hub_def del: store_run.simps)
  have "fst ?run = Inr [(''status'', PStr ''ok''), (''id'', PStr demo_id), (''memory_status'', PStr ''rejected'')]"
    by code_simp
  then have run: "?run = (Inr [(''status'', PStr ''ok''), (''id'', PStr demo_id), (''memory_status'', PStr ''rejected'')], snd ?run)"
    by (metis prod.collapse)
  show ?thesis using run rejection_is_final [OF ok run] by auto
qed

end
