(* ===== verification/IndexProperties.thy ===== *)
theory IndexProperties
  imports ReviewProperties ChunkingProperties
begin

text \<open>
  The index after ingestion: when a new conversation has been ingested, its chunk rows, its manifest and
  the vector store agree; when indexing fails, the conversation does not look indexed.
\<close>

section \<open>Chunk ids along the way to the tables and the vectors\<close>

definition chunk_id_of :: "pydict \<Rightarrow> string" where
  "chunk_id_of c = py_str (dget_none c ''chunk_id'')"

lemma chunk_ids_of_Inr: "chunk_ids_of cs = Inr ids \<Longrightarrow> ids = map chunk_id_of cs"
  unfolding chunk_ids_of_def
  by (induction cs arbitrary: ids) (auto simp: result_simps chunk_id_of_def ditem_def dget_none_def dget_or_def
      split: option.splits)

definition manifest_is :: "pydict \<Rightarrow> pydict list \<Rightarrow> bool" where
  "manifest_is c ds \<longleftrightarrow> (\<exists>m. metadata_of c = Some m \<and> dget m ''index_chunks'' = Some (PList (map PDict ds)))"

lemma index_chunks_manifest: "manifest_is c ds \<Longrightarrow> index_chunks c = Inr ds"
proof -
  have "List.map_filter as_dict (map PDict ds) = ds" for ds
    by (induction ds) (auto simp: map_filter_simps)
  then show "manifest_is c ds \<Longrightarrow> index_chunks c = Inr ds"
    by (auto simp: manifest_is_def index_chunks_def dget_none_def dget_or_def list_all_iff)
qed

lemma manifest_stamped: "manifest_is c ds \<Longrightarrow> conv_columns env now c = Inr (row, c') \<Longrightarrow> manifest_is c' ds"
  by (auto simp: conv_columns_def Let_def result_simps ensure_payload_project_def stamp_project_id_def
      manifest_is_def metadata_of_def dget_none_def dget_or_def as_dict_Some_iff split: option.splits)

lemma fold_messages_chunks: "fold_result (insert_message v) ms db = Inr db' \<Longrightarrow> chunks db' = chunks db"
  by (drule fold_child_frame(1)) simp

section \<open>Index states\<close>

definition all_states :: "string \<Rightarrow> string \<Rightarrow> mem_db \<Rightarrow> bool" where
  "all_states v st db \<longleftrightarrow> (\<forall>h \<in> set (chunks db). h_conv h = v \<longrightarrow> h_state h = st)"

lemma fully_indexed_iff:
  assumes "validate_memory_id i = Inr v"
  shows "is_fully_indexed i db = Inr ((\<exists>h \<in> set (chunks db). h_conv h = v) \<and> all_states v ''indexed'' db)"
proof -
  have len: "length xs = length (filter q xs) \<longleftrightarrow> list_all q xs" for q :: "chunk_row \<Rightarrow> bool" and xs
    using length_filter_less [of _ xs q] by (induction xs) (auto, (metis Suc_n_not_le_n length_filter_le)+)
  show ?thesis
    unfolding is_fully_indexed_def assms bind_result.simps Let_def len
    by (auto simp: all_states_def list_all_iff filter_empty_conv)
qed

lemma validated_text: "validate_memory_id i = Inr v \<Longrightarrow> validate_memory_id (PStr v) = Inr v"
  by (auto simp: validate_memory_id_def Let_def split: if_splits)

lemma mark_chunks_Inr:
  assumes "mark_chunks i cs c st h = (Inr c', h')"
  obtains db where "mark_chunks_state (PStr i) (map chunk_id_of cs) st (hub_mem h) = Inr ((), db)"
    "h' = h\<lparr>hub_mem := db\<rparr>"
proof -
  from assms obtain cs1 ids db where set: "set_index_chunks_state c cs st = Inr (c', cs1)"
    and ids: "chunk_ids_of cs1 = Inr ids"
    and db: "mark_chunks_state (PStr i) ids st (hub_mem h) = Inr ((), db)" "h' = h\<lparr>hub_mem := db\<rparr>"
    by (auto simp: mark_chunks_def act_simps)
  have "cs1 = map (with_state st) cs"
    using set by (auto simp: set_index_chunks_state_def Let_def result_simps split: pyval.splits)
  then have "ids = map chunk_id_of cs"
    using chunk_ids_of_Inr [OF ids] by (simp add: chunk_id_of_def with_state_def dget_none_def dget_or_def)
  then show thesis using that db by simp
qed

lemmas act_outcomes = act_simps act_bind_Inl_iff act_mem_Inl_iff

lemma mark_chunks_Inl: "mark_chunks i cs c st h = (Inl e, h') \<Longrightarrow> h' = h"
  by (auto simp: mark_chunks_def act_outcomes split: prod.splits)

lemma updated_rows:
  assumes "mark_chunks_state (PStr i) ids st db = Inr ((), db')"
  obtains g where "validate_memory_id (PStr i) = Inr i" "set (chunks db') = g ` set (chunks db)"
    "\<And>h. h_conv (g h) = h_conv h"
    "\<And>h. h_state (g h) = (if h_conv h = i \<and> h_id h \<in> set ids then state_value st else h_state h)"
proof -
  from assms obtain u where u: "validate_memory_id (PStr i) = Inr u" and ch: "chunks db' =
      tbl_update (\<lambda>h. h_conv h = u \<and> h_id h \<in> set ids) (\<lambda>h. h\<lparr>h_state := state_value st\<rparr>) (chunks db)"
    by (rule mark_chunks_rows)
  have "u = i" using u by (auto simp: validate_memory_id_def Let_def split: if_splits)
  then show thesis
    using u by (intro that [of "\<lambda>h. if h_conv h = u \<and> h_id h \<in> set ids then h\<lparr>h_state := state_value st\<rparr> else h"])
      (simp_all only: ch set_tbl_update, simp_all)
qed

lemma marked_states:
  assumes "mark_chunks_state (PStr v) ids st db = Inr ((), db')" "\<forall>h \<in> set (chunks db). h_conv h = v \<longrightarrow> h_id h \<in> set ids"
  shows "all_states v (state_value st) db'"
    "(\<exists>h \<in> set (chunks db'). h_conv h = v) \<longleftrightarrow> (\<exists>h \<in> set (chunks db). h_conv h = v)"
proof -
  from assms(1) obtain g where rows: "set (chunks db') = g ` set (chunks db)"
    and conv: "\<And>h. h_conv (g h) = h_conv h"
    and state: "\<And>h. h_state (g h) = (if h_conv h = v \<and> h_id h \<in> set ids then state_value st else h_state h)"
    by (rule updated_rows) blast
  show "all_states v (state_value st) db'" using assms(2) by (auto simp: all_states_def rows conv state)
  show "(\<exists>h \<in> set (chunks db'). h_conv h = v) \<longleftrightarrow> (\<exists>h \<in> set (chunks db). h_conv h = v)"
    by (simp add: rows conv)
qed

section \<open>The outcome of indexing\<close>

lemma index_conversation_Inr:
  assumes "index_conversation rt sc i c cs b h = (Inr c', h')"
  obtains es vs db where "embed_chunks (rt_embedder rt) cs (sc_project sc) (sc_owner sc) = Inr es"
    "vo_insert (rt_vectors rt) i es b (hub_vectors h) = (Inr (), vs)"
    "mark_chunks_state (PStr i) (map chunk_id_of cs) Indexed (hub_mem h) = Inr ((), db)"
    "h' = h\<lparr>hub_vectors := vs, hub_mem := db\<rparr>"
proof -
  from assms obtain es h1 where es: "embed_chunks (rt_embedder rt) cs (sc_project sc) (sc_owner sc) = Inr es"
    and vs: "store_vectors rt i es b h = (Inr (), h1)" and m: "mark_chunks i cs c Indexed h1 = (Inr c', h')"
    by (auto simp: index_conversation_def act_on_error_def act_outcomes split: prod.splits sum.splits)
  obtain vs' where v: "vo_insert (rt_vectors rt) i es b (hub_vectors h) = (Inr (), vs')" "h1 = h\<lparr>hub_vectors := vs'\<rparr>"
    using vs by (auto simp: store_vectors_def act_vectors_def split: prod.splits)
  from m obtain db where "mark_chunks_state (PStr i) (map chunk_id_of cs) Indexed (hub_mem h1) = Inr ((), db)"
    "h' = h1\<lparr>hub_mem := db\<rparr>" by (rule mark_chunks_Inr)
  then show thesis using that [OF es v(1)] v(2) by simp
qed

lemma store_vectors_mem: "store_vectors rt i es b h = (out, h1) \<Longrightarrow> hub_mem h1 = hub_mem h"
  by (auto simp: store_vectors_def act_vectors_def split: prod.splits)

lemma index_conversation_Inl:
  assumes "index_conversation rt sc i c cs b h = (Inl e, h')"
  shows "hub_mem h' = hub_mem h
    \<or> mark_chunks_state (PStr i) (map chunk_id_of cs) Failed (hub_mem h) = Inr ((), hub_mem h')"
proof -
  let ?body = "act_bind (act_of (embed_chunks (rt_embedder rt) cs (sc_project sc) (sc_owner sc))) (\<lambda>embeddings.
        act_bind (store_vectors rt i embeddings b) (\<lambda>_. mark_chunks i cs c Indexed))"
  let ?handler = "act_bind (mark_chunks i cs c Failed) (\<lambda>_. act_ret ())"
  from assms obtain e1 h1 where body: "?body h = (Inl e1, h1)" and "\<exists>out. ?handler h1 = (out, h')"
    by (auto simp: index_conversation_def act_on_error_def split: prod.splits sum.splits)
  then obtain out where handler: "?handler h1 = (out, h')" by blast
  have 1: "hub_mem h1 = hub_mem h"
    using body by (auto simp: act_outcomes dest!: mark_chunks_Inl store_vectors_mem)
  show ?thesis
  proof (cases out)
    case (Inl x)
    then show ?thesis using handler 1 by (auto simp: act_outcomes dest!: mark_chunks_Inl)
  next
    case (Inr x)
    with handler obtain c' where "mark_chunks i cs c Failed h1 = (Inr c', h')" by (auto simp: act_outcomes)
    then obtain db where "mark_chunks_state (PStr i) (map chunk_id_of cs) Failed (hub_mem h1) = Inr ((), db)"
      "h' = h1\<lparr>hub_mem := db\<rparr>" by (rule mark_chunks_Inr)
    then show ?thesis using 1 by simp
  qed
qed

text \<open>
  C14. A failed indexing never makes a memory look indexed: when embedding, writing the vectors or marking
  the chunks raises, the error reaches the caller and a memory that was not fully indexed before is not
  fully indexed afterwards, so that the next ingestion of the conversation repairs it.
\<close>

theorem failed_indexing_stays_incomplete:
  assumes "index_conversation rt sc i c cs b h = (Inl e, h')" "is_fully_indexed (PStr i) (hub_mem h) = Inr False"
  shows "is_fully_indexed (PStr i) (hub_mem h') = Inr False"
  using index_conversation_Inl [OF assms(1)]
proof
  assume m: "mark_chunks_state (PStr i) (map chunk_id_of cs) Failed (hub_mem h) = Inr ((), hub_mem h')"
  from m obtain g where v: "validate_memory_id (PStr i) = Inr i"
    and rows: "set (chunks (hub_mem h')) = g ` set (chunks (hub_mem h))" and conv: "\<And>h. h_conv (g h) = h_conv h"
    and state: "\<And>r. h_state (g r) = (if h_conv r = i \<and> h_id r \<in> set (map chunk_id_of cs) then state_value Failed else h_state r)"
    by (rule updated_rows) blast
  have "\<not> ((\<exists>r \<in> set (chunks (hub_mem h)). h_conv r = i) \<and> all_states i ''indexed'' (hub_mem h))"
    using assms(2) unfolding fully_indexed_iff [OF v] by simp
  then have "\<not> ((\<exists>r \<in> set (chunks (hub_mem h')). h_conv r = i) \<and> all_states i ''indexed'' (hub_mem h'))"
    by (auto simp: all_states_def rows conv state)
  then show ?thesis unfolding fully_indexed_iff [OF v] by simp
qed (use assms(2) in simp)

definition demo_chunk_hub :: "vec_row list hub" where
  "demo_chunk_hub = (empty_hub [])\<lparr>hub_mem := empty_mem_db\<lparr>chunks :=
     [\<lparr>h_id = ''m:0'', h_conv = demo_id, h_index = 0, h_message_hash = ''0'', h_role = ''user'', h_text = ''hello'',
       h_state = ''pending''\<rparr>]\<rparr>\<rparr>"

definition demo_chunk :: pydict where
  "demo_chunk = [(''chunk_id'', PStr ''m:0''), (''chunk_index'', PInt 0), (''message_index'', PInt 0),
     (''message_hash'', PStr ''0''), (''role'', PStr ''user''), (''text'', PStr ''hello'')]"

definition broken_embedder :: embedder where
  "broken_embedder = demo_embedder\<lparr>em_embed := (\<lambda>ts. Inl (RuntimeError ''embedding failed''))\<rparr>"

theorem failed_indexing_stays_incomplete_witness:
  "is_fully_indexed (PStr demo_id) (hub_mem (snd (index_conversation (demo_runtime\<lparr>rt_embedder := broken_embedder\<rparr>)
     \<lparr>sc_owner = None, sc_project = None\<rparr> demo_id [] [demo_chunk]
     True demo_chunk_hub))) = Inr False"
proof -
  let ?run = "index_conversation (demo_runtime\<lparr>rt_embedder := broken_embedder\<rparr>)
     \<lparr>sc_owner = None, sc_project = None\<rparr> demo_id [] [demo_chunk]
     True demo_chunk_hub"
  have "fst ?run = Inl (RuntimeError ''embedding failed'')" by code_simp
  then have run: "?run = (Inl (RuntimeError ''embedding failed''), snd ?run)" by (metis prod.collapse)
  have "is_fully_indexed (PStr demo_id) (hub_mem demo_chunk_hub) = Inr False" by code_simp
  then show ?thesis by (rule failed_indexing_stays_incomplete [OF run])
qed

section \<open>The entries of a chunk\<close>

text \<open>
  What the chunk table, the manifest and the vectors all keep of a chunk: its id, index, message hash, role
  and text.
\<close>

type_synonym entry = "string \<times> int \<times> string \<times> string \<times> string"

definition has_entry :: "pydict \<Rightarrow> entry \<Rightarrow> bool" where
  "has_entry d x \<longleftrightarrow>
     (case x of (cid, k, h, r, t) \<Rightarrow>
        dget d ''chunk_id'' = Some (PStr cid) \<and> dget d ''chunk_index'' = Some (PInt k)
        \<and> dget d ''message_hash'' = Some (PStr h) \<and> dget d ''role'' = Some (PStr r)
        \<and> dget d ''text'' = Some (PStr t))"

definition row_entry :: "chunk_row \<Rightarrow> entry" where
  "row_entry h = (h_id h, h_index h, h_message_hash h, h_role h, h_text h)"

definition vec_entry :: "vec_row \<Rightarrow> entry" where
  "vec_entry r = (vr_chunk r, vr_index r, vr_hash r, vr_role r, vr_text r)"

definition chunk_entries :: "string \<Rightarrow> mem_db \<Rightarrow> entry list" where
  "chunk_entries v db = map row_entry (filter (\<lambda>h. h_conv h = v) (chunks db))"

definition vec_entries :: "string \<Rightarrow> vec_row list \<Rightarrow> entry list" where
  "vec_entries v rows = map vec_entry (filter (\<lambda>r. vr_memory r = v) rows)"

text \<open>The entries of a list of chunks are numbered from 0 and have distinct, non-empty ids.\<close>

definition numbered_entries :: "entry list \<Rightarrow> bool" where
  "numbered_entries es \<longleftrightarrow>
     map (\<lambda>x. fst (snd x)) es = map int [0..<length es] \<and> distinct (map fst es) \<and> [] \<notin> set (map fst es)"

lemma int_of_PInt [simp]: "int_of_pyval (PInt k) = Inr k"
  by (simp add: int_of_pyval_def)

lemma chunk_message_entries:
  assumes "chunk_message encs cfg conv start om done = Inr cs" "list_all (\<lambda>c. \<exists>x. has_entry c x) done"
  shows "list_all (\<lambda>c. \<exists>x. has_entry c x) cs"
  using assms by (auto simp: chunk_message_def result_simps mk_chunk_def has_entry_def list_all_iff dget_def)

lemma chunk_id_index:
  assumes "int_str (int m) @ '':'' @ x = int_str (int n) @ '':'' @ y"
  shows "m = n"
proof -
  have "takeWhile (\<lambda>c. c \<noteq> CHR '':'') (nat_str k @ '':'' @ z) = nat_str k" for k z
    using colon_not_in_nat_str [of k] by (subst takeWhile_append2) auto
  from this [of m x] this [of n y] assms have "nat_str m = nat_str n" by (simp add: int_str_def)
  then show ?thesis by simp
qed

lemma chunk_messages_entries:
  assumes "chunk_messages encs cfg c = Inr cs"
  obtains es where "list_all2 has_entry cs es" "numbered_entries es"
proof -
  from assms obtain i items where run: "fold_result (chunk_message encs cfg (py_str i) 0) (List.enumerate 0 items) [] = Inr cs"
    by (auto simp: chunk_messages_def chunk_selected_messages_def result_simps split: pyval.splits)
  have "list_all (\<lambda>c. \<exists>x. has_entry c x) cs"
    using fold_result_invariant [where P = "list_all (\<lambda>c. \<exists>x. has_entry c x)", OF run] chunk_message_entries by auto
  then have "\<forall>d \<in> set cs. \<exists>x. has_entry d x" by (simp only: list_all_iff)
  then obtain f where f: "\<forall>d \<in> set cs. has_entry d (f d)" using bchoice by blast
  let ?es = "map f cs"
  have es: "list_all2 has_entry cs ?es" using f by (simp add: list_all2_conv_all_nth)
  have num: "chunks_numbered (py_str i) 0 cs"
    by (rule chunks_numbered_fold [OF run]) (simp add: chunks_numbered_def)
  have at: "fst (snd (f (cs ! j))) = int j"
    "\<exists>h. fst (f (cs ! j)) = py_str i @ '':'' @ int_str (int j) @ '':'' @ h" if "j < length cs" for j
  proof -
    have "has_entry (cs ! j) (f (cs ! j))" "chunk_at (py_str i) (0 + int j) (cs ! j)"
      using f num that by (auto simp: chunks_numbered_def)
    then show "fst (snd (f (cs ! j))) = int j" "\<exists>h. fst (f (cs ! j)) = py_str i @ '':'' @ int_str (int j) @ '':'' @ h"
      by (auto simp: has_entry_def chunk_at_def split: prod.splits)
  qed
  have "numbered_entries ?es"
    unfolding numbered_entries_def
  proof (intro conjI)
    show "map (\<lambda>x. fst (snd x)) ?es = map int [0..<length ?es]" using at(1) by (intro nth_equalityI) auto
    show "[] \<notin> set (map fst ?es)" using at(2) by (auto simp: in_set_conv_nth) (metis append_is_Nil_conv list.distinct(1))
    show "distinct (map fst ?es)"
      unfolding distinct_conv_nth
    proof (intro allI impI)
      fix a b assume ab: "a < length (map fst ?es)" "b < length (map fst ?es)" "a \<noteq> b"
      obtain x y where "fst (f (cs ! a)) = py_str i @ '':'' @ int_str (int a) @ '':'' @ x"
        "fst (f (cs ! b)) = py_str i @ '':'' @ int_str (int b) @ '':'' @ y" using at(2) ab by auto metis
      then show "map fst ?es ! a \<noteq> map fst ?es ! b" using ab chunk_id_index [of a x b y] by auto
    qed
  qed
  then show thesis using that es by blast
qed

lemma manifest_entry_has:
  "manifest_entry c = Inr m \<Longrightarrow> has_entry c x \<Longrightarrow> \<exists>d. m = PDict d \<and> has_entry d x"
  by (auto simp: manifest_entry_def result_simps ditem_def has_entry_def dget_def split: option.splits prod.splits)

lemma manifest_entries_have:
  "map_result manifest_entry cs = Inr ms \<Longrightarrow> list_all2 has_entry cs es \<Longrightarrow>
     \<exists>ds. ms = map PDict ds \<and> list_all2 has_entry ds es"
proof (induction cs arbitrary: ms es)
  case (Cons c cs)
  then obtain m ms' x es' where m: "manifest_entry c = Inr m" "map_result manifest_entry cs = Inr ms'" "ms = m # ms'"
    and x: "has_entry c x" "list_all2 has_entry cs es'" "es = x # es'"
    by (auto simp: result_simps list_all2_Cons1)
  obtain d where "m = PDict d" "has_entry d x" using manifest_entry_has [OF m(1) x(1)] by blast
  moreover obtain ds where "ms' = map PDict ds" "list_all2 has_entry ds es'" using Cons.IH [OF m(2) x(2)] by blast
  ultimately show ?case using m(3) x(3) by (intro exI [of _ "d # ds"]) simp
qed auto

lemma attach_entries:
  assumes "attach_index_chunks c cs = Inr c2" "list_all2 has_entry cs es"
  obtains ds where "manifest_is c2 ds" "list_all2 has_entry ds es"
proof -
  from assms(1) obtain ms where ms: "map_result manifest_entry cs = Inr ms"
    and c2: "c2 = dset c ''metadata'' (PDict (dset (ensure_metadata c) ''index_chunks'' (PList ms)))"
    by (auto simp: attach_index_chunks_def result_simps)
  obtain ds where "ms = map PDict ds" "list_all2 has_entry ds es"
    using manifest_entries_have [OF ms assms(2)] by blast
  then show thesis using c2 that by (auto simp: manifest_is_def metadata_of_def dget_or_def)
qed

section \<open>Entries in the chunk table\<close>

lemma insert_chunk_entry:
  assumes "insert_chunk v d db = Inr db'" "has_entry d x"
  obtains new where "row_entry new = x" "h_conv new = v"
    "chunks db' = filter (\<lambda>r. h_id r \<noteq> fst x \<and> \<not> (h_conv r = v \<and> h_index r = fst (snd x))) (chunks db) @ [new]"
proof -
  obtain cid k h r t where x: "x = (cid, k, h, r, t)" by (cases x)
  from assms(2) have d: "dget d ''chunk_id'' = Some (PStr cid)" "dget d ''chunk_index'' = Some (PInt k)"
    "dget d ''message_hash'' = Some (PStr h)" "dget d ''role'' = Some (PStr r)" "dget d ''text'' = Some (PStr t)"
    by (simp_all add: has_entry_def x)
  from assms(1) d obtain st where "chunks db' =
      filter (\<lambda>r. h_id r \<noteq> cid \<and> \<not> (h_conv r = v \<and> h_index r = k)) (chunks db)
      @ [\<lparr>h_id = cid, h_conv = v, h_index = k, h_message_hash = h, h_role = r, h_text = t, h_state = st\<rparr>]"
    unfolding insert_chunk_def Let_def ditem_def sqlite_int_def by (auto simp: result_simps split: if_splits)
  then show thesis by (intro that) (simp_all add: row_entry_def x)
qed

lemma insert_chunks_entries:
  assumes "fold_result (insert_chunk v) ds db = Inr db'" "list_all2 has_entry ds es"
    and "\<forall>h \<in> set (chunks db). h_conv h \<noteq> v" "distinct (map fst es)" "distinct (map (\<lambda>x. fst (snd x)) es)"
  shows "chunk_entries v db' = es"
  using assms(1,2,4,5)
proof (induction ds arbitrary: db' es rule: rev_induct)
  case Nil
  then show ?case using assms(3) by (auto simp: chunk_entries_def filter_empty_conv)
next
  case (snoc d ds)
  from snoc.prems(2) obtain es1 x where es: "es = es1 @ [x]" and e1: "list_all2 has_entry ds es1" and x: "has_entry d x"
    by (auto simp: list_all2_append1 list_all2_Cons1)
  from snoc.prems(1) obtain db1 where db1: "fold_result (insert_chunk v) ds db = Inr db1" "insert_chunk v d db1 = Inr db'"
    by (auto simp: fold_result_append result_simps)
  have ih: "chunk_entries v db1 = es1" using snoc.IH [OF db1(1) e1] snoc.prems(3,4) es by simp
  obtain new where new: "row_entry new = x" "h_conv new = v"
    "chunks db' = filter (\<lambda>r. h_id r \<noteq> fst x \<and> \<not> (h_conv r = v \<and> h_index r = fst (snd x))) (chunks db1) @ [new]"
    by (rule insert_chunk_entry [OF db1(2) x])
  have keep: "h_id r \<noteq> fst x \<and> h_index r \<noteq> fst (snd x)" if "r \<in> set (chunks db1)" "h_conv r = v" for r
  proof -
    have "row_entry r \<in> set es1" using that ih by (force simp: chunk_entries_def)
    then have "h_id r \<in> fst ` set es1" "h_index r \<in> (\<lambda>x. fst (snd x)) ` set es1"
      by (force simp: row_entry_def)+
    moreover have "fst x \<notin> fst ` set es1" "fst (snd x) \<notin> (\<lambda>x. fst (snd x)) ` set es1"
      using snoc.prems(3,4) by (simp_all add: es)
    ultimately show ?thesis by metis
  qed
  have "filter (\<lambda>h. h_conv h = v) (chunks db') = filter (\<lambda>h. h_conv h = v) (chunks db1) @ [new]"
    using keep by (auto simp: new(2,3) intro!: filter_cong)
  then show ?case using ih by (simp add: chunk_entries_def es new(1))
qed

lemma created_chunk_entries:
  assumes "insert_new env now c db = Inr (((mid, True), c'), db')" "manifest_is c ds" "list_all2 has_entry ds es"
    and "numbered_entries es"
  shows "chunk_entries mid db' = es" "manifest_is c' ds"
proof -
  from insert_new_row_created [OF assms(1)] obtain row acc where cols: "conv_columns env now c = Inr (row, c')"
    and mid: "mid = cv_id row"
    and run: "replace_child_rows c' (db\<lparr>accounts := acc, conversations := conversations db @ [row]\<rparr>) = Inr db'"
    by blast
  from run obtain i v db2 cs where v: "ditem c' ''id'' = Inr i" "validate_memory_id i = Inr v"
    and ms: "fold_result (insert_message v) (List.enumerate 0 (message_list c'))
       (db\<lparr>accounts := acc, conversations := conversations db @ [row],
           messages := filter (\<lambda>g. g_conv g \<noteq> v) (messages db), chunks := filter (\<lambda>h. h_conv h \<noteq> v) (chunks db)\<rparr>) = Inr db2"
    and cs: "index_chunks c' = Inr cs" "fold_result (insert_chunk v) cs db2 = Inr db'"
    by (auto elim!: replace_child_rows_cases)
  show man: "manifest_is c' ds" by (rule manifest_stamped [OF assms(2) cols])
  have "v = mid" using conv_columns_Inr(4) [OF cols] v mid by auto
  moreover have "cs = ds" using cs(1) index_chunks_manifest [OF man] by simp
  moreover have "\<forall>h \<in> set (chunks db2). h_conv h \<noteq> v" using fold_messages_chunks [OF ms] by simp
  moreover have "distinct (map fst es)" "distinct (map (\<lambda>x. fst (snd x)) es)"
    using assms(4) by (auto simp: numbered_entries_def distinct_map)
  ultimately show "chunk_entries mid db' = es" using insert_chunks_entries [OF cs(2)] assms(3) by simp
qed

section \<open>Entries in the vectors\<close>

lemma embedding_row_entry: "embedding_row p w cv = Inr m \<Longrightarrow> has_entry (fst cv) x \<Longrightarrow> has_entry m x"
  by (auto simp: embedding_row_def Let_def result_simps dget_none_def dget_or_def ditem_def has_entry_def
      dget_def split: option.splits prod.splits)

lemma embed_chunks_entries:
  assumes "embed_chunks em cs p w = Inr ms" "list_all2 has_entry cs es"
  shows "list_all2 has_entry ms es"
proof -
  from assms(1) obtain vectors where len: "length vectors = length cs"
    and rows: "map_result (embedding_row p w) (zip cs vectors) = Inr ms"
    by (auto simp: embed_chunks_def result_simps)
  have "list_all2 (\<lambda>cv m. embedding_row p w cv = Inr m) (zip cs vectors) ms"
    using rows by (simp add: map_result_Inr_list_all2)
  moreover have "has_entry (ms ! k) (es ! k)"
    if "embedding_row p w (cs ! k, vectors ! k) = Inr (ms ! k)" "has_entry (cs ! k) (es ! k)" for k
    using embedding_row_entry [OF that(1)] that(2) by simp
  ultimately show ?thesis
    using assms(2) len by (simp add: list_all2_conv_all_nth)
qed

lemma vec_row_entry: "vec_row_of fe dim i m = Inr r \<Longrightarrow> has_entry m x \<Longrightarrow> fst x \<noteq> [] \<Longrightarrow> vec_entry r = x"
  by (auto simp: vec_row_of_def result_simps chunk_id_of_item_def has_entry_def dget_none_def dget_or_def ditem_def
      vec_entry_def split: option.splits prod.splits if_splits)

lemma vec_rows_entries:
  "map_result (vec_row_of fe dim i) ms = Inr new \<Longrightarrow> list_all2 has_entry ms es \<Longrightarrow> [] \<notin> set (map fst es) \<Longrightarrow>
     map vec_entry new = es"
  by (induction ms arbitrary: new es) (auto simp: result_simps list_all2_Cons1 vec_row_entry)

lemma vec_insert_entries:
  assumes "vec_insert fe dim i ms False rows = (Inr (), rows')" "list_all2 has_entry ms es" "[] \<notin> set (map fst es)"
  shows "vec_entries i rows' = vec_entries i rows @ es"
proof -
  obtain new where new: "map_result (vec_row_of fe dim i) ms = Inr new" "rows' = rows @ new"
    using assms(1) by (auto simp: vec_insert_def vec_append_ok)
  have "filter (\<lambda>r. vr_memory r = i) new = new"
    using vec_rows_memory [OF new(1)] by (simp add: list_all_iff filter_id_conv)
  moreover have "map vec_entry new = es" by (rule vec_rows_entries [OF new(1) assms(2,3)])
  ultimately show ?thesis using new(2) by (simp add: vec_entries_def)
qed

section \<open>Entries after marking\<close>

lemma marked_rows:
  assumes "mark_chunks_state (PStr v) ids st db = Inr ((), db')"
  shows "chunk_entries v db' = chunk_entries v db"
proof -
  from assms obtain u where "chunks db' =
      tbl_update (\<lambda>h. h_conv h = u \<and> h_id h \<in> set ids) (\<lambda>h. h\<lparr>h_state := state_value st\<rparr>) (chunks db)"
    by (rule mark_chunks_rows)
  moreover have "map row_entry (filter (\<lambda>h. h_conv h = v) (tbl_update q (\<lambda>h. h\<lparr>h_state := w\<rparr>) rows))
      = map row_entry (filter (\<lambda>h. h_conv h = v) rows)" for q w rows
    by (induction rows) (auto simp: tbl_update_def row_entry_def)
  ultimately show ?thesis by (simp add: chunk_entries_def)
qed

definition in_state :: "index_state \<Rightarrow> pydict \<Rightarrow> bool" where
  "in_state st d \<longleftrightarrow> dget d ''index_state'' = Some (PStr (state_value st))"

lemma update_chunk_hit:
  assumes "has_entry d x" "fst x \<noteq> []" "fst x \<in> set (chunk_ids targets)"
  shows "update_chunk targets by_index st (PDict d) = Inr (PDict (dset d ''index_state'' (PStr (state_value st))))"
  using assms
  by (auto simp: update_chunk_def identity_matches_def chunk_index_from_payload_def has_entry_def dget_none_def
      dget_or_def split: prod.splits)

lemma has_entry_state: "has_entry d x \<Longrightarrow> has_entry (dset d ''index_state'' w) x"
  by (auto simp: has_entry_def split: prod.splits)

lemma updated_items:
  assumes "list_all2 has_entry ds es" "\<forall>x \<in> set es. fst x \<noteq> [] \<and> fst x \<in> set (chunk_ids targets)"
  shows "map_result (update_chunk targets by_index st) (map PDict ds)
    = Inr (map PDict (map (\<lambda>d. dset d ''index_state'' (PStr (state_value st))) ds))"
  using assms by (induction ds es rule: list_all2_induct) (simp_all add: update_chunk_hit)

lemma updated_manifest:
  assumes "update_index_chunks_payload c ids st = Inr c'" "manifest_is c ds" "list_all2 has_entry ds es"
    and "ids = map fst es" "[] \<notin> set ids"
  obtains ds' where "manifest_is c' ds'" "list_all2 has_entry ds' es" "list_all (in_state st) ds'"
proof -
  from assms(2) obtain m where m: "dget_or c ''metadata'' (PDict []) = PDict m"
    "dget m ''index_chunks'' = Some (PList (map PDict ds))"
    by (auto simp: manifest_is_def metadata_of_def as_dict_Some_iff)
  then have "dget_none c ''metadata'' = PDict m" by (auto simp: dget_or_def dget_none_def split: option.splits)
  with assms(1) m(2) obtain targets by_index items where t: "from_chunk_ids ids = Inr targets"
    and items: "map_result (update_chunk targets by_index st) (map PDict ds) = Inr items"
    and c': "c' = dset c ''metadata'' (PDict (dset m ''index_chunks'' (PList items)))"
    by (auto simp: update_index_chunks_payload_def Let_def result_simps dget_none_def dget_or_def)
  have "\<forall>x \<in> set es. fst x \<noteq> [] \<and> fst x \<in> set (chunk_ids targets)"
  proof
    fix x assume "x \<in> set es"
    then have "fst x \<in> set ids" using assms(4) by simp
    moreover have "chunk_ids targets = filter (\<lambda>i. i \<noteq> []) ids"
      using t by (auto simp: from_chunk_ids_def Let_def result_simps)
    ultimately show "fst x \<noteq> [] \<and> fst x \<in> set (chunk_ids targets)" using assms(5) by auto
  qed
  then have "items = map PDict (map (\<lambda>d. dset d ''index_state'' (PStr (state_value st))) ds)"
    using items updated_items [OF assms(3)] by simp
  then show thesis
    using assms(3) by (intro that [of "map (\<lambda>d. dset d ''index_state'' (PStr (state_value st))) ds"])
      (auto simp: c' manifest_is_def metadata_of_def dget_or_def in_state_def list_all_iff list_all2_conv_all_nth
        has_entry_state)
qed

lemma marked_manifest:
  assumes "mark_chunks_state (PStr v) ids st db = Inr ((), db')" "get_conv (PStr v) db = Inr (Some c)"
    and "manifest_is c ds" "list_all2 has_entry ds es" "ids = map fst es" "[] \<notin> set ids"
  obtains c' ds' where "get_conv (PStr v) db' = Inr (Some c')" "manifest_is c' ds'" "list_all2 has_entry ds' es"
    "list_all (in_state st) ds'"
proof -
  from assms(2) obtain row where row: "validate_memory_id (PStr v) = Inr v"
    "tbl_get cv_id v (conversations db) = Some row" "cv_payload row = c"
    by (auto simp: get_conv_def result_simps validate_memory_id_def Let_def split: if_splits)
  from assms(1) row(1,2,3) obtain payload where p: "update_index_chunks_payload c ids st = Inr payload"
    and db': "conversations db' = tbl_update (\<lambda>r. cv_id r = v) (\<lambda>r. r\<lparr>cv_payload := payload\<rparr>) (conversations db)"
    by (auto simp: mark_chunks_state_def sync_index_chunk_payload_state_def Let_def result_simps fold_mark_other
        split: option.splits)
  from updated_manifest [OF p assms(3-6)] obtain ds' where ds': "manifest_is payload ds'" "list_all2 has_entry ds' es"
    "list_all (in_state st) ds'" .
  have "get_conv (PStr v) db' = Inr (Some payload)"
    using row tbl_get_Some_key [OF row(2)] by (simp add: get_conv_def db' tbl_get_tbl_update)
  then show thesis using that ds' by blast
qed

lemma summarised_chunks:
  assumes "attach_generated_summaries rt w p c h = (Inr c1, h1)"
  shows "chunk_messages encs cfg c1 = chunk_messages encs cfg c"
proof -
  have "dget c1 k = dget c k" if "k \<noteq> ''metadata''" for k
    using assms that by (auto simp: attach_generated_summaries_def with_summaries_def Let_def split: sum.splits)
  then have "dget c1 ''id'' = dget c ''id''" "dget c1 ''messages'' = dget c ''messages''" by simp_all
  then show ?thesis
    by (simp add: chunk_messages_def chunk_selected_messages_def dget_or_def ditem_def split: pyval.split)
qed

section \<open>A new conversation\<close>

lemma ingest_new_Inr:
  assumes "ingest_new rt sc None c h = (Inr (r, c4), h')"
  obtains c1 cs c2 i ins c3 h1 h2 h3 h4 counts where
    "attach_generated_summaries rt (sc_owner sc) (sc_project sc) c h = (Inr c1, h1)"
    "chunk_messages (rt_encodings rt) (rt_chunking rt) c1 = Inr cs" "attach_index_chunks c1 cs = Inr c2"
    "insert_new_conversation rt c2 h1 = (Inr ((i, ins), c3), h2)"
    "index_conversation rt sc i c3 cs (\<not> ins) h2 = (Inr c4, h3)"
    "(if \<not> ins then act_ret (0, 0)
      else act_bind (store_facts_for_conversation rt c4) (\<lambda>_. store_graph_for_conversation rt c4)) h3 = (Inr counts, h4)"
    "audit_inserted rt sc i (\<not> ins) 0 (length cs) c4 h4 = (Inr (), h')"
    "r = with_graph_counts (inserted_result i (\<not> ins) 0 (length cs)) counts"
  using assms unfolding ingest_new_def
  by (clarsimp simp: act_outcomes split: prod.splits)

lemma index_frame:
  assumes "(if b then act_ret (0, 0)
      else act_bind (store_facts_for_conversation rt c) (\<lambda>_. store_graph_for_conversation rt c)) h = (out, h')"
  shows "hub_mem h' = hub_mem h \<and> hub_vectors h' = hub_vectors h"
  using assms
  by (auto simp: act_bind_def act_ret_def store_facts_for_conversation_def store_facts_for_messages_def act_of_def
      store_facts_def act_facts_def store_graph_for_conversation_def split: if_splits prod.splits sum.splits)

lemma audit_frame:
  assumes "audit_inserted rt sc i d n k c h = (out, h')"
  shows "hub_mem h' = hub_mem h \<and> hub_vectors h' = hub_vectors h"
  using assms
  by (auto simp: audit_inserted_def record_audit_event_def act_bind_def act_tick_def split: sum.splits)

lemma summaries_frame:
  assumes "attach_generated_summaries rt w p c h = (out, h')"
  shows "hub_mem h' = hub_mem h \<and> hub_vectors h' = hub_vectors h"
  using assms by (auto simp: attach_generated_summaries_def Let_def split: sum.splits)

lemma ingest_new_indexed:
  assumes "rt_vectors rt = memory_vectors fe dim" "ingest_new rt sc None c h = (Inr (r, c4), h')"
    and "dget r ''deduplicated'' = Some (PBool False)"
  shows "\<exists>i cs es stored ds. dget r ''id'' = Some (PStr i) \<and> dget r ''chunks'' = Some (PInt (int (length es)))
    \<and> chunk_messages (rt_encodings rt) (rt_chunking rt) c = Inr cs \<and> list_all2 has_entry cs es
    \<and> numbered_entries es
    \<and> vec_entries i (hub_vectors h') = vec_entries i (hub_vectors h) @ es
    \<and> chunk_entries i (hub_mem h') = es \<and> all_states i ''indexed'' (hub_mem h')
    \<and> get_conv (PStr i) (hub_mem h') = Inr (Some stored) \<and> manifest_is stored ds
    \<and> list_all2 has_entry ds es \<and> list_all (in_state Indexed) ds
    \<and> is_fully_indexed (PStr i) (hub_mem h') = Inr (es \<noteq> [])"
proof -
  from assms(2) obtain c1 cs c2 i ins c3 h1 h2 h3 h4 counts where
    sum: "attach_generated_summaries rt (sc_owner sc) (sc_project sc) c h = (Inr c1, h1)"
    and cs: "chunk_messages (rt_encodings rt) (rt_chunking rt) c1 = Inr cs"
    and att: "attach_index_chunks c1 cs = Inr c2"
    and new: "insert_new_conversation rt c2 h1 = (Inr ((i, ins), c3), h2)"
    and idx: "index_conversation rt sc i c3 cs (\<not> ins) h2 = (Inr c4, h3)"
    and graph: "(if \<not> ins then act_ret (0, 0)
               else act_bind (store_facts_for_conversation rt c4) (\<lambda>_. store_graph_for_conversation rt c4)) h3 = (Inr counts, h4)"
    and aud: "audit_inserted rt sc i (\<not> ins) 0 (length cs) c4 h4 = (Inr (), h')"
    and r: "r = with_graph_counts (inserted_result i (\<not> ins) 0 (length cs)) counts"
    by (rule ingest_new_Inr)
  have ins: "ins" using assms(3) by (auto simp: r with_graph_counts_def inserted_result_def split: if_splits)
  obtain es where es: "list_all2 has_entry cs es" "numbered_entries es" by (rule chunk_messages_entries [OF cs])
  then have ne: "[] \<notin> set (map fst es)" by (simp add: numbered_entries_def)
  obtain ds where man: "manifest_is c2 ds" "list_all2 has_entry ds es" by (rule attach_entries [OF att es(1)])
  from new ins obtain n db where db: "insert_new (ie_store (rt_env rt)) (rt_sql_now rt n) c2 (hub_mem h1) = Inr (((i, True), c3), db)"
    "hub_mem h2 = db" "hub_vectors h2 = hub_vectors h1"
    by (auto simp: insert_new_conversation_def act_outcomes)
  note created = created_chunk_entries [OF db(1) man es(2)]
  have ids: "map chunk_id_of cs = map fst es"
    using es(1) by (induction rule: list_all2_induct)
      (auto simp: has_entry_def chunk_id_of_def dget_none_def dget_or_def split: prod.splits)
  from idx obtain ms vs db3 where ms: "embed_chunks (rt_embedder rt) cs (sc_project sc) (sc_owner sc) = Inr ms"
    and vs: "vec_insert fe dim i ms False (hub_vectors h2) = (Inr (), vs)"
    and mark: "mark_chunks_state (PStr i) (map chunk_id_of cs) Indexed db = Inr ((), db3)"
    and h3: "h3 = h2\<lparr>hub_vectors := vs, hub_mem := db3\<rparr>"
    by (rule index_conversation_Inr) (simp add: assms(1) memory_vectors_def ins db(2))
  have final: "hub_mem h' = db3" "hub_vectors h' = vs" "hub_vectors h2 = hub_vectors h"
    using audit_frame [OF aud] index_frame [OF graph] summaries_frame [OF sum] db(3) h3 by simp_all
  obtain stored ds' where stored: "get_conv (PStr i) db3 = Inr (Some stored)" "manifest_is stored ds'"
    "list_all2 has_entry ds' es" "list_all (in_state Indexed) ds'"
    by (rule marked_manifest [OF mark insert_new_created(1) [OF db(1)] created(2) man(2) ids]) (use ne in \<open>simp add: ids\<close>)
  have rows: "chunk_entries i db3 = es" using marked_rows [OF mark] created(1) by simp
  have in_ids: "\<forall>x \<in> set (chunks db). h_conv x = i \<longrightarrow> h_id x \<in> set (map chunk_id_of cs)"
    using created(1) by (force simp: ids chunk_entries_def row_entry_def)
  have states: "all_states i ''indexed'' db3" using marked_states(1) [OF mark in_ids] by simp
  have v: "validate_memory_id (PStr i) = Inr i" using mark by (rule updated_rows)
  have "(\<exists>x \<in> set (chunks db3). h_conv x = i) \<longleftrightarrow> es \<noteq> []"
    using rows by (auto simp: chunk_entries_def filter_empty_conv)
  then have "is_fully_indexed (PStr i) db3 = Inr (es \<noteq> [])"
    using states unfolding fully_indexed_iff [OF v] by simp
  moreover have "vec_entries i vs = vec_entries i (hub_vectors h) @ es"
    using vec_insert_entries [OF vs embed_chunks_entries [OF ms es(1)] ne] final(3) by simp
  moreover have "dget r ''id'' = Some (PStr i)" "dget r ''chunks'' = Some (PInt (int (length es)))"
    using list_all2_lengthD [OF es(1)] by (simp_all add: r with_graph_counts_def inserted_result_def)
  moreover have "chunk_messages (rt_encodings rt) (rt_chunking rt) c = Inr cs"
    using cs summarised_chunks [OF sum] by simp
  ultimately show ?thesis using es stored rows states final by blast
qed

text \<open>
  C13. A new conversation is indexed completely and consistently. When ingesting succeeds and stores it, the
  chunks of its messages have entries (id, index, message hash, role, text) numbered from 0 under distinct ids,
  and these same entries, in this order, are the rows of the conversation in the chunk table, the manifest of
  the stored payload, and what the in-memory vector store has gained for it; every row and every manifest
  item is marked as indexed, the conversation counts as fully indexed exactly if it has chunks, and the
  answer counts them.
\<close>

theorem new_conversation_indexed:
  "case ingest_new (rt\<lparr>rt_vectors := memory_vectors fe dim\<rparr>) sc None c h of
     (Inl e, h') \<Rightarrow> True
   | (Inr (r, c4), h') \<Rightarrow>
       (if dget r ''deduplicated'' = Some (PBool False)
        then \<exists>i cs es stored ds. dget r ''id'' = Some (PStr i) \<and> dget r ''chunks'' = Some (PInt (int (length es)))
          \<and> chunk_messages (rt_encodings rt) (rt_chunking rt) c = Inr cs \<and> list_all2 has_entry cs es
          \<and> numbered_entries es
          \<and> vec_entries i (hub_vectors h') = vec_entries i (hub_vectors h) @ es
          \<and> chunk_entries i (hub_mem h') = es \<and> all_states i ''indexed'' (hub_mem h')
          \<and> get_conv (PStr i) (hub_mem h') = Inr (Some stored) \<and> manifest_is stored ds
          \<and> list_all2 has_entry ds es \<and> list_all (in_state Indexed) ds
          \<and> is_fully_indexed (PStr i) (hub_mem h') = Inr (es \<noteq> [])
        else True)"
proof -
  let ?rt = "rt\<lparr>rt_vectors := memory_vectors fe dim\<rparr>"
  obtain out h' where run: "ingest_new ?rt sc None c h = (out, h')" by fastforce
  show ?thesis
  proof (cases out)
    case (Inr x)
    then obtain r c4 where x: "out = Inr (r, c4)" by (cases x) simp
    show ?thesis
      unfolding run x using ingest_new_indexed [OF _ run [unfolded x], of fe dim] by simp
  qed (simp add: run)
qed

end
