(* ===== verification/HttpAuth.thy ===== *)
theory HttpAuth
  imports Effects AuthStore
begin

text \<open>
  The gate in front of the HTTP surface (\<^verbatim>\<open>memory/auth.py\<close> with
  \<^verbatim>\<open>memory/api/connect_security.py\<close>): which paths are public, which scopes a request needs, how a
  bearer token or a Connect session authenticates, and what a refused request is told. Cryptography,
  base64url and JSON decoding, the process environment and the validator of externally issued OIDC
  tokens are parameters.
\<close>

section \<open>Configuration, requests and environment\<close>

record hub_config =
  cfg_auth :: string
  cfg_host :: string
  cfg_port :: int
  cfg_public_base_url :: string
  cfg_issuer :: string \<comment> \<open>\<open>api.oauth.issuer\<close>\<close>
  cfg_resource :: string
  cfg_jwt_secret :: string
  cfg_jwt_secret_env :: string
  cfg_authorization_servers :: "string list"
  cfg_scopes :: "string list" \<comment> \<open>\<open>api.oauth.scopes_supported\<close>\<close>
  cfg_oidc_issuer :: string
  cfg_oidc_scopes :: "string list"
  cfg_session_cookie :: string
  cfg_session_secret :: string
  cfg_session_secret_env :: string
  cfg_token_ttl :: int
  cfg_refresh_ttl :: int
  cfg_client_ttl :: int

record request =
  rq_method :: string
  rq_path :: string
  rq_authorization :: "string option"
  rq_csrf :: "string option"
  rq_cookies :: "(string \<times> string) list"
  rq_query :: "string list"

text \<open>\<open>ExternalOIDCClaims\<close>.\<close>

record oidc_claims =
  oc_owner :: string
  oc_provider :: string
  oc_subject :: string
  oc_token :: "string option"
  oc_scopes :: "string list"
  oc_username :: "string option"
  oc_email :: "string option"
  oc_display_name :: "string option"

text \<open>
  \<open>we_json\<close> is \<open>json.loads\<close>: \<open>Inr None\<close> stands for a \<open>JSONDecodeError\<close>. \<open>we_b64\<close> is
  \<open>base64.urlsafe_b64decode\<close>, \<open>None\<close> when it raises.
\<close>

record web_env =
  we_store :: store_env
  we_environ :: "string \<Rightarrow> string option"
  we_hmac :: "string \<Rightarrow> string \<Rightarrow> string" \<comment> \<open>key, message: the HMAC-SHA256 digest\<close>
  we_b64 :: "string \<Rightarrow> string option"
  we_json :: "string \<Rightarrow> pyval option result"
  we_oidc :: "string \<Rightarrow> oidc_claims option" \<comment> \<open>\<open>ExternalOIDCValidator.validate\<close>\<close>

record auth_context =
  ax_owner :: "string option"
  ax_token :: "string option"
  ax_scopes :: "string list" \<comment> \<open>a set\<close>
  ax_mode :: string

definition READ_SCOPE :: string where
  "READ_SCOPE = ''memory:read''"

definition WRITE_SCOPE :: string where
  "WRITE_SCOPE = ''memory:write''"

text \<open>\<open>value.rstrip("/")\<close>, and \<open>value.startswith(prefix)\<close>.\<close>

definition rstrip_slash :: "string \<Rightarrow> string" where
  "rstrip_slash s = rev (dropWhile (\<lambda>c. c = CHR ''/'') (rev s))"

definition starts_with :: "string \<Rightarrow> string \<Rightarrow> bool" where
  "starts_with p s \<longleftrightarrow> take (length p) s = p"

definition sorted_set :: "string list \<Rightarrow> string list" where
  "sorted_set xs = sort (remdups xs)"

section \<open>Paths and scopes\<close>

definition PUBLIC_PATHS :: "string list" where
  "PUBLIC_PATHS =
     [''/'', ''/connect'', ''/connect/import'', ''/auth/google'', ''/auth/google/callback'', ''/auth/logout'',
      ''/health'', ''/authorize'', ''/oauth/authorize'', ''/oauth/authorize/approve'', ''/oauth/authorize/deny'',
      ''/oauth/register'', ''/oauth/token'', ''/oauth/revoke'', ''/ready'', ''/register'', ''/token'',
      ''/.well-known/oauth-authorization-server'', ''/.well-known/oauth-protected-resource'']"

definition is_public_path :: "string \<Rightarrow> bool" where
  "is_public_path path \<longleftrightarrow>
     path \<in> set PUBLIC_PATHS \<or> starts_with ''/connect/static/'' path
     \<or> starts_with ''/.well-known/oauth-authorization-server/'' path \<or> starts_with ''/auth/'' path
     \<or> starts_with ''/.well-known/oauth-protected-resource/'' path"

definition is_mcp_path :: "string \<Rightarrow> bool" where
  "is_mcp_path path \<longleftrightarrow> path = ''/mcp'' \<or> starts_with ''/mcp/'' path"

definition WRITE_PATHS :: "string list" where
  "WRITE_PATHS = [''/memory/import'', ''/memory/insert'', ''/memory/facts/supersede'',
     ''/memory/pending/approve'', ''/memory/pending/reject'']"

definition required_scopes :: "string \<Rightarrow> string list" where
  "required_scopes path =
     (if is_mcp_path path then [READ_SCOPE]
      else if path \<in> set WRITE_PATHS then [WRITE_SCOPE]
      else if starts_with ''/memory/'' path then [READ_SCOPE]
      else [])"

definition has_required_scopes :: "string list \<Rightarrow> string list \<Rightarrow> bool" where
  "has_required_scopes actual required \<longleftrightarrow> required = [] \<or> list_all (\<lambda>s. s \<in> set actual) required"

definition has_query_access_token :: "request \<Rightarrow> bool" where
  "has_query_access_token rq \<longleftrightarrow> ''access_token'' \<in> set (rq_query rq) \<or> ''token'' \<in> set (rq_query rq)"

text \<open>\<open>value.partition(" ")\<close>: the scheme is what stands before the first space.\<close>

definition extract_bearer_token :: "request \<Rightarrow> string option" where
  "extract_bearer_token rq =
     (case rq_authorization rq of
        None \<Rightarrow> None
      | Some value \<Rightarrow>
          (let scheme = takeWhile (\<lambda>c. c \<noteq> CHR '' '') value;
               token = py_strip (drop (Suc (length scheme)) value)
           in if py_lower scheme \<noteq> ''bearer'' \<or> token = [] then None else Some token))"

section \<open>Signed access tokens\<close>

definition oauth_jwt_secret :: "web_env \<Rightarrow> hub_config \<Rightarrow> string" where
  "oauth_jwt_secret we cfg =
     (if cfg_jwt_secret cfg \<noteq> [] then cfg_jwt_secret cfg
      else case we_environ we (cfg_jwt_secret_env cfg) of None \<Rightarrow> [] | Some s \<Rightarrow> s)"

definition oauth_resource :: "hub_config \<Rightarrow> string \<Rightarrow> string" where
  "oauth_resource cfg resource_path =
     (if cfg_resource cfg \<noteq> [] then cfg_resource cfg
      else rstrip_slash (cfg_public_base_url cfg) @ resource_path)"

definition is_ascii :: "string \<Rightarrow> bool" where
  "is_ascii s \<longleftrightarrow> list_all (chr_in 0 127) s"

definition base64url_decode :: "web_env \<Rightarrow> string \<Rightarrow> string option" where
  "base64url_decode we value =
     (if is_ascii value
      then we_b64 we (value @ replicate ((4 - length value mod 4) mod 4) (CHR ''=''))
      else None)"

text \<open>\<open>json.loads\<close> of both segments: one of them malformed counts like none.\<close>

definition decode_hs256_jwt :: "web_env \<Rightarrow> string \<Rightarrow> string \<Rightarrow> pydict option result" where
  "decode_hs256_jwt we token secret =
     (if secret = [] then Inr None
      else case split_on (CHR ''.'') token of
        [h, p, s] \<Rightarrow>
          (if \<not> is_ascii (h @ ''.'' @ p)
             then Inl (UnicodeEncodeError ''ordinal not in range(128)'')
           else case base64url_decode we s of
             None \<Rightarrow> Inr None
           | Some actual \<Rightarrow>
               (if we_hmac we secret (h @ ''.'' @ p) \<noteq> actual then Inr None
                else case (base64url_decode we h, base64url_decode we p) of
                  (Some header_raw, Some payload_raw) \<Rightarrow>
                    bind_result (we_json we header_raw) (\<lambda>header.
                    case header of
                      None \<Rightarrow> Inr None
                    | Some hv \<Rightarrow>
                        bind_result (we_json we payload_raw) (\<lambda>payload.
                        case payload of
                          None \<Rightarrow> Inr None
                        | Some pv \<Rightarrow>
                            (case as_dict hv of
                               None \<Rightarrow> Inr None
                             | Some hdr \<Rightarrow>
                                 Inr (if dget_none hdr ''alg'' = PStr ''HS256'' then as_dict pv else None))))
                | _ \<Rightarrow> Inr None))
      | _ \<Rightarrow> Inr None)"

text \<open>\<open>isinstance(v, int)\<close>, which booleans are.\<close>

definition as_int :: "pyval \<Rightarrow> int option" where
  "as_int v = (case v of PInt i \<Rightarrow> Some i | PBool b \<Rightarrow> Some (if b then 1 else 0) | _ \<Rightarrow> None)"

definition validate_time_claims :: "int \<Rightarrow> pydict \<Rightarrow> bool" where
  "validate_time_claims now claims =
     ((case as_int (dget_none claims ''exp'') of None \<Rightarrow> False | Some exp \<Rightarrow> now < exp)
      \<and> (case as_int (dget_none claims ''nbf'') of None \<Rightarrow> True | Some nbf \<Rightarrow> nbf \<le> now))"

definition claim_matches_resource :: "pydict \<Rightarrow> string \<Rightarrow> bool" where
  "claim_matches_resource claims resource =
     list_ex (\<lambda>key. case dget_none claims key of
         PStr s \<Rightarrow> s = resource
       | PList xs \<Rightarrow> resource \<in> set (map py_str xs)
       | _ \<Rightarrow> False) [''aud'', ''resource'']"

definition scopes_from_claims :: "pydict \<Rightarrow> string list" where
  "scopes_from_claims claims =
     (case dget_none claims ''scope'' of
        PStr s \<Rightarrow> remdups (split_ws s)
      | _ \<Rightarrow>
          (case dget_none claims ''scopes'' of
             PList xs \<Rightarrow> remdups (filter (\<lambda>s. py_strip s \<noteq> []) (map py_str xs))
           | _ \<Rightarrow> []))"

record access_claims =
  cl_owner :: string
  cl_token :: "string option"
  cl_scopes :: "string list"
  cl_issuer :: "string option"

definition str_claim :: "pydict \<Rightarrow> string \<Rightarrow> string option" where
  "str_claim claims key = (if dget_none claims key = PNone then None else Some (py_str (dget_none claims key)))"

definition validate_oauth_access_token ::
    "web_env \<Rightarrow> int \<Rightarrow> hub_config \<Rightarrow> string \<Rightarrow> access_claims option result" where
  "validate_oauth_access_token we now cfg token =
     bind_result (decode_hs256_jwt we token (oauth_jwt_secret we cfg)) (\<lambda>decoded.
     case decoded of
       None \<Rightarrow> Inr None
     | Some claims \<Rightarrow>
         if \<not> validate_time_claims now claims then Inr None
         else if cfg_issuer cfg \<noteq> [] \<and> dget_none claims ''iss'' \<noteq> PStr (cfg_issuer cfg) then Inr None
         else if \<not> claim_matches_resource claims (oauth_resource cfg ''/mcp'') then Inr None
         else (case dget_none claims ''sub'' of
             PStr owner \<Rightarrow>
               (if py_strip owner = [] then Inr None
                else Inr (Some \<lparr>cl_owner = py_strip owner, cl_token = str_claim claims ''jti'',
                       cl_scopes = scopes_from_claims claims, cl_issuer = str_claim claims ''iss''\<rparr>))
           | _ \<Rightarrow> Inr None))"

definition is_hub_issued_claim :: "hub_config \<Rightarrow> access_claims \<Rightarrow> bool" where
  "is_hub_issued_claim cfg claims \<longleftrightarrow>
     rstrip_slash (cfg_public_base_url cfg) \<noteq> []
     \<and> cl_issuer claims = Some (rstrip_slash (cfg_public_base_url cfg))"

section \<open>Sessions\<close>

definition session_secret :: "web_env \<Rightarrow> hub_config \<Rightarrow> string" where
  "session_secret we cfg =
     (if cfg_session_secret cfg \<noteq> [] then cfg_session_secret cfg
      else case we_environ we (cfg_session_secret_env cfg) of None \<Rightarrow> [] | Some s \<Rightarrow> s)"

definition hash_secret :: "web_env \<Rightarrow> hub_config \<Rightarrow> string \<Rightarrow> string \<Rightarrow> string" where
  "hash_secret we cfg value purpose =
     ''pbkdf2-sha256:'' @ env_pbkdf2 (we_store we) value
        (''ai-memory-hub:'' @ purpose @ '':'' @ session_secret we cfg)"

definition csrf_matches :: "web_env \<Rightarrow> hub_config \<Rightarrow> pydict \<Rightarrow> string \<Rightarrow> bool" where
  "csrf_matches we cfg session csrf_token \<longleftrightarrow>
     csrf_token \<noteq> []
     \<and> (if truthy (dget_none session ''csrf_token_hash'') then py_str (dget_none session ''csrf_token_hash'') else [])
        = hash_secret we cfg csrf_token ''connect-csrf''"

end
