(* ===== verification/HttpGate.thy ===== *)
theory HttpGate
  imports HttpAuth
begin

text \<open>
  The middleware itself: \<open>AuthMiddleware\<close> of \<^verbatim>\<open>memory/auth.py\<close> over the account tables, and the
  responses it refuses requests with. Its state is the account database and the cache of external
  identity profiles.
\<close>

section \<open>Refusals\<close>

record response =
  rs_status :: int
  rs_body :: pydict
  rs_headers :: "(string \<times> string) list"

definition AUTH_CONFIG_PATH :: string where
  "AUTH_CONFIG_PATH = ''api.auth / api.oauth.scopes_supported / MCP client Authorization bearer token''"

definition AUTH_RECONNECT_HINT :: string where
  "AUTH_RECONNECT_HINT =
     ''Grant the ai-memory-hub MCP auth token the missing scope by reconnecting ''
     @ ''through the MCP OAuth/Connect flow or updating the bearer-token scopes in the MCP ''
     @ ''client/server auth configuration.''"

definition MCP_CLIENT_APPROVAL_HINT :: string where
  "MCP_CLIENT_APPROVAL_HINT =
     ''Client tool approval only approves the local MCP call; it does not add bearer-token ''
     @ ''or OAuth scopes.''"

definition resource_modes :: "string list" where
  "resource_modes = [''oauth_resource_server'', ''oidc_resource_server'']"

definition resource_metadata_url :: "hub_config \<Rightarrow> string \<Rightarrow> string" where
  "resource_metadata_url cfg path =
     rstrip_slash (cfg_public_base_url cfg) @ ''/.well-known/oauth-protected-resource''
     @ (if is_mcp_path path then ''/mcp'' else [])"

definition quoted :: "string \<Rightarrow> string" where
  "quoted s = CHR 0x22 # s @ [CHR 0x22]"

definition www_authenticate_challenge :: "request \<Rightarrow> hub_config \<Rightarrow> string \<Rightarrow> string list \<Rightarrow> string" where
  "www_authenticate_challenge rq cfg err scopes =
     ''Bearer realm='' @ quoted ''ai-memory-hub''
     @ (if err = [] then [] else '', error='' @ quoted err)
     @ (if scopes = [] then [] else '', scope='' @ quoted (join_with '' '' (sorted_set scopes)))
     @ (if cfg_auth cfg \<in> set resource_modes
        then '', resource_metadata='' @ quoted (resource_metadata_url cfg (rq_path rq)) else [])"

definition missing_scopes :: "string list \<Rightarrow> string list \<Rightarrow> string list" where
  "missing_scopes required granted = sorted_set (filter (\<lambda>s. s \<notin> set granted) required)"

definition auth_error_message :: "request \<Rightarrow> string \<Rightarrow> string list \<Rightarrow> string list \<Rightarrow> string" where
  "auth_error_message rq error_code required granted =
     (let surface = (if is_mcp_path (rq_path rq) then ''MCP'' else ''HTTP API'');
          listed = (\<lambda>xs d. if xs = [] then d else join_with '', '' xs);
          req = listed (sorted_set required) ''no additional scopes''
      in if error_code = ''insufficient_scope''
         then surface @ '' request is authenticated but missing required scope(s): ''
           @ listed (missing_scopes required granted) req @ ''. '' @ MCP_CLIENT_APPROVAL_HINT @ '' '' @ AUTH_RECONNECT_HINT
         else if error_code = ''invalid_token''
         then surface @ '' request used an invalid, expired, or unrecognized bearer token. ''
           @ ''Reconnect through the MCP OAuth/Connect flow or configure a valid bearer token ''
           @ ''with required scope(s): '' @ req @ ''.''
         else surface @ '' request requires an Authorization: Bearer token with required scope(s): ''
           @ req @ ''. Do not pass access tokens in query parameters. '' @ AUTH_RECONNECT_HINT)"

definition str_list :: "string list \<Rightarrow> pyval" where
  "str_list xs = PList (map PStr xs)"

definition auth_error_body ::
    "request \<Rightarrow> hub_config \<Rightarrow> string \<Rightarrow> string \<Rightarrow> string list \<Rightarrow> string list \<Rightarrow> pydict" where
  "auth_error_body rq cfg detail error_code required granted =
     [(''detail'', PStr detail), (''error_code'', PStr error_code),
      (''error_message'', PStr (auth_error_message rq error_code required granted)),
      (''auth_mode'', PStr (cfg_auth cfg)), (''required_scopes'', str_list (sorted_set required)),
      (''auth_config_path'', PStr AUTH_CONFIG_PATH), (''auth_config_hint'', PStr AUTH_RECONNECT_HINT)]
     @ (if granted = [] then []
        else [(''granted_scopes'', str_list (sorted_set granted)),
              (''missing_scopes'', str_list (missing_scopes required granted))])
     @ (if cfg_auth cfg \<in> set resource_modes
        then [(''resource_metadata'', PStr (resource_metadata_url cfg (rq_path rq)))] else [])"

definition auth_error_headers :: "string \<Rightarrow> string list \<Rightarrow> string list \<Rightarrow> (string \<times> string) list" where
  "auth_error_headers error_code required granted =
     [(''X-Ai-Memory-Hub-Error-Code'', error_code),
      (''X-Ai-Memory-Hub-Required-Scopes'', join_with '' '' (sorted_set required))]
     @ (if missing_scopes required granted = [] then []
        else [(''X-Ai-Memory-Hub-Missing-Scopes'', join_with '' '' (missing_scopes required granted))])"

definition challenge_scopes :: "request \<Rightarrow> hub_config \<Rightarrow> string list \<Rightarrow> string list" where
  "challenge_scopes rq cfg required =
     (if cfg_auth cfg \<in> set resource_modes \<and> is_mcp_path (rq_path rq)
      then (let configured = (if cfg_auth cfg = ''oidc_resource_server'' then cfg_oidc_scopes cfg else cfg_scopes cfg);
                supported = remdups (filter (\<lambda>s. s \<noteq> []) (map py_strip configured))
            in if supported \<noteq> [] then supported else required)
      else required)"

definition unauthorized :: "request \<Rightarrow> hub_config \<Rightarrow> string \<Rightarrow> response" where
  "unauthorized rq cfg err =
     (let required = required_scopes (rq_path rq) in
      \<lparr>rs_status = 401, rs_body = auth_error_body rq cfg ''Unauthorized'' err required [],
       rs_headers = (''WWW-Authenticate'', www_authenticate_challenge rq cfg err (challenge_scopes rq cfg required))
         # auth_error_headers err required []\<rparr>)"

definition forbidden :: "request \<Rightarrow> hub_config \<Rightarrow> string list \<Rightarrow> string list \<Rightarrow> response" where
  "forbidden rq cfg required granted =
     \<lparr>rs_status = 403, rs_body = auth_error_body rq cfg ''Forbidden'' ''insufficient_scope'' required granted,
      rs_headers = (''WWW-Authenticate'', www_authenticate_challenge rq cfg ''insufficient_scope'' required)
        # auth_error_headers ''insufficient_scope'' required granted\<rparr>"

section \<open>Authentication\<close>

type_synonym profile = "string option \<times> string option \<times> string option"

record gate_state =
  gs_db :: auth_db
  gs_profiles :: "(string \<times> profile) list"

text \<open>The readings of \<open>time.time()\<close> and, twice, of \<open>CURRENT_TIMESTAMP\<close> while one request is handled.\<close>

record instant =
  in_time :: int
  in_sql :: clock
  in_sql2 :: clock

type_synonym 'a gate = "('a, gate_state) eff"

definition gate_db :: "(auth_db \<Rightarrow> ('a \<times> auth_db) result) \<Rightarrow> 'a gate" where
  "gate_db f g = (case f (gs_db g) of Inl e \<Rightarrow> (Inl e, g) | Inr (x, db) \<Rightarrow> (Inr x, g\<lparr>gs_db := db\<rparr>))"

text \<open>\<open>authenticate_bearer_token_context\<close> of the service.\<close>

definition bearer_context :: "web_env \<Rightarrow> instant \<Rightarrow> string \<Rightarrow> pydict option gate" where
  "bearer_context we t token =
     act_bind (gate_db (auth_context_for_token (we_store we) (in_sql t) token)) (\<lambda>context.
     case context of
       Some d \<Rightarrow> act_ret (Some d)
     | None \<Rightarrow>
         act_bind (gate_db (owner_for_token (we_store we) (in_sql2 t) token)) (\<lambda>owner.
         act_ret (case owner of
             None \<Rightarrow> None
           | Some w \<Rightarrow> Some [(''owner_id'', PStr w), (''token_id'', PNone),
               (''scopes'', str_list [''memory:read'', ''memory:write''])])))"

definition context_scopes :: "pydict \<Rightarrow> string list" where
  "context_scopes context =
     (case dget_or context ''scopes'' (PList []) of
        PList xs \<Rightarrow> remdups (filter (\<lambda>s. py_strip s \<noteq> []) (map py_str xs))
      | _ \<Rightarrow> [])"

definition bearer_auth :: "pydict \<Rightarrow> auth_context result" where
  "bearer_auth context =
     bind_result (ditem context ''owner_id'') (\<lambda>owner. Inr
       \<lparr>ax_owner = Some (py_str owner), ax_token = str_claim context ''token_id'',
        ax_scopes = (case dget_or context ''scopes'' (PList []) of PList xs \<Rightarrow> remdups (map py_str xs) | _ \<Rightarrow> []),
        ax_mode = ''bearer_token''\<rparr>)"

definition claims_auth :: "access_claims \<Rightarrow> auth_context" where
  "claims_auth claims =
     \<lparr>ax_owner = Some (cl_owner claims), ax_token = cl_token claims, ax_scopes = cl_scopes claims,
      ax_mode = ''oauth_resource_server''\<rparr>"

text \<open>A token of the hub's own must be stored for the owner it names; its scopes are those of both.\<close>

definition hub_token_auth :: "access_claims \<Rightarrow> pydict option \<Rightarrow> auth_context option" where
  "hub_token_auth claims stored =
     (case stored of
        None \<Rightarrow> None
      | Some context \<Rightarrow>
          (if dget_none context ''owner_id'' \<noteq> PStr (cl_owner claims) then None
           else Some \<lparr>ax_owner = Some (cl_owner claims),
             ax_token = (case str_claim context ''token_id'' of Some i \<Rightarrow> Some i | None \<Rightarrow> cl_token claims),
             ax_scopes = filter (\<lambda>s. s \<in> set (cl_scopes claims)) (context_scopes context),
             ax_mode = ''oauth_resource_server''\<rparr>))"

definition sync_external_identity :: "web_env \<Rightarrow> instant \<Rightarrow> oidc_claims \<Rightarrow> unit gate" where
  "sync_external_identity we t c =
     (let profile = (oc_username c, oc_email c, oc_display_name c) in
      act_bind (act_read (\<lambda>g. Inr (map_of (gs_profiles g) (oc_owner c) = Some profile))) (\<lambda>known.
      if known then act_ret ()
      else act_bind (gate_db (find_or_create_oauth_identity (we_store we) (in_sql t) (oc_provider c) (oc_subject c)
             (Some (oc_owner c)) (oc_username c) (oc_email c) (oc_display_name c))) (\<lambda>identity.
           if dget_none identity ''user_id'' \<noteq> PStr (oc_owner c)
           then act_of (Inl (RuntimeError ''external OIDC identity owner mismatch''))
           else (\<lambda>g. (Inr (), g\<lparr>gs_profiles := (oc_owner c, profile) # gs_profiles g\<rparr>)))))"

definition authenticate :: "web_env \<Rightarrow> hub_config \<Rightarrow> instant \<Rightarrow> string \<Rightarrow> auth_context option gate" where
  "authenticate we cfg t token =
     (if cfg_auth cfg = ''bearer_token'' then
        act_bind (bearer_context we t token) (\<lambda>context.
        case context of
          None \<Rightarrow> act_ret None
        | Some d \<Rightarrow> act_of (bind_result (bearer_auth d) (\<lambda>a. Inr (Some a))))
      else if cfg_auth cfg = ''oidc_resource_server'' then
        (case we_oidc we token of
           None \<Rightarrow> act_ret None
         | Some c \<Rightarrow>
             act_bind (sync_external_identity we t c) (\<lambda>_.
             act_ret (Some \<lparr>ax_owner = Some (oc_owner c), ax_token = oc_token c, ax_scopes = oc_scopes c,
               ax_mode = ''oidc_resource_server''\<rparr>)))
      else
        act_bind (act_of (validate_oauth_access_token we (in_time t) cfg token)) (\<lambda>decoded.
        case decoded of
          None \<Rightarrow> act_ret None
        | Some claims \<Rightarrow>
            act_bind (bearer_context we t token) (\<lambda>stored.
            act_ret (if is_hub_issued_claim cfg claims then hub_token_auth claims stored
                     else Some (claims_auth claims)))))"

definition session_auth :: "web_env \<Rightarrow> hub_config \<Rightarrow> request \<Rightarrow> pydict \<Rightarrow> auth_context option" where
  "session_auth we cfg rq session =
     (if \<not> csrf_matches we cfg session (case rq_csrf rq of None \<Rightarrow> [] | Some c \<Rightarrow> c) then None
      else case dget_none session ''user_id'' of
        PStr owner \<Rightarrow>
          (if owner = [] then None
           else Some \<lparr>ax_owner = Some owner, ax_token = None, ax_scopes = [WRITE_SCOPE],
             ax_mode = ''connect_session''\<rparr>)
      | _ \<Rightarrow> None)"

definition authenticate_connect_session ::
    "web_env \<Rightarrow> hub_config \<Rightarrow> instant \<Rightarrow> request \<Rightarrow> auth_context option gate" where
  "authenticate_connect_session we cfg t rq =
     (if cfg_auth cfg \<noteq> ''oauth_resource_server'' \<or> rq_method rq \<noteq> ''POST'' \<or> rq_path rq \<noteq> ''/memory/import''
      then act_ret None
      else case map_of (rq_cookies rq) (cfg_session_cookie cfg) of
        None \<Rightarrow> act_ret None
      | Some sid \<Rightarrow>
          (if sid = [] then act_ret None
           else act_bind (gate_db (web_session_for_hash (in_sql t) (hash_secret we cfg sid ''connect-session''))) (\<lambda>session.
             act_ret (Option.bind session (session_auth we cfg rq)))))"

section \<open>The gate\<close>

text \<open>What happens to a request: it is refused, or it reaches its handler with or without a context.\<close>

datatype gate_outcome =
    Refused response
  | Open
  | Passed auth_context

definition gate_dispatch :: "web_env \<Rightarrow> hub_config \<Rightarrow> instant \<Rightarrow> request \<Rightarrow> gate_outcome gate" where
  "gate_dispatch we cfg t rq =
     (if is_public_path (rq_path rq) then act_ret Open
      else if has_query_access_token rq then act_ret (Refused (unauthorized rq cfg ''invalid_request''))
      else
        (let token = extract_bearer_token rq; required = required_scopes (rq_path rq) in
         act_bind (case token of
             Some tok \<Rightarrow> authenticate we cfg t tok
           | None \<Rightarrow> authenticate_connect_session we cfg t rq) (\<lambda>auth.
         act_ret (case auth of
             None \<Rightarrow> Refused (unauthorized rq cfg (if token \<noteq> None then ''invalid_token'' else ''invalid_request''))
           | Some a \<Rightarrow>
               (if \<not> has_required_scopes (ax_scopes a) required
                then Refused (forbidden rq cfg required (ax_scopes a))
                else Passed a)))))"

text \<open>\<open>install_auth_middleware\<close>: without authentication there is no gate.\<close>

definition handle_request :: "web_env \<Rightarrow> hub_config \<Rightarrow> instant \<Rightarrow> request \<Rightarrow> gate_outcome gate" where
  "handle_request we cfg t rq = (if cfg_auth cfg = ''none'' then act_ret Open else gate_dispatch we cfg t rq)"

section \<open>Metadata documents\<close>

definition protected_resource_metadata :: "hub_config \<Rightarrow> string \<Rightarrow> pydict" where
  "protected_resource_metadata cfg resource_path =
     (let oidc = (cfg_auth cfg = ''oidc_resource_server'') in
      [(''resource'', PStr (oauth_resource cfg resource_path)),
       (''authorization_servers'', str_list (if oidc then [cfg_oidc_issuer cfg] else cfg_authorization_servers cfg)),
       (''scopes_supported'', str_list (if oidc then cfg_oidc_scopes cfg else cfg_scopes cfg)),
       (''bearer_methods_supported'', str_list [''header'']),
       (''resource_documentation'', PStr (rstrip_slash (cfg_public_base_url cfg) @ ''/docs''))])"

definition authorization_server_metadata :: "hub_config \<Rightarrow> pydict" where
  "authorization_server_metadata cfg =
     (if cfg_auth cfg = ''oidc_resource_server''
      then [(''issuer'', PStr (cfg_oidc_issuer cfg)), (''scopes_supported'', str_list (cfg_oidc_scopes cfg)),
            (''service_documentation'', PStr (rstrip_slash (cfg_public_base_url cfg) @ ''/docs''))]
      else
        (let stripped = rstrip_slash (cfg_public_base_url cfg);
             base = (if stripped = [] then ''http://'' @ cfg_host cfg @ '':'' @ int_str (cfg_port cfg) else stripped)
         in [(''issuer'', PStr base), (''authorization_endpoint'', PStr (base @ ''/oauth/authorize'')),
             (''token_endpoint'', PStr (base @ ''/oauth/token'')),
             (''registration_endpoint'', PStr (base @ ''/oauth/register'')),
             (''scopes_supported'', str_list (cfg_scopes cfg)), (''response_types_supported'', str_list [''code'']),
             (''grant_types_supported'', str_list [''authorization_code'', ''refresh_token'']),
             (''revocation_endpoint'', PStr (base @ ''/oauth/revoke'')),
             (''token_endpoint_auth_methods_supported'', str_list [''none'']),
             (''code_challenge_methods_supported'', str_list [''S256'']),
             (''protected_resources'', str_list [oauth_resource cfg ''/mcp'']),
             (''service_documentation'', PStr (base @ ''/docs''))]))"

end
