(* ===== verification/RedirectUris.thy ===== *)
theory RedirectUris
  imports HttpGate
begin

text \<open>
  The URLs of the authorization server (\<^verbatim>\<open>memory/api/oauth_authorization.py\<close>): which redirect
  URIs a client may register, and how a redirect back to one of them is written. \<open>urlparse\<close> is the one of
  the standard library; \<open>ipaddress\<close> is a parameter, \<open>ip s = Some (v6, loopback)\<close> when
  \<open>ip_address(s)\<close> accepts the text.
\<close>

type_synonym ip_parser = "string \<Rightarrow> (bool \<times> bool) option"

section \<open>\<open>urllib.parse.urlparse\<close>\<close>

record parsed_url =
  pu_scheme :: string
  pu_netloc :: string
  pu_fragment :: string

definition scheme_char :: "char \<Rightarrow> bool" where
  "scheme_char c \<longleftrightarrow> ascii_alnum c \<or> c \<in> set ''+-.''"

text \<open>The text before and after the first occurrence of a character.\<close>

definition before :: "char \<Rightarrow> string \<Rightarrow> string" where
  "before c s = takeWhile (\<lambda>x. x \<noteq> c) s"

definition after_first :: "char \<Rightarrow> string \<Rightarrow> string" where
  "after_first c s = drop (Suc (length (before c s))) s"

definition split_scheme :: "string \<Rightarrow> string \<times> string" where
  "split_scheme url =
     (let s = before (CHR '':'') url in
      if CHR '':'' \<in> set url \<and> s \<noteq> [] \<and> ascii_alnum (hd s) \<and> \<not> ascii_digit (hd s) \<and> list_all scheme_char s
      then (py_lower s, after_first (CHR '':'') url) else ([], url))"

text \<open>What stands after the last \<open>@\<close>, and what stands before it when there is one.\<close>

definition host_info :: "string \<Rightarrow> string" where
  "host_info netloc = rev (before (CHR ''@'') (rev netloc))"

definition user_info :: "string \<Rightarrow> string option" where
  "user_info netloc = (if CHR ''@'' \<in> set netloc then Some (rev (after_first (CHR ''@'') (rev netloc))) else None)"

text \<open>Host and port of a netloc, with the brackets of an IPv6 literal removed.\<close>

definition host_port :: "string \<Rightarrow> string \<times> string" where
  "host_port netloc =
     (let hi = host_info netloc in
      if CHR ''['' \<in> set hi
      then (let b = after_first (CHR ''['') hi in
            (before (CHR '']'') b, after_first (CHR '':'') (after_first (CHR '']'') b)))
      else (before (CHR '':'') hi, after_first (CHR '':'') hi))"

fun future_ip_tail :: "string \<Rightarrow> bool" where
  "future_ip_tail [] = False"
| "future_ip_tail (c # cs) = (if py_hex_digit c then future_ip_tail cs else c = CHR ''.'' \<and> cs \<noteq> [] \<and> CHR 0x0A \<notin> set cs)"

text \<open>\<open>_check_bracketed_netloc\<close>.\<close>

definition bracketed_ok :: "ip_parser \<Rightarrow> string \<Rightarrow> bool" where
  "bracketed_ok ip netloc =
     (let hi = host_info netloc; b = after_first (CHR ''['') hi; port = after_first (CHR '']'') b;
          host = fst (host_port netloc)
      in (if CHR ''['' \<in> set hi
          then before (CHR ''['') hi = [] \<and> (port = [] \<or> hd port = CHR '':'') else True)
         \<and> (if host \<noteq> [] \<and> hd host = CHR ''v''
            then tl host \<noteq> [] \<and> py_hex_digit (hd (tl host)) \<and> future_ip_tail (tl host)
            else (case ip host of None \<Rightarrow> False | Some (v6, lo) \<Rightarrow> v6)))"

definition urlparse :: "ip_parser \<Rightarrow> string \<Rightarrow> parsed_url option" where
  "urlparse ip text0 =
     (let url = filter (\<lambda>c. c \<notin> {CHR 0x09, CHR 0x0A, CHR 0x0D}) (dropWhile (chr_in 0 32) text0);
          (scheme, rest) = split_scheme url;
          has_netloc = (take 2 rest = ''//'');
          netloc = (if has_netloc then takeWhile (\<lambda>c. c \<notin> set ''/?#'') (drop 2 rest) else []);
          remaining = (if has_netloc then drop (2 + length netloc) rest else rest)
      in if (CHR ''['' \<in> set netloc) \<noteq> (CHR '']'' \<in> set netloc) then None
         else if CHR ''['' \<in> set netloc \<and> \<not> bracketed_ok ip netloc then None
         else Some \<lparr>pu_scheme = scheme, pu_netloc = netloc, pu_fragment = after_first (CHR ''#'') remaining\<rparr>)"

text \<open>\<open>parsed.port\<close> raises unless the port is missing, empty or a number up to 65535.\<close>

definition port_ok :: "string \<Rightarrow> bool" where
  "port_ok netloc =
     (let port = snd (host_port netloc) in
      port = [] \<or> (list_all ascii_digit port \<and> length port \<le> 4300 \<and> digits_val port \<le> 65535))"

definition url_username :: "string \<Rightarrow> string" where
  "url_username netloc = (case user_info netloc of None \<Rightarrow> [] | Some u \<Rightarrow> before (CHR '':'') u)"

definition url_password :: "string \<Rightarrow> string" where
  "url_password netloc = (case user_info netloc of None \<Rightarrow> [] | Some u \<Rightarrow> after_first (CHR '':'') u)"

text \<open>\<open>parsed.hostname\<close>: in lower case up to a zone identifier.\<close>

definition url_hostname :: "string \<Rightarrow> string" where
  "url_hostname netloc =
     (let h = fst (host_port netloc); name = before (CHR ''%'') h in py_lower name @ drop (length name) h)"

section \<open>Redirect URIs\<close>

definition OAUTH_REDIRECT_URI_MAX_COUNT :: nat where
  "OAUTH_REDIRECT_URI_MAX_COUNT = 10"

definition OAUTH_REDIRECT_URI_MAX_LENGTH :: nat where
  "OAUTH_REDIRECT_URI_MAX_LENGTH = 2048"

definition oauth_error :: "string \<Rightarrow> string \<Rightarrow> 'a result" where
  "oauth_error err description = Inl (HTTPException 400 err description)"

definition is_loopback_host :: "ip_parser \<Rightarrow> string \<Rightarrow> bool" where
  "is_loopback_host ip hostname =
     (let normalized = py_lower (rev (dropWhile (\<lambda>c. c = CHR ''.'') (rev hostname))) in
      normalized = ''localhost'' \<or> (case ip normalized of None \<Rightarrow> False | Some (v6, lo) \<Rightarrow> lo))"

definition redirect_uri_ok :: "ip_parser \<Rightarrow> string \<Rightarrow> bool" where
  "redirect_uri_ok ip value \<longleftrightarrow>
     (case urlparse ip value of
        None \<Rightarrow> False
      | Some p \<Rightarrow>
          port_ok (pu_netloc p) \<and> pu_scheme p \<in> {''http'', ''https''} \<and> pu_netloc p \<noteq> [] \<and> pu_fragment p = []
          \<and> url_username (pu_netloc p) = [] \<and> url_password (pu_netloc p) = [] \<and> url_hostname (pu_netloc p) \<noteq> []
          \<and> is_loopback_host ip (url_hostname (pu_netloc p)))"

definition validated_redirect_uri :: "ip_parser \<Rightarrow> pyval \<Rightarrow> string result" where
  "validated_redirect_uri ip v =
     (let bad = oauth_error ''invalid_client_metadata'' ''redirect_uris contains invalid values'' in
      case v of
        PStr value \<Rightarrow>
          (if value = [] \<or> py_strip value \<noteq> value \<or> CHR 0x0D \<in> set value \<or> CHR 0x0A \<in> set value then bad
           else if OAUTH_REDIRECT_URI_MAX_LENGTH < length value
             then oauth_error ''invalid_client_metadata'' ''redirect_uri is too long''
           else if \<not> redirect_uri_ok ip value then bad
           else Inr value)
      | _ \<Rightarrow> bad)"

definition redirect_uris_from_payload :: "ip_parser \<Rightarrow> pyval \<Rightarrow> string list result" where
  "redirect_uris_from_payload ip payload =
     (case payload of
        PDict d \<Rightarrow>
          (case dget_none d ''redirect_uris'' of
             PList (v # vs) \<Rightarrow>
               (if OAUTH_REDIRECT_URI_MAX_COUNT < length (v # vs)
                then oauth_error ''invalid_client_metadata'' ''too many redirect_uris''
                else map_result (validated_redirect_uri ip) (v # vs))
           | _ \<Rightarrow> oauth_error ''invalid_client_metadata'' ''redirect_uris is required'')
      | _ \<Rightarrow> oauth_error ''invalid_client_metadata'' ''Request body must be a JSON object'')"

section \<open>Redirecting back\<close>

definition hex_upper :: "nat \<Rightarrow> char" where
  "hex_upper n = (if n < 10 then char_of (48 + n) else char_of (55 + n))"

definition percent_byte :: "nat \<Rightarrow> string" where
  "percent_byte n = [CHR ''%'', hex_upper (n div 16), hex_upper (n mod 16)]"

text \<open>\<open>quote_plus\<close> of one character, by its UTF-8 bytes.\<close>

definition quote_char :: "char \<Rightarrow> string" where
  "quote_char c =
     (let n = (of_char c :: nat) in
      if ascii_alnum c \<or> c \<in> set ''_.-~'' then [c]
      else if c = CHR '' '' then ''+''
      else if n < 128 then percent_byte n
      else percent_byte (192 + n div 64) @ percent_byte (128 + n mod 64))"

definition quote_plus :: "string \<Rightarrow> string" where
  "quote_plus s = concat (map quote_char s)"

definition urlencode :: "(string \<times> string) list \<Rightarrow> string" where
  "urlencode query = join_with ''&'' (map (\<lambda>(k, v). quote_plus k @ ''='' @ quote_plus v) query)"

definition redirect_with_query :: "string \<Rightarrow> (string \<times> string) list \<Rightarrow> string" where
  "redirect_with_query redirect_uri query =
     redirect_uri @ (if CHR ''?'' \<in> set redirect_uri then ''&'' else ''?'') @ urlencode query"

section \<open>Lemmas\<close>

lemma redirect_uris_valid:
  assumes "redirect_uris_from_payload ip payload = Inr uris"
  shows "uris \<noteq> [] \<and> length uris \<le> OAUTH_REDIRECT_URI_MAX_COUNT \<and> list_all (redirect_uri_ok ip) uris"
proof -
  from assms obtain v vs where uris: "map_result (validated_redirect_uri ip) (v # vs) = Inr uris"
    and len: "length (v # vs) \<le> OAUTH_REDIRECT_URI_MAX_COUNT"
    by (auto simp: redirect_uris_from_payload_def oauth_error_def split: pyval.splits list.splits if_splits)
  have "validated_redirect_uri ip x = Inr u \<Longrightarrow> redirect_uri_ok ip u" for x u
    by (auto simp: validated_redirect_uri_def oauth_error_def Let_def split: pyval.splits if_splits)
  then have all: "list_all (redirect_uri_ok ip) us" if "map_result (validated_redirect_uri ip) xs = Inr us" for xs us
    using that by (induction xs arbitrary: us) (auto simp: result_simps)
  show ?thesis using all [OF uris] len map_result_Inr_length [OF uris] by auto
qed

end
