(* ===== verification/OAuthServer.thy ===== *)
theory OAuthServer
  imports RedirectUris CredentialMachine AuditStore
begin

text \<open>
  The authorization server of the hub (\<^verbatim>\<open>memory/api/oauth_authorization.py\<close>, with the token
  issuance and the logins of \<^verbatim>\<open>memory/api/connect_service.py\<close> and the service functions they call).
  A handler runs several transactions of the store, and other requests run between them: what these do
  is an argument, a list of operations before each transaction. Random secrets, the clock readings,
  signing and the digests are parameters.
\<close>

section \<open>Environment, state and calls\<close>

record oauth_env = web_env +
  oe_ip :: ip_parser
  oe_sign :: "string \<Rightarrow> pydict \<Rightarrow> string result" \<comment> \<open>\<open>jwt.encode\<close> with the key and the payload\<close>
  oe_s256 :: "string \<Rightarrow> string" \<comment> \<open>base64url of the SHA-256 digest, without padding\<close>
  oe_iso_time :: "string \<Rightarrow> int option" \<comment> \<open>\<open>datetime.fromisoformat\<close> in UTC, in microseconds\<close>
  oe_float_le :: "string \<Rightarrow> int \<Rightarrow> bool"
  oe_providers :: "(string \<times> bool) list" \<comment> \<open>the configured login providers, and whether they are enabled\<close>

record oauth_state =
  os_db :: auth_db
  os_audit :: "audit_row list"
  os_session :: "pydict option" \<comment> \<open>the signed cookie session of the browser, when there is one\<close>

text \<open>One request: what it reads from outside while it runs, and what others do before each transaction.\<close>

record oauth_call =
  ca_time :: int
  ca_micros :: int
  ca_after :: "int \<Rightarrow> clock" \<comment> \<open>\<open>utc_after\<close>\<close>
  ca_sql :: "nat \<Rightarrow> clock"
  ca_iso :: clock
  ca_secret :: "nat \<Rightarrow> string"
  ca_event :: "nat \<Rightarrow> string \<times> clock"
  ca_request :: "string option"
  ca_surface :: string
  ca_others :: "nat \<Rightarrow> auth_op list"
  ca_cookies :: "(string \<times> string) list"

type_synonym 'a handler = "('a, oauth_state) eff"

definition db_call ::
    "oauth_env \<Rightarrow> oauth_call \<Rightarrow> nat \<Rightarrow> (auth_db \<Rightarrow> 'a db_result) \<Rightarrow> 'a handler" where
  "db_call oe c n f s =
     (let db = auth_run (we_store oe) (ca_others c n) (os_db s)
      in (case f db of Inl e \<Rightarrow> Inl e | Inr (x, db') \<Rightarrow> Inr x, s\<lparr>os_db := commit db (f db)\<rparr>))"

definition db_read :: "oauth_env \<Rightarrow> oauth_call \<Rightarrow> nat \<Rightarrow> (auth_db \<Rightarrow> 'a result) \<Rightarrow> 'a handler" where
  "db_read oe c n f =
     db_call oe c n (\<lambda>db. bind_result (f db) (\<lambda>x. Inr (x, db)))"

definition audit_call ::
    "oauth_env \<Rightarrow> oauth_call \<Rightarrow> nat \<Rightarrow> string \<Rightarrow> string option \<Rightarrow> string \<times> string option \<Rightarrow> pydict \<Rightarrow> unit handler" where
  "audit_call oe c n event_type owner outcome_reason meta s =
     (let (uuid, at) = ca_event c n;
          event = [(''id'', PStr uuid), (''event_type'', PStr event_type), (''actor_id'', of_opt owner),
            (''project_id'', PNone), (''memory_id'', PNone), (''fact_id'', PNone),
            (''request_id'', of_opt (ca_request c)), (''source_surface'', PStr (ca_surface c)),
            (''outcome'', PStr (fst outcome_reason)), (''reason_code'', of_opt (snd outcome_reason)),
            (''metadata'', PDict meta), (''created_at'', PStr at)]
      in (Inr (), case append_audit_event (we_store oe) [] at (PDict event) (os_audit s) of
                    Inr (d, rows) \<Rightarrow> s\<lparr>os_audit := rows\<rparr>
                  | Inl e \<Rightarrow> s))"

section \<open>Service functions with an audit event\<close>

definition create_token_service ::
    "oauth_env \<Rightarrow> oauth_call \<Rightarrow> nat \<Rightarrow> string \<Rightarrow> string \<Rightarrow> string \<Rightarrow> clock \<Rightarrow> string list \<Rightarrow> pydict handler" where
  "create_token_service oe c n owner token name expiry scopes =
     act_bind (db_call oe c n (create_auth_token (we_store oe) (ca_sql c n) (ca_secret c n) owner token None
         (Some name) (Some expiry) (Some scopes))) (\<lambda>d.
     act_bind (audit_call oe c n ''auth.token_created'' (Some owner) (''ok'', None)
       [(''token_id'', dget_none d ''token_id''),
        (''scope_count'', case dget_none d ''scopes'' of PList xs \<Rightarrow> PInt (int (length xs)) | _ \<Rightarrow> PInt 0),
        (''expires'', PBool (dget_none d ''expires_at'' \<noteq> PNone))]) (\<lambda>_. act_ret d))"

definition revoke_token_service :: "oauth_env \<Rightarrow> oauth_call \<Rightarrow> nat \<Rightarrow> string \<Rightarrow> pydict option handler" where
  "revoke_token_service oe c n token_id =
     act_bind (db_call oe c n (revoke_auth_token (ca_sql c n) token_id)) (\<lambda>d.
     act_bind (audit_call oe c n ''auth.token_revoked''
       (case d of None \<Rightarrow> None
        | Some r \<Rightarrow> (if truthy (dget_none r ''owner_id'') then Some (py_str (dget_none r ''owner_id'')) else None))
       (if d \<noteq> None then (''ok'', None) else (''not_found'', Some ''token_not_found''))
       [(''token_id'', PStr token_id)]) (\<lambda>_. act_ret d))"

section \<open>Tokens the hub signs\<close>

definition mcp_url :: "hub_config \<Rightarrow> string" where
  "mcp_url cfg =
     (if cfg_resource cfg \<noteq> [] then rstrip_slash (cfg_resource cfg)
      else (if cfg_public_base_url cfg \<noteq> [] then rstrip_slash (cfg_public_base_url cfg)
            else ''http://'' @ cfg_host cfg @ '':'' @ int_str (cfg_port cfg)) @ ''/mcp'')"

definition token_payload :: "hub_config \<Rightarrow> int \<Rightarrow> string \<Rightarrow> string list \<Rightarrow> string \<Rightarrow> pydict" where
  "token_payload cfg now owner scopes jti =
     [(''sub'', PStr owner), (''iss'', PStr (rstrip_slash (cfg_public_base_url cfg))),
      (''aud'', PStr (mcp_url cfg)), (''resource'', PStr (mcp_url cfg)),
      (''scope'', PStr (join_with '' '' (if scopes = [] then [READ_SCOPE, WRITE_SCOPE] else scopes))),
      (''iat'', PInt now), (''exp'', PInt (now + cfg_token_ttl cfg)), (''jti'', PStr (''tok_'' @ jti))]"

definition issue_hub_token ::
    "oauth_env \<Rightarrow> hub_config \<Rightarrow> int \<Rightarrow> string \<Rightarrow> string list \<Rightarrow> string \<Rightarrow> string result" where
  "issue_hub_token oe cfg now owner scopes jti =
     oe_sign oe (oauth_jwt_secret (web_env.truncate oe) cfg) (token_payload cfg now owner scopes jti)"

text \<open>The payload of a token, unverified; an empty dictionary when it cannot be read.\<close>

definition jwt_payload :: "oauth_env \<Rightarrow> string \<Rightarrow> pydict" where
  "jwt_payload oe token =
     (case split_on (CHR ''.'') token of
        [h, p, sg] \<Rightarrow>
          (case env_jwt_segment (we_store oe) p of
             Some v \<Rightarrow> (case as_dict v of Some d \<Rightarrow> d | None \<Rightarrow> [])
           | None \<Rightarrow> [])
      | _ \<Rightarrow> [])"

text \<open>\<open>str(d.get(key) or default)\<close>.\<close>

definition form_str :: "pydict \<Rightarrow> string \<Rightarrow> string \<Rightarrow> string" where
  "form_str d key def =
     (if truthy (dget_none d key) then py_str (dget_none d key) else def)"

definition normalize_scopes :: "string list \<Rightarrow> string list" where
  "normalize_scopes scopes =
     (let ns = filter (\<lambda>s. s \<noteq> []) (map py_strip scopes) in if ns = [] then [READ_SCOPE, WRITE_SCOPE] else ns)"

section \<open>Replies\<close>

datatype reply =
    Json int pydict
  | Redirect string
  | ToProvider string pydict \<comment> \<open>on to the login provider, with the state it keeps for the way back\<close>

definition json_reply :: "reply \<Rightarrow> bool" where
  "json_reply r = (case r of Json n d \<Rightarrow> n = 200 | _ \<Rightarrow> False)"

definition access_token_of :: "pydict \<Rightarrow> string \<Rightarrow> pydict \<Rightarrow> string" where
  "access_token_of rec def payload =
     (if truthy (dget_none rec ''token_id'') then py_str (dget_none rec ''token_id'')
      else if truthy (dget_none payload ''jti'') then py_str (dget_none payload ''jti'') else def)"

text \<open>
  \<open>_issue_access_and_refresh_tokens\<close>: when the refresh token cannot be stored, the access token is revoked
  again; an error of that is logged and swallowed, and the first error goes on.
\<close>

definition revoke_failed_access_token :: "oauth_env \<Rightarrow> oauth_call \<Rightarrow> nat \<Rightarrow> string \<Rightarrow> unit handler" where
  "revoke_failed_access_token oe c n token_id s = (Inr (), snd (revoke_token_service oe c n token_id s))"

definition issue_tokens ::
    "oauth_env \<Rightarrow> hub_config \<Rightarrow> oauth_call \<Rightarrow> string \<Rightarrow> string \<Rightarrow> string \<Rightarrow> string list \<Rightarrow> string option \<Rightarrow> reply handler" where
  "issue_tokens oe cfg c client_id owner resource scopes family =
     (let ns = normalize_scopes scopes;
          refresh_token = ''amh_refresh_'' @ ca_secret c 1;
          family_id = (case family of Some f \<Rightarrow> (if f = [] then ''amh_family_'' @ ca_secret c 2 else f)
                       | None \<Rightarrow> ''amh_family_'' @ ca_secret c 2)
      in act_bind (act_of (issue_hub_token oe cfg (ca_time c) owner ns (ca_secret c 0))) (\<lambda>issued.
         act_bind (create_token_service oe c 10 owner issued ''MCP OAuth client'' (ca_after c (cfg_token_ttl cfg)) ns) (\<lambda>d.
         let access_id = access_token_of d [] (jwt_payload oe issued) in
         act_bind (act_on_error
           (db_call oe c 11 (create_oauth_refresh_token (we_store oe) (ca_sql c 11) (ca_iso c) refresh_token family_id
              client_id owner (Some ns) resource (Some access_id) (ca_after c (cfg_refresh_ttl cfg))))
           (revoke_failed_access_token oe c 12 access_id)) (\<lambda>_.
         act_ret (Json 200
           [(''access_token'', PStr issued), (''token_type'', PStr ''Bearer''), (''expires_in'', PInt (cfg_token_ttl cfg)),
            (''refresh_token'', PStr refresh_token), (''refresh_token_expires_in'', PInt (cfg_refresh_ttl cfg)),
            (''scope'', PStr (join_with '' '' ns)), (''resource'', PStr resource), (''jti'', PStr access_id)])))))"

section \<open>Clients\<close>

definition OAUTH_CLIENT_MAX_RECORDS :: nat where
  "OAUTH_CLIENT_MAX_RECORDS = 128"

definition OAUTH_CLIENT_NAME_MAX_LENGTH :: nat where
  "OAUTH_CLIENT_NAME_MAX_LENGTH = 100"

text \<open>The store's quota error is reported as a client error.\<close>

definition quota_as_client_error :: "'a db_result \<Rightarrow> 'a db_result" where
  "quota_as_client_error r =
     (case r of
        Inl (OAuthClientQuotaExceeded m) \<Rightarrow>
          oauth_error ''invalid_client_metadata'' ''Active OAuth client quota is exhausted''
      | _ \<Rightarrow> r)"

text \<open>\<open>None\<close> is a body that is not JSON.\<close>

definition oauth_register :: "oauth_env \<Rightarrow> hub_config \<Rightarrow> oauth_call \<Rightarrow> pyval option \<Rightarrow> reply handler" where
  "oauth_register oe cfg c body =
     (case body of
        None \<Rightarrow> act_of (oauth_error ''invalid_client_metadata'' ''Request body must be a JSON object'')
      | Some payload \<Rightarrow>
          act_bind (act_of (redirect_uris_from_payload (oe_ip oe) payload)) (\<lambda>uris.
          let name = form_str (case as_dict payload of Some d \<Rightarrow> d | None \<Rightarrow> []) ''client_name'' ''MCP client'';
              client_id = ''amh_client_'' @ ca_secret c 0 in
          if OAUTH_CLIENT_NAME_MAX_LENGTH < length name
          then act_of (oauth_error ''invalid_client_metadata'' ''client_name is too long'')
          else
            act_bind (db_call oe c 0 (\<lambda>db. quota_as_client_error
                (create_oauth_client (ca_sql c 0) client_id name uris (ca_after c (cfg_client_ttl cfg))
                   OAUTH_CLIENT_MAX_RECORDS db))) (\<lambda>_.
            act_ret (Json 201
              [(''client_id'', PStr client_id), (''client_id_issued_at'', PInt (ca_time c)),
               (''client_id_expires_at'', PInt (ca_time c + cfg_client_ttl cfg)), (''redirect_uris'', str_list uris),
               (''token_endpoint_auth_method'', PStr ''none''),
               (''grant_types'', str_list [''authorization_code'', ''refresh_token'']),
               (''response_types'', str_list [''code''])]))))"

definition oauth_client_for_request ::
    "oauth_env \<Rightarrow> oauth_call \<Rightarrow> nat \<Rightarrow> string \<Rightarrow> pydict option handler" where
  "oauth_client_for_request oe c n client_id =
     (if client_id = [] then act_ret None else db_read oe c n (oauth_client (ca_sql c n) client_id))"

section \<open>Authorization requests\<close>

definition base64url_char :: "char \<Rightarrow> bool" where
  "base64url_char ch \<longleftrightarrow> ascii_alnum ch \<or> ch \<in> set ''_-''"

text \<open>\<open>PKCE_CHALLENGE_PATTERN\<close> and \<open>PKCE_VERIFIER_PATTERN\<close>.\<close>

definition pkce_challenge_ok :: "string \<Rightarrow> bool" where
  "pkce_challenge_ok s \<longleftrightarrow> length s = 43 \<and> list_all base64url_char s"

definition pkce_verifier_ok :: "string \<Rightarrow> bool" where
  "pkce_verifier_ok s \<longleftrightarrow> 43 \<le> length s \<and> length s \<le> 128 \<and> list_all (\<lambda>ch. base64url_char ch \<or> ch \<in> set ''.~'') s"

definition validate_requested_scopes :: "hub_config \<Rightarrow> string \<Rightarrow> unit result" where
  "validate_requested_scopes cfg scope =
     (if list_ex (\<lambda>s. s \<notin> set (cfg_scopes cfg)) (split_ws scope)
      then oauth_error ''invalid_scope'' ''One or more requested scopes are not supported''
      else Inr ())"

definition uri_registered :: "pydict \<Rightarrow> string \<Rightarrow> bool" where
  "uri_registered client uri = (case dget_none client ''redirect_uris'' of PList us \<Rightarrow> PStr uri \<in> set us | _ \<Rightarrow> False)"

definition check_authorization_request :: "hub_config \<Rightarrow> pydict option \<Rightarrow> pydict \<Rightarrow> pydict result" where
  "check_authorization_request cfg client params =
     (case client of
        None \<Rightarrow> oauth_error ''invalid_client'' ''Unknown OAuth client_id''
      | Some cl \<Rightarrow>
          (if \<not> uri_registered cl (form_str params ''redirect_uri'' [])
             then oauth_error ''invalid_request'' ''redirect_uri is not registered''
           else if dget_none params ''response_type'' \<noteq> PStr ''code''
             then oauth_error ''unsupported_response_type'' ''Only response_type=code is supported''
           else if dget_none params ''code_challenge_method'' \<noteq> PStr ''S256''
             then oauth_error ''invalid_request'' ''PKCE S256 is required''
           else if \<not> pkce_challenge_ok (form_str params ''code_challenge'' [])
             then oauth_error ''invalid_request'' ''code_challenge must be 43 base64url characters''
           else bind_result (validate_requested_scopes cfg (form_str params ''scope'' [])) (\<lambda>_. Inr
             [(''client_id'', PStr (form_str params ''client_id'' [])),
              (''redirect_uri'', PStr (form_str params ''redirect_uri'' [])),
              (''code_challenge'', PStr (form_str params ''code_challenge'' [])),
              (''code_challenge_method'', PStr ''S256''),
              (''resource'', PStr (form_str params ''resource'' [])), (''scope'', PStr (form_str params ''scope'' [])),
              (''state'', PStr (form_str params ''state'' []))])))"

definition validated_authorization_request ::
    "oauth_env \<Rightarrow> hub_config \<Rightarrow> oauth_call \<Rightarrow> pydict \<Rightarrow> pydict handler" where
  "validated_authorization_request oe cfg c params =
     act_bind (oauth_client_for_request oe c 0 (form_str params ''client_id'' [])) (\<lambda>client.
     act_of (check_authorization_request cfg client params))"

definition AUTH_REQUEST_FIELDS :: "string list" where
  "AUTH_REQUEST_FIELDS = [''client_id'', ''redirect_uri'', ''code_challenge'', ''code_challenge_method'',
     ''resource'', ''scope'', ''state'']"

definition check_pending_request :: "hub_config \<Rightarrow> pydict option \<Rightarrow> pydict \<Rightarrow> pydict result" where
  "check_pending_request cfg client pending =
     (let value = (\<lambda>k. form_str pending k []) in
      case client of
        None \<Rightarrow> oauth_error ''invalid_client'' ''Unknown OAuth client_id''
      | Some cl \<Rightarrow>
          (if \<not> uri_registered cl (value ''redirect_uri'')
             then oauth_error ''invalid_request'' ''redirect_uri is not registered''
           else if value ''code_challenge_method'' \<noteq> ''S256'' \<or> \<not> pkce_challenge_ok (value ''code_challenge'')
             then oauth_error ''invalid_request'' ''PKCE S256 is required''
           else bind_result (validate_requested_scopes cfg (value ''scope'')) (\<lambda>_.
             Inr (map (\<lambda>k. (k, PStr (value k))) AUTH_REQUEST_FIELDS))))"

definition validated_pending_request ::
    "oauth_env \<Rightarrow> hub_config \<Rightarrow> oauth_call \<Rightarrow> pyval \<Rightarrow> pydict handler" where
  "validated_pending_request oe cfg c pending =
     (case pending of
        PDict p \<Rightarrow>
          act_bind (oauth_client_for_request oe c 1 (form_str p ''client_id'' [])) (\<lambda>client.
          act_of (check_pending_request cfg client p))
      | _ \<Rightarrow> act_of (oauth_error ''invalid_request'' ''No pending authorization request''))"

text \<open>The redirect URI of a request with errors, when the client has registered it.\<close>

definition trusted_redirect_uri :: "oauth_env \<Rightarrow> oauth_call \<Rightarrow> pydict \<Rightarrow> string option handler" where
  "trusted_redirect_uri oe c params =
     act_bind (oauth_client_for_request oe c 1 (form_str params ''client_id'' [])) (\<lambda>client.
     let uri = form_str params ''redirect_uri'' [] in
     act_ret (case client of Some cl \<Rightarrow> (if uri_registered cl uri then Some uri else None) | None \<Rightarrow> None))"

definition error_redirect :: "string \<Rightarrow> string \<times> string \<Rightarrow> string \<Rightarrow> reply" where
  "error_redirect uri err st =
     Redirect (redirect_with_query uri
       ([(''error'', if fst err = [] then ''invalid_request'' else fst err),
         (''error_description'', if snd err = [] \<or> fst err = [] then ''Authorization failed'' else snd err)]
        @ (if st = [] then [] else [(''state'', st)])))"

text \<open>\<open>try: m except HTTPException as exc: h exc\<close>.\<close>

definition on_http_error :: "'a handler \<Rightarrow> (int \<Rightarrow> string \<Rightarrow> string \<Rightarrow> 'a handler) \<Rightarrow> 'a handler" where
  "on_http_error m h s =
     (case m s of
        (Inl (HTTPException n e d), s1) \<Rightarrow> h n e d s1
      | r \<Rightarrow> r)"

definition session_dict :: "pydict handler" where
  "session_dict = act_read (\<lambda>s. case os_session s of
      Some d \<Rightarrow> Inr d
    | None \<Rightarrow> Inl (HTTPException 503 [] ''OAuth session middleware is not configured''))"

definition set_session :: "pydict \<Rightarrow> unit handler" where
  "set_session d s = (Inr (), s\<lparr>os_session := Some d\<rparr>)"

definition first_enabled_provider :: "oauth_env \<Rightarrow> string result" where
  "first_enabled_provider oe =
     (case find snd (oe_providers oe) of
        Some p \<Rightarrow> Inr (fst p)
      | None \<Rightarrow> Inl (HTTPException 503 [] ''No OAuth identity provider is enabled''))"

definition to_login :: "oauth_env \<Rightarrow> pydict \<Rightarrow> reply handler" where
  "to_login oe auth_request =
     act_bind session_dict (\<lambda>d.
     act_bind (set_session (dset d ''pending_oauth_authorization'' (PDict auth_request))) (\<lambda>_.
     act_bind (act_of (first_enabled_provider oe)) (\<lambda>provider.
     act_ret (ToProvider provider [(''pending_oauth_authorization'', PDict auth_request)]))))"

text \<open>The validated request, or the reply to an invalid one.\<close>

definition oauth_authorize :: "oauth_env \<Rightarrow> hub_config \<Rightarrow> oauth_call \<Rightarrow> pydict \<Rightarrow> reply handler" where
  "oauth_authorize oe cfg c params =
     act_bind (on_http_error
         (act_bind (validated_authorization_request oe cfg c params) (\<lambda>r. act_ret (Inl r)))
         (\<lambda>n e d. act_bind (trusted_redirect_uri oe c params) (\<lambda>uri.
            case uri of
              None \<Rightarrow> act_of (Inl (HTTPException n e d))
            | Some u \<Rightarrow> act_ret (Inr (error_redirect u (e, d) (form_str params ''state'' []))))))
       (\<lambda>x. case x of Inl auth_request \<Rightarrow> to_login oe auth_request | Inr r \<Rightarrow> act_ret r)"

section \<open>Consent\<close>

definition session_from_request ::
    "oauth_env \<Rightarrow> hub_config \<Rightarrow> oauth_call \<Rightarrow> nat \<Rightarrow> pydict option handler" where
  "session_from_request oe cfg c n =
     (case map_of (ca_cookies c) (cfg_session_cookie cfg) of
        Some (x # xs) \<Rightarrow>
          db_call oe c n (web_session_for_hash (ca_sql c n)
            (hash_secret (web_env.truncate oe) cfg (x # xs) ''connect-session''))
      | _ \<Rightarrow> act_ret None)"

definition AUTHORIZATION_CODE_TTL_SECONDS :: int where
  "AUTHORIZATION_CODE_TTL_SECONDS = 300"

definition authorization_code_redirect :: "oauth_env \<Rightarrow> oauth_call \<Rightarrow> pydict \<Rightarrow> string \<Rightarrow> reply handler" where
  "authorization_code_redirect oe c auth_request owner =
     (let value = (\<lambda>k. form_str auth_request k []); code = ''amh_code_'' @ ca_secret c 0 in
      act_bind (db_call oe c 2 (create_oauth_authorization_code (we_store oe) (ca_sql c 2) code (value ''client_id'')
          owner (value ''redirect_uri'') (value ''code_challenge'') (value ''resource'') (value ''scope'')
          (ca_after c AUTHORIZATION_CODE_TTL_SECONDS))) (\<lambda>_.
      act_ret (Redirect (redirect_with_query (value ''redirect_uri'')
        ((''code'', code) # (if value ''state'' = [] then [] else [(''state'', value ''state'')]))))))"

text \<open>Approving and denying start alike: session, CSRF token, and the pending request, which is used up.\<close>

definition with_consent ::
    "oauth_env \<Rightarrow> hub_config \<Rightarrow> oauth_call \<Rightarrow> pydict \<Rightarrow> (pydict \<Rightarrow> pydict \<Rightarrow> reply handler) \<Rightarrow> reply handler" where
  "with_consent oe cfg c form decide =
     act_bind (session_from_request oe cfg c 0) (\<lambda>session.
     case session of
       None \<Rightarrow> act_of (Inl (HTTPException 403 [] ''Connect session is required''))
     | Some sess \<Rightarrow>
         (if \<not> csrf_matches (web_env.truncate oe) cfg sess (form_str form ''csrf_token'' [])
          then act_of (Inl (HTTPException 403 [] ''Invalid CSRF token''))
          else
            act_bind session_dict (\<lambda>d.
            act_bind (set_session (dpop d ''pending_oauth_authorization'')) (\<lambda>_.
            act_bind (validated_pending_request oe cfg c (dget_none d ''pending_oauth_authorization'')) (decide sess)))))"

definition oauth_authorize_approve :: "oauth_env \<Rightarrow> hub_config \<Rightarrow> oauth_call \<Rightarrow> pydict \<Rightarrow> reply handler" where
  "oauth_authorize_approve oe cfg c form =
     with_consent oe cfg c form (\<lambda>sess auth_request.
     act_bind (act_of (ditem sess ''user_id'')) (\<lambda>user.
     authorization_code_redirect oe c auth_request (py_str user)))"

definition oauth_authorize_deny :: "oauth_env \<Rightarrow> hub_config \<Rightarrow> oauth_call \<Rightarrow> pydict \<Rightarrow> reply handler" where
  "oauth_authorize_deny oe cfg c form =
     with_consent oe cfg c form (\<lambda>sess auth_request.
     act_ret (error_redirect (form_str auth_request ''redirect_uri'' [])
       (''access_denied'', ''The resource owner denied the request'') (form_str auth_request ''state'' [])))"

section \<open>The token endpoint\<close>

definition invalid_grant :: "string \<Rightarrow> 'a handler" where
  "invalid_grant m = act_of (oauth_error ''invalid_grant'' m)"

definition timestamp_is_expired :: "oauth_env \<Rightarrow> oauth_call \<Rightarrow> pyval \<Rightarrow> bool" where
  "timestamp_is_expired oe c v =
     (case v of
        PNone \<Rightarrow> False
      | PInt i \<Rightarrow> i * 1000000 \<le> ca_micros c
      | PBool b \<Rightarrow> (if b then 1000000 else 0) \<le> ca_micros c
      | PFloat f \<Rightarrow> oe_float_le oe f (ca_micros c)
      | _ \<Rightarrow> (case oe_iso_time oe (replace_sub ''Z'' ''+00:00'' (py_str v)) of
                None \<Rightarrow> True | Some t \<Rightarrow> t \<le> ca_micros c))"

definition revoke_family :: "oauth_env \<Rightarrow> oauth_call \<Rightarrow> nat \<Rightarrow> pydict \<Rightarrow> bool handler" where
  "revoke_family oe c n rec =
     db_call oe c n (revoke_oauth_refresh_token_family (ca_sql c n) (py_str (dget_none rec ''token_family_id'')))"

text \<open>What \<open>refresh_token_response\<close> does with the record it finds.\<close>

definition refresh_found ::
    "oauth_env \<Rightarrow> hub_config \<Rightarrow> oauth_call \<Rightarrow> string \<Rightarrow> string \<Rightarrow> pydict \<Rightarrow> reply handler" where
  "refresh_found oe cfg c refresh_token client_id r =
     (let invalid = invalid_grant ''Refresh token is invalid'' in
      if dget_none r ''client_id'' \<noteq> PStr client_id then invalid
      else if dget_none r ''revoked_at'' \<noteq> PNone \<or> dget_none r ''consumed_at'' \<noteq> PNone
        then act_bind (revoke_family oe c 1 r) (\<lambda>_. invalid)
      else if timestamp_is_expired oe c (dget_none r ''expires_at'')
        then invalid_grant ''Refresh token is expired''
      else act_bind (db_call oe c 2 (consume_oauth_refresh_token (we_store oe) (ca_sql c 2) refresh_token)) (\<lambda>consumed.
        if (case consumed of None \<Rightarrow> True | Some d \<Rightarrow> dget_none d ''consumed_at'' = PNone)
        then act_bind (revoke_family oe c 3 r) (\<lambda>_. invalid)
        else issue_tokens oe cfg c client_id (py_str (dget_none r ''owner_id''))
          (py_str (dget_none r ''resource''))
          (case dget_none r ''scopes'' of PList xs \<Rightarrow> map py_str xs | _ \<Rightarrow> [])
          (Some (py_str (dget_none r ''token_family_id'')))))"

definition refresh_token_response :: "oauth_env \<Rightarrow> hub_config \<Rightarrow> oauth_call \<Rightarrow> pydict \<Rightarrow> reply handler" where
  "refresh_token_response oe cfg c form =
     (let refresh_token = form_str form ''refresh_token'' []; client_id = form_str form ''client_id'' [];
          invalid = invalid_grant ''Refresh token is invalid'' in
      if refresh_token = [] then invalid
      else act_bind (db_read oe c 0 (oauth_refresh_token (we_store oe) refresh_token)) (\<lambda>found.
        case found of None \<Rightarrow> invalid | Some r \<Rightarrow> refresh_found oe cfg c refresh_token client_id r))"

definition code_token_response :: "oauth_env \<Rightarrow> hub_config \<Rightarrow> oauth_call \<Rightarrow> pydict \<Rightarrow> reply handler" where
  "code_token_response oe cfg c form =
     (let verifier = form_str form ''code_verifier'' [] in
      if \<not> pkce_verifier_ok verifier then invalid_grant ''PKCE verification failed''
      else act_bind (db_call oe c 0 (consume_oauth_authorization_code (we_store oe) (ca_sql c 0)
             (form_str form ''code'' []) (form_str form ''client_id'' []) (form_str form ''redirect_uri'' [])
             (oe_s256 oe verifier))) (\<lambda>found.
        case found of
          None \<Rightarrow> invalid_grant ''Authorization code is invalid, expired, or does not match request''
        | Some r \<Rightarrow>
            issue_tokens oe cfg c (py_str (dget_none r ''client_id'')) (py_str (dget_none r ''owner_id''))
              (py_str (dget_none r ''resource'')) (normalize_scopes (split_ws (form_str r ''scope'' []))) None))"

definition error_reply :: "int \<Rightarrow> string \<Rightarrow> string \<Rightarrow> reply" where
  "error_reply n e d =
     Json n (if e = [] then [(''error'', PStr ''invalid_request'')]
             else [(''error'', PStr e), (''error_description'', PStr d)])"

definition oauth_token :: "oauth_env \<Rightarrow> hub_config \<Rightarrow> oauth_call \<Rightarrow> pydict \<Rightarrow> reply handler" where
  "oauth_token oe cfg c form =
     on_http_error
       (if dget_none form ''grant_type'' = PStr ''refresh_token'' then refresh_token_response oe cfg c form
        else if dget_none form ''grant_type'' \<noteq> PStr ''authorization_code''
          then act_of (oauth_error ''unsupported_grant_type'' ''Only authorization_code and refresh_token are supported'')
        else code_token_response oe cfg c form)
       (\<lambda>n e d. act_ret (error_reply n e d))"

section \<open>Revocation\<close>

definition oauth_revoke :: "oauth_env \<Rightarrow> oauth_call \<Rightarrow> pydict \<Rightarrow> reply handler" where
  "oauth_revoke oe c form =
     (let token = form_str form ''token'' [] in
      if token = [] then act_ret (Json 200 [])
      else act_bind (db_call oe c 0 (revoke_oauth_refresh_token (we_store oe) (ca_sql c 0) token)) (\<lambda>was_refresh.
        if was_refresh then act_ret (Json 200 [])
        else act_bind (db_call oe c 1 (revoke_oauth_authorization_for_access_token (we_store oe) (ca_sql c 1) token)) (\<lambda>revoked.
          case (revoked, dget_none (jwt_payload oe token) ''jti'') of
            (False, PStr (x # xs)) \<Rightarrow> act_bind (revoke_token_service oe c 2 (x # xs)) (\<lambda>_. act_ret (Json 200 []))
          | _ \<Rightarrow> act_ret (Json 200 []))))"

end
