(* ===== verification/ConnectLogin.thy ===== *)
theory ConnectLogin
  imports OAuthServer
begin

text \<open>
  Signing in through an identity provider and signing out (\<^verbatim>\<open>memory/api/connect_oauth.py\<close>, with
  \<open>ConnectService\<close> of \<^verbatim>\<open>memory/api/connect_service.py\<close> and the routes of \<^verbatim>\<open>memory/api/connect_ui.py\<close>).
  The provider's HTTP answers and the verification of an identity token against a key set are parameters.
\<close>

section \<open>Configuration, environment and state\<close>

record provider_config =
  pc_enabled :: bool
  pc_client_id_env :: string
  pc_client_secret_env :: string
  pc_callback_url :: string
  pc_authorization_url :: string
  pc_token_url :: string
  pc_issuer :: string
  pc_discovery_url :: string
  pc_jwks_url :: string
  pc_algorithms :: "string list"
  pc_scopes :: "string list"
  pc_allowed_domains :: "string list"
  pc_allowed_emails :: "string list"

record connect_config =
  cc_hub :: hub_config
  cc_providers :: "(string \<times> provider_config) list"
  cc_session_ttl :: int

text \<open>An answer over HTTP: a transport error, or a status with the body read as JSON.\<close>

datatype http_reply =
    HttpFailed
  | HttpAnswer int "pyval result"

record login_env =
  le_oauth :: oauth_env
  le_get :: "string \<Rightarrow> http_reply"
  le_post :: "string \<Rightarrow> (string \<times> string) list \<Rightarrow> http_reply"
  le_jwt :: "pydict \<Rightarrow> string list \<Rightarrow> string \<Rightarrow> pydict option" \<comment> \<open>key set, algorithms, token\<close>
  le_exchange :: "string \<Rightarrow> (string \<Rightarrow> string \<Rightarrow> pyval result) option" \<comment> \<open>an exchange set on the application\<close>

record login_cache =
  kc_metadata :: "(string \<times> int \<times> pydict) list"
  kc_jwks :: "(string \<times> int \<times> pydict) list"

type_synonym login_state = "oauth_state \<times> login_cache"
type_synonym 'a login = "('a, login_state) eff"

record login_request =
  lr_call :: oauth_call
  lr_state :: "string option"
  lr_code :: "string option"
  lr_error :: "string option"

definition on_hub :: "'a handler \<Rightarrow> 'a login" where
  "on_hub m s = (case m (fst s) of (r, s1) \<Rightarrow> (r, (s1, snd s)))"

definition http_error :: "int \<Rightarrow> string \<Rightarrow> 'a result" where
  "http_error status detail = Inl (HTTPException status [] detail)"

definition raise_http :: "int \<Rightarrow> string \<Rightarrow> ('a, 's) eff" where
  "raise_http status detail = act_of (http_error status detail)"

section \<open>Providers\<close>

definition OAUTH_STATE_TTL_SECONDS :: int where
  "OAUTH_STATE_TTL_SECONDS = 600"

definition OAUTH_STATE_MAX_RECORDS :: nat where
  "OAUTH_STATE_MAX_RECORDS = 8"

definition OAUTH_STATE_GLOBAL_MAX_RECORDS :: nat where
  "OAUTH_STATE_GLOBAL_MAX_RECORDS = 512"

definition OIDC_CACHE_TTL_SECONDS :: int where
  "OIDC_CACHE_TTL_SECONDS = 300"

definition OIDC_CLOCK_SKEW_SECONDS :: int where
  "OIDC_CLOCK_SKEW_SECONDS = 60"

definition env_secret :: "login_env \<Rightarrow> string \<Rightarrow> string" where
  "env_secret le name = py_strip (case we_environ (le_oauth le) name of None \<Rightarrow> [] | Some s \<Rightarrow> s)"

definition normalize_passport_provider :: "string \<Rightarrow> string result" where
  "normalize_passport_provider provider =
     (let value = py_lower (py_strip provider) in
      if value \<notin> {''google'', ''meta'', ''x''} then http_error 404 ''OAuth provider is not supported'' else Inr value)"

definition passport_provider_config :: "connect_config \<Rightarrow> string \<Rightarrow> provider_config option" where
  "passport_provider_config cc provider = map_of (cc_providers cc) provider"

definition provider_callback_url :: "connect_config \<Rightarrow> string \<Rightarrow> string result" where
  "provider_callback_url cc provider =
     (case passport_provider_config cc provider of
        None \<Rightarrow> http_error 404 ''OAuth provider is not supported''
      | Some pc \<Rightarrow> Inr (if pc_callback_url pc \<noteq> [] then pc_callback_url pc
          else rstrip_slash (cfg_public_base_url (cc_hub cc)) @ ''/auth/'' @ provider @ ''/callback''))"

definition provider_uses_oidc :: "provider_config \<Rightarrow> bool" where
  "provider_uses_oidc pc \<longleftrightarrow>
     ''openid'' \<in> set (map py_lower (pc_scopes pc)) \<and> pc_issuer pc \<noteq> []
     \<and> (pc_discovery_url pc \<noteq> [] \<or> pc_jwks_url pc \<noteq> [])"

section \<open>Starting a login\<close>

text \<open>The name of the browser session, kept in the signed cookie session; made up when asked to.\<close>

definition web_session :: "pydict handler" where
  "web_session = act_read (\<lambda>s. case os_session s of
      Some d \<Rightarrow> Inr d | None \<Rightarrow> Inl (AssertionError ''SessionMiddleware must be installed''))"

definition browser_session_id :: "oauth_call \<Rightarrow> bool \<Rightarrow> string handler" where
  "browser_session_id c create =
     act_bind web_session (\<lambda>d.
     case dget_none d ''oauth_browser_session_id'' of
       PStr (x # xs) \<Rightarrow> act_ret (x # xs)
     | _ \<Rightarrow>
         (if \<not> create then act_ret []
          else act_bind (set_session (dset d ''oauth_browser_session_id'' (PStr (ca_secret c 23)))) (\<lambda>_.
               act_ret (ca_secret c 23))))"

definition state_quota_as_429 :: "'a db_result \<Rightarrow> 'a db_result" where
  "state_quota_as_429 r =
     (case r of
        Inl (OAuthProviderStateQuotaExceeded m) \<Rightarrow> http_error 429 ''Too many pending OAuth authorizations''
      | _ \<Rightarrow> r)"

definition login_query :: "login_env \<Rightarrow> connect_config \<Rightarrow> login_request \<Rightarrow> provider_config \<Rightarrow> string \<Rightarrow> string \<Rightarrow> (string \<times> string) list" where
  "login_query le cc lr pc client_id callback =
     [(''response_type'', ''code''), (''client_id'', client_id), (''redirect_uri'', callback),
      (''scope'', join_with '' '' (pc_scopes pc)), (''state'', ca_secret (lr_call lr) 20),
      (''nonce'', ca_secret (lr_call lr) 21),
      (''code_challenge'', oe_s256 (le_oauth le) (ca_secret (lr_call lr) 22)),
      (''code_challenge_method'', ''S256''), (''access_type'', ''offline''), (''prompt'', ''select_account'')]"

definition authorize_redirect :: "login_env \<Rightarrow> connect_config \<Rightarrow> login_request \<Rightarrow> string \<Rightarrow> pydict \<Rightarrow> string handler" where
  "authorize_redirect le cc lr provider state_data =
     (let c = lr_call lr in
      act_bind (act_of (normalize_passport_provider provider)) (\<lambda>name.
      case passport_provider_config cc name of
        None \<Rightarrow> raise_http 404 ''OAuth provider is not supported''
      | Some pc \<Rightarrow>
          (let client_id = env_secret le (pc_client_id_env pc) in
           if client_id = [] then raise_http 503 ''OAuth client id is not configured''
           else
             act_bind (browser_session_id c True) (\<lambda>browser.
             act_bind (db_call (le_oauth le) c 20 (\<lambda>db. state_quota_as_429
                 (create_oauth_provider_state (we_store (le_oauth le)) (ca_sql c 20) (ca_secret c 20) name browser
                    (ca_secret c 21) (ca_secret c 22) (PDict state_data) (ca_after c OAUTH_STATE_TTL_SECONDS)
                    OAUTH_STATE_MAX_RECORDS OAUTH_STATE_GLOBAL_MAX_RECORDS db))) (\<lambda>_.
             act_bind (act_of (provider_callback_url cc name)) (\<lambda>callback.
             act_ret (pc_authorization_url pc @ ''?'' @ urlencode (login_query le cc lr pc client_id callback))))))))"

section \<open>Coming back\<close>

definition login_state_data :: "login_env \<Rightarrow> login_request \<Rightarrow> string \<Rightarrow> pydict handler" where
  "login_state_data le lr provider =
     (let c = lr_call lr; invalid = raise_http 400 ''Invalid OAuth state'' in
      case lr_state lr of
        Some (x # xs) \<Rightarrow>
          act_bind (browser_session_id c False) (\<lambda>browser.
          if browser = [] then invalid
          else act_bind (db_call (le_oauth le) c 21 (consume_oauth_provider_state (we_store (le_oauth le)) (ca_sql c 21)
                 (x # xs) provider browser)) (\<lambda>data.
               case data of Some d \<Rightarrow> act_ret d | None \<Rightarrow> invalid))
      | _ \<Rightarrow> invalid)"

definition exchange_code_for_token ::
    "login_env \<Rightarrow> connect_config \<Rightarrow> string \<Rightarrow> string \<Rightarrow> string \<Rightarrow> string \<Rightarrow> pydict result" where
  "exchange_code_for_token le cc provider code nonce code_verifier =
     (case passport_provider_config cc provider of
        None \<Rightarrow> http_error 404 ''OAuth provider is not supported''
      | Some pc \<Rightarrow>
          (let client_id = env_secret le (pc_client_id_env pc) in
           if client_id = [] then http_error 503 ''OAuth client id is not configured''
           else if pc_token_url pc = [] then http_error 503 ''OAuth token URL is not configured''
           else bind_result (provider_callback_url cc provider) (\<lambda>callback.
             case le_post le (pc_token_url pc)
                    ([(''grant_type'', ''authorization_code''), (''code'', code), (''redirect_uri'', callback),
                      (''client_id'', client_id), (''client_secret'', env_secret le (pc_client_secret_env pc))]
                     @ (if code_verifier = [] then [] else [(''code_verifier'', code_verifier)])) of
               HttpFailed \<Rightarrow> http_error 502 ''OAuth token exchange failed''
             | HttpAnswer status body \<Rightarrow>
                 (if 400 \<le> status then http_error 400 ''OAuth token exchange was rejected''
                  else bind_result body (\<lambda>v. case v of
                      PDict d \<Rightarrow> Inr (dset d ''nonce'' (PStr nonce))
                    | _ \<Rightarrow> http_error 502 ''OAuth token response was invalid'')))))"

definition validate_oidc_nonce :: "provider_config option \<Rightarrow> pydict \<Rightarrow> string \<Rightarrow> unit result" where
  "validate_oidc_nonce pc claims nonce =
     (case pc of
        None \<Rightarrow> Inr ()
      | Some p \<Rightarrow>
          (if provider_uses_oidc p \<and> (nonce = [] \<or> dget_none claims ''nonce'' \<noteq> PStr nonce)
           then http_error 403 ''Invalid OAuth identity token'' else Inr ()))"

definition validate_oidc_time_claims :: "int \<Rightarrow> pydict \<Rightarrow> unit result" where
  "validate_oidc_time_claims now claims =
     (let exp_ok = (case as_int (dget_none claims ''exp'') of
            None \<Rightarrow> False | Some e \<Rightarrow> now - OIDC_CLOCK_SKEW_SECONDS < e);
          iat_ok = (case as_int (dget_none claims ''iat'') of
            None \<Rightarrow> False | Some i \<Rightarrow> i \<le> now + OIDC_CLOCK_SKEW_SECONDS);
          sub_ok = (case dget_none claims ''sub'' of PStr s \<Rightarrow> py_strip s \<noteq> [] | _ \<Rightarrow> False)
      in if exp_ok \<and> iat_ok \<and> sub_ok then Inr () else http_error 403 ''Invalid OAuth identity token'')"

section \<open>Keys of the provider\<close>

definition fetch_json :: "login_env \<Rightarrow> string \<Rightarrow> pydict result" where
  "fetch_json le url =
     (case le_get le url of
        HttpFailed \<Rightarrow> http_error 502 ''OAuth provider metadata request failed''
      | HttpAnswer status body \<Rightarrow>
          (if 400 \<le> status then http_error 502 ''OAuth provider metadata request failed''
           else bind_result body (\<lambda>v. case v of
               PDict d \<Rightarrow> Inr d | _ \<Rightarrow> http_error 502 ''OAuth provider metadata response was invalid'')))"

definition safe_oidc_url :: "login_env \<Rightarrow> string \<Rightarrow> bool result" where
  "safe_oidc_url le url =
     (case urlparse (oe_ip (le_oauth le)) url of
        None \<Rightarrow> Inl (ValueError ''Invalid IPv6 URL'')
      | Some p \<Rightarrow> Inr (pu_scheme p = ''https''
          \<or> (pu_scheme p = ''http'' \<and> url_hostname (pu_netloc p) \<in> {''127.0.0.1'', ''localhost'', ''::1''})))"

text \<open>A cached value, when it has not expired.\<close>

definition cached_value :: "int \<Rightarrow> string \<Rightarrow> (string \<times> int \<times> pydict) list \<Rightarrow> pydict option" where
  "cached_value now key cache =
     (case map_of cache key of Some (expiry, d) \<Rightarrow> (if now < expiry then Some d else None) | None \<Rightarrow> None)"

definition metadata_for_provider :: "login_env \<Rightarrow> int \<Rightarrow> string \<Rightarrow> provider_config \<Rightarrow> pydict login" where
  "metadata_for_provider le now provider pc =
     (if pc_discovery_url pc = [] then raise_http 503 ''OAuth discovery URL is not configured''
      else act_bind (act_of (safe_oidc_url le (pc_discovery_url pc))) (\<lambda>safe.
        if \<not> safe then raise_http 503 ''OAuth discovery URL is not allowed''
        else act_bind (act_read (\<lambda>s. Inr (cached_value now provider (kc_metadata (snd s))))) (\<lambda>cached.
          case cached of
            Some d \<Rightarrow> act_ret d
          | None \<Rightarrow>
              act_bind (act_of (fetch_json le (pc_discovery_url pc))) (\<lambda>payload.
              (\<lambda>(s, k). (Inr payload, (s, k\<lparr>kc_metadata := (provider, now + OIDC_CACHE_TTL_SECONDS, payload) # kc_metadata k\<rparr>)))))))"

definition jwks_url_for :: "login_env \<Rightarrow> int \<Rightarrow> string \<Rightarrow> provider_config \<Rightarrow> string login" where
  "jwks_url_for le now provider pc =
     (if pc_jwks_url pc \<noteq> [] then act_ret (pc_jwks_url pc)
      else act_bind (metadata_for_provider le now provider pc) (\<lambda>metadata.
        if pc_issuer pc \<noteq> [] \<and> dget_none metadata ''issuer'' \<noteq> PStr (pc_issuer pc)
        then raise_http 502 ''OAuth provider metadata was invalid''
        else case dget_none metadata ''jwks_uri'' of
          PStr uri \<Rightarrow>
            (if py_strip uri = [] then raise_http 502 ''OAuth provider metadata was invalid'' else act_ret (py_strip uri))
        | _ \<Rightarrow> raise_http 502 ''OAuth provider metadata was invalid''))"

definition jwks_for_provider :: "login_env \<Rightarrow> int \<Rightarrow> string \<Rightarrow> provider_config \<Rightarrow> pydict login" where
  "jwks_for_provider le now provider pc =
     act_bind (jwks_url_for le now provider pc) (\<lambda>url.
     act_bind (act_of (safe_oidc_url le url)) (\<lambda>safe.
     if \<not> safe then raise_http 503 ''OAuth JWKS URL is not allowed''
     else act_bind (act_read (\<lambda>s. Inr (cached_value now url (kc_jwks (snd s))))) (\<lambda>cached.
       case cached of
         Some d \<Rightarrow> act_ret d
       | None \<Rightarrow>
           act_bind (act_of (fetch_json le url)) (\<lambda>payload.
           case dget_none payload ''keys'' of
             PList ks \<Rightarrow> (\<lambda>(s, k). (Inr payload, (s, k\<lparr>kc_jwks := (url, now + OIDC_CACHE_TTL_SECONDS, payload) # kc_jwks k\<rparr>)))
           | _ \<Rightarrow> raise_http 502 ''OAuth JWKS response was invalid''))))"

text \<open>\<open>_jwt_payload\<close>: the claims of a token that is not verified.\<close>

definition unverified_claims :: "login_env \<Rightarrow> string \<Rightarrow> pydict option" where
  "unverified_claims le token =
     (case split_on (CHR ''.'') token of
        [h, p, sg] \<Rightarrow> Option.bind (env_jwt_segment (we_store (le_oauth le)) p) as_dict
      | _ \<Rightarrow> None)"

definition verified_id_token_claims ::
    "login_env \<Rightarrow> int \<Rightarrow> string \<Rightarrow> provider_config option \<Rightarrow> string \<Rightarrow> pydict login" where
  "verified_id_token_claims le now provider config id_token =
     (case config of
        None \<Rightarrow> raise_http 404 ''OAuth provider is not supported''
      | Some pc \<Rightarrow>
          (if \<not> provider_uses_oidc pc
           then (case unverified_claims le id_token of
                   None \<Rightarrow> raise_http 403 ''Invalid OAuth identity token'' | Some d \<Rightarrow> act_ret d)
           else act_bind (jwks_for_provider le now provider pc) (\<lambda>jwks.
             case le_jwt le jwks (pc_algorithms pc) id_token of
               None \<Rightarrow> raise_http 403 ''Invalid OAuth identity token''
             | Some claims \<Rightarrow>
                 act_bind (act_of (validate_oidc_time_claims now claims)) (\<lambda>_. act_ret claims))))"

definition claims_from_token ::
    "login_env \<Rightarrow> connect_config \<Rightarrow> int \<Rightarrow> string \<Rightarrow> pydict \<Rightarrow> string \<Rightarrow> pydict option login" where
  "claims_from_token le cc now provider token nonce =
     (let config = passport_provider_config cc provider;
          checked = (\<lambda>claims. act_bind (act_of (validate_oidc_nonce config claims nonce)) (\<lambda>_. act_ret (Some claims)))
      in case dget_none token ''userinfo'' of
           PDict userinfo \<Rightarrow> act_ret (Some userinfo)
         | _ \<Rightarrow>
             (case dget_none token ''id_token'' of
                PDict claims \<Rightarrow> checked claims
              | PStr id_token \<Rightarrow> act_bind (verified_id_token_claims le now provider config id_token) checked
              | _ \<Rightarrow> (if dget token ''sub'' \<noteq> None then checked token else act_ret None)))"

text \<open>The claims of the provider about who came back.\<close>

definition exchanged_claims :: "login_env \<Rightarrow> connect_config \<Rightarrow> login_request \<Rightarrow> string \<Rightarrow> pydict \<Rightarrow> pydict login" where
  "exchanged_claims le cc lr name data =
     (let nonce = form_str data ''nonce'' [] in
     case lr_code lr of
       Some (x # xs) \<Rightarrow>
         (case le_exchange le name of
            Some exchange \<Rightarrow>
              act_bind (act_of (exchange (x # xs) nonce)) (\<lambda>v. case v of
                  PDict claims \<Rightarrow>
                    act_bind (act_of (validate_oidc_nonce (passport_provider_config cc name) claims nonce)) (\<lambda>_.
                    act_ret claims)
                | _ \<Rightarrow> raise_http 502 ''OAuth test exchange returned invalid claims'')
          | None \<Rightarrow>
              act_bind (act_of (exchange_code_for_token le cc name (x # xs) nonce (form_str data ''code_verifier'' [])))
                (\<lambda>token.
              act_bind (claims_from_token le cc (ca_time (lr_call lr)) name token nonce) (\<lambda>claims.
              case claims of
                None \<Rightarrow> raise_http 502 ''OAuth provider response did not include a supported identity payload''
              | Some d \<Rightarrow> act_ret d)))
     | _ \<Rightarrow> raise_http 400 ''Missing OAuth code'')"

text \<open>The state data that the login was started with, and the claims.\<close>

definition callback_claims :: "login_env \<Rightarrow> connect_config \<Rightarrow> login_request \<Rightarrow> string \<Rightarrow> (pydict \<times> pydict) login" where
  "callback_claims le cc lr provider =
     act_bind (act_of (normalize_passport_provider provider)) (\<lambda>name.
     act_bind (on_hub (login_state_data le lr name)) (\<lambda>data.
     act_bind (exchanged_claims le cc lr name data) (\<lambda>claims. act_ret (data, claims))))"

section \<open>Completing the login\<close>

text \<open>Membership in a Python set of strings; an unhashable value raises.\<close>

definition in_string_set :: "pyval \<Rightarrow> string list \<Rightarrow> bool result" where
  "in_string_set v xs =
     (case v of
        PList _ \<Rightarrow> Inl (TypeError ''unhashable type: list'')
      | PDict _ \<Rightarrow> Inl (TypeError ''unhashable type: dict'')
      | PStr s \<Rightarrow> Inr (s \<in> set xs)
      | _ \<Rightarrow> Inr False)"

definition validate_provider_claims :: "login_env \<Rightarrow> connect_config \<Rightarrow> int \<Rightarrow> pydict \<Rightarrow> string \<Rightarrow> unit result" where
  "validate_provider_claims le cc now claims provider =
     (case passport_provider_config cc provider of
        None \<Rightarrow> http_error 404 ''OAuth provider is not supported''
      | Some pc \<Rightarrow>
          (let issuers = (if provider = ''google'' then [''https://accounts.google.com'', ''accounts.google.com'']
                 else if pc_issuer pc \<noteq> [] then [pc_issuer pc] else []);
               email = py_lower (form_str claims ''email'' []); domain = py_lower (form_str claims ''hd'' [])
           in bind_result (if issuers = [] then Inr True else in_string_set (dget_none claims ''iss'') issuers) (\<lambda>iss_ok.
              if \<not> iss_ok then http_error 403 ''Invalid OAuth issuer''
              else if dget_none claims ''aud'' \<noteq> PStr (env_secret le (pc_client_id_env pc))
                then http_error 403 ''Invalid OAuth audience''
              else if (case as_int (dget_none claims ''exp'') of None \<Rightarrow> True | Some e \<Rightarrow> e \<le> now)
                then http_error 403 ''Expired OAuth identity token''
              else if (case dget_none claims ''sub'' of PStr s \<Rightarrow> py_strip s = [] | _ \<Rightarrow> True)
                then http_error 403 ''OAuth identity token is missing subject''
              else if pc_allowed_domains pc \<noteq> [] \<and> domain \<notin> set (pc_allowed_domains pc)
                then http_error 403 ''OAuth hosted domain is not allowed''
              else if pc_allowed_emails pc \<noteq> [] \<and> email \<notin> set (pc_allowed_emails pc)
                then http_error 403 ''OAuth email is not allowed''
              else Inr ())))"

record login_result =
  ln_identity :: pydict
  ln_session_id :: string
  ln_csrf_token :: string
  ln_issued_token :: string
  ln_issued_token_id :: string

text \<open>\<open>provider.title()\<close> for the names of the supported providers.\<close>

definition provider_title :: "string \<Rightarrow> string" where
  "provider_title provider =
     (if provider = ''google'' then ''Google'' else if provider = ''meta'' then ''Meta'' else ''X'')"

definition complete_login ::
    "login_env \<Rightarrow> connect_config \<Rightarrow> login_request \<Rightarrow> string \<Rightarrow> pydict \<Rightarrow> bool \<Rightarrow> login_result handler" where
  "complete_login le cc lr provider claims issue_token =
     (let c = lr_call lr; oe = le_oauth le; cfg = cc_hub cc; we = web_env.truncate oe;
          session_id = ca_secret c 24; csrf_token = ca_secret c 25 in
      act_bind (act_of (validate_provider_claims le cc (ca_time c) claims provider)) (\<lambda>_.
      act_bind (db_call oe c 22 (find_or_create_oauth_identity (we_store oe) (ca_sql c 22) provider
          (py_str (dget_none claims ''sub'')) None None (Some (form_str claims ''email'' []))
          (Some (form_str claims ''name'' (form_str claims ''email'' []))))) (\<lambda>identity.
      act_bind (act_of (ditem identity ''user_id'')) (\<lambda>user.
      act_bind (db_call oe c 23 (create_web_session (ca_sql c 23) (hash_secret we cfg session_id ''connect-session'')
          (py_str user) (hash_secret we cfg csrf_token ''connect-csrf'') (ca_after c (cc_session_ttl cc)))) (\<lambda>_.
      if issue_token
      then
        act_bind (act_of (issue_hub_token oe cfg (ca_time c) (py_str user) [] (ca_secret c 26))) (\<lambda>issued.
        act_bind (create_token_service oe c 24 (py_str user) issued (provider_title provider @ '' Connect UI'')
            (ca_after c (cfg_token_ttl cfg)) [READ_SCOPE, WRITE_SCOPE]) (\<lambda>_.
        act_ret \<lparr>ln_identity = identity, ln_session_id = session_id, ln_csrf_token = csrf_token, ln_issued_token = issued,
          ln_issued_token_id = form_str (jwt_payload oe issued) ''jti'' []\<rparr>))
      else
        act_ret \<lparr>ln_identity = identity, ln_session_id = session_id, ln_csrf_token = csrf_token, ln_issued_token = [],
          ln_issued_token_id = []\<rparr>)))))"

section \<open>Routes\<close>

text \<open>Name, value and life time of a cookie, and whether scripts of the page are kept from reading it.\<close>

type_synonym cookie = "string \<times> string \<times> int \<times> bool"

datatype login_reply =
    LoginRedirect "cookie list" \<comment> \<open>to \<open>/connect\<close>, where a pending authorization waits\<close>
  | LoginPage pydict string "cookie list" \<comment> \<open>who signed in, and the token shown\<close>

definition pending_of :: "pydict \<Rightarrow> pydict option" where
  "pending_of d = as_dict (dget_none d ''pending_oauth_authorization'')"

definition has_pending_mcp_authorization :: "pydict \<Rightarrow> bool handler" where
  "has_pending_mcp_authorization data =
     act_read (\<lambda>s. Inr (pending_of data \<noteq> None
       \<or> (case os_session s of Some d \<Rightarrow> pending_of d \<noteq> None | None \<Rightarrow> False)))"

definition pending_authorization_redirect :: "pydict \<Rightarrow> bool handler" where
  "pending_authorization_redirect data =
     act_bind session_dict (\<lambda>d.
     case (case pending_of data of Some p \<Rightarrow> Some p | None \<Rightarrow> pending_of d) of
       None \<Rightarrow> act_ret False
     | Some p \<Rightarrow> act_bind (set_session (dset d ''pending_oauth_authorization'' (PDict p))) (\<lambda>_. act_ret True))"

definition login_cookies :: "connect_config \<Rightarrow> login_result \<Rightarrow> cookie list" where
  "login_cookies cc login =
     [(cfg_session_cookie (cc_hub cc), ln_session_id login, cc_session_ttl cc, True)]
     @ (if ln_issued_token_id login = [] then []
        else [(''amh_token_id'', ln_issued_token_id login, cfg_token_ttl (cc_hub cc), True)])
     @ [(''amh_csrf'', ln_csrf_token login, cc_session_ttl cc, False)]"

definition auth_provider_callback :: "login_env \<Rightarrow> connect_config \<Rightarrow> login_request \<Rightarrow> string \<Rightarrow> login_reply login" where
  "auth_provider_callback le cc lr provider =
     (if (case lr_error lr of None \<Rightarrow> False | Some e \<Rightarrow> e \<noteq> []) then raise_http 403 ''OAuth login was denied''
      else
        act_bind (callback_claims le cc lr provider) (\<lambda>(data, claims).
        act_bind (on_hub (has_pending_mcp_authorization data)) (\<lambda>pending.
        act_bind (on_hub (complete_login le cc lr provider claims (\<not> pending))) (\<lambda>login.
        act_bind (on_hub (pending_authorization_redirect data)) (\<lambda>redirect.
        act_ret (if redirect then LoginRedirect (login_cookies cc (login\<lparr>ln_issued_token_id := []\<rparr>))
                 else LoginPage (ln_identity login) (ln_issued_token login) (login_cookies cc login)))))))"

definition logout :: "login_env \<Rightarrow> connect_config \<Rightarrow> oauth_call \<Rightarrow> string \<Rightarrow> unit handler" where
  "logout le cc c csrf_token =
     (let oe = le_oauth le; cfg = cc_hub cc; we = web_env.truncate oe in
      act_bind (session_from_request oe cfg c 0) (\<lambda>session.
      if (case session of None \<Rightarrow> False | Some d \<Rightarrow> \<not> csrf_matches we cfg d csrf_token)
      then raise_http 403 ''Invalid CSRF token''
      else
        act_bind (case map_of (ca_cookies c) (cfg_session_cookie cfg) of
            Some (x # xs) \<Rightarrow>
              act_bind (db_call oe c 1 (revoke_web_session (ca_sql c 1) (hash_secret we cfg (x # xs) ''connect-session'')))
                (\<lambda>_. act_ret ())
          | _ \<Rightarrow> act_ret ()) (\<lambda>_.
        case map_of (ca_cookies c) ''amh_token_id'' of
          Some (x # xs) \<Rightarrow> act_bind (revoke_token_service oe c 2 (x # xs)) (\<lambda>_. act_ret ())
        | _ \<Rightarrow> act_ret ())))"

end
