(* ===== verification/OAuthLaws.thy ===== *)
theory OAuthLaws
  imports OAuthServer AuthProperties
begin

text \<open>
  What the handlers of the authorization server do to the account tables is a sequence of store
  operations: a predicate that every operation of the store keeps is kept by every handler, whatever other
  requests do in between, and whether the handler answers or raises.
\<close>

section \<open>Predicates on the account tables\<close>

lemma db_call_inv:
  assumes "\<And>x db. P db \<Longrightarrow> P (auth_step (we_store oe) x db)" and "\<And>db. P db \<Longrightarrow> P (commit db (f db))"
  shows "act_inv (\<lambda>s. P (os_db s)) (db_call oe c n f)"
  using assms(2) auth_run_invariant [of P, OF _ assms(1)] by (simp add: act_inv_def db_call_def Let_def)

lemma commit_read [simp]: "commit db (bind_result r (\<lambda>x. Inr (x, db))) = db"
  by (cases r) (auto simp: commit_def)

lemma commit_quota [simp]: "commit db (quota_as_client_error r) = commit db r"
  by (auto simp: commit_def quota_as_client_error_def oauth_error_def split: sum.splits py_error.splits)

lemma inv_http_error [act_rules]:
  assumes "act_inv P m" "\<And>n e d. act_inv P (h n e d)"
  shows "act_inv P (on_http_error m h)"
  unfolding act_inv_def
proof (intro allI impI)
  fix s assume s: "P s"
  obtain r s1 where m: "m s = (r, s1)" by (cases "m s")
  then have "P s1" using act_invD [OF assms(1) s] by simp
  then show "P (snd (on_http_error m h s))"
    using assms(2) m by (cases r) (auto simp: on_http_error_def act_inv_def split: py_error.splits)
qed

lemma inv_unless [act_rules]: "act_inv P m \<Longrightarrow> (\<And>a b. act_inv P (f a b)) \<Longrightarrow>
   act_inv P (case x of [] \<Rightarrow> m | a # b \<Rightarrow> f a b)"
  by (cases x) auto

lemma inv_pyval [act_rules]:
  "\<lbrakk>act_inv P m; \<And>x. act_inv P (a x); \<And>x. act_inv P (b x); \<And>x. act_inv P (c x); \<And>x. act_inv P (d x);
    \<And>x. act_inv P (e x); \<And>x. act_inv P (f x)\<rbrakk> \<Longrightarrow>
   act_inv P (case v of PNone \<Rightarrow> m | PBool x \<Rightarrow> a x | PInt x \<Rightarrow> b x | PFloat x \<Rightarrow> c x | PStr x \<Rightarrow> d x
     | PList x \<Rightarrow> e x | PDict x \<Rightarrow> f x)"
  by (cases v) auto

lemma inv_bool [act_rules]:
  "act_inv P a \<Longrightarrow> act_inv P b \<Longrightarrow> act_inv P (case v of True \<Rightarrow> a | False \<Rightarrow> b)"
  by (cases v) auto

locale oauth_frame =
  fixes oe :: oauth_env and P :: "auth_db \<Rightarrow> bool"
  assumes step: "P db \<Longrightarrow> P (auth_step (we_store oe) x db)"
begin

abbreviation kept :: "'a handler \<Rightarrow> bool" where
  "kept m \<equiv> act_inv (\<lambda>s. P (os_db s)) m"

lemma transaction: "(\<And>db. P db \<Longrightarrow> P (commit db (f db))) \<Longrightarrow> kept (db_call oe c n f)"
  by (rule db_call_inv [where P = P]) (auto intro: step)

lemma reading: "kept (db_read oe c n f)"
  unfolding db_read_def by (rule transaction) simp

lemma audited: "kept (audit_call oe c n ev w o_r m)"
  by (auto simp: act_inv_def audit_call_def split: prod.splits sum.splits)

lemma token_created: "kept (create_token_service oe c n w tok name e sc)"
  unfolding create_token_service_def
  by (intro act_rules transaction audited) (use step [of _ "CreateAuthToken _ _ _ _ _ _ _ _"] in simp)

lemma token_revoked: "kept (revoke_token_service oe c n i)"
  unfolding revoke_token_service_def
  by (intro act_rules transaction audited) (use step [of _ "RevokeAuthToken _ _"] in simp)

lemma failed_token_revoked: "kept (revoke_failed_access_token oe c n i)"
  using token_revoked [of c n i] by (auto simp: revoke_failed_access_token_def act_inv_def)

lemma refresh_created: "P db \<Longrightarrow> P (commit db (create_oauth_refresh_token (we_store oe) now ni t f cl w sc r a e db))"
  using step [of db "CreateRefresh now ni t f cl w sc r a e"] by simp

lemma issued: "kept (issue_tokens oe cfg c cl w r sc fam)"
  unfolding issue_tokens_def Let_def
  by (intro act_rules token_created failed_token_revoked transaction refresh_created)

lemma session_kept: "kept session_dict" "kept (set_session d)"
  by (simp_all add: session_dict_def act_read_def set_session_def act_inv_def)

lemma client_looked_up: "kept (oauth_client_for_request oe c n i)"
  unfolding oauth_client_for_request_def by (intro act_rules reading)

lemma registered: "kept (oauth_register oe cfg c body)"
  unfolding oauth_register_def Let_def
  by (intro act_rules transaction) (use step [of _ "CreateOAuthClient _ _ _ _ _ _"] in simp)

lemma request_validated: "kept (validated_authorization_request oe cfg c ps)" "kept (validated_pending_request oe cfg c v)"
  unfolding validated_authorization_request_def validated_pending_request_def
  by (intro act_rules client_looked_up)+

lemma authorized: "kept (oauth_authorize oe cfg c ps)"
  unfolding oauth_authorize_def trusted_redirect_uri_def to_login_def Let_def
  by (intro act_rules client_looked_up request_validated session_kept)

lemma session_read: "kept (session_from_request oe cfg c n)"
  unfolding session_from_request_def
  by (intro act_rules transaction) (use step [of _ "WebSessionForHash _ _"] in simp)

lemma consented: "(\<And>s r. kept (f s r)) \<Longrightarrow> kept (with_consent oe cfg c form f)"
  unfolding with_consent_def
  by (intro act_rules session_read session_kept request_validated)

lemma approved: "kept (oauth_authorize_approve oe cfg c form)"
  unfolding oauth_authorize_approve_def authorization_code_redirect_def Let_def
  by (intro consented act_rules transaction) (use step [of _ "CreateCode _ _ _ _ _ _ _ _ _"] in simp)

lemma denied: "kept (oauth_authorize_deny oe cfg c form)"
  unfolding oauth_authorize_deny_def by (intro consented act_rules)

lemma family_revoked: "kept (revoke_family oe c n r)"
  unfolding revoke_family_def
  by (rule transaction) (use step [of _ "RevokeFamily _ _"] in simp)

lemma refused: "kept (invalid_grant m)"
  unfolding invalid_grant_def by (rule inv_of)

lemma code_answered: "kept (code_token_response oe cfg c form)"
  unfolding code_token_response_def Let_def
  by (intro act_rules issued refused transaction) (use step [of _ "ConsumeCode _ _ _ _ _"] in simp)

lemma refresh_answered: "kept (refresh_token_response oe cfg c form)"
  unfolding refresh_token_response_def refresh_found_def Let_def
  by (intro act_rules issued refused reading family_revoked transaction) (use step [of _ "ConsumeRefresh _ _"] in simp)

lemma token_answered: "kept (oauth_token oe cfg c form)"
  unfolding oauth_token_def by (intro act_rules code_answered refresh_answered)

lemma revoked: "kept (oauth_revoke oe c form)"
  unfolding oauth_revoke_def Let_def prod.case
  by (intro act_rules token_revoked transaction)
    (use step [of _ "RevokeRefresh _ _"] step [of _ "RevokeByAccessToken _ _"] in simp_all)

end

end
