(* ===== verification/GateProperties.thy ===== *)
theory GateProperties
  imports HttpGate AuthProperties
begin

text \<open>
  What the gate guarantees: a request that reaches its handler behind the gate is vouched for by a live
  credential with the scopes its path needs, and a revoked credential vouches for nothing.
\<close>

section \<open>Who vouches for a request\<close>

definition bearer_row :: "web_env \<Rightarrow> instant \<Rightarrow> gate_state \<Rightarrow> string \<Rightarrow> token_row \<Rightarrow> bool" where
  "bearer_row we t g tok row \<longleftrightarrow>
     row \<in> set (auth_tokens (gs_db g)) \<and> hash_bearer_token (we_store we) tok = Inr (t_hash row)
     \<and> token_live (in_sql t) (gs_db g) row"

definition token_vouches :: "web_env \<Rightarrow> hub_config \<Rightarrow> instant \<Rightarrow> gate_state \<Rightarrow> string \<Rightarrow> auth_context \<Rightarrow> bool" where
  "token_vouches we cfg t g tok a \<longleftrightarrow>
     (if cfg_auth cfg = ''bearer_token'' then
        (\<exists>row sc. bearer_row we t g tok row \<and> parse_token_scopes (t_scopes row) = Inr sc
           \<and> ax_owner a = Some (t_owner row) \<and> set (ax_scopes a) = set sc)
      else if cfg_auth cfg = ''oidc_resource_server'' then
        (\<exists>c. we_oidc we tok = Some c \<and> ax_owner a = Some (oc_owner c) \<and> ax_scopes a = oc_scopes c)
      else
        (\<exists>cl. validate_oauth_access_token we (in_time t) cfg tok = Inr (Some cl)
           \<and> ax_owner a = Some (cl_owner cl) \<and> set (ax_scopes a) \<subseteq> set (cl_scopes cl)
           \<and> (is_hub_issued_claim cfg cl \<longrightarrow>
               (\<exists>row sc. bearer_row we t g tok row \<and> parse_token_scopes (t_scopes row) = Inr sc
                  \<and> t_owner row = cl_owner cl \<and> set (ax_scopes a) \<subseteq> set sc))))"

definition session_vouches :: "web_env \<Rightarrow> hub_config \<Rightarrow> instant \<Rightarrow> gate_state \<Rightarrow> request \<Rightarrow> auth_context \<Rightarrow> bool" where
  "session_vouches we cfg t g rq a \<longleftrightarrow>
     cfg_auth cfg = ''oauth_resource_server'' \<and> rq_method rq = ''POST'' \<and> rq_path rq = ''/memory/import''
     \<and> ax_scopes a = [WRITE_SCOPE]
     \<and> (\<exists>row sid csrf. row \<in> set (web_sessions (gs_db g)) \<and> session_live (in_sql t) row
          \<and> map_of (rq_cookies rq) (cfg_session_cookie cfg) = Some sid
          \<and> validate_secret_hash ''session_id_hash'' (hash_secret we cfg sid ''connect-session'') = Inr (s_hash row)
          \<and> rq_csrf rq = Some csrf \<and> s_csrf_hash row = hash_secret we cfg csrf ''connect-csrf''
          \<and> ax_owner a = Some (s_user_id row))"

definition vouched :: "web_env \<Rightarrow> hub_config \<Rightarrow> instant \<Rightarrow> gate_state \<Rightarrow> request \<Rightarrow> auth_context \<Rightarrow> bool" where
  "vouched we cfg t g rq a \<longleftrightarrow>
     (case extract_bearer_token rq of
        Some tok \<Rightarrow> token_vouches we cfg t g tok a
      | None \<Rightarrow> session_vouches we cfg t g rq a)"

section \<open>Lookups behind the gate\<close>

lemma gate_db_Inr: "gate_db f g = (Inr x, g') \<longleftrightarrow> (\<exists>db. f (gs_db g) = Inr (x, db) \<and> g' = g\<lparr>gs_db := db\<rparr>)"
  by (auto simp: gate_db_def split: sum.splits)

lemma auth_context_Some:
  assumes "auth_context_for_token env now tok db = Inr (Some d, db')"
  obtains row sc where "row \<in> set (auth_tokens db)" "hash_bearer_token env tok = Inr (t_hash row)"
    "token_live now db row" "parse_token_scopes (t_scopes row) = Inr sc"
    "d = [(''owner_id'', PStr (t_owner row)), (''token_id'', of_opt (t_id row)), (''scopes'', PList (map PStr sc))]"
  using assms
  by (auto simp: auth_context_for_token_def result_simps dest!: find_SomeD)

lemma auth_context_None:
  assumes "auth_context_for_token env now tok db = Inr (None, db')"
  shows "db' = db" "hash_bearer_token env tok = Inr h \<Longrightarrow> list_all (\<lambda>r. t_hash r = h \<longrightarrow> \<not> token_live now db r) (auth_tokens db)"
  using assms by (auto simp: auth_context_for_token_def result_simps list_all_iff find_None_iff)

lemma token_live_later: "now \<le> now' \<Longrightarrow> token_live now' db r \<Longrightarrow> token_live now db r"
  by (auto simp: token_live_def after_def split: option.splits)

text \<open>The second look-up, at a later reading of the clock, finds nothing more.\<close>

lemma bearer_context_row:
  assumes "bearer_context we t tok g = (Inr (Some d), g')" "in_sql t \<le> in_sql2 t"
  obtains row sc where "bearer_row we t g tok row" "parse_token_scopes (t_scopes row) = Inr sc"
    "d = [(''owner_id'', PStr (t_owner row)), (''token_id'', of_opt (t_id row)), (''scopes'', PList (map PStr sc))]"
proof -
  from assms(1) obtain c g1 where c: "gate_db (auth_context_for_token (we_store we) (in_sql t) tok) g = (Inr c, g1)"
    and rest: "(case c of Some d \<Rightarrow> act_ret (Some d) | None \<Rightarrow>
         act_bind (gate_db (owner_for_token (we_store we) (in_sql2 t) tok)) (\<lambda>owner.
         act_ret (case owner of None \<Rightarrow> None
           | Some w \<Rightarrow> Some [(''owner_id'', PStr w), (''token_id'', PNone),
               (''scopes'', str_list [''memory:read'', ''memory:write''])]))) g1 = (Inr (Some d), g')"
    by (auto simp: bearer_context_def act_simps)
  show thesis
  proof (cases c)
    case None
    with c have no: "auth_context_for_token (we_store we) (in_sql t) tok (gs_db g) = Inr (None, gs_db g1)"
      by (auto simp: gate_db_Inr)
    from rest None obtain w g2 where "gate_db (owner_for_token (we_store we) (in_sql2 t) tok) g1 = (Inr (Some w), g2)"
      by (auto simp: act_simps split: option.splits)
    then obtain d2 db2 where "auth_context_for_token (we_store we) (in_sql2 t) tok (gs_db g1) = Inr (Some d2, db2)"
      by (auto simp: gate_db_Inr owner_for_token_def result_simps split: option.splits)
    then obtain row sc where "row \<in> set (auth_tokens (gs_db g1))" "hash_bearer_token (we_store we) tok = Inr (t_hash row)"
      "token_live (in_sql2 t) (gs_db g1) row"
      by (rule auth_context_Some)
    then show ?thesis
      using auth_context_None [OF no] token_live_later [OF assms(2)] by (auto simp: list_all_iff)
  next
    case (Some d1)
    with c rest have "auth_context_for_token (we_store we) (in_sql t) tok (gs_db g) = Inr (Some d, gs_db g1)"
      by (auto simp: gate_db_Inr act_simps)
    then show ?thesis
      by (rule auth_context_Some) (rule that, simp_all add: bearer_row_def)
  qed
qed

lemma hub_token_vouched:
  assumes "hub_token_auth cl (Some [(''owner_id'', PStr w), (''token_id'', i), (''scopes'', PList (map PStr sc))]) = Some a"
  shows "w = cl_owner cl" "ax_owner a = Some (cl_owner cl)" "set (ax_scopes a) \<subseteq> set (cl_scopes cl)"
    "set (ax_scopes a) \<subseteq> set sc"
  using assms
  by (auto simp: hub_token_auth_def context_scopes_def dget_none_def dget_or_def py_str_def split: if_splits)

lemma authenticate_vouched:
  assumes "authenticate we cfg t tok g = (Inr (Some a), g')" "in_sql t \<le> in_sql2 t"
  shows "token_vouches we cfg t g tok a"
proof -
  consider (bearer) "cfg_auth cfg = ''bearer_token''" | (oidc) "cfg_auth cfg = ''oidc_resource_server''"
    | (oauth) "cfg_auth cfg \<noteq> ''bearer_token''" "cfg_auth cfg \<noteq> ''oidc_resource_server''" by blast
  then show ?thesis
  proof cases
    case bearer
    with assms(1) obtain d where d: "bearer_context we t tok g = (Inr (Some d), g')" and a: "bearer_auth d = Inr a"
      by (auto simp: authenticate_def act_simps result_simps split: option.splits)
    from d assms(2) show ?thesis
      by (rule bearer_context_row)
        (use a bearer in \<open>auto simp: token_vouches_def bearer_auth_def result_simps ditem_def dget_or_def py_str_def comp_def\<close>)
  next
    case oidc
    then show ?thesis
      using assms(1) by (auto simp: authenticate_def token_vouches_def act_simps split: option.splits)
  next
    case oauth
    with assms(1) obtain cl stored where cl: "validate_oauth_access_token we (in_time t) cfg tok = Inr (Some cl)"
      and stored: "bearer_context we t tok g = (Inr stored, g')"
      and a: "Some a = (if is_hub_issued_claim cfg cl then hub_token_auth cl stored else Some (claims_auth cl))"
      by (auto simp: authenticate_def act_simps split: option.splits)
    show ?thesis
    proof (cases "is_hub_issued_claim cfg cl")
      case False
      then show ?thesis using oauth cl a by (auto simp: token_vouches_def claims_auth_def)
    next
      case True
      with a obtain d where d: "stored = Some d" by (auto simp: hub_token_auth_def split: option.splits)
      from stored [unfolded d] assms(2) obtain row sc where row: "bearer_row we t g tok row"
        "parse_token_scopes (t_scopes row) = Inr sc"
        and d': "d = [(''owner_id'', PStr (t_owner row)), (''token_id'', of_opt (t_id row)), (''scopes'', PList (map PStr sc))]"
        by (rule bearer_context_row)
      have "hub_token_auth cl (Some d) = Some a" using a d True by simp
      note v = hub_token_vouched [OF this [unfolded d']]
      show ?thesis using oauth cl row v True by (auto simp: token_vouches_def)
    qed
  qed
qed

lemma session_vouched:
  assumes "authenticate_connect_session we cfg t rq g = (Inr (Some a), g')"
  shows "session_vouches we cfg t g rq a"
proof -
  from assms obtain sid s where mode: "cfg_auth cfg = ''oauth_resource_server''" "rq_method rq = ''POST''"
      "rq_path rq = ''/memory/import''"
    and sid: "map_of (rq_cookies rq) (cfg_session_cookie cfg) = Some sid"
    and run: "gate_db (web_session_for_hash (in_sql t) (hash_secret we cfg sid ''connect-session'')) g = (Inr (Some s), g')"
    and a: "session_auth we cfg rq s = Some a"
    by (auto simp: authenticate_connect_session_def act_simps bind_eq_Some_conv eq_commute [of "Some a"]
        split: if_splits option.splits)
  from run obtain row where row: "row \<in> set (web_sessions (gs_db g))" "session_live (in_sql t) row"
    "validate_secret_hash ''session_id_hash'' (hash_secret we cfg sid ''connect-session'') = Inr (s_hash row)"
    "s = session_from_row row"
    by (auto simp: gate_db_Inr web_session_for_hash_def result_simps dest!: find_SomeD)
  from a obtain csrf where "rq_csrf rq = Some csrf" "s_csrf_hash row = hash_secret we cfg csrf ''connect-csrf''"
    "ax_owner a = Some (s_user_id row)" "ax_scopes a = [WRITE_SCOPE]"
    by (cases "rq_csrf rq") (auto simp: row(4) session_auth_def csrf_matches_def session_from_row_def dget_none_def
        dget_or_def py_str_def hash_secret_def split: if_splits)
  then show ?thesis
    using mode sid row(1-3) by (auto simp: session_vouches_def)
qed

text \<open>When a request needs a credential, and the check the gate then makes of it.\<close>

definition needs_credential :: "hub_config \<Rightarrow> request \<Rightarrow> bool" where
  "needs_credential cfg rq \<longleftrightarrow> cfg_auth cfg \<noteq> ''none'' \<and> \<not> is_public_path (rq_path rq)"

definition credential_check :: "web_env \<Rightarrow> hub_config \<Rightarrow> instant \<Rightarrow> request \<Rightarrow> auth_context option gate" where
  "credential_check we cfg t rq =
     (case extract_bearer_token rq of
        Some tok \<Rightarrow> authenticate we cfg t tok
      | None \<Rightarrow> authenticate_connect_session we cfg t rq)"

text \<open>
  C4. The gate is sound: a request that passes it with a context asked for a path that is not public,
  carries no token in its query, and is vouched for by a credential with at least the scopes the path
  requires and no more than the credential has; the credential is a row of the store that is neither
  revoked nor, as a text, expired at the store's clock, or a token the external validator accepts. A request
  passes without a context only on public paths or when authentication is switched off. A request that is
  refused needs authentication and is answered 401 or 403, and a request that ends in an exception (an
  internal error) needs authentication too: it is the check of its credential that raised, and it reaches
  no handler.
\<close>

theorem request_gate_sound:
  assumes "in_sql t \<le> in_sql2 t"
  shows "case handle_request we cfg t rq g of
      (Inr (Passed a), g') \<Rightarrow> \<not> is_public_path (rq_path rq) \<and> \<not> has_query_access_token rq
        \<and> set (required_scopes (rq_path rq)) \<subseteq> set (ax_scopes a) \<and> vouched we cfg t g rq a
    | (Inr Open, g') \<Rightarrow> (cfg_auth cfg = ''none'' \<or> is_public_path (rq_path rq)) \<and> g' = g
    | (Inr (Refused r), g') \<Rightarrow> needs_credential cfg rq \<and> rs_status r \<in> {401, 403}
    | (Inl e, g') \<Rightarrow> needs_credential cfg rq \<and> \<not> has_query_access_token rq
        \<and> credential_check we cfg t rq g = (Inl e, g')"
proof -
  obtain out g' where run: "handle_request we cfg t rq g = (out, g')" by fastforce
  note gate = handle_request_def gate_dispatch_def credential_check_def needs_credential_def act_simps Let_def
  show ?thesis
  proof (cases out)
    case (Inl e)
    with run show ?thesis
      by (auto simp: gate act_bind_Inl_iff split: if_splits)
  next
    case (Inr o1)
    show ?thesis
    proof (cases o1)
      case (Passed a)
      with run Inr have "\<not> is_public_path (rq_path rq) \<and> \<not> has_query_access_token rq"
        and auth: "(case extract_bearer_token rq of Some tok \<Rightarrow> authenticate we cfg t tok
             | None \<Rightarrow> authenticate_connect_session we cfg t rq) g = (Inr (Some a), g')"
        and "has_required_scopes (ax_scopes a) (required_scopes (rq_path rq))"
        by (auto simp: handle_request_def gate_dispatch_def act_simps Let_def split: if_splits option.splits)
      moreover have "vouched we cfg t g rq a"
        using auth authenticate_vouched [OF _ assms] session_vouched
        by (auto simp: vouched_def split: option.splits)
      ultimately show ?thesis
        using run Inr Passed by (auto simp: has_required_scopes_def list_all_iff)
    qed (use run Inr in \<open>auto simp: handle_request_def gate_dispatch_def act_simps Let_def unauthorized_def
        forbidden_def needs_credential_def split: if_splits option.splits\<close>)
  qed
qed

lemma bearer_context_refused:
  assumes "\<And>now d db'. auth_context_for_token (we_store we) now tok (gs_db g) \<noteq> Inr (Some d, db')"
    and "bearer_context we t tok g = (Inr c, g')"
  shows "c = None"
proof -
  from assms(2) obtain c1 g1 where c: "gate_db (auth_context_for_token (we_store we) (in_sql t) tok) g = (Inr c1, g1)"
    and rest: "(case c1 of Some d \<Rightarrow> act_ret (Some d) | None \<Rightarrow>
         act_bind (gate_db (owner_for_token (we_store we) (in_sql2 t) tok)) (\<lambda>owner.
         act_ret (case owner of None \<Rightarrow> None
           | Some w \<Rightarrow> Some [(''owner_id'', PStr w), (''token_id'', PNone),
               (''scopes'', str_list [''memory:read'', ''memory:write''])]))) g1 = (Inr c, g')"
    by (auto simp: bearer_context_def act_simps)
  have c1: "c1 = None" using c assms(1) by (cases c1) (auto simp: gate_db_Inr)
  with c have "gs_db g1 = gs_db g" using auth_context_None(1) by (auto simp: gate_db_Inr)
  then show ?thesis
    using rest c1 assms(1)
    by (auto simp: act_simps gate_db_Inr owner_for_token_def result_simps split: option.splits)
qed

text \<open>In these modes a bearer token is looked up in the \<open>auth_tokens\<close> table.\<close>

definition stored_token_mode :: "web_env \<Rightarrow> hub_config \<Rightarrow> instant \<Rightarrow> string \<Rightarrow> bool" where
  "stored_token_mode we cfg t tok \<longleftrightarrow>
     cfg_auth cfg = ''bearer_token''
     \<or> (cfg_auth cfg = ''oauth_resource_server''
        \<and> (\<forall>cl. validate_oauth_access_token we (in_time t) cfg tok = Inr (Some cl) \<longrightarrow> is_hub_issued_claim cfg cl))"

lemma hub_token_unknown [simp]: "hub_token_auth cl None = None"
  by (simp add: hub_token_auth_def)

lemma unknown_token_refused:
  assumes "\<And>now d db'. auth_context_for_token (we_store we) now tok (gs_db g) \<noteq> Inr (Some d, db')"
    and "stored_token_mode we cfg t tok" "authenticate we cfg t tok g = (Inr a, g')"
  shows "a = None"
proof -
  note no = bearer_context_refused [OF assms(1)]
  show ?thesis
    using assms(2,3) unfolding stored_token_mode_def authenticate_def
    by (auto simp: act_simps dest!: no split: if_splits option.splits)
qed

text \<open>
  C10. Revoking a bearer token closes the gate for it: whatever operations follow that do not create a token
  with the same text again (that would clear its revocation), and whenever the request comes, no request that
  carries the token and asks for a protected path reaches its handler, where the mode looks tokens up in the
  store: in bearer mode, and in the resource-server mode for tokens the hub signed. If such a request is
  answered, it is answered 401; it may also end in an exception, which reaches no handler either.
\<close>

theorem revoked_token_refused_at_gate:
  assumes "auth_db_ok db" "revoke_auth_token now i db = Inr (Some d, db1)"
    and "row \<in> set (auth_tokens db)" "t_id row = Some (py_strip i)"
    and "hash_bearer_token (we_store we) tok = Inr (t_hash row)"
    and "list_all (no_same_token (we_store we) (t_hash row)) xs"
    and "extract_bearer_token rq = Some tok" "\<not> is_public_path (rq_path rq)" "stored_token_mode we cfg t tok"
  shows "case fst (handle_request we cfg t rq \<lparr>gs_db = auth_run (we_store we) xs db1, gs_profiles = ps\<rparr>) of
      Inl e \<Rightarrow> True
    | Inr out \<Rightarrow> \<exists>err. out = Refused (unauthorized rq cfg err)"
proof -
  let ?g = "\<lparr>gs_db = auth_run (we_store we) xs db1, gs_profiles = ps\<rparr>"
  have no: "auth_context_for_token (we_store we) now' tok (gs_db ?g) \<noteq> Inr (Some d', db')" for now' d' db'
    using revoked_token_never_authenticates [OF assms(1-6)] by simp
  have mode: "cfg_auth cfg \<noteq> ''none''" using assms(9) by (auto simp: stored_token_mode_def)
  obtain out g' where run: "handle_request we cfg t rq ?g = (out, g')" by fastforce
  show ?thesis
  proof (cases out)
    case (Inr o1)
    then show ?thesis
      using run assms(7,8) mode unknown_token_refused [OF no assms(9)]
      by (auto simp: handle_request_def gate_dispatch_def act_simps Let_def split: if_splits option.splits)
  qed (simp add: run)
qed

text \<open>
  A token of three segments with a character outside ASCII before its last dot is not refused: reading it
  raises, and the request ends in an internal error.
\<close>

lemma non_ascii_token_raises:
  assumes "split_on (CHR ''.'') tok = [h, p, sg]" "\<not> is_ascii (h @ ''.'' @ p)" "oauth_jwt_secret we cfg \<noteq> []"
    and "cfg_auth cfg = ''oauth_resource_server''" "extract_bearer_token rq = Some tok"
    and "\<not> is_public_path (rq_path rq)" "\<not> has_query_access_token rq"
  shows "\<exists>e. fst (handle_request we cfg t rq g) = Inl (UnicodeEncodeError e)"
  using assms
  by (simp add: handle_request_def gate_dispatch_def authenticate_def validate_oauth_access_token_def
      decode_hs256_jwt_def act_bind_def act_of_def Let_def)

section \<open>Witnesses\<close>

definition demo_web_env :: web_env where
  "demo_web_env =
     \<lparr>we_store = demo_env, we_environ = (\<lambda>n. None), we_hmac = (\<lambda>k m. k @ m), we_b64 = Some,
      we_json = (\<lambda>s. Inr None), we_oidc = (\<lambda>tok. None)\<rparr>"

definition demo_config :: hub_config where
  "demo_config =
     \<lparr>cfg_auth = ''bearer_token'', cfg_host = ''127.0.0.1'', cfg_port = 8000, cfg_public_base_url = ''https://hub'',
      cfg_issuer = [], cfg_resource = [], cfg_jwt_secret = ''s'', cfg_jwt_secret_env = [],
      cfg_authorization_servers = [], cfg_scopes = [READ_SCOPE, WRITE_SCOPE], cfg_oidc_issuer = [],
      cfg_oidc_scopes = [], cfg_session_cookie = ''amh_session'', cfg_session_secret = ''t'',
      cfg_session_secret_env = [], cfg_token_ttl = 3600, cfg_refresh_ttl = 2592000, cfg_client_ttl = 86400\<rparr>"

definition demo_request :: request where
  "demo_request =
     \<lparr>rq_method = ''POST'', rq_path = ''/memory/insert'', rq_authorization = Some ''Bearer bearer'', rq_csrf = None,
      rq_cookies = [], rq_query = []\<rparr>"

definition demo_instant :: instant where
  "demo_instant = \<lparr>in_time = 1767225780, in_sql = ''2026-01-01 00:03:00'', in_sql2 = ''2026-01-01 00:03:00''\<rparr>"

theorem request_gate_sound_witness:
  "\<exists>a. fst (handle_request demo_web_env demo_config demo_instant demo_request \<lparr>gs_db = demo_db, gs_profiles = []\<rparr>)
       = Inr (Passed a)
     \<and> vouched demo_web_env demo_config demo_instant \<lparr>gs_db = demo_db, gs_profiles = []\<rparr> demo_request a"
proof -
  let ?run = "handle_request demo_web_env demo_config demo_instant demo_request \<lparr>gs_db = demo_db, gs_profiles = []\<rparr>"
  let ?a = "\<lparr>ax_owner = Some ''alice'', ax_token = Some ''tok_1'', ax_scopes = [READ_SCOPE, WRITE_SCOPE],
    ax_mode = ''bearer_token''\<rparr>"
  have "fst ?run = Inr (Passed ?a)" by code_simp
  moreover have "in_sql demo_instant \<le> in_sql2 demo_instant" by (simp add: demo_instant_def)
  ultimately show ?thesis
    using request_gate_sound [where t = demo_instant and we = demo_web_env and cfg = demo_config
        and rq = demo_request and g = "\<lparr>gs_db = demo_db, gs_profiles = []\<rparr>"]
    by (cases ?run) auto
qed

theorem revoked_token_refused_at_gate_witness:
  "case fst (handle_request demo_web_env demo_config demo_instant demo_request
       \<lparr>gs_db = auth_run demo_env demo_rotation
          (commit demo_db (revoke_auth_token ''2026-01-01 00:02:00'' ''tok_1'' demo_db)), gs_profiles = []\<rparr>) of
      Inl e \<Rightarrow> True
    | Inr out \<Rightarrow> \<exists>err. out = Refused (unauthorized demo_request demo_config err)"
proof -
  let ?r = "revoke_auth_token ''2026-01-01 00:02:00'' ''tok_1'' demo_db"
  let ?row = "hd (auth_tokens demo_db)"
  have env: "we_store demo_web_env = demo_env" by (simp add: demo_web_env_def)
  have "outcome ?r \<noteq> None \<and> outcome ?r \<noteq> Some None" by code_simp
  then obtain d where "outcome ?r = Some (Some d)" by auto
  note r = outcome_commit [OF this, of demo_db]
  have "auth_tokens demo_db \<noteq> []" by code_simp
  then have mem: "?row \<in> set (auth_tokens demo_db)" by simp
  have i: "t_id ?row = Some (py_strip ''tok_1'')" by code_simp
  have h: "hash_bearer_token (we_store demo_web_env) ''bearer'' = Inr (t_hash ?row)" by code_simp
  have xs: "list_all (no_same_token (we_store demo_web_env) (t_hash ?row)) demo_rotation" by code_simp
  have tok: "extract_bearer_token demo_request = Some ''bearer''" by code_simp
  have path: "\<not> is_public_path (rq_path demo_request)" by code_simp
  have mode: "stored_token_mode demo_web_env demo_config demo_instant ''bearer''"
    by (simp add: stored_token_mode_def demo_config_def)
  show ?thesis
    using revoked_token_refused_at_gate [OF demo_db_ok r mem i h xs tok path mode, of "[]"] by (simp add: env)
qed

end
