(* ===== verification/OAuthProperties.thy ===== *)
theory OAuthProperties
  imports OAuthLaws GateProperties
begin

text \<open>
  What the token endpoint and the redirects of the authorization server guarantee. Every fact here holds
  with other requests running between the transactions of a handler: the predicates on the account tables
  that every store operation keeps go through the handlers by the interpretations of \<open>oauth_frame\<close>.
\<close>

section \<open>Predicates every handler keeps\<close>

interpretation ok_frame: oauth_frame oe auth_db_ok by unfold_locales (rule auth_step_ok)
interpretation code_frame: oauth_frame oe "code_spent h" by unfold_locales (rule code_spent_step)
interpretation refresh_frame: oauth_frame oe "refresh_spent h" by unfold_locales (rule refresh_spent_step)
interpretation closed_frame: oauth_frame oe "family_closed fam" by unfold_locales (rule family_closed_step)

text \<open>The store has the refresh token with this hash, in this family, for this client.\<close>

definition issued_to :: "string \<Rightarrow> string \<Rightarrow> string \<Rightarrow> auth_db \<Rightarrow> bool" where
  "issued_to h fam cl db \<longleftrightarrow>
     list_ex (\<lambda>r. r_hash r = h \<and> r_family r = fam \<and> r_client r = cl) (oauth_refresh_tokens db)"

definition families_valid :: "auth_db \<Rightarrow> bool" where
  "families_valid db \<longleftrightarrow> list_all (\<lambda>r. validate_token_lookup (r_family r) = Inr (r_family r)) (oauth_refresh_tokens db)"

lemma issued_to_step: "issued_to h fam cl db \<Longrightarrow> issued_to h fam cl (auth_step env x db)"
  using refresh_effect_step [of env x db]
  by (auto simp: refresh_effect_def issued_to_def dest!: create_refresh_row elim!: list_ex_tbl_update [rotated])

lemma families_valid_step: "families_valid db \<Longrightarrow> families_valid (auth_step env x db)"
  using refresh_effect_step [of env x db]
  by (auto simp: refresh_effect_def families_valid_def list_all_iff set_tbl_update validate_token_lookup_Inr_iff
      dest!: create_refresh_row)

interpretation issued_frame: oauth_frame oe "issued_to h fam cl" by unfold_locales (rule issued_to_step)
interpretation families_frame: oauth_frame oe families_valid by unfold_locales (rule families_valid_step)

lemma closed_member_spent: "family_closed fam db \<Longrightarrow> issued_to h fam cl db \<Longrightarrow> refresh_spent h db"
  by (auto simp: family_closed_def issued_to_def refresh_spent_def list_ex_iff list_all_iff)

section \<open>Replies of the token endpoint\<close>

definition gives_token :: "reply result \<Rightarrow> bool" where
  "gives_token r \<longleftrightarrow>
     (case r of Inr (Json n d) \<Rightarrow> n = 200 \<and> dget d ''access_token'' \<noteq> None | _ \<Rightarrow> False)"

definition refresh_grant :: "pydict \<Rightarrow> string \<Rightarrow> string \<Rightarrow> bool" where
  "refresh_grant form tok cl \<longleftrightarrow> dget_none form ''grant_type'' = PStr ''refresh_token''
     \<and> form_str form ''refresh_token'' [] = tok \<and> form_str form ''client_id'' [] = cl"

definition code_grant :: "pydict \<Rightarrow> string \<Rightarrow> bool" where
  "code_grant form code \<longleftrightarrow> dget_none form ''grant_type'' = PStr ''authorization_code'' \<and> form_str form ''code'' [] = code"

lemma gives_token_Inl [simp]: "\<not> gives_token (Inl e)" by (simp add: gives_token_def)

lemma error_reply_no_token [simp]: "\<not> gives_token (Inr (error_reply n e d))"
  by (simp add: gives_token_def error_reply_def dget_def)

lemma on_http_error_gives:
  assumes "gives_token (fst (on_http_error m (\<lambda>n e d. act_ret (error_reply n e d)) s))"
  shows "on_http_error m (\<lambda>n e d. act_ret (error_reply n e d)) s = m s"
  using assms by (auto simp: on_http_error_def act_ret_def split: prod.splits sum.splits py_error.splits)

lemma token_endpoint:
  "code_grant form code \<Longrightarrow> oauth_token oe cfg c form =
     on_http_error (code_token_response oe cfg c form) (\<lambda>n e d. act_ret (error_reply n e d))"
  "refresh_grant form tok cl \<Longrightarrow> oauth_token oe cfg c form =
     on_http_error (refresh_token_response oe cfg c form) (\<lambda>n e d. act_ret (error_reply n e d))"
  by (simp_all add: oauth_token_def code_grant_def refresh_grant_def)

lemma db_call_Inr:
  "db_call oe c n f s = (Inr x, s') \<longleftrightarrow>
     (\<exists>db. f (auth_run (we_store oe) (ca_others c n) (os_db s)) = Inr (x, db) \<and> s' = s\<lparr>os_db := db\<rparr>)"
  by (auto simp: db_call_def Let_def commit_def split: sum.splits)

lemma db_read_Inr:
  "db_read oe c n f s = (Inr x, s') \<longleftrightarrow>
     f (auth_run (we_store oe) (ca_others c n) (os_db s)) = Inr x
     \<and> s' = s\<lparr>os_db := auth_run (we_store oe) (ca_others c n) (os_db s)\<rparr>"
  by (auto simp: db_read_def db_call_Inr bind_result_Inr_iff)

lemma invalid_grant_iff [simp]: "invalid_grant m s = (Inr x, s') \<longleftrightarrow> False"
  by (simp add: invalid_grant_def oauth_error_def act_of_def)

section \<open>Codes at the endpoint\<close>

lemma code_response_gives:
  assumes "code_token_response oe cfg c form s = (Inr rep, s')" "auth_db_ok (os_db s)"
  obtains h where "hash_bearer_token (we_store oe) (form_str form ''code'' []) = Inr h"
    "\<not> code_spent h (os_db s)" "code_spent h (os_db s')"
proof -
  let ?db = "auth_run (we_store oe) (ca_others c 0) (os_db s)"
  from assms(1) obtain d db1 where run: "consume_oauth_authorization_code (we_store oe) (ca_sql c 0)
         (form_str form ''code'' []) (form_str form ''client_id'' []) (form_str form ''redirect_uri'' [])
         (oe_s256 oe (form_str form ''code_verifier'' [])) ?db = Inr (Some d, db1)"
    and rest: "issue_tokens oe cfg c (py_str (dget_none d ''client_id'')) (py_str (dget_none d ''owner_id''))
         (py_str (dget_none d ''resource'')) (normalize_scopes (split_ws (form_str d ''scope'' []))) None
         (s\<lparr>os_db := db1\<rparr>) = (Inr rep, s')"
    by (auto simp: code_token_response_def Let_def act_simps db_call_Inr split: if_splits option.splits)
  then obtain h where h: "hash_bearer_token (we_store oe) (form_str form ''code'' []) = Inr h"
    by (auto simp: consume_oauth_authorization_code_def result_simps)
  with run have red: "code_redeemed (we_store oe) h ?db db1" unfolding code_redeemed_def by blast
  have "code_spent h (os_db s')"
    using act_invD [OF code_frame.issued _ rest] code_redeemed_spent [OF red] by simp
  moreover have "\<not> code_spent h (os_db s)"
    using code_spent_refused [OF auth_run_ok [OF assms(2)]] red auth_run_invariant [of "code_spent h"] code_spent_step
    by blast
  ultimately show ?thesis using h that by blast
qed

lemma code_grant_gives:
  assumes "gives_token (fst (oauth_token oe cfg c form s))" "code_grant form code" "auth_db_ok (os_db s)"
  obtains h where "hash_bearer_token (we_store oe) code = Inr h" "\<not> code_spent h (os_db s)"
    "code_spent h (os_db (snd (oauth_token oe cfg c form s)))"
proof -
  have run: "oauth_token oe cfg c form s = code_token_response oe cfg c form s"
    using on_http_error_gives assms(1) by (simp add: token_endpoint(1) [OF assms(2)])
  then obtain rep s' where s': "code_token_response oe cfg c form s = (Inr rep, s')"
    using assms(1) by (cases "code_token_response oe cfg c form s") (auto simp: gives_token_def split: sum.splits)
  show ?thesis
    by (rule code_response_gives [OF s' assms(3)]) (use s' run assms(2) that in \<open>auto simp: code_grant_def\<close>)
qed

section \<open>Refresh tokens at the endpoint\<close>

lemma spent_run: "refresh_spent h db \<Longrightarrow> refresh_spent h (auth_run env xs db)"
  "issued_to h fam cl db \<Longrightarrow> issued_to h fam cl (auth_run env xs db)"
  "families_valid db \<Longrightarrow> families_valid (auth_run env xs db)"
  "family_closed fam db \<Longrightarrow> family_closed fam (auth_run env xs db)"
  by (auto intro: auth_run_invariant refresh_spent_step issued_to_step families_valid_step family_closed_step)

lemma refresh_row_read:
  assumes "oauth_refresh_token env tok db = Inr (Some d)"
  obtains row where "row \<in> set (oauth_refresh_tokens db)" "hash_bearer_token env tok = Inr (r_hash row)"
    "refresh_from_row row = Inr d"
  using assms by (auto simp: oauth_refresh_token_def result_simps tbl_get_def split: option.splits dest!: find_SomeD)

lemma refresh_dict:
  assumes "refresh_from_row row = Inr d"
  shows "dget_none d ''client_id'' = PStr (r_client row)" "dget_none d ''token_family_id'' = PStr (r_family row)"
    "dget_none d ''consumed_at'' = of_opt (r_consumed_at row)" "dget_none d ''revoked_at'' = of_opt (r_revoked_at row)"
  using assms by (auto simp: refresh_from_row_def result_simps dget_none_def dget_or_def)

lemma act_on_error_Inr [act_simps]: "act_on_error m k s = (Inr x, s') \<longleftrightarrow> m s = (Inr x, s')"
  by (auto simp: act_on_error_def split: prod.splits sum.splits)

lemma issued_refresh_token:
  assumes "issue_tokens oe cfg c cl w res sc (Some fam) s = (Inr rep, s')"
    and "validate_token_lookup fam = Inr fam"
  obtains d tok h cl' where "rep = Json 200 d" "dget d ''refresh_token'' = Some (PStr tok)"
     "hash_bearer_token (we_store oe) tok = Inr h" "issued_to h fam cl' (os_db s')"
proof -
  let ?tok = "''amh_refresh_'' @ ca_secret c 1"
  have "fam \<noteq> []" using assms(2) by (auto simp: validate_token_lookup_Inr_iff)
  with assms(1) obtain d s1 x now iso sc' a e where rep: "rep = Json 200 d" "dget d ''refresh_token'' = Some (PStr ?tok)"
    and run: "db_call oe c 11 (create_oauth_refresh_token (we_store oe) now iso ?tok fam cl w sc' res a e) s1 = (Inr x, s')"
    by (auto simp: issue_tokens_def Let_def act_simps dget_def)
  from run obtain db db' where "create_oauth_refresh_token (we_store oe) now iso ?tok fam cl w sc' res a e db = Inr (x, db')"
    and s': "os_db s' = db'" by (auto simp: db_call_Inr)
  from create_refresh_row [OF this(1)] assms(2) obtain new where
    "oauth_refresh_tokens (os_db s') = oauth_refresh_tokens db @ [new]" "r_family new = fam"
    "hash_bearer_token (we_store oe) ?tok = Inr (r_hash new)" by (auto simp: s')
  then show ?thesis
    using rep that [of d ?tok "r_hash new" "r_client new"] by (simp add: issued_to_def)
qed

lemma refresh_response_gives:
  assumes "refresh_token_response oe cfg c form s = (Inr rep, s')"
    and "refresh_grant form tok cl" "auth_db_ok (os_db s)" "families_valid (os_db s)"
  obtains h fam d tok2 h2 cl2 where "hash_bearer_token (we_store oe) tok = Inr h" "\<not> refresh_spent h (os_db s)"
    "refresh_spent h (os_db s')" "issued_to h fam cl (os_db s')" "rep = Json 200 d"
    "dget d ''refresh_token'' = Some (PStr tok2)" "hash_bearer_token (we_store oe) tok2 = Inr h2"
    "issued_to h2 fam cl2 (os_db s')"
proof -
  let ?env = "we_store oe"
  let ?db0 = "auth_run ?env (ca_others c 0) (os_db s)"
  let ?db2 = "auth_run ?env (ca_others c 2) ?db0"
  have "form_str form ''refresh_token'' [] = tok" "form_str form ''client_id'' [] = cl"
    using assms(2) by (simp_all add: refresh_grant_def)
  note form = this
  from assms(1) obtain r0 where found0: "oauth_refresh_token ?env tok ?db0 = Inr r0"
    and run0: "(case r0 of None \<Rightarrow> invalid_grant ''Refresh token is invalid''
       | Some r \<Rightarrow> refresh_found oe cfg c tok cl r) (s\<lparr>os_db := ?db0\<rparr>) = (Inr rep, s')"
    by (auto simp: refresh_token_response_def form Let_def act_simps db_read_Inr split: if_splits)
  from found0 run0 obtain r d0 db3 where found: "oauth_refresh_token ?env tok ?db0 = Inr (Some r)"
    and cl: "dget_none r ''client_id'' = PStr cl"
    and run: "consume_oauth_refresh_token ?env (ca_sql c 2) tok ?db2 = Inr (Some d0, db3)"
    and rest: "issue_tokens oe cfg c cl (py_str (dget_none r ''owner_id'')) (py_str (dget_none r ''resource''))
         (case dget_none r ''scopes'' of PList xs \<Rightarrow> map py_str xs | _ \<Rightarrow> [])
         (Some (py_str (dget_none r ''token_family_id''))) (s\<lparr>os_db := db3\<rparr>) = (Inr rep, s')"
    by (auto simp: refresh_found_def Let_def act_simps db_call_Inr split: if_splits option.splits)
  obtain row where row: "row \<in> set (oauth_refresh_tokens ?db0)" and h: "hash_bearer_token ?env tok = Inr (r_hash row)"
    and r: "refresh_from_row row = Inr r"
    using found by (rule refresh_row_read)
  have fam: "dget_none r ''token_family_id'' = PStr (r_family row)" and "cl = r_client row"
    using refresh_dict [OF r] cl by auto
  have iss: "issued_to (r_hash row) (r_family row) cl ?db0"
    using row \<open>cl = r_client row\<close> by (auto simp: issued_to_def list_ex_iff)
  have valid: "validate_token_lookup (r_family row) = Inr (r_family row)"
    using spent_run(3) [OF assms(4)] row by (auto simp: families_valid_def list_all_iff)
  have red: "refresh_redeemed ?env (r_hash row) ?db2 db3"
    using run h unfolding refresh_redeemed_def by blast
  have "issued_to (r_hash row) (r_family row) cl db3"
    using spent_run(2) [OF iss] commit_def run
      issued_to_step [where env = ?env and x = "ConsumeRefresh (ca_sql c 2) tok" and db = ?db2]
    by (auto simp: commit_def)
  then have "issued_to (r_hash row) (r_family row) cl (os_db s')"
    using act_invD [OF issued_frame.issued _ rest] by simp
  moreover have "refresh_spent (r_hash row) (os_db s')"
    using act_invD [OF refresh_frame.issued _ rest] refresh_redeemed_spent [OF red] by simp
  moreover have "\<not> refresh_spent (r_hash row) (os_db s)"
    using red refresh_spent_refused [OF auth_run_ok [OF auth_run_ok [OF assms(3)]] spent_run(1) [OF spent_run(1)]]
    by blast
  moreover obtain d tok2 h2 cl2 where "rep = Json 200 d" "dget d ''refresh_token'' = Some (PStr tok2)"
    "hash_bearer_token ?env tok2 = Inr h2" "issued_to h2 (r_family row) cl2 (os_db s')"
    by (rule issued_refresh_token [OF rest [unfolded fam py_str_PStr] valid])
  ultimately show ?thesis using h that by blast
qed

lemma refresh_grant_gives:
  assumes "oauth_token oe cfg c form s = (r, s')" "gives_token r"
    and "refresh_grant form tok cl" "auth_db_ok (os_db s)" "families_valid (os_db s)"
  obtains h fam d tok2 h2 cl2 where "hash_bearer_token (we_store oe) tok = Inr h" "\<not> refresh_spent h (os_db s)"
    "refresh_spent h (os_db s')" "issued_to h fam cl (os_db s')" "r = Inr (Json 200 d)"
    "dget d ''refresh_token'' = Some (PStr tok2)" "hash_bearer_token (we_store oe) tok2 = Inr h2"
    "issued_to h2 fam cl2 (os_db s')"
proof -
  have run: "refresh_token_response oe cfg c form s = (r, s')"
    using on_http_error_gives [of "refresh_token_response oe cfg c form" s] assms(1,2)
    by (simp add: token_endpoint(2) [OF assms(3)])
  moreover obtain rep where "r = Inr rep" using assms(2) by (cases r) auto
  ultimately have "refresh_token_response oe cfg c form s = (Inr rep, s')" by simp
  then show ?thesis
    by (rule refresh_response_gives [OF _ assms(3-5)]) (use \<open>r = Inr rep\<close> that in blast)
qed

text \<open>The replay of a spent refresh token by its client closes the family.\<close>

lemma refresh_replay_closes:
  assumes "oauth_token oe cfg c form s = (r, s')" "refresh_grant form tok cl"
    and "hash_bearer_token (we_store oe) tok = Inr h" "refresh_spent h (os_db s)" "issued_to h fam cl (os_db s)"
    and "auth_db_ok (os_db s)" "families_valid (os_db s)"
  shows "family_closed fam (os_db s')"
proof -
  let ?env = "we_store oe"
  let ?db0 = "auth_run ?env (ca_others c 0) (os_db s)"
  let ?db1 = "auth_run ?env (ca_others c 1) ?db0"
  have ok: "auth_db_ok ?db0" by (rule auth_run_ok [OF assms(6)])
  obtain row where row: "row \<in> set (oauth_refresh_tokens ?db0)" "r_hash row = h" "r_family row = fam" "r_client row = cl"
    using spent_run(2) [OF assms(5)] by (auto simp: issued_to_def list_ex_iff)
  obtain row' where "row' \<in> set (oauth_refresh_tokens ?db0)" "r_hash row' = h"
    and used: "r_consumed_at row' \<noteq> None \<or> r_revoked_at row' \<noteq> None"
    using spent_run(1) [OF assms(4), of ?env "ca_others c 0"] by (auto simp: refresh_spent_def list_ex_iff)
  then have "row' = row" using distinct_keyD [OF auth_db_okD(8) [OF ok]] row(1,2) by blast
  note used = used [unfolded this]
  have "tbl_get r_hash h (oauth_refresh_tokens ?db0) = Some row"
    using distinct_find_key [OF auth_db_okD(8) [OF ok] row(1,2), of "\<lambda>r. True"] by (simp add: tbl_get_def)
  moreover have "scopes_ok (r_scopes row)" using auth_db_okD(9) [OF ok] row(1) by (simp add: list_all_iff)
  then obtain d where d: "refresh_from_row row = Inr d"
    by (cases "r_scopes row") (auto simp: refresh_from_row_def scopes_ok_def parse_token_scopes_def)
  ultimately have found: "oauth_refresh_token ?env tok ?db0 = Inr (Some d)"
    using assms(3) by (simp add: oauth_refresh_token_def)
  have valid: "validate_token_lookup fam = Inr fam"
    using spent_run(3) [OF assms(7)] row by (auto simp: families_valid_def list_all_iff)
  define s1 where "s1 = s\<lparr>os_db := commit ?db1 (revoke_oauth_refresh_token_family (ca_sql c 1) fam ?db1)\<rparr>"
  have rev: "\<exists>b. db_call oe c 1 (revoke_oauth_refresh_token_family (ca_sql c 1) fam) (s\<lparr>os_db := ?db0\<rparr>) = (Inr b, s1)"
    by (simp add: db_call_Inr s1_def commit_def Let_def revoke_oauth_refresh_token_family_def valid)
  have closed: "family_closed fam (os_db s1)"
    using revoke_family_closes [of "ca_sql c 1" fam ?db1] valid
    by (auto simp: s1_def commit_def Let_def revoke_oauth_refresh_token_family_def)
  have "snd (refresh_token_response oe cfg c form s) = s1 \<and>
      fst (refresh_token_response oe cfg c form s) =
        Inl (HTTPException 400 ''invalid_grant'' ''Refresh token is invalid'')"
    using assms(2,3) found refresh_dict [OF d] row(3,4) used rev
    by (auto simp: refresh_token_response_def refresh_found_def refresh_grant_def Let_def act_bind_def db_read_def revoke_family_def
        hash_bearer_token_def of_opt_def invalid_grant_def oauth_error_def act_of_def db_call_def commit_def)
  then have "os_db s' = os_db s1"
    using assms(1) unfolding token_endpoint(2) [OF assms(2)]
    by (cases "refresh_token_response oe cfg c form s") (auto simp: on_http_error_def act_ret_def)
  then show ?thesis using closed by simp
qed

section \<open>Properties\<close>

text \<open>
  C3. The token endpoint redeems an authorization code at most once: when a request with a code gets an access token,
  then no later request with the same code does, whatever the other parameters, whatever other requests do
  between the transactions of both requests, and whatever operations run between them.
\<close>

theorem one_token_per_code:
  assumes "auth_db_ok (os_db s)" "code_grant form code" "code_grant form' code"
    and "gives_token (fst (oauth_token oe cfg c form s))"
    and "os_db s' = auth_run (we_store oe) xs (os_db (snd (oauth_token oe cfg c form s)))"
  shows "\<not> gives_token (fst (oauth_token oe cfg' c' form' s'))"
proof
  assume again: "gives_token (fst (oauth_token oe cfg' c' form' s'))"
  let ?s1 = "snd (oauth_token oe cfg c form s)"
  have ok1: "auth_db_ok (os_db ?s1)"
    using act_invD [OF ok_frame.token_answered assms(1)] by (cases "oauth_token oe cfg c form s") simp
  obtain h where h: "hash_bearer_token (we_store oe) code = Inr h" and spent: "code_spent h (os_db ?s1)"
    by (rule code_grant_gives [OF assms(4,2,1)])
  have "code_spent h (os_db s')"
    unfolding assms(5) by (rule auth_run_invariant [where P = "code_spent h", OF spent]) (rule code_spent_step)
  moreover have "auth_db_ok (os_db s')" unfolding assms(5) by (rule auth_run_ok [OF ok1])
  ultimately show False using code_grant_gives [OF again assms(3)] h by auto
qed

text \<open>
  C2. Replaying a refresh token costs the client the whole family: once a refresh token has been exchanged, a
  second request of the client with it gets no token, and from then on the refresh token that the first
  exchange returned gets none either, whatever runs in between.
\<close>

theorem refresh_replay_ends_family:
  assumes "auth_db_ok (os_db s)" "families_valid (os_db s)"
    and "refresh_grant form tok cl" "oauth_token oe cfg c form s = (r, s1)" "gives_token r"
    and "os_db s2 = auth_run (we_store oe) xs (os_db s1)"
    and "refresh_grant form2 tok cl" "oauth_token oe cfg2 c2 form2 s2 = (r2, s3)"
    and "os_db s4 = auth_run (we_store oe) xs2 (os_db s3)"
  shows "\<not> gives_token r2 \<and> (\<exists>tok2 d. r = Inr (Json 200 d) \<and> dget d ''refresh_token'' = Some (PStr tok2)
     \<and> (refresh_grant form3 tok2 cl3 \<longrightarrow> \<not> gives_token (fst (oauth_token oe cfg3 c3 form3 s4))))"
proof -
  obtain h fam d tok2 h2 cl2 where h: "hash_bearer_token (we_store oe) tok = Inr h"
    and s1: "refresh_spent h (os_db s1)" "issued_to h fam cl (os_db s1)" "issued_to h2 fam cl2 (os_db s1)"
    and d: "r = Inr (Json 200 d)" "dget d ''refresh_token'' = Some (PStr tok2)"
    and h2: "hash_bearer_token (we_store oe) tok2 = Inr h2"
    by (rule refresh_grant_gives [OF assms(4,5,3,1,2)])
  have ok: "auth_db_ok (os_db s2)" "families_valid (os_db s2)"
    unfolding assms(6)
    using act_invD [OF ok_frame.token_answered assms(1,4)] act_invD [OF families_frame.token_answered assms(2,4)]
    by (auto intro: auth_run_ok spent_run)
  have s2: "refresh_spent h (os_db s2)" "issued_to h fam cl (os_db s2)" "issued_to h2 fam cl2 (os_db s2)"
    unfolding assms(6) using s1 by (auto intro: spent_run)
  have no: "\<not> gives_token r2"
    using refresh_grant_gives [OF assms(8) _ assms(7) ok] s2(1) h by (metis sum.inject(2))
  have "family_closed fam (os_db s3)"
    by (rule refresh_replay_closes [OF assms(8,7) h s2(1,2) ok])
  moreover have "issued_to h2 fam cl2 (os_db s3)"
    using act_invD [OF issued_frame.token_answered s2(3) assms(8)] .
  ultimately have s4: "refresh_spent h2 (os_db s4)" unfolding assms(9) by (auto intro: spent_run closed_member_spent)
  have ok4: "auth_db_ok (os_db s4)" "families_valid (os_db s4)"
    unfolding assms(9)
    using act_invD [OF ok_frame.token_answered ok(1) assms(8)] act_invD [OF families_frame.token_answered ok(2) assms(8)]
    by (auto intro: auth_run_ok spent_run)
  have "\<not> gives_token (fst (oauth_token oe cfg3 c3 form3 s4))" if g: "refresh_grant form3 tok2 cl3"
  proof
    assume gives: "gives_token (fst (oauth_token oe cfg3 c3 form3 s4))"
    obtain h' where "hash_bearer_token (we_store oe) tok2 = Inr h'" "\<not> refresh_spent h' (os_db s4)"
      by (rule refresh_grant_gives [OF prod.collapse [symmetric] gives g ok4])
    then show False using s4 h2 by simp
  qed
  then show ?thesis using no d by blast
qed

text \<open>A request without a code is not answered with \<open>invalid_grant\<close>: the store raises, and so does the endpoint.\<close>

lemma empty_code_raises:
  assumes "code_grant form []" "pkce_verifier_ok (form_str form ''code_verifier'' [])"
  shows "\<exists>m. fst (oauth_token oe cfg c form s) = Inl (ValueError m)"
  using assms
  by (simp add: token_endpoint(1) code_token_response_def code_grant_def on_http_error_def act_bind_def db_call_def
      consume_oauth_authorization_code_def hash_bearer_token_def Let_def)

section \<open>Witnesses\<close>

definition demo_oauth_env :: oauth_env where
  "demo_oauth_env =
     \<lparr>we_store = demo_env, we_environ = (\<lambda>n. None), we_hmac = (\<lambda>k m. k @ m), we_b64 = Some,
      we_json = (\<lambda>s. Inr None), we_oidc = (\<lambda>tok. None), oe_ip = (\<lambda>h. if h = ''127.0.0.1'' then Some (False, True) else None),
      oe_sign = (\<lambda>k p. Inr (''h.'' @ form_str p ''jti'' [] @ ''.s'')), oe_s256 = (\<lambda>v. ''chal''),
      oe_iso_time = (\<lambda>t. Some 9000000), oe_float_le = (\<lambda>f n. False), oe_providers = []\<rparr>"

definition demo_call :: "string \<Rightarrow> clock \<Rightarrow> oauth_call" where
  "demo_call tag now =
     \<lparr>ca_time = 1, ca_micros = 1000000, ca_after = (\<lambda>n. ''2026-03-01 00:00:00''), ca_sql = (\<lambda>n. now), ca_iso = now,
      ca_secret = (\<lambda>n. tag @ nat_str n), ca_event = (\<lambda>n. (''ev'', now)), ca_request = None, ca_surface = ''api'',
      ca_others = (\<lambda>n. []), ca_cookies = []\<rparr>"

definition demo_form :: pydict where
  "demo_form =
     [(''grant_type'', PStr ''authorization_code''), (''code'', PStr ''code''), (''client_id'', PStr ''client''),
      (''redirect_uri'', PStr ''uri''), (''code_verifier'', PStr (replicate 43 (CHR ''v'')))]"

definition demo_state :: oauth_state where
  "demo_state = \<lparr>os_db = demo_db, os_audit = [], os_session = None\<rparr>"

abbreviation demo_token_request :: "pydict \<Rightarrow> oauth_state \<Rightarrow> reply result \<times> oauth_state" where
  "demo_token_request \<equiv> oauth_token demo_oauth_env demo_config (demo_call ''a'' ''2026-01-01 00:01:00'')"

lemma demo_state_ok: "auth_db_ok (os_db demo_state)"
  using demo_db_ok by (simp add: demo_state_def)

theorem one_token_per_code_witness:
  "let s1 = snd (demo_token_request demo_form demo_state);
       s2 = s1\<lparr>os_db := auth_run demo_env demo_rotation (os_db s1)\<rparr> in
   gives_token (fst (demo_token_request demo_form demo_state)) \<and> \<not> gives_token (fst (demo_token_request demo_form s2))"
proof -
  have gives: "gives_token (fst (demo_token_request demo_form demo_state))" by code_simp
  have form: "code_grant demo_form ''code''" by code_simp
  have env: "we_store demo_oauth_env = demo_env" by (simp add: demo_oauth_env_def)
  show ?thesis
    unfolding Let_def
    by (rule conjI [OF gives], rule one_token_per_code [OF demo_state_ok form form gives]) (simp only: env, simp)
qed

definition demo_refresh :: pydict where
  "demo_refresh =
     [(''grant_type'', PStr ''refresh_token''), (''refresh_token'', PStr ''refresh''), (''client_id'', PStr ''client'')]"

theorem refresh_replay_ends_family_witness:
  "let (r, s1) = demo_token_request demo_refresh demo_state;
       s2 = s1\<lparr>os_db := auth_run demo_env demo_rotation (os_db s1)\<rparr> in
   gives_token r \<and> \<not> gives_token (fst (demo_token_request demo_refresh s2))"
proof -
  obtain r s1 where run: "demo_token_request demo_refresh demo_state = (r, s1)" by fastforce
  have "gives_token (fst (demo_token_request demo_refresh demo_state))" by code_simp
  then have gives: "gives_token r" by (simp add: run)
  have form: "refresh_grant demo_refresh ''refresh'' ''client''" by code_simp
  have valid: "families_valid (os_db demo_state)" by code_simp
  let ?s2 = "s1\<lparr>os_db := auth_run demo_env demo_rotation (os_db s1)\<rparr>"
  obtain r2 s3 where run2: "demo_token_request demo_refresh ?s2 = (r2, s3)" by fastforce
  have s2: "os_db ?s2 = auth_run (we_store demo_oauth_env) demo_rotation (os_db s1)"
    by (simp add: demo_oauth_env_def)
  have s4: "os_db s3 = auth_run (we_store demo_oauth_env) [] (os_db s3)" by simp
  have "\<not> gives_token r2"
    using refresh_replay_ends_family [OF demo_state_ok valid form run gives s2 form run2 s4] by blast
  then show ?thesis using gives run run2 by simp
qed

end
