(* ===== verification/OAuthRedirects.thy ===== *)
theory OAuthRedirects
  imports OAuthProperties
begin

text \<open>
  Where the authorization server redirects to. A client registers only redirect URIs of the loopback
  interface, and every answer of the authorization and consent handlers goes to the URI the request asked
  for, which that client registered, or to an enabled login provider that keeps the request.
\<close>

section \<open>Registered redirect URIs\<close>

text \<open>Every redirect URI of a client, which has the identifier \<open>i\<close>, satisfies \<open>Q i\<close>.\<close>

definition clients_in :: "(string \<Rightarrow> string \<Rightarrow> bool) \<Rightarrow> auth_db \<Rightarrow> bool" where
  "clients_in Q db \<longleftrightarrow> list_all (\<lambda>c. list_all (Q (c_id c)) (c_redirect_uris c)) (oauth_clients db)"

text \<open>An operation of another request that registers a client does so with such URIs.\<close>

definition registers_in :: "(string \<Rightarrow> string \<Rightarrow> bool) \<Rightarrow> auth_op \<Rightarrow> bool" where
  "registers_in Q x \<longleftrightarrow>
     (case x of CreateOAuthClient now i n uris e mx \<Rightarrow> list_all (Q (py_strip i)) uris | _ \<Rightarrow> True)"

definition others_in :: "(string \<Rightarrow> string \<Rightarrow> bool) \<Rightarrow> oauth_call \<Rightarrow> bool" where
  "others_in Q c \<longleftrightarrow> (\<forall>n. list_all (registers_in Q) (ca_others c n))"

lemma clients_in_same: "oauth_clients db' = oauth_clients db \<Longrightarrow> clients_in Q db \<Longrightarrow> clients_in Q db'"
  by (simp add: clients_in_def)

lemma clients_in_create:
  "create_oauth_client now i n uris e mx db = Inr (d, db') \<Longrightarrow> list_all (Q (py_strip i)) uris \<Longrightarrow>
     clients_in Q db \<Longrightarrow> clients_in Q db'"
  by (auto simp: create_oauth_client_def Let_def result_simps clients_in_def list_all_iff client_merge_def
      validate_token_lookup_Inr_iff split: if_splits option.splits dest!: client_up.upsert_rows)

lemma clients_in_step:
  assumes "clients_in Q db" "registers_in Q x"
  shows "clients_in Q (auth_step env x db)"
proof (cases x)
  case (CreateOAuthClient now i n u e mx)
  then show ?thesis
    using assms by (auto simp: registers_in_def intro: commit_invariant clients_in_create)
qed (simp_all only: auth_step.simps,
    (rule commit_invariant, rule assms(1), rule clients_in_same [OF _ assms(1)], simp add: frames_open)+)

lemma clients_in_run: "clients_in Q db \<Longrightarrow> list_all (registers_in Q) xs \<Longrightarrow> clients_in Q (auth_run env xs db)"
  by (rule auth_run_invariant) (auto intro: clients_in_step simp: list_all_iff)

abbreviation clients_kept :: "(string \<Rightarrow> string \<Rightarrow> bool) \<Rightarrow> 'a handler \<Rightarrow> bool" where
  "clients_kept Q m \<equiv> act_inv (\<lambda>s. clients_in Q (os_db s)) m"

lemma clients_kept_call:
  assumes "others_in Q c" "\<And>db. clients_in Q db \<Longrightarrow> clients_in Q (commit db (f db))"
  shows "clients_kept Q (db_call oe c n f)"
  using assms by (auto simp: act_inv_def db_call_def Let_def others_in_def intro: clients_in_run)

lemma clients_kept_lookup: "others_in Q c \<Longrightarrow> clients_kept Q (oauth_client_for_request oe c n i)"
  unfolding oauth_client_for_request_def db_read_def by (intro act_rules clients_kept_call) simp_all

lemma clients_kept_session: "others_in Q c \<Longrightarrow> clients_kept Q (session_from_request oe cfg c n)"
  unfolding session_from_request_def
  by (intro act_rules clients_kept_call)
    (use clients_in_step [where x = "WebSessionForHash _ _"] in \<open>simp_all add: registers_in_def\<close>)

text \<open>A look-up finds the row of the client it asks for.\<close>

lemma lookup_registered:
  assumes "oauth_client_for_request oe c n i s = (Inr (Some cl), s')" "others_in Q c"
    and "clients_in Q (os_db s)" "uri_registered cl uri"
  shows "Q (py_strip i) uri"
proof -
  let ?db = "auth_run (we_store oe) (ca_others c n) (os_db s)"
  have "clients_in Q ?db" using assms(2,3) by (auto simp: others_in_def intro: clients_in_run)
  moreover obtain row where "row \<in> set (oauth_clients ?db)" "c_id row = py_strip i" "cl = client_from_row row"
    using assms(1)
    by (auto simp: oauth_client_for_request_def db_read_Inr oauth_client_def result_simps act_ret_def
        validate_token_lookup_Inr_iff split: if_splits dest!: find_SomeD)
  ultimately show ?thesis
    using assms(4)
    by (force simp: clients_in_def list_all_iff uri_registered_def client_from_row_def dget_none_def dget_or_def)
qed

text \<open>Two such predicates: a URI of the loopback interface, and a URI that was registered for the client.\<close>

definition clients_ok :: "ip_parser \<Rightarrow> auth_db \<Rightarrow> bool" where
  "clients_ok ip = clients_in (\<lambda>i. redirect_uri_ok ip)"

definition calm :: "ip_parser \<Rightarrow> oauth_call \<Rightarrow> bool" where
  "calm ip = others_in (\<lambda>i. redirect_uri_ok ip)"

definition registers_uri :: "string \<Rightarrow> string \<Rightarrow> auth_op \<Rightarrow> bool" where
  "registers_uri i uri x \<longleftrightarrow>
     (case x of CreateOAuthClient now j n uris e mx \<Rightarrow> py_strip j = i \<and> uri \<in> set uris | _ \<Rightarrow> False)"

definition registered_for :: "oauth_state \<Rightarrow> oauth_call \<Rightarrow> string \<Rightarrow> string \<Rightarrow> bool" where
  "registered_for s c i uri \<longleftrightarrow>
     (\<exists>row \<in> set (oauth_clients (os_db s)). c_id row = i \<and> uri \<in> set (c_redirect_uris row))
     \<or> (\<exists>n. \<exists>x \<in> set (ca_others c n). registers_uri i uri x)"

definition loopback_of_client :: "oauth_env \<Rightarrow> oauth_state \<Rightarrow> oauth_call \<Rightarrow> string \<Rightarrow> string \<Rightarrow> bool" where
  "loopback_of_client oe s c i uri \<longleftrightarrow> redirect_uri_ok (oe_ip oe) uri \<and> registered_for s c i uri"

lemma clients_of_state:
  "clients_ok (oe_ip oe) (os_db s) \<Longrightarrow> clients_in (loopback_of_client oe s c) (os_db s)"
  by (auto simp: clients_ok_def clients_in_def list_all_iff loopback_of_client_def registered_for_def)

lemma others_of_call: "calm (oe_ip oe) c \<Longrightarrow> others_in (loopback_of_client oe s c) c"
  by (fastforce simp: calm_def others_in_def registers_in_def list_all_iff loopback_of_client_def
      registered_for_def registers_uri_def split: auth_op.splits)

lemma act_bind_of: "act_bind (act_of (Inr x)) f = f x"
  by (rule ext) (simp add: act_bind_def act_of_def)

lemma register_keeps_clients:
  assumes "calm (oe_ip oe) c"
  shows "clients_kept (\<lambda>i. redirect_uri_ok (oe_ip oe)) (oauth_register oe cfg c body)"
proof (cases "\<exists>p uris. body = Some p \<and> redirect_uris_from_payload (oe_ip oe) p = Inr uris")
  case True
  then obtain p uris where p: "body = Some p" "redirect_uris_from_payload (oe_ip oe) p = Inr uris" by blast
  have "list_all (redirect_uri_ok (oe_ip oe)) uris" using redirect_uris_valid [OF p(2)] by simp
  then have call: "clients_kept (\<lambda>i. redirect_uri_ok (oe_ip oe)) (db_call oe c 0 (\<lambda>db. quota_as_client_error
      (create_oauth_client (ca_sql c 0) i n uris e mx db)))" for i n e mx
    by (intro clients_kept_call assms [unfolded calm_def]) (auto intro: commit_invariant clients_in_create)
  show ?thesis
    unfolding oauth_register_def p option.case act_bind_of Let_def by (intro act_rules call)
next
  case False
  then show ?thesis
    by (cases "redirect_uris_from_payload (oe_ip oe) (the body)")
      (auto simp: act_inv_def oauth_register_def act_bind_def act_of_def split: option.splits)
qed

section \<open>Redirects\<close>

lemma case_option_Inr:
  "(case y of None \<Rightarrow> m | Some x \<Rightarrow> f x) s = (Inr z, s') \<longleftrightarrow>
     (y = None \<and> m s = (Inr z, s')) \<or> (\<exists>x. y = Some x \<and> f x s = (Inr z, s'))"
  by (cases y) auto

lemma case_sum_Inr:
  "(case y of Inl a \<Rightarrow> f a | Inr b \<Rightarrow> g b) s = (Inr z, s') \<longleftrightarrow>
     (\<exists>a. y = Inl a \<and> f a s = (Inr z, s')) \<or> (\<exists>b. y = Inr b \<and> g b s = (Inr z, s'))"
  by (cases y) auto

lemma on_http_error_Inr:
  "on_http_error m h s = (Inr x, s') \<longleftrightarrow>
     m s = (Inr x, s') \<or> (\<exists>n e d s1. m s = (Inl (HTTPException n e d), s1) \<and> h n e d s1 = (Inr x, s'))"
  by (auto simp: on_http_error_def split: prod.splits sum.splits py_error.splits)

lemma session_dict_Inr: "session_dict s = (Inr d, s') \<longleftrightarrow> os_session s = Some d \<and> s' = s"
  by (auto simp: session_dict_def act_simps split: option.splits)

text \<open>The request that waits in the session of the browser for its approval or denial.\<close>

definition pending_request :: "oauth_state \<Rightarrow> pydict" where
  "pending_request s =
     (case os_session s of
        Some d \<Rightarrow> (case dget_none d ''pending_oauth_authorization'' of PDict p \<Rightarrow> p | _ \<Rightarrow> [])
      | None \<Rightarrow> [])"

text \<open>An answer to a request: a redirect to its redirect URI, or the way to a login provider with the request.\<close>

definition answers_request :: "oauth_env \<Rightarrow> pydict \<Rightarrow> reply \<Rightarrow> bool" where
  "answers_request oe req r \<longleftrightarrow>
     (case r of
        Redirect u \<Rightarrow> \<exists>q. u = redirect_with_query (form_str req ''redirect_uri'' []) q
      | ToProvider p st \<Rightarrow> (p, True) \<in> set (oe_providers oe)
          \<and> (\<exists>kept. st = [(''pending_oauth_authorization'', PDict kept)]
               \<and> form_str kept ''client_id'' [] = form_str req ''client_id'' []
               \<and> form_str kept ''redirect_uri'' [] = form_str req ''redirect_uri'' [])
      | Json n d \<Rightarrow> False)"

lemma session_from_request_session:
  "session_from_request oe cfg c n s = (Inr x, s1) \<Longrightarrow> os_session s1 = os_session s"
  by (auto simp: session_from_request_def db_call_def Let_def act_ret_def
      split: option.splits list.splits sum.splits prod.splits)

lemma consent_answer:
  assumes "with_consent oe cfg c form decide s = (Inr r, s')" "others_in Q c" "clients_in Q (os_db s)"
  obtains sess req s1 where "decide sess req s1 = (Inr r, s')"
    "form_str req ''redirect_uri'' [] = form_str (pending_request s) ''redirect_uri'' []"
    "Q (py_strip (form_str (pending_request s) ''client_id'' []))
       (form_str (pending_request s) ''redirect_uri'' [])"
proof -
  from assms(1) obtain sess d s1 s2 req where session: "session_from_request oe cfg c 0 s = (Inr (Some sess), s1)"
    and d: "os_session s1 = Some d"
    and pending: "validated_pending_request oe cfg c (dget_none d ''pending_oauth_authorization'')
         (s1\<lparr>os_session := Some (dpop d ''pending_oauth_authorization'')\<rparr>) = (Inr req, s2)"
    and decide: "decide sess req s2 = (Inr r, s')"
    by (auto simp: with_consent_def act_simps case_option_Inr session_dict_Inr set_session_def split: if_splits)
  have ok1: "clients_in Q (os_db s1)"
    using act_invD [OF clients_kept_session [OF assms(2)] assms(3) session] by simp
  from pending obtain p client s3 where p: "dget_none d ''pending_oauth_authorization'' = PDict p"
    and look: "oauth_client_for_request oe c 1 (form_str p ''client_id'' [])
        (s1\<lparr>os_session := Some (dpop d ''pending_oauth_authorization'')\<rparr>) = (Inr client, s3)"
    and check: "check_pending_request cfg client p = Inr req"
    by (auto simp: validated_pending_request_def act_simps oauth_error_def split: pyval.splits)
  have same: "pending_request s = p"
    using d p session_from_request_session [OF session] by (simp add: pending_request_def)
  from check obtain cl where cl: "client = Some cl" "uri_registered cl (form_str p ''redirect_uri'' [])"
    and req: "req = map (\<lambda>k. (k, PStr (form_str p k []))) AUTH_REQUEST_FIELDS"
    by (auto simp: check_pending_request_def oauth_error_def Let_def result_simps split: option.splits if_splits)
  have "Q (py_strip (form_str p ''client_id'' [])) (form_str p ''redirect_uri'' [])"
    using lookup_registered [OF look [unfolded cl(1)] assms(2) _ cl(2)] ok1 by simp
  moreover have "form_str req ''redirect_uri'' [] = form_str p ''redirect_uri'' []"
    by (simp add: req AUTH_REQUEST_FIELDS_def form_str_def dget_none_def dget_or_def dget_def py_str_def)
  ultimately show ?thesis using decide that same by simp
qed

lemma checked_request:
  assumes "check_authorization_request cfg client d = Inr req"
  obtains cl where "client = Some cl" "uri_registered cl (form_str d ''redirect_uri'' [])"
    "form_str req ''redirect_uri'' [] = form_str d ''redirect_uri'' []"
    "form_str req ''client_id'' [] = form_str d ''client_id'' []"
proof (cases client)
  case (Some cl)
  let ?tail = "[(''code_challenge'', PStr (form_str d ''code_challenge'' [])), (''code_challenge_method'', PStr ''S256''),
       (''resource'', PStr (form_str d ''resource'' [])), (''scope'', PStr (form_str d ''scope'' [])),
       (''state'', PStr (form_str d ''state'' []))]"
  have "uri_registered cl (form_str d ''redirect_uri'' [])"
    and "req = (''client_id'', PStr (form_str d ''client_id'' []))
       # (''redirect_uri'', PStr (form_str d ''redirect_uri'' [])) # ?tail"
    using assms Some by (auto simp: check_authorization_request_def oauth_error_def result_simps split: if_splits)
  then show ?thesis
    using that [OF Some] by (simp add: form_str_def dget_none_def dget_or_def dget_def py_str_def)
qed (use assms in \<open>simp add: check_authorization_request_def oauth_error_def\<close>)

lemma provider_enabled: "first_enabled_provider oe = Inr p \<Longrightarrow> (p, True) \<in> set (oe_providers oe)"
  by (auto simp: first_enabled_provider_def split: option.splits dest!: find_SomeD)

lemma authorize_answer:
  assumes "oauth_authorize oe cfg c d s = (Inr r, s')" "others_in Q c" "clients_in Q (os_db s)"
  shows "answers_request oe d r
    \<and> Q (py_strip (form_str d ''client_id'' [])) (form_str d ''redirect_uri'' [])"
proof -
  from assms(1) consider (valid) req s1 where "validated_authorization_request oe cfg c d s = (Inr req, s1)"
      "to_login oe req s1 = (Inr r, s')"
    | (failed) n e m s1 where "validated_authorization_request oe cfg c d s = (Inl (HTTPException n e m), s1)"
      "\<exists>x h1. trusted_redirect_uri oe c d s1 = (Inr x, h1) \<and> (case x of
            None \<Rightarrow> act_of (Inl (HTTPException n e m))
          | Some u \<Rightarrow> act_ret (Inr (error_redirect u (e, m) (form_str d ''state'' [])))) h1 =
            (Inr (Inr r :: pydict + reply), s')"
    by (auto simp: oauth_authorize_def act_simps act_bind_Inl_iff on_http_error_Inr case_sum_Inr)
      (auto simp: act_simps split: option.splits)
  then show ?thesis
  proof cases
    case valid
    then obtain client where look: "oauth_client_for_request oe c 0 (form_str d ''client_id'' []) s = (Inr client, s1)"
      and check: "check_authorization_request cfg client d = Inr req"
      by (auto simp: validated_authorization_request_def act_simps)
    from check obtain cl where cl: "client = Some cl" "uri_registered cl (form_str d ''redirect_uri'' [])"
      and req: "form_str req ''redirect_uri'' [] = form_str d ''redirect_uri'' []"
        "form_str req ''client_id'' [] = form_str d ''client_id'' []" by (rule checked_request)
    have "answers_request oe d r"
      using valid(2) req by (auto simp: to_login_def act_simps answers_request_def intro: provider_enabled)
    then show ?thesis
      using lookup_registered [OF look [unfolded cl(1)] assms(2,3) cl(2)] by simp
  next
    case failed
    from failed(2) obtain cl where look: "oauth_client_for_request oe c 1 (form_str d ''client_id'' []) s1 = (Inr (Some cl), s')"
      and cl: "uri_registered cl (form_str d ''redirect_uri'' [])"
      and r: "r = error_redirect (form_str d ''redirect_uri'' []) (e, m) (form_str d ''state'' [])"
      by (auto simp: act_simps trusted_redirect_uri_def Let_def case_option_Inr split: option.splits if_splits)
    have "clients_in Q (os_db s1)"
      using failed(1) act_invD [OF clients_kept_lookup [OF assms(2)] assms(3)]
      by (auto simp: validated_authorization_request_def act_bind_Inl_iff act_simps)
    then show ?thesis
      using lookup_registered [OF look assms(2) _ cl] r by (auto simp: answers_request_def error_redirect_def)
  qed
qed

text \<open>
  C7. No open redirect. While every registered client has loopback redirect URIs and other requests register
  only such URIs, every answer of the authorization request, its approval and its denial belongs to a request
  whose redirect URI is one of the loopback interface that was registered for the client the request names:
  in the state the handler started from, or by another request while it ran. The answer is a redirect to that
  very URI with a query appended, or, for the authorization request, it leads to an enabled login provider
  with the request, its client and its redirect URI kept for the way back. Registering a client keeps the
  redirect URIs of all clients in the loopback interface.
\<close>

theorem redirects_to_loopback:
  assumes "clients_ok (oe_ip oe) (os_db s)" "calm (oe_ip oe) c"
    and "(m, req) \<in> {(oauth_authorize oe cfg c d, d), (oauth_authorize_approve oe cfg c d, pending_request s),
            (oauth_authorize_deny oe cfg c d, pending_request s)}"
    and "m s = (Inr r, s')"
  shows "answers_request oe req r
    \<and> redirect_uri_ok (oe_ip oe) (form_str req ''redirect_uri'' [])
    \<and> registered_for s c (py_strip (form_str req ''client_id'' [])) (form_str req ''redirect_uri'' [])
    \<and> clients_ok (oe_ip oe) (os_db (snd (oauth_register oe cfg c body s)))"
proof -
  note known = others_of_call [OF assms(2), of s] clients_of_state [OF assms(1), of c]
  have "clients_ok (oe_ip oe) (os_db (snd (oauth_register oe cfg c body s)))"
    using register_keeps_clients [OF assms(2)] assms(1) by (simp add: act_inv_def clients_ok_def)
  moreover consider "oauth_authorize oe cfg c d s = (Inr r, s')" "req = d"
    | (approve) "oauth_authorize_approve oe cfg c d s = (Inr r, s')" "req = pending_request s"
    | (deny) "oauth_authorize_deny oe cfg c d s = (Inr r, s')" "req = pending_request s"
    using assms(3,4) by auto
  then have "answers_request oe req r
    \<and> loopback_of_client oe s c (py_strip (form_str req ''client_id'' [])) (form_str req ''redirect_uri'' [])"
  proof cases
    case 1
    then show ?thesis using authorize_answer [OF _ known] by simp
  next
    case approve
    from approve(1) [unfolded oauth_authorize_approve_def] known
    show ?thesis
      by (rule consent_answer)
        (auto simp: approve(2) act_simps authorization_code_redirect_def Let_def answers_request_def)
  next
    case deny
    from deny(1) [unfolded oauth_authorize_deny_def] known
    show ?thesis
      by (rule consent_answer) (auto simp: deny(2) act_simps error_redirect_def answers_request_def)
  qed
  ultimately show ?thesis by (simp add: loopback_of_client_def)
qed

section \<open>Witnesses\<close>

definition demo_uri :: string where
  "demo_uri = ''http://127.0.0.1/cb''"

definition demo_clients :: oauth_state where
  "demo_clients =
     \<lparr>os_db = commit demo_db (create_oauth_client ''2026-01-01 00:00:05'' ''client'' ''n'' [demo_uri]
        ''2026-02-01 00:00:00'' 9 demo_db), os_audit = [], os_session = None\<rparr>"

theorem redirects_to_loopback_witness:
  "case fst (oauth_authorize demo_oauth_env demo_config (demo_call ''a'' ''2026-01-01 00:01:00'')
       [(''client_id'', PStr ''client''), (''redirect_uri'', PStr demo_uri), (''state'', PStr ''xyz'')] demo_clients) of
     Inr (Redirect u) \<Rightarrow>
       u = demo_uri @ ''?error=unsupported_response_type&error_description=Only+response_type%3Dcode+is+supported&state=xyz''
       \<and> redirect_uri_ok (oe_ip demo_oauth_env) demo_uri
       \<and> registered_for demo_clients (demo_call ''a'' ''2026-01-01 00:01:00'') ''client'' demo_uri
   | _ \<Rightarrow> False"
proof -
  let ?u = "demo_uri @ ''?error=unsupported_response_type&error_description=Only+response_type%3Dcode+is+supported&state=xyz''"
  let ?d = "[(''client_id'', PStr ''client''), (''redirect_uri'', PStr demo_uri), (''state'', PStr ''xyz'')]"
  let ?c = "demo_call ''a'' ''2026-01-01 00:01:00''"
  have run: "fst (oauth_authorize demo_oauth_env demo_config ?c ?d demo_clients) = Inr (Redirect ?u)" by code_simp
  have clients: "clients_ok (oe_ip demo_oauth_env) (os_db demo_clients)" by code_simp
  have calm: "calm (oe_ip demo_oauth_env) ?c" by (simp add: calm_def others_in_def demo_call_def)
  have uri: "form_str ?d ''redirect_uri'' [] = demo_uri" "py_strip (form_str ?d ''client_id'' []) = ''client''"
    by code_simp+
  show ?thesis
    using redirects_to_loopback [OF clients calm insertI1 prod_eqI, of demo_config ?d "Redirect ?u"] run uri by simp
qed

end
