(* ===== verification/TokenAcceptance.thy ===== *)
theory TokenAcceptance
  imports OAuthProperties
begin

text \<open>
  The authorization server and the gate together: which tokens that the hub signed the hub accepts, and that
  an access token given for an authorization code opens the gate until it expires.
\<close>

section \<open>Scopes as text\<close>

definition is_word :: "string \<Rightarrow> bool" where
  "is_word w \<longleftrightarrow> w \<noteq> [] \<and> list_all (\<lambda>c. \<not> py_space c) w"

lemma split_ws_aux_word: "list_all (\<lambda>c. \<not> py_space c) w \<Longrightarrow> split_ws_aux acc (w @ s) = split_ws_aux (rev w @ acc) s"
  by (induction w arbitrary: acc) auto

lemma split_ws_join: "list_all is_word ws \<Longrightarrow> split_ws (join_with '' '' ws) = ws"
proof (induction ws)
  case (Cons w ws)
  show ?case
  proof (cases ws)
    case Nil
    then show ?thesis
      using Cons.prems split_ws_aux_word [of w "[]" "[]"] by (auto simp: split_ws_def is_word_def)
  next
    case (Cons v vs)
    then show ?thesis
      using Cons.IH Cons.prems split_ws_aux_word [of w "[]" "'' '' @ join_with '' '' ws"]
      by (simp add: split_ws_def is_word_def) (simp add: py_space_def chr_in_def)
  qed
qed (simp add: split_ws_def)

lemma split_ws_aux_words: "list_all (\<lambda>c. \<not> py_space c) acc \<Longrightarrow> list_all is_word (split_ws_aux acc s)"
  by (induction acc s rule: split_ws_aux.induct) (auto simp: is_word_def)

lemma split_ws_words: "list_all is_word (split_ws s)"
  by (simp add: split_ws_def split_ws_aux_words)

lemma word_strip: "is_word w \<Longrightarrow> py_strip w = w"
proof -
  assume w: "is_word w"
  then have "dropWhile py_space w = w" "dropWhile py_space (rev w) = rev w"
    by (auto simp: is_word_def dropWhile_eq_self_iff list_all_iff hd_rev)
  then show ?thesis by (simp add: py_strip_def strip_chars_def)
qed

lemma normalize_words: "list_all is_word ws \<Longrightarrow> list_all is_word (normalize_scopes ws)"
  by (auto simp: normalize_scopes_def Let_def list_all_iff word_strip) (simp_all add: READ_SCOPE_def WRITE_SCOPE_def is_word_def py_space_def chr_in_def)

lemma normalize_words_idem: "list_all is_word ws \<Longrightarrow> ws \<noteq> [] \<Longrightarrow> normalize_scopes ws = ws"
  by (simp add: normalize_scopes_def Let_def list_all_iff word_strip is_word_def map_idI filter_id_conv)

lemma normalize_nonempty: "normalize_scopes ws \<noteq> []"
  by (simp add: normalize_scopes_def Let_def)

section \<open>Accepting the hub's own tokens\<close>

lemma payload_claims:
  "dget_none (token_payload cfg now w sc j) ''exp'' = PInt (now + cfg_token_ttl cfg)"
  "dget_none (token_payload cfg now w sc j) ''nbf'' = PNone"
  "dget_none (token_payload cfg now w sc j) ''iss'' = PStr (rstrip_slash (cfg_public_base_url cfg))"
  "dget_none (token_payload cfg now w sc j) ''aud'' = PStr (mcp_url cfg)"
  "dget_none (token_payload cfg now w sc j) ''resource'' = PStr (mcp_url cfg)"
  "dget_none (token_payload cfg now w sc j) ''sub'' = PStr w"
  "dget_none (token_payload cfg now w sc j) ''scope'' = PStr (join_with '' '' (if sc = [] then [READ_SCOPE, WRITE_SCOPE] else sc))"
  "dget_none (token_payload cfg now w sc j) ''jti'' = PStr (''tok_'' @ j)"
  by (simp_all add: token_payload_def dget_none_def dget_or_def)

lemma rstrip_slash_nonempty: "rstrip_slash s \<noteq> [] \<Longrightarrow> s \<noteq> []"
  by (auto simp: rstrip_slash_def)

lemma own_resource:
  "rstrip_slash (cfg_public_base_url cfg) \<noteq> [] \<Longrightarrow>
     mcp_url cfg = oauth_resource cfg ''/mcp'' \<longleftrightarrow> rstrip_slash (cfg_resource cfg) = cfg_resource cfg"
  using rstrip_slash_nonempty [of "cfg_public_base_url cfg"]
  by (auto simp: mcp_url_def oauth_resource_def rstrip_slash_def)

lemma own_token_verdict:
  assumes "decode_hs256_jwt we tok (oauth_jwt_secret we cfg) = Inr (Some (token_payload cfg now w sc j))"
    and "rstrip_slash (cfg_public_base_url cfg) \<noteq> []" "py_strip w \<noteq> []"
  shows "validate_oauth_access_token we t cfg tok =
     Inr (if t < now + cfg_token_ttl cfg
          \<and> (cfg_issuer cfg = [] \<or> cfg_issuer cfg = rstrip_slash (cfg_public_base_url cfg))
          \<and> rstrip_slash (cfg_resource cfg) = cfg_resource cfg
        then Some \<lparr>cl_owner = py_strip w, cl_token = Some (''tok_'' @ j),
          cl_scopes = remdups (split_ws (join_with '' '' (if sc = [] then [READ_SCOPE, WRITE_SCOPE] else sc))),
          cl_issuer = Some (rstrip_slash (cfg_public_base_url cfg))\<rparr>
        else None)"
  using assms(1,3) own_resource [OF assms(2)]
  by (auto simp: validate_oauth_access_token_def validate_time_claims_def claim_matches_resource_def
      scopes_from_claims_def str_claim_def payload_claims as_int_def)

section \<open>The row of an issued token\<close>

definition all_enabled :: "auth_db \<Rightarrow> bool" where
  "all_enabled db \<longleftrightarrow> list_all (\<lambda>u. u_disabled_at u = None) (users db)"

lemma ensure_users:
  "ensure_default_project_row env now (Some w) db = Inr (p, db') \<Longrightarrow>
     users db' = tbl_upsert u_id keep_old (new_user now w (Some w)) (users db)"
  by (auto simp: ensure_default_project_row_def Let_def result_simps upsert_project_membership_def
      upsert_default_project_def split: option.splits if_splits)

lemma upsert_enabled:
  assumes "list_all (\<lambda>u. u_disabled_at u = None) rows" "mg \<in> {keep_old, user_merge_name}"
  shows "list_all (\<lambda>u. u_disabled_at u = None) (tbl_upsert u_id mg (new_user now w n) rows)"
  using assms by (induction rows) (auto simp: new_user_def keep_old_def user_merge_name_def)

lemma upsert_ids:
  "mg \<in> {keep_old, user_merge_name} \<Longrightarrow>
     u_id ` set (tbl_upsert u_id mg (new_user now w n) rows) = insert w (u_id ` set rows)"
  using user_name.keys_upsert [of "new_user now w n" rows] user_keep.keys_upsert [of "new_user now w n" rows]
  by (auto simp: new_user_def)

lemma ensure_enabled:
  assumes "ensure_default_project_row env now (Some w) (db\<lparr>users := tbl_upsert u_id mg (new_user now w n) (users db)\<rparr>) = Inr (p, db')"
    and "all_enabled db" "mg \<in> {keep_old, user_merge_name}"
  shows "all_enabled db' \<and> u_id ` set (users db') = insert w (u_id ` set (users db))"
proof -
  have "users db' = tbl_upsert u_id keep_old (new_user now w (Some w)) (tbl_upsert u_id mg (new_user now w n) (users db))"
    using ensure_users [OF assms(1)] by simp
  then show ?thesis
    using assms(2,3) by (simp add: all_enabled_def upsert_enabled upsert_ids)
qed

lemma created_token:
  assumes "create_auth_token env now fresh w tok None tn (Some e) (Some sc) db = Inr (x, db')" "all_enabled db"
  obtains nsc row where "py_strip w \<noteq> []" "normalize_token_scopes (Some sc) = Inr nsc"
    "hash_bearer_token env tok = Inr (t_hash row)" "row \<in> set (auth_tokens db')" "t_owner row = py_strip w"
    "t_scopes row = Some nsc" "t_expires_at row = Some e" "t_revoked_at row = None"
    "oauth_refresh_token_families db' = oauth_refresh_token_families db" "all_enabled db'"
    "py_strip w \<in> u_id ` set (users db')"
proof -
  from assms(1) obtain h nsc p db2 rows row where w: "py_strip w \<noteq> []" and h: "hash_bearer_token env tok = Inr h"
    and nsc: "normalize_token_scopes (Some sc) = Inr nsc"
    and ens: "ensure_default_project_row env now (Some (py_strip w))
        (db\<lparr>users := tbl_upsert u_id user_merge_name (new_user now (py_strip w) None) (users db)\<rparr>) = Inr (p, db2)"
    and rows: "rows = tbl_upsert t_hash token_merge
         \<lparr>t_hash = h, t_id = Some (case token_id_from_bearer_token env tok of None \<Rightarrow> fresh | Some i \<Rightarrow> i),
           t_owner = py_strip w, t_display_name = tn, t_prefix = Some (token_prefix tok), t_scopes = Some nsc,
           t_created_at = now, t_last_used_at = None, t_expires_at = Some e, t_revoked_at = None\<rparr> (auth_tokens db2)"
    and get: "tbl_get t_hash h rows = Some row" and db': "db' = db2\<lparr>auth_tokens := rows\<rparr>"
    by (auto simp: create_auth_token_def Let_def result_simps validate_owner_id_Inr_iff split: if_splits option.splits)
  have mem: "t_hash row = h" "row \<in> set rows" using get by (auto simp: tbl_get_def dest!: find_SomeD)
  have row: "t_owner row = py_strip w" "t_scopes row = Some nsc" "t_expires_at row = Some e" "t_revoked_at row = None"
    using get unfolding rows token_up.get_upsert
    by (cases "tbl_get t_hash h (auth_tokens db2)"; auto simp: token_merge_def)+
  have fam: "oauth_refresh_token_families db2 = oauth_refresh_token_families db"
    using ensure_same(2) [OF ens] .
  have en: "all_enabled db2 \<and> u_id ` set (users db2) = insert (py_strip w) (u_id ` set (users db))"
    by (rule ensure_enabled [OF ens assms(2)]) simp
  show ?thesis
    by (rule that [OF w nsc]) (use h mem row fam en in \<open>simp_all add: db' all_enabled_def\<close>)
qed

lemma created_refresh:
  assumes "create_oauth_refresh_token env now nowi t fam cl w sc r a e db = Inr (x, db')" "all_enabled db"
    and "py_strip fam \<notin> f_id ` set (oauth_refresh_token_families db)"
  shows "auth_tokens db' = auth_tokens db \<and> all_enabled db' \<and> u_id ` set (users db) \<subseteq> u_id ` set (users db')"
proof -
  from assms(1) obtain owner p db2 rows where
    ens: "ensure_default_project_row env now (Some owner)
        (db\<lparr>users := tbl_upsert u_id keep_old (new_user now owner (Some owner)) (users db)\<rparr>) = Inr (p, db2)"
    and db': "db' = db2\<lparr>oauth_refresh_tokens := rows, auth_tokens :=
        (if py_strip fam \<in> set (map f_id (oauth_refresh_token_families db2)) \<and> a \<noteq> None \<and> a \<noteq> Some []
         then tbl_update (\<lambda>t. t_id t = a) (\<lambda>t. t\<lparr>t_revoked_at := Some now\<rparr>) (auth_tokens db2) else auth_tokens db2)\<rparr>"
    by (auto simp: create_oauth_refresh_token_def Let_def result_simps validate_token_lookup_Inr_iff
        split del: if_split split: option.splits)
  have "all_enabled db2 \<and> u_id ` set (users db2) = insert owner (u_id ` set (users db))"
    by (rule ensure_enabled [OF ens assms(2)]) simp
  then show ?thesis
    using assms(3) ensure_same(2,3) [OF ens] by (auto simp: db' all_enabled_def)
qed

text \<open>A bearer token that the store holds, and that nobody has revoked, authenticates its owner.\<close>

lemma stored_context:
  assumes "auth_db_ok db" "row \<in> set (auth_tokens db)" "hash_bearer_token env tok = Inr (t_hash row)"
    and "t_revoked_at row = None" "t_expires_at row = Some e" "after e now" "all_enabled db"
    and "t_owner row \<in> u_id ` set (users db)" "t_scopes row = Some nsc"
  obtains db' where "auth_context_for_token env now tok db = Inr (Some [(''owner_id'', PStr (t_owner row)),
     (''token_id'', of_opt (t_id row)), (''scopes'', PList (map PStr nsc))], db')"
proof -
  have live: "token_live now db row"
    using assms(4-8) by (auto simp: token_live_def list_ex_iff all_enabled_def list_all_iff)
  have "find (\<lambda>t. t_hash t = t_hash row \<and> token_live now db t) (auth_tokens db) = Some row"
    using distinct_find_key [OF auth_db_okD(2) [OF assms(1)] assms(2)] live by blast
  moreover have "parse_token_scopes (t_scopes row) = Inr nsc"
    using auth_db_okD(4) [OF assms(1)] assms(2,9) by (auto simp: list_all_iff scopes_ok_def parse_token_scopes_def)
  ultimately show ?thesis using assms(3) that by (simp add: auth_context_for_token_def)
qed

section \<open>An issued token opens the gate\<close>

definition undisturbed :: "oauth_call \<Rightarrow> bool" where
  "undisturbed c \<longleftrightarrow> (\<forall>n. ca_others c n = [])"

lemma audit_db: "audit_call oe c n ev w r m s = (x, s') \<Longrightarrow> os_db s' = os_db s"
  by (auto simp: audit_call_def split: prod.splits sum.splits)

lemma create_token_run:
  assumes "create_token_service oe c n w tok nm e sc s = (Inr d, s')" "undisturbed c"
  shows "create_auth_token (we_store oe) (ca_sql c n) (ca_secret c n) w tok None (Some nm) (Some e) (Some sc) (os_db s)
    = Inr (d, os_db s')"
  using assms by (auto simp: create_token_service_def act_simps db_call_Inr undisturbed_def dest!: audit_db)

lemma issued_access_token:
  assumes "issue_tokens oe cfg c cl w res sc None s = (Inr rep, s')" "undisturbed c" "all_enabled (os_db s)"
    and "py_strip (''amh_family_'' @ ca_secret c 2) \<notin> f_id ` set (oauth_refresh_token_families (os_db s))"
  obtains d tok nsc row where "rep = Json 200 d" "dget d ''access_token'' = Some (PStr tok)"
    "dget d ''scope'' = Some (PStr (join_with '' '' (normalize_scopes sc)))"
    "issue_hub_token oe cfg (ca_time c) w (normalize_scopes sc) (ca_secret c 0) = Inr tok"
    "normalize_token_scopes (Some (normalize_scopes sc)) = Inr nsc" "py_strip w \<noteq> []"
    "hash_bearer_token (we_store oe) tok = Inr (t_hash row)" "row \<in> set (auth_tokens (os_db s'))"
    "t_owner row = py_strip w" "t_scopes row = Some nsc" "t_expires_at row = Some (ca_after c (cfg_token_ttl cfg))"
    "t_revoked_at row = None" "all_enabled (os_db s')" "py_strip w \<in> u_id ` set (users (os_db s'))"
proof -
  let ?ns = "normalize_scopes sc"
  let ?fam = "''amh_family_'' @ ca_secret c 2"
  from assms(1) obtain tok s1 d0 now nowi rtok a e x d where
    issue: "issue_hub_token oe cfg (ca_time c) w ?ns (ca_secret c 0) = Inr tok"
    and tokd: "create_token_service oe c 10 w tok ''MCP OAuth client'' (ca_after c (cfg_token_ttl cfg)) ?ns s = (Inr d0, s1)"
    and refr: "db_call oe c 11 (create_oauth_refresh_token (we_store oe) now nowi rtok ?fam cl w (Some ?ns) res a e) s1 = (Inr x, s')"
    and rep: "rep = Json 200 d" "dget d ''access_token'' = Some (PStr tok)"
      "dget d ''scope'' = Some (PStr (join_with '' '' ?ns))"
    by (auto simp: issue_tokens_def Let_def act_simps dget_def)
  obtain nsc row where row: "py_strip w \<noteq> []" "normalize_token_scopes (Some ?ns) = Inr nsc"
    "hash_bearer_token (we_store oe) tok = Inr (t_hash row)" "row \<in> set (auth_tokens (os_db s1))" "t_owner row = py_strip w"
    "t_scopes row = Some nsc" "t_expires_at row = Some (ca_after c (cfg_token_ttl cfg))" "t_revoked_at row = None"
    and fam: "oauth_refresh_token_families (os_db s1) = oauth_refresh_token_families (os_db s)" and en: "all_enabled (os_db s1)"
    and user: "py_strip w \<in> u_id ` set (users (os_db s1))"
    by (rule created_token [OF create_token_run [OF tokd assms(2)] assms(3)])
  from refr assms(2) have "create_oauth_refresh_token (we_store oe) now nowi rtok ?fam cl w (Some ?ns) res a e (os_db s1) =
      Inr (x, os_db s')" by (auto simp: db_call_Inr undisturbed_def)
  from created_refresh [OF this en] assms(4) fam
  have after: "auth_tokens (os_db s') = auth_tokens (os_db s1)" "all_enabled (os_db s')"
    "u_id ` set (users (os_db s1)) \<subseteq> u_id ` set (users (os_db s'))" by auto
  show ?thesis
    by (rule that [OF rep issue row(2,1,3)]) (use row after user in auto)
qed

text \<open>What authentication makes of a token of the hub whose row is live.\<close>

lemma own_token_passes:
  assumes "cfg_auth cfg = ''oauth_resource_server''" "validate_oauth_access_token we (in_time t) cfg tok = Inr (Some cl)"
    and "is_hub_issued_claim cfg cl"
    and "auth_context_for_token (we_store we) (in_sql t) tok (gs_db g) = Inr (Some [(''owner_id'', PStr (cl_owner cl)),
       (''token_id'', i), (''scopes'', PList (map PStr nsc))], db')"
    and "extract_bearer_token rq = Some tok" "\<not> is_public_path (rq_path rq)" "\<not> has_query_access_token rq"
    and "\<forall>q \<in> set (required_scopes (rq_path rq)). q \<in> set nsc \<and> q \<in> set (cl_scopes cl) \<and> is_word q"
  shows "\<exists>a. fst (handle_request we cfg t rq g) = Inr (Passed a) \<and> ax_owner a = Some (cl_owner cl)"
proof -
  let ?d = "[(''owner_id'', PStr (cl_owner cl)), (''token_id'', i), (''scopes'', PList (map PStr nsc))]"
  have ctx: "bearer_context we t tok g = (Inr (Some ?d), g\<lparr>gs_db := db'\<rparr>)"
    using assms(4) by (simp add: bearer_context_def act_bind_def gate_db_def act_ret_def)
  obtain a where a: "hub_token_auth cl (Some ?d) = Some a" "ax_owner a = Some (cl_owner cl)"
    "ax_scopes a = filter (\<lambda>s. s \<in> set (cl_scopes cl)) (context_scopes ?d)"
    by (auto simp: hub_token_auth_def dget_none_def dget_or_def)
  have "has_required_scopes (ax_scopes a) (required_scopes (rq_path rq))"
    using assms(8) word_strip
    by (auto simp: has_required_scopes_def list_all_iff a(3) context_scopes_def dget_or_def is_word_def)
  then show ?thesis
    using assms(1,2,3,5,6,7) ctx a
    by (simp add: handle_request_def gate_dispatch_def authenticate_def act_bind_def act_of_def act_ret_def Let_def)
qed

lemma code_exchange:
  assumes "oauth_token oe cfg c form s = (Inr rep, s')" "gives_token (Inr rep)" "code_grant form code" "undisturbed c"
  obtains k db1 where "k \<in> set (oauth_authorization_codes (os_db s))" "hash_bearer_token (we_store oe) code = Inr (k_hash k)"
    "users db1 = users (os_db s)" "oauth_refresh_token_families db1 = oauth_refresh_token_families (os_db s)"
    "issue_tokens oe cfg c (k_client_id k) (k_owner_id k) (k_resource k) (normalize_scopes (split_ws (k_scope k))) None
       (s\<lparr>os_db := db1\<rparr>) = (Inr rep, s')"
proof -
  have run: "code_token_response oe cfg c form s = (Inr rep, s')"
    using on_http_error_gives [of "code_token_response oe cfg c form" s] assms(1,2)
    by (simp add: token_endpoint(1) [OF assms(3)])
  from run assms(3,4) obtain d db1 where run: "consume_oauth_authorization_code (we_store oe) (ca_sql c 0)
         code (form_str form ''client_id'' []) (form_str form ''redirect_uri'' [])
         (oe_s256 oe (form_str form ''code_verifier'' [])) (os_db s) = Inr (Some d, db1)"
    and rest: "issue_tokens oe cfg c (py_str (dget_none d ''client_id'')) (py_str (dget_none d ''owner_id''))
         (py_str (dget_none d ''resource'')) (normalize_scopes (split_ws (form_str d ''scope'' []))) None
         (s\<lparr>os_db := db1\<rparr>) = (Inr rep, s')"
    by (auto simp: code_token_response_def Let_def act_simps db_call_Inr undisturbed_def code_grant_def
        split: if_splits option.splits)
  then obtain k where k: "k \<in> set (oauth_authorization_codes (os_db s))" "d = code_returning k"
      "hash_bearer_token (we_store oe) code = Inr (k_hash k)" "users db1 = users (os_db s)"
      "oauth_refresh_token_families db1 = oauth_refresh_token_families (os_db s)"
    by (auto simp: consume_oauth_authorization_code_def Let_def result_simps code_matches_def dest!: find_SomeD)
  have "form_str d ''scope'' [] = k_scope k" "py_str (dget_none d ''owner_id'') = k_owner_id k"
    "py_str (dget_none d ''client_id'') = k_client_id k" "py_str (dget_none d ''resource'') = k_resource k"
    by (auto simp: k(2) code_returning_def form_str_def dget_none_def dget_or_def)
  then show ?thesis using rest k that by simp
qed

definition signs_readably :: "oauth_env \<Rightarrow> hub_config \<Rightarrow> string \<Rightarrow> bool" where
  "signs_readably oe cfg tok \<longleftrightarrow>
     (\<forall>p. oe_sign oe (oauth_jwt_secret (web_env.truncate oe) cfg) p = Inr tok \<longrightarrow>
        decode_hs256_jwt (web_env.truncate oe) tok (oauth_jwt_secret (web_env.truncate oe) cfg) = Inr (Some p))"

definition consistent_urls :: "hub_config \<Rightarrow> bool" where
  "consistent_urls cfg \<longleftrightarrow> rstrip_slash (cfg_public_base_url cfg) \<noteq> []
     \<and> (cfg_issuer cfg = [] \<or> cfg_issuer cfg = rstrip_slash (cfg_public_base_url cfg))
     \<and> rstrip_slash (cfg_resource cfg) = cfg_resource cfg"

section \<open>Properties\<close>

text \<open>
  C11. The hub accepts a token it signed exactly while the token has not expired, provided the configuration
  agrees with itself: no issuer is configured or it is the public base URL, and the configured resource does
  not end in a slash. With such a resource every token the hub issues is rejected by the hub.
\<close>

theorem own_token_accepted_iff:
  assumes "decode_hs256_jwt we tok (oauth_jwt_secret we cfg) = Inr (Some (token_payload cfg now w sc j))"
    and "rstrip_slash (cfg_public_base_url cfg) \<noteq> []" "py_strip w \<noteq> []"
  shows "validate_oauth_access_token we t cfg tok =
     Inr (if t < now + cfg_token_ttl cfg
          \<and> (cfg_issuer cfg = [] \<or> cfg_issuer cfg = rstrip_slash (cfg_public_base_url cfg))
          \<and> rstrip_slash (cfg_resource cfg) = cfg_resource cfg
        then Some \<lparr>cl_owner = py_strip w, cl_token = Some (''tok_'' @ j),
          cl_scopes = remdups (split_ws (join_with '' '' (if sc = [] then [READ_SCOPE, WRITE_SCOPE] else sc))),
          cl_issuer = Some (rstrip_slash (cfg_public_base_url cfg))\<rparr>
        else None)"
  by (rule own_token_verdict [OF assms])

text \<open>
  C6. What the token endpoint gives works, right after it was given. The exchange is undisturbed (no other
  request writes between its transactions), no account is disabled, the new family id is fresh, the hub is a
  resource server whose configured URLs agree, and the token decodes to the payload that was signed (the law of
  the JWT library). Then a request that carries the access token, against the store as the exchange left it and
  before the token expires by both of its clocks, passes the gate for every protected path whose scopes the
  reply granted, as the account that approved the code. What happens after a revocation or with other URLs is
  the matter of other theorems.
\<close>

theorem issued_token_opens_gate:
  assumes "auth_db_ok (os_db s)" "all_enabled (os_db s)" "undisturbed c"
    and "py_strip (''amh_family_'' @ ca_secret c 2) \<notin> f_id ` set (oauth_refresh_token_families (os_db s))"
    and "oauth_token oe cfg c form s = (Inr (Json 200 d), s')" "code_grant form code"
    and "dget d ''access_token'' = Some (PStr tok)" "dget d ''scope'' = Some (PStr sc)"
    and "signs_readably oe cfg tok" "consistent_urls cfg" "cfg_auth cfg = ''oauth_resource_server''"
    and "in_time t < ca_time c + cfg_token_ttl cfg" "after (ca_after c (cfg_token_ttl cfg)) (in_sql t)"
    and "extract_bearer_token rq = Some tok" "\<not> is_public_path (rq_path rq)" "\<not> has_query_access_token rq"
    and "set (required_scopes (rq_path rq)) \<subseteq> set (split_ws sc)"
  shows "\<exists>a k. fst (handle_request (web_env.truncate oe) cfg t rq \<lparr>gs_db = os_db s', gs_profiles = ps\<rparr>) = Inr (Passed a)
     \<and> k \<in> set (oauth_authorization_codes (os_db s)) \<and> hash_bearer_token (we_store oe) code = Inr (k_hash k)
     \<and> ax_owner a = Some (py_strip (k_owner_id k))"
proof -
  let ?we = "web_env.truncate oe"
  have env: "we_store ?we = we_store oe" by (simp add: web_env.truncate_def)
  have "gives_token (Inr (Json 200 d))" using assms(7) by (simp add: gives_token_def)
  from code_exchange [OF assms(5) this assms(6,3)] obtain k db1 where
    k: "k \<in> set (oauth_authorization_codes (os_db s))" "hash_bearer_token (we_store oe) code = Inr (k_hash k)"
    and same: "users db1 = users (os_db s)" "oauth_refresh_token_families db1 = oauth_refresh_token_families (os_db s)"
    and issue: "issue_tokens oe cfg c (k_client_id k) (k_owner_id k) (k_resource k) (normalize_scopes (split_ws (k_scope k)))
       None (s\<lparr>os_db := db1\<rparr>) = (Inr (Json 200 d), s')" .
  let ?ns = "normalize_scopes (split_ws (k_scope k))"
  have words: "list_all is_word ?ns" "normalize_scopes ?ns = ?ns"
    using normalize_words [OF split_ws_words] normalize_words_idem normalize_nonempty by blast+
  have en: "all_enabled (os_db (s\<lparr>os_db := db1\<rparr>))" using assms(2) same by (simp add: all_enabled_def)
  have fresh: "py_strip (''amh_family_'' @ ca_secret c 2) \<notin> f_id ` set (oauth_refresh_token_families (os_db (s\<lparr>os_db := db1\<rparr>)))"
    using assms(4) same by simp
  obtain d' tok' nsc row where d': "Json 200 d = Json 200 d'" "dget d' ''access_token'' = Some (PStr tok')"
      "dget d' ''scope'' = Some (PStr (join_with '' '' (normalize_scopes ?ns)))"
    and signed': "issue_hub_token oe cfg (ca_time c) (k_owner_id k) (normalize_scopes ?ns) (ca_secret c 0) = Inr tok'"
    and nsc': "normalize_token_scopes (Some (normalize_scopes ?ns)) = Inr nsc" and w: "py_strip (k_owner_id k) \<noteq> []"
    and row': "hash_bearer_token (we_store oe) tok' = Inr (t_hash row)"
    and row: "row \<in> set (auth_tokens (os_db s'))" "t_owner row = py_strip (k_owner_id k)" "t_scopes row = Some nsc"
      "t_expires_at row = Some (ca_after c (cfg_token_ttl cfg))" "t_revoked_at row = None"
    and after: "all_enabled (os_db s')" "py_strip (k_owner_id k) \<in> u_id ` set (users (os_db s'))"
    by (rule issued_access_token [OF issue assms(3) en fresh])
  have tok: "tok' = tok" and sc: "sc = join_with '' '' ?ns" using d' assms(7,8) words(2) by auto
  note signed = signed' [unfolded tok words(2)] and nsc = nsc' [unfolded words(2)] and hash = row' [unfolded tok]
  have ok: "auth_db_ok (os_db s')" using act_invD [OF ok_frame.token_answered assms(1,5)] .
  obtain db' where ctx: "auth_context_for_token (we_store oe) (in_sql t) tok (os_db s') = Inr (Some
      [(''owner_id'', PStr (t_owner row)), (''token_id'', of_opt (t_id row)), (''scopes'', PList (map PStr nsc))], db')"
    by (rule stored_context [OF ok row(1) hash row(5,4) assms(13) after(1) _ row(3)]) (use row(2) after(2) in simp_all)
  have decode: "decode_hs256_jwt ?we tok (oauth_jwt_secret ?we cfg) =
      Inr (Some (token_payload cfg (ca_time c) (k_owner_id k) ?ns (ca_secret c 0)))"
    using signed assms(9) by (simp add: issue_hub_token_def signs_readably_def)
  let ?cl = "\<lparr>cl_owner = py_strip (k_owner_id k), cl_token = Some (''tok_'' @ ca_secret c 0), cl_scopes = remdups ?ns,
      cl_issuer = Some (rstrip_slash (cfg_public_base_url cfg))\<rparr>"
  have cl: "validate_oauth_access_token ?we (in_time t) cfg tok = Inr (Some ?cl)"
    using own_token_verdict [OF decode _ w] assms(10,12) words normalize_nonempty
    by (simp add: consistent_urls_def split_ws_join)
  have "is_hub_issued_claim cfg ?cl" using assms(10) by (simp add: is_hub_issued_claim_def consistent_urls_def)
  moreover have "\<forall>q \<in> set (required_scopes (rq_path rq)). q \<in> set nsc \<and> q \<in> set (cl_scopes ?cl) \<and> is_word q"
    using assms(17) words(1) nsc unfolding sc split_ws_join [OF words(1)]
    by (force simp: normalize_token_scopes_def Let_def list_all_iff word_strip is_word_def split: if_splits)
  ultimately show ?thesis
    using own_token_passes [OF assms(11) cl _ _ assms(14-16), where g = "\<lparr>gs_db = os_db s', gs_profiles = ps\<rparr>"] ctx row(2) k
    by (fastforce simp: env)
qed

section \<open>Witnesses\<close>

definition demo_hub :: hub_config where
  "demo_hub = demo_config\<lparr>cfg_auth := ''oauth_resource_server''\<rparr>"

definition demo_payload :: pydict where
  "demo_payload = token_payload demo_hub 1 ''alice'' [READ_SCOPE] ''a0''"

text \<open>A signer for this one payload: the three segments are one letter each.\<close>

definition demo_signer :: oauth_env where
  "demo_signer = demo_oauth_env\<lparr>we_hmac := (\<lambda>k m. ''s===''),
     we_json := (\<lambda>x. Inr (Some (PDict (if x = ''h==='' then [(''alg'', PStr ''HS256'')] else demo_payload)))),
     oe_sign := (\<lambda>k p. if p = demo_payload then Inr ''h.p.s'' else Inl (RuntimeError ''not signed''))\<rparr>"

lemma demo_decode:
  "decode_hs256_jwt (web_env.truncate demo_signer) ''h.p.s'' (oauth_jwt_secret (web_env.truncate demo_signer) demo_hub)
     = Inr (Some demo_payload)"
  by code_simp

theorem own_token_accepted_iff_witness:
  "map (\<lambda>(t, cfg). case validate_oauth_access_token (web_env.truncate demo_signer) t cfg ''h.p.s'' of
       Inr v \<Rightarrow> v \<noteq> None | Inl e \<Rightarrow> False)
     [(5, demo_hub), (9999, demo_hub)] = [True, False]"
proof -
  have d: "decode_hs256_jwt (web_env.truncate demo_signer) ''h.p.s'' (oauth_jwt_secret (web_env.truncate demo_signer) demo_hub)
     = Inr (Some (token_payload demo_hub 1 ''alice'' [READ_SCOPE] ''a0''))"
    using demo_decode by (simp add: demo_payload_def)
  have u: "rstrip_slash (cfg_public_base_url demo_hub) \<noteq> []" and w: "py_strip ''alice'' \<noteq> []" by code_simp+
  have f: "cfg_token_ttl demo_hub = 3600" "cfg_issuer demo_hub = []" "rstrip_slash (cfg_resource demo_hub) = cfg_resource demo_hub"
    by code_simp+
  show ?thesis by (simp add: own_token_accepted_iff [OF d u w] f)
qed

definition demo_asked :: oauth_state where
  "demo_asked =
     \<lparr>os_db = commit demo_db (create_oauth_authorization_code demo_env ''2026-01-01 00:00:30'' ''code2'' ''client'' ''alice''
        ''uri'' ''chal'' ''res'' ''memory:read'' ''2026-01-02 00:00:00'' demo_db), os_audit = [], os_session = None\<rparr>"

definition demo_asking :: pydict where
  "demo_asking =
     [(''grant_type'', PStr ''authorization_code''), (''code'', PStr ''code2''), (''client_id'', PStr ''client''),
      (''redirect_uri'', PStr ''uri''), (''code_verifier'', PStr (replicate 43 (CHR ''v'')))]"

abbreviation demo_issue :: "reply result \<times> oauth_state" where
  "demo_issue \<equiv> oauth_token demo_signer demo_hub (demo_call ''a'' ''2026-01-01 00:01:00'') demo_asking demo_asked"

definition demo_read :: request where
  "demo_read =
     \<lparr>rq_method = ''GET'', rq_path = ''/memory/search'', rq_authorization = Some ''Bearer h.p.s'', rq_csrf = None,
      rq_cookies = [], rq_query = []\<rparr>"

theorem issued_token_opens_gate_witness:
  "\<exists>a. fst (handle_request (web_env.truncate demo_signer) demo_hub (demo_instant\<lparr>in_time := 900\<rparr>) demo_read
       \<lparr>gs_db = os_db (snd demo_issue), gs_profiles = []\<rparr>) = Inr (Passed a)"
proof -
  have ok: "auth_db_ok (os_db demo_asked)"
    unfolding demo_asked_def oauth_state.simps
    by (rule commit_invariant) (rule demo_db_ok, erule ok_create_oauth_authorization_code [OF demo_db_ok])
  have en: "all_enabled (os_db demo_asked)" by code_simp
  have calm: "undisturbed (demo_call ''a'' ''2026-01-01 00:01:00'')" by (simp add: undisturbed_def demo_call_def)
  have fresh: "py_strip (''amh_family_'' @ ca_secret (demo_call ''a'' ''2026-01-01 00:01:00'') 2)
      \<notin> f_id ` set (oauth_refresh_token_families (os_db demo_asked))" by code_simp
  have "(case fst demo_issue of Inr (Json n d) \<Rightarrow> n = 200 \<and> dget d ''access_token'' = Some (PStr ''h.p.s'')
      \<and> dget d ''scope'' = Some (PStr ''memory:read'') | _ \<Rightarrow> False)" by code_simp
  then obtain d s' where run: "demo_issue = (Inr (Json 200 d), s')"
    and d: "dget d ''access_token'' = Some (PStr ''h.p.s'')" "dget d ''scope'' = Some (PStr ''memory:read'')"
    by (cases demo_issue) (auto split: sum.splits reply.splits)
  have form: "code_grant demo_asking ''code2''" by code_simp
  have sign: "signs_readably demo_signer demo_hub ''h.p.s''"
    using demo_decode by (auto simp: signs_readably_def demo_signer_def split: if_splits)
  have urls: "consistent_urls demo_hub" by code_simp
  have mode: "cfg_auth demo_hub = ''oauth_resource_server''" by (simp add: demo_hub_def)
  let ?t = "demo_instant\<lparr>in_time := 900\<rparr>"
  have t: "in_time ?t < ca_time (demo_call ''a'' ''2026-01-01 00:01:00'') + cfg_token_ttl demo_hub"
    "after (ca_after (demo_call ''a'' ''2026-01-01 00:01:00'') (cfg_token_ttl demo_hub)) (in_sql ?t)" by code_simp+
  have rq: "extract_bearer_token demo_read = Some ''h.p.s''" "\<not> is_public_path (rq_path demo_read)"
    "\<not> has_query_access_token demo_read" "set (required_scopes (rq_path demo_read)) \<subseteq> set (split_ws ''memory:read'')"
    by code_simp+
  show ?thesis
    using issued_token_opens_gate [OF ok en calm fresh run form d sign urls mode t rq, of "[]"] run by auto
qed

end
