(* ===== verification/ConnectProperties.thy ===== *)
theory ConnectProperties
  imports ConnectLogin OAuthRedirects TokenAcceptance
begin

text \<open>
  What signing in and signing out guarantee: a login completes only for the browser that started it and at
  most once per state, and after a logout the session is gone.
\<close>


section \<open>What handlers keep while others keep away from one secret\<close>

definition quiet :: "(auth_op \<Rightarrow> bool) \<Rightarrow> oauth_call \<Rightarrow> bool" where
  "quiet Q c \<longleftrightarrow> (\<forall>n. list_all Q (ca_others c n))"

locale quiet_frame =
  fixes oe :: oauth_env and P :: "auth_db \<Rightarrow> bool" and Q :: "auth_op \<Rightarrow> bool"
  assumes step: "Q x \<Longrightarrow> P db \<Longrightarrow> P (auth_step (we_store oe) x db)"
begin

abbreviation kept :: "'a handler \<Rightarrow> bool" where
  "kept m \<equiv> act_inv (\<lambda>s. P (os_db s)) m"

lemma run: "list_all Q xs \<Longrightarrow> P db \<Longrightarrow> P (auth_run (we_store oe) xs db)"
  by (rule auth_run_invariant [where P = P], assumption, rule step) (auto simp: list_all_iff)

lemma others: "quiet Q c \<Longrightarrow> P db \<Longrightarrow> P (auth_run (we_store oe) (ca_others c n) db)"
  by (rule run) (auto simp: quiet_def)

lemma transaction: "quiet Q c \<Longrightarrow> (\<And>db. P db \<Longrightarrow> P (commit db (f db))) \<Longrightarrow> kept (db_call oe c n f)"
  by (simp add: act_inv_def db_call_def Let_def others)

lemma operation:
  "quiet Q c \<Longrightarrow> (\<And>db. commit db (f db) = auth_step (we_store oe) x db) \<Longrightarrow> Q x \<Longrightarrow> kept (db_call oe c n f)"
  by (rule transaction) (simp_all add: step)

lemma audited: "kept (audit_call oe c n ev w o_r m)"
  by (auto simp: act_inv_def audit_call_def split: prod.splits sum.splits)

lemma token_revoked: "quiet Q c \<Longrightarrow> (\<And>now h. Q (RevokeAuthToken now h)) \<Longrightarrow> kept (revoke_token_service oe c n i)"
  unfolding revoke_token_service_def
  by (intro act_rules audited) (rule operation [where x = "RevokeAuthToken (ca_sql c n) i"], simp_all)

lemma token_created:
  "quiet Q c \<Longrightarrow> (\<And>now n w t d e x y. Q (CreateAuthToken now n w t d e x y)) \<Longrightarrow>
     kept (create_token_service oe c n w tok nm e sc)"
  unfolding create_token_service_def
  by (intro act_rules audited)
    (rule operation [where x = "CreateAuthToken (ca_sql c n) (ca_secret c n) w tok None (Some nm) (Some e) (Some sc)"], simp_all)

lemma identity_found:
  "quiet Q c \<Longrightarrow> (\<And>now p s u m e d. Q (OAuthIdentity now p s u m e d)) \<Longrightarrow>
     kept (db_call oe c n (find_or_create_oauth_identity (we_store oe) now p s u m e d))"
  by (rule operation [where x = "OAuthIdentity now p s u m e d"]) simp_all

lemma session_created:
  "quiet Q c \<Longrightarrow> (\<And>now h u k e. Q (CreateWebSession now h u k e)) \<Longrightarrow>
     kept (db_call oe c n (create_web_session now h u k e))"
  by (rule operation [where x = "CreateWebSession now h u k e"]) simp_all

lemma login_completed:
  assumes "quiet Q (lr_call lr)" "le_oauth le = oe"
    and "\<And>now n w t d e x y. Q (CreateAuthToken now n w t d e x y)" "\<And>now p s u m e d. Q (OAuthIdentity now p s u m e d)"
    and "\<And>now h u k e. Q (CreateWebSession now h u k e)"
  shows "kept (complete_login le cc lr p claims flag)"
  unfolding complete_login_def Let_def assms(2)
  by (intro act_rules token_created identity_found session_created assms)

end

lemma quiet_mono: "quiet Q c \<Longrightarrow> (\<And>x. Q x \<Longrightarrow> R x) \<Longrightarrow> quiet R c"
  by (auto simp: quiet_def list_all_iff)

section \<open>Logins\<close>

lemma inv_on_hub: "act_inv P m \<Longrightarrow> act_inv (\<lambda>s. P (fst s)) (on_hub m)"
  by (auto simp: act_inv_def on_hub_def split: prod.splits)

text \<open>Talking to the provider changes only the caches.\<close>

definition same_hub :: "'a login \<Rightarrow> bool" where
  "same_hub m \<longleftrightarrow> (\<forall>s. fst (snd (m s)) = fst s)"

named_theorems hub_rules \<open>logins that change only the caches\<close>

lemma same_bind [hub_rules]: "same_hub m \<Longrightarrow> (\<And>x. same_hub (f x)) \<Longrightarrow> same_hub (act_bind m f)"
  by (auto simp: same_hub_def act_bind_def split: prod.splits sum.splits) (metis fst_conv snd_conv)+

lemma same_ret [hub_rules]: "same_hub (act_ret x)" by (simp add: same_hub_def act_ret_def)
lemma same_of [hub_rules]: "same_hub (act_of r)" by (simp add: same_hub_def act_of_def)
lemma same_read [hub_rules]: "same_hub (act_read f)" by (simp add: same_hub_def act_read_def)
lemma same_raise [hub_rules]: "same_hub (raise_http n m)" by (simp add: raise_http_def same_of)

lemma same_if [hub_rules]: "same_hub m \<Longrightarrow> same_hub k \<Longrightarrow> same_hub (if b then m else k)" by simp

lemma same_option [hub_rules]: "same_hub m \<Longrightarrow> (\<And>x. same_hub (f x)) \<Longrightarrow> same_hub (case y of None \<Rightarrow> m | Some x \<Rightarrow> f x)"
  by (cases y) auto

lemma same_list [hub_rules]:
  "same_hub m \<Longrightarrow> (\<And>a b. same_hub (f a b)) \<Longrightarrow> same_hub (case y of [] \<Rightarrow> m | a # b \<Rightarrow> f a b)"
  by (cases y) auto

lemma same_pyval [hub_rules]:
  "\<lbrakk>same_hub m; \<And>x. same_hub (a x); \<And>x. same_hub (b x); \<And>x. same_hub (p x); \<And>x. same_hub (d x);
    \<And>x. same_hub (e x); \<And>x. same_hub (f x)\<rbrakk> \<Longrightarrow>
   same_hub (case v of PNone \<Rightarrow> m | PBool x \<Rightarrow> a x | PInt x \<Rightarrow> b x | PFloat x \<Rightarrow> p x | PStr x \<Rightarrow> d x
     | PList x \<Rightarrow> e x | PDict x \<Rightarrow> f x)"
  by (cases v) auto

lemma same_cache [hub_rules]:
  "same_hub (\<lambda>(s, k). (r, (s, g k)))"
  by (auto simp: same_hub_def)

lemma metadata_same [hub_rules]: "same_hub (metadata_for_provider le now p pc)"
  unfolding metadata_for_provider_def by (intro hub_rules)

lemma jwks_url_same [hub_rules]: "same_hub (jwks_url_for le now p pc)"
  unfolding jwks_url_for_def by (intro hub_rules)

lemma jwks_same [hub_rules]: "same_hub (jwks_for_provider le now p pc)"
  unfolding jwks_for_provider_def by (intro hub_rules)

lemma verified_same [hub_rules]: "same_hub (verified_id_token_claims le now p config t)"
  unfolding verified_id_token_claims_def by (intro hub_rules)

lemma claims_same [hub_rules]: "same_hub (claims_from_token le cc now p t nonce)"
  unfolding claims_from_token_def Let_def by (intro hub_rules)

lemma exchanged_same: "same_hub (exchanged_claims le cc lr p d)"
  unfolding exchanged_claims_def Let_def by (intro hub_rules)

lemma same_hubD: "same_hub m \<Longrightarrow> m s = (r, s') \<Longrightarrow> fst s' = fst s"
  unfolding same_hub_def by (metis snd_conv)

lemma on_hub_Inr: "on_hub m s = (Inr x, s') \<longleftrightarrow> (\<exists>s1. m (fst s) = (Inr x, s1) \<and> s' = (s1, snd s))"
  by (auto simp: on_hub_def split: prod.splits)

text \<open>Coming back with a state: the row that was waiting for it.\<close>

definition awaited :: "login_env \<Rightarrow> login_request \<Rightarrow> string \<Rightarrow> oauth_state \<Rightarrow> pstate_row \<Rightarrow> bool" where
  "awaited le lr provider s row \<longleftrightarrow>
     (\<exists>st d b h bh. lr_state lr = Some st \<and> os_session s = Some d
        \<and> dget_none d ''oauth_browser_session_id'' = PStr b
        \<and> hash_oauth_ephemeral_secret (we_store (le_oauth le)) ''state'' st = Inr h
        \<and> hash_oauth_ephemeral_secret (we_store (le_oauth le)) ''browser-session'' b = Inr bh
        \<and> normalize_passport_provider provider = Inr (p_provider row)
        \<and> pstate_matches (ca_sql (lr_call lr) 21) h (p_provider row) bh row)"

lemma browser_session_Inr:
  "browser_session_id c False s = (Inr b, s') \<Longrightarrow> b \<noteq> [] \<Longrightarrow>
     s' = s \<and> (\<exists>d. os_session s = Some d \<and> dget_none d ''oauth_browser_session_id'' = PStr b)"
  by (auto simp: browser_session_id_def act_simps web_session_def split: option.splits pyval.splits list.splits)

lemma case_list_Inr:
  "(case y of [] \<Rightarrow> m | a # b \<Rightarrow> f a b) s = (Inr z, s') \<longleftrightarrow>
     (y = [] \<and> m s = (Inr z, s')) \<or> (\<exists>a b. y = a # b \<and> f a b s = (Inr z, s'))"
  by (cases y) auto

lemma login_state_Inr:
  assumes "login_state_data le lr name s = (Inr data, s')"
  obtains st b row where "lr_state lr = Some st"
    "consume_oauth_provider_state (we_store (le_oauth le)) (ca_sql (lr_call lr) 21) st name b
       (auth_run (we_store (le_oauth le)) (ca_others (lr_call lr) 21) (os_db s)) = Inr (Some data, os_db s')"
    "\<exists>d. os_session s = Some d \<and> dget_none d ''oauth_browser_session_id'' = PStr b"
proof -
  from assms obtain x xs b s1 where st: "lr_state lr = Some (x # xs)"
    and b: "browser_session_id (lr_call lr) False s = (Inr b, s1)" "b \<noteq> []"
    and run: "db_call (le_oauth le) (lr_call lr) 21 (consume_oauth_provider_state (we_store (le_oauth le))
         (ca_sql (lr_call lr) 21) (x # xs) name b) s1 = (Inr (Some data), s')"
    by (auto simp: login_state_data_def Let_def act_simps case_option_Inr case_list_Inr raise_http_def http_error_def
        split: if_splits)
  show ?thesis
    by (rule that [OF st]) (use run browser_session_Inr [OF b] in \<open>auto simp: db_call_Inr\<close>)
qed

lemma callback_claims_Inr:
  assumes "callback_claims le cc lr provider s = (Inr (data, claims), s')"
  obtains name s1 where "normalize_passport_provider provider = Inr name"
    "login_state_data le lr name (fst s) = (Inr data, s1)" "fst s' = s1"
proof -
  from assms obtain name s1 where name: "normalize_passport_provider provider = Inr name"
    and state: "login_state_data le lr name (fst s) = (Inr data, s1)"
    and rest: "exchanged_claims le cc lr name data (s1, snd s) = (Inr claims, s')"
    by (auto simp: callback_claims_def act_simps on_hub_Inr)
  show ?thesis by (rule that [OF name state]) (use same_hubD [OF exchanged_same rest] in simp)
qed

lemma callback_Inr:
  assumes "auth_provider_callback le cc lr provider s = (Inr rep, s')"
  obtains name data s1 claims flag login s2 where "normalize_passport_provider provider = Inr name"
    "login_state_data le lr name (fst s) = (Inr data, s1)"
    "complete_login le cc lr provider claims flag s1 = (Inr login, s2)" "os_db (fst s') = os_db s2"
proof -
  from assms obtain data claims sa flag sb login sc redirect where
    cb: "callback_claims le cc lr provider s = (Inr (data, claims), sa)"
    and pend: "has_pending_mcp_authorization data (fst sa) = (Inr flag, sb)"
    and login: "complete_login le cc lr provider claims (\<not> flag) sb = (Inr login, sc)"
    and redirect: "pending_authorization_redirect data sc = (Inr redirect, fst s')"
    by (auto simp: auth_provider_callback_def act_simps on_hub_Inr raise_http_def http_error_def split: if_splits)
  have "sb = fst sa" using pend by (simp add: has_pending_mcp_authorization_def act_simps)
  moreover have "os_db (fst s') = os_db sc"
    using redirect by (auto simp: pending_authorization_redirect_def act_simps case_option_Inr session_dict_Inr set_session_def)
  ultimately show ?thesis
    by (rule_tac callback_claims_Inr [OF cb]) (use login that in auto)
qed

section \<open>Using up a state\<close>

interpretation state_frame: quiet_frame oe "pstate_spent h" "no_same_state (we_store oe) h"
  by unfold_locales (rule pstate_spent_step)

interpretation session_frame: quiet_frame oe "session_closed (py_strip h)" "no_same_session h"
  by unfold_locales (rule session_closed_step)

interpretation tables_frame: quiet_frame oe auth_db_ok "\<lambda>x. True"
  by unfold_locales (rule auth_step_ok)

lemma quiet_True [simp]: "quiet (\<lambda>x. True) c" by (simp add: quiet_def list_all_iff)

lemma login_keeps:
  "quiet (no_same_state (we_store (le_oauth le)) h) (lr_call lr) \<Longrightarrow>
     act_inv (\<lambda>s. pstate_spent h (os_db s)) (complete_login le cc lr p claims flag)"
  "act_inv (\<lambda>s. auth_db_ok (os_db s)) (complete_login le cc lr p claims flag)"
  by (rule state_frame.login_completed, assumption, rule refl, simp_all add: no_same_state_def)
    (rule tables_frame.login_completed, rule quiet_True, rule refl, simp_all)

text \<open>A login that came back used up the state it came with, and the row of that state was waiting for it.\<close>

lemma callback_redeems:
  assumes "auth_provider_callback le cc lr provider s = (Inr rep, s')" "auth_db_ok (os_db (fst s))"
    and "lr_state lr = Some st" "hash_oauth_ephemeral_secret (we_store (le_oauth le)) ''state'' st = Inr h"
    and "quiet (no_same_state (we_store (le_oauth le)) h) (lr_call lr)"
  shows "\<not> pstate_spent h (os_db (fst s))" "pstate_spent h (os_db (fst s'))" "auth_db_ok (os_db (fst s'))"
    "\<exists>row. row \<in> set (oauth_provider_states (auth_run (we_store (le_oauth le)) (ca_others (lr_call lr) 21) (os_db (fst s))))
       \<and> awaited le lr provider (fst s) row"
proof -
  let ?env = "we_store (le_oauth le)"
  let ?db = "auth_run ?env (ca_others (lr_call lr) 21) (os_db (fst s))"
  obtain name data s1 claims flag login s2 where name: "normalize_passport_provider provider = Inr name"
    and cb: "login_state_data le lr name (fst s) = (Inr data, s1)"
    and login: "complete_login le cc lr provider claims flag s1 = (Inr login, s2)" and s': "os_db (fst s') = os_db s2"
    by (rule callback_Inr [OF assms(1)])
  obtain b where run: "consume_oauth_provider_state ?env (ca_sql (lr_call lr) 21) st name b ?db = Inr (Some data, os_db s1)"
    and b: "\<exists>d. os_session (fst s) = Some d \<and> dget_none d ''oauth_browser_session_id'' = PStr b"
    using cb assms(3) by (auto elim!: login_state_Inr)
  have ok: "auth_db_ok ?db" by (rule auth_run_ok [OF assms(2)])
  have red: "pstate_redeemed ?env h ?db (os_db s1)"
    using run assms(4) unfolding pstate_redeemed_def by blast
  then show "\<not> pstate_spent h (os_db (fst s))"
    using pstate_spent_refused state_frame.others [OF assms(5)] by blast
  show "pstate_spent h (os_db (fst s'))"
    using act_invD [OF login_keeps(1) [OF assms(5)] pstate_redeemed_spent [OF ok red] login] s' by simp
  have "auth_db_ok (os_db s1)" by (rule ok_consume_oauth_provider_state [OF ok run])
  then show "auth_db_ok (os_db (fst s'))" using act_invD [OF login_keeps(2) _ login] s' by simp
  obtain h' bh row where row: "hash_oauth_ephemeral_secret ?env ''state'' st = Inr h'" "row \<in> set (oauth_provider_states ?db)"
    "pstate_matches (ca_sql (lr_call lr) 21) h' name bh row"
    and bh: "hash_oauth_ephemeral_secret ?env ''browser-session'' b = Inr bh"
    using run by (auto simp: consume_oauth_provider_state_def Let_def result_simps bind_eq_Some_conv dest!: find_SomeD)
  then have "awaited le lr provider (fst s) row"
    using b name assms(3) unfolding awaited_def by (auto simp: pstate_matches_def)
  with row(2) show "\<exists>row. row \<in> set (oauth_provider_states ?db) \<and> awaited le lr provider (fst s) row" by blast
qed

section \<open>Properties\<close>

text \<open>
  C8. A login is bound to the browser that started it and happens once: a callback that signs somebody in came from
  a browser whose cookie session names the one the state was stored for, with the provider it was stored for,
  while the store's comparison of texts had its expiry after the clock (for states stored with the letter T
  in their time this is until midnight UTC of the day of their expiry); and after it no callback with the same state signs anybody in again, from whatever
  browser, while nobody stores the same state anew.
\<close>

theorem login_once_per_state:
  assumes "auth_db_ok (os_db (fst s))" "lr_state lr = Some st" "lr_state lr2 = Some st"
    and "hash_oauth_ephemeral_secret (we_store (le_oauth le)) ''state'' st = Inr h"
    and "quiet (no_same_state (we_store (le_oauth le)) h) (lr_call lr)"
    and "quiet (no_same_state (we_store (le_oauth le)) h) (lr_call lr2)"
    and "auth_provider_callback le cc lr provider s = (Inr rep, s1)"
    and "os_db (fst s2) = auth_run (we_store (le_oauth le)) xs (os_db (fst s1))"
    and "list_all (no_same_state (we_store (le_oauth le)) h) xs"
  shows "(\<exists>row. row \<in> set (oauth_provider_states
         (auth_run (we_store (le_oauth le)) (ca_others (lr_call lr) 21) (os_db (fst s)))) \<and> awaited le lr provider (fst s) row)
     \<and> fst (auth_provider_callback le cc2 lr2 provider2 s2) \<noteq> Inr rep2"
proof
  note first = callback_redeems [OF assms(7,1,2,4,5)]
  show "\<exists>row. row \<in> set (oauth_provider_states
         (auth_run (we_store (le_oauth le)) (ca_others (lr_call lr) 21) (os_db (fst s)))) \<and> awaited le lr provider (fst s) row"
    by (rule first(4))
  have "pstate_spent h (os_db (fst s2))" "auth_db_ok (os_db (fst s2))"
    unfolding assms(8) using state_frame.run [OF assms(9) first(2)] auth_run_ok [OF first(3)] by auto
  then show "fst (auth_provider_callback le cc2 lr2 provider2 s2) \<noteq> Inr rep2"
    using callback_redeems(1) [OF _ _ assms(3,4,6)] by (metis prod.collapse)
qed

text \<open>
  C9. Logging out ends the session: once the logout of a browser is answered, its session cookie opens no session
  any more, whatever runs in between, so that nothing is approved in its name; only storing the same session
  anew could change that.
\<close>

theorem logout_ends_session:
  assumes "map_of (ca_cookies c) (cfg_session_cookie (cc_hub cc)) = Some sid" "sid \<noteq> []"
    and "logout le cc c csrf s = (Inr (), s1)"
    and "\<And>c'. c' \<in> {c, c2} \<Longrightarrow> quiet (no_same_session (hash_secret (web_env.truncate (le_oauth le)) (cc_hub cc) sid ''connect-session'')) c'"
    and "os_db s2 = auth_run (we_store (le_oauth le)) xs (os_db s1)"
    and "list_all (no_same_session (hash_secret (web_env.truncate (le_oauth le)) (cc_hub cc) sid ''connect-session'')) xs"
    and "map_of (ca_cookies c2) (cfg_session_cookie (cc_hub cc)) = Some sid"
  shows "fst (session_from_request (le_oauth le) (cc_hub cc) c2 n s2) \<noteq> Inr (Some d)
     \<and> fst (oauth_authorize_approve (le_oauth le) (cc_hub cc) c2 form s2) \<noteq> Inr rep"
proof -
  let ?oe = "le_oauth le"
  let ?h = "hash_secret (web_env.truncate ?oe) (cc_hub cc) sid ''connect-session''"
  from assms(1-3) obtain s0 b sa where run: "db_call ?oe c 1 (revoke_web_session (ca_sql c 1) ?h) s0 = (Inr b, sa)"
    and rest: "(case map_of (ca_cookies c) ''amh_token_id'' of
          Some (x # xs) \<Rightarrow> act_bind (revoke_token_service ?oe c 2 (x # xs)) (\<lambda>_. act_ret ())
        | _ \<Rightarrow> act_ret ()) sa = (Inr (), s1)"
    by (cases sid) (auto simp: logout_def Let_def act_simps raise_http_def http_error_def split: if_splits)
  from run have closed_sa: "session_closed (py_strip ?h) (os_db sa)"
    by (auto simp: db_call_Inr intro: revoke_session_closes)
  have keeps: "act_inv (\<lambda>s. session_closed (py_strip ?h) (os_db s)) (case map_of (ca_cookies c) ''amh_token_id'' of
          Some (x # xs) \<Rightarrow> act_bind (revoke_token_service ?oe c 2 (x # xs)) (\<lambda>_. act_ret ())
        | _ \<Rightarrow> act_ret ())"
    by (intro act_rules session_frame.token_revoked assms(4)) (simp_all add: no_same_session_def)
  have "session_closed (py_strip ?h) (os_db s1)" by (rule act_invD [OF keeps closed_sa rest])
  then have "session_closed (py_strip ?h) (os_db s2)"
    unfolding assms(5) by (rule session_frame.run [OF assms(6)])
  then have closed: "session_closed (py_strip ?h) (auth_run (we_store ?oe) (ca_others c2 k) (os_db s2))" for k
    by (rule session_frame.others [OF assms(4), rotated]) simp
  have none: "fst (session_from_request ?oe (cc_hub cc) c2 k s2) \<noteq> Inr (Some e)" for k e
  proof -
    obtain x ys where sid: "sid = x # ys" using assms(2) by (cases sid) auto
    have no: "web_session_for_hash (ca_sql c2 k) ?h (auth_run (we_store ?oe) (ca_others c2 k) (os_db s2)) \<noteq> Inr (Some e, t)" for t
      using session_closed_refused [OF closed] by (auto simp: session_used_def)
    have "session_from_request ?oe (cc_hub cc) c2 k s2 =
        db_call ?oe c2 k (web_session_for_hash (ca_sql c2 k) ?h) s2"
      using assms(7) by (simp add: session_from_request_def sid)
    then show ?thesis
      using no by (auto simp: db_call_def Let_def split: sum.splits prod.splits)
  qed
  moreover have "fst (oauth_authorize_approve ?oe (cc_hub cc) c2 form s2) \<noteq> Inr rep"
    using none [of 0]
    by (cases "session_from_request ?oe (cc_hub cc) c2 0 s2"; cases "fst (session_from_request ?oe (cc_hub cc) c2 0 s2)")
      (auto simp: oauth_authorize_approve_def with_consent_def act_bind_def act_of_def split: option.splits)
  ultimately show ?thesis by blast
qed

section \<open>Revoking by a token id alone\<close>

text \<open>
  Two routes revoke a bearer token by its id without asking who sends the request: the logout of a browser
  without a session, and the revocation endpoint, which reads the id from a token it does not verify.
\<close>

lemma logout_without_session_revokes:
  assumes "ca_cookies c = [(''amh_token_id'', x # xs)]" "cfg_session_cookie (cc_hub cc) \<noteq> ''amh_token_id''"
  shows "logout le cc c csrf = act_bind (revoke_token_service (le_oauth le) c 2 (x # xs)) (\<lambda>_. act_ret ())"
  using assms by (intro ext) (simp add: logout_def session_from_request_def Let_def act_bind_def act_ret_def)

lemma unverified_token_revokes:
  assumes "form_str form ''token'' [] = t # ts" "dget_none (jwt_payload oe (t # ts)) ''jti'' = PStr (x # xs)"
    and "db_call oe c 0 (revoke_oauth_refresh_token (we_store oe) (ca_sql c 0) (t # ts)) s = (Inr False, s1)"
    and "db_call oe c 1 (revoke_oauth_authorization_for_access_token (we_store oe) (ca_sql c 1) (t # ts)) s1 = (Inr False, s2)"
  shows "oauth_revoke oe c form s = act_bind (revoke_token_service oe c 2 (x # xs)) (\<lambda>_. act_ret (Json 200 [])) s2"
  using assms by (simp add: oauth_revoke_def act_bind_def Let_def)

section \<open>Witnesses\<close>

definition demo_hex :: "string \<Rightarrow> string" where
  "demo_hex v = (if v = ''a24'' then replicate 64 (CHR ''a'') else if v = ''a25'' then replicate 64 (CHR ''b'') else v)"

definition demo_login_env :: login_env where
  "demo_login_env =
     \<lparr>le_oauth = demo_oauth_env\<lparr>we_store := demo_env\<lparr>env_pbkdf2 := (\<lambda>v s. demo_hex v)\<rparr>, we_environ := (\<lambda>n. Some ''id'')\<rparr>,
      le_get = (\<lambda>u. HttpFailed), le_post = (\<lambda>u f. HttpFailed), le_jwt = (\<lambda>k a t. None),
      le_exchange = (\<lambda>p. Some (\<lambda>code nonce. Inr (PDict [(''iss'', PStr ''accounts.google.com''), (''aud'', PStr ''id''),
        (''exp'', PInt 99), (''sub'', PStr ''bob'')])))\<rparr>"

definition demo_connect :: connect_config where
  "demo_connect =
     \<lparr>cc_hub = demo_hub, cc_providers = [(''google'',
        \<lparr>pc_enabled = True, pc_client_id_env = ''ID'', pc_client_secret_env = ''SECRET'', pc_callback_url = [],
         pc_authorization_url = ''https://accounts.google.com/o'', pc_token_url = [], pc_issuer = [], pc_discovery_url = [],
         pc_jwks_url = [], pc_algorithms = [], pc_scopes = [], pc_allowed_domains = [], pc_allowed_emails = []\<rparr>)],
      cc_session_ttl = 600\<rparr>"

definition demo_browser :: login_state where
  "demo_browser =
     (\<lparr>os_db = demo_db, os_audit = [], os_session = Some [(''oauth_browser_session_id'', PStr ''browser'')]\<rparr>,
      \<lparr>kc_metadata = [], kc_jwks = []\<rparr>)"

definition demo_return :: login_request where
  "demo_return = \<lparr>lr_call = demo_call ''a'' ''2026-01-01 00:01:00'', lr_state = Some ''state'', lr_code = Some ''c'', lr_error = None\<rparr>"

abbreviation demo_callback :: "login_state \<Rightarrow> login_reply result \<times> login_state" where
  "demo_callback \<equiv> auth_provider_callback demo_login_env demo_connect demo_return ''google''"

definition demo_seen :: login_state where
  "demo_seen = snd (demo_callback demo_browser)"

lemma demo_quiet: "(\<And>n. ca_others c n = []) \<Longrightarrow> quiet Q c"
  by (simp add: quiet_def)

theorem login_once_per_state_witness:
  "\<exists>rep. fst (demo_callback demo_browser) = Inr rep \<and> fst (demo_callback demo_seen) \<noteq> Inr rep"
proof -
  have "(case fst (demo_callback demo_browser) of Inr r \<Rightarrow> True | Inl e \<Rightarrow> False)" by code_simp
  then obtain rep where run: "demo_callback demo_browser = (Inr rep, demo_seen)"
    by (cases "demo_callback demo_browser") (auto simp: demo_seen_def split: sum.splits)
  have ok: "auth_db_ok (os_db (fst demo_browser))" using demo_db_ok by (simp add: demo_browser_def)
  have st: "lr_state demo_return = Some ''state''" by (simp add: demo_return_def)
  have h: "hash_oauth_ephemeral_secret (we_store (le_oauth demo_login_env)) ''state'' ''state'' =
      Inr ''sha256:ai-memory-hub:oauth:state:default:state''" by code_simp
  have q: "quiet Q (lr_call demo_return)" for Q by (rule demo_quiet) (simp add: demo_return_def demo_call_def)
  have none: "os_db (fst demo_seen) = auth_run (we_store (le_oauth demo_login_env)) [] (os_db (fst demo_seen))" by simp
  show ?thesis
    using login_once_per_state [OF ok st st h q q run none] run by auto
qed

definition demo_leaving :: oauth_call where
  "demo_leaving = (demo_call ''b'' ''2026-01-01 00:02:00'')
     \<lparr>ca_cookies := [(''amh_session'', ''a24''), (''amh_token_id'', ''tok_1'')]\<rparr>"

abbreviation demo_session_of :: "oauth_state \<Rightarrow> pydict option result" where
  "demo_session_of s \<equiv> fst (session_from_request (le_oauth demo_login_env) demo_hub demo_leaving 0 s)"

abbreviation demo_logout :: "unit result \<times> oauth_state" where
  "demo_logout \<equiv> logout demo_login_env demo_connect demo_leaving ''a25'' (fst demo_seen)"

theorem logout_ends_session_witness:
  "(case demo_session_of (fst demo_seen) of Inr (Some d) \<Rightarrow> demo_session_of (snd demo_logout) \<noteq> Inr (Some d) | _ \<Rightarrow> False)"
proof -
  have was: "(case demo_session_of (fst demo_seen) of Inr (Some d) \<Rightarrow> True | _ \<Rightarrow> False)" by code_simp
  have hub: "cc_hub demo_connect = demo_hub" by (simp add: demo_connect_def)
  have cookie: "map_of (ca_cookies demo_leaving) (cfg_session_cookie (cc_hub demo_connect)) = Some ''a24''" by code_simp
  have "fst demo_logout = Inr ()" by code_simp
  then have run: "demo_logout = (Inr (), snd demo_logout)" by (metis prod.collapse)
  have q: "quiet Q c'" if "c' \<in> {demo_leaving, demo_leaving}" for Q c'
    using that by (auto simp: demo_leaving_def demo_call_def intro!: demo_quiet)
  have none: "os_db (snd demo_logout) = auth_run (we_store (le_oauth demo_login_env)) [] (os_db (snd demo_logout))" by simp
  have "demo_session_of (snd demo_logout) \<noteq> Inr (Some d)" for d
    using logout_ends_session [OF cookie _ run q none _ cookie] by (simp add: hub)
  with was show ?thesis by (auto split: sum.splits option.splits)
qed

end
