(* ===== verification/Ranking.thy ===== *)
theory Ranking
  imports LogSafety VectorStore "HOL-Library.Product_Lexorder" "HOL-Library.AList"
begin

text \<open>
  Ranking of retrieval candidates (\<^verbatim>\<open>memory/ingestion/retrieval_ranking.py\<close>): reciprocal rank fusion
  of the candidate lists, the exact-match priority, the optional external reranker and its fallbacks.
  A candidate is a row dictionary. The external reranker is given by its outcome. No float of the model
  is a NaN, so \<open>-x\<close> as a sort key is the negated rank of \<open>x\<close>.
\<close>

section \<open>Text and keys\<close>

definition rank_tokens :: "string \<Rightarrow> string list" where
  "rank_tokens v = map py_casefold (filter (\<lambda>t. 2 \<le> length t) (keyword_runs v))"

definition row_id :: "pydict \<Rightarrow> string" where
  "row_id row = py_str (dget_or row ''id'' (PStr []))"

definition row_text :: "pydict \<Rightarrow> string" where
  "row_text row = py_str (dget_or row ''text'' (PStr []))"

definition row_chunk :: "pydict \<Rightarrow> int result" where
  "row_chunk row = int_of_pyval (dget_or row ''chunk_index'' (PInt 0))"

definition candidate_key :: "pydict \<Rightarrow> string result" where
  "candidate_key row =
     (if row_id row = [] then Inr []
      else bind_result (row_chunk row) (\<lambda>i. Inr (row_id row @ '':'' @ int_str i)))"

definition stable_row_key :: "pydict \<Rightarrow> (string \<times> int \<times> string) result" where
  "stable_row_key row = bind_result (row_chunk row) (\<lambda>i. Inr (row_id row, i, row_text row))"

text \<open>\<open>float(v)\<close>, which leaves a float as it is, and the float of an integer.\<close>

definition py_float :: "float_env \<Rightarrow> pyval \<Rightarrow> flt result" where
  "py_float fe v = (case v of PFloat x \<Rightarrow> Inr x | _ \<Rightarrow> fl_of fe v)"

definition int_flt :: "int \<Rightarrow> flt" where
  "int_flt i = int_str i @ ''.0''"

text \<open>\<open>sorted(xs, key=...)\<close> with a key that can raise.\<close>

definition sorted_by :: "('a \<Rightarrow> ('k::linorder) result) \<Rightarrow> 'a list \<Rightarrow> 'a list result" where
  "sorted_by key xs =
     bind_result (map_result (\<lambda>x. bind_result (key x) (\<lambda>k. Inr (k, x))) xs) (\<lambda>kxs.
     Inr (map snd (sort_key fst kxs)))"

section \<open>Fusion\<close>

record fusion =
  fu_rows :: "(string \<times> pydict) list"
  fu_scores :: "(string \<times> flt) list"
  fu_sources :: "(string \<times> string list) list"

definition source_weight :: "float_env \<Rightarrow> (string \<times> flt) list \<Rightarrow> string \<Rightarrow> flt" where
  "source_weight fe weights source =
     (let w = (case map_of weights source of None \<Rightarrow> ''1.0'' | Some x \<Rightarrow> x)
      in if fl_rank fe ''0.0'' < fl_rank fe w then w else ''0.0'')"

definition fuse_candidate ::
    "float_env \<Rightarrow> flt \<Rightarrow> int \<Rightarrow> string \<Rightarrow> int \<Rightarrow> pydict \<Rightarrow> string \<Rightarrow> fusion \<Rightarrow> fusion" where
  "fuse_candidate fe weight fusion_k source rank row key st =
     \<lparr>fu_rows = (if map_of (fu_rows st) key = None then fu_rows st @ [(key, row)] else fu_rows st),
      fu_scores = AList.update key
        (fl_add fe ((case map_of (fu_scores st) key of None \<Rightarrow> ''0.0'' | Some s \<Rightarrow> s),
           fl_div fe (weight, int_flt (fusion_k + rank)))) (fu_scores st),
      fu_sources = AList.update key
        ((case map_of (fu_sources st) key of None \<Rightarrow> [] | Some ss \<Rightarrow> ss) @ [source]) (fu_sources st)\<rparr>"

text \<open>One row of a list: a row without an id and a repeated key are skipped.\<close>

definition fuse_row ::
    "float_env \<Rightarrow> flt \<Rightarrow> int \<Rightarrow> string \<Rightarrow> nat \<times> pydict \<Rightarrow> string list \<times> fusion \<Rightarrow> (string list \<times> fusion) result" where
  "fuse_row fe weight fusion_k source nr acc =
     bind_result (candidate_key (snd nr)) (\<lambda>key.
     Inr (if key = [] \<or> key \<in> set (fst acc) then acc
          else (fst acc @ [key],
                fuse_candidate fe weight fusion_k source (int (fst nr)) (snd nr) key (snd acc))))"

definition fuse_source ::
    "float_env \<Rightarrow> (string \<times> flt) list \<Rightarrow> int \<Rightarrow> string \<times> pydict list \<Rightarrow> fusion \<times> (string \<times> nat) list \<Rightarrow>
     (fusion \<times> (string \<times> nat) list) result" where
  "fuse_source fe weights fusion_k sr acc =
     bind_result (fold_result (fuse_row fe (source_weight fe weights (fst sr)) fusion_k (fst sr))
         (List.enumerate 1 (snd sr)) ([], fst acc)) (\<lambda>(seen, st).
     Inr (st, AList.update (fst sr) (length seen) (snd acc)))"

definition fused_row :: "fusion \<Rightarrow> string \<times> pydict \<Rightarrow> pydict result" where
  "fused_row st kr =
     (case (map_of (fu_scores st) (fst kr), map_of (fu_sources st) (fst kr)) of
        (Some s, Some ss) \<Rightarrow>
          Inr (dset (dset (snd kr) ''_fusion_score'' (PFloat s)) ''_candidate_sources'' (PList (map PStr ss)))
      | _ \<Rightarrow> Inl (KeyError (fst kr)))"

definition fusion_score :: "float_env \<Rightarrow> pydict \<Rightarrow> flt result" where
  "fusion_score fe row = bind_result (ditem row ''_fusion_score'') (py_float fe)"

definition fusion_key :: "float_env \<Rightarrow> pydict \<Rightarrow> (int \<times> string \<times> int \<times> string) result" where
  "fusion_key fe row =
     bind_result (fusion_score fe row) (\<lambda>s. bind_result (stable_row_key row) (\<lambda>k. Inr (- fl_rank fe s, k)))"

definition reciprocal_rank_fusion ::
    "float_env \<Rightarrow> (string \<times> pydict list) list \<Rightarrow> (string \<times> flt) list \<Rightarrow> int \<Rightarrow>
     (pydict list \<times> (string \<times> nat) list) result" where
  "reciprocal_rank_fusion fe lsts weights fusion_k =
     bind_result (fold_result (fuse_source fe weights fusion_k) lsts
         (\<lparr>fu_rows = [], fu_scores = [], fu_sources = []\<rparr>, [])) (\<lambda>(st, counts).
     bind_result (map_result (fused_row st) (fu_rows st)) (\<lambda>rows.
     bind_result (sorted_by (fusion_key fe) rows) (\<lambda>fused. Inr (fused, counts))))"

section \<open>Exact matches\<close>

definition rare_exact_terms :: "string \<Rightarrow> pydict list \<Rightarrow> string list" where
  "rare_exact_terms query rows =
     (let frequency = (\<lambda>token. length (filter (\<lambda>row. token \<in> set (rank_tokens (row_text row))) rows));
          ceiling = max 1 (length rows div 4)
      in filter (\<lambda>token. frequency token \<le> ceiling \<and> (12 \<le> length token \<or> list_ex py_isdigit_char token))
           (remdups (rank_tokens query)))"

definition exact_priority :: "string \<Rightarrow> string list \<Rightarrow> pydict list \<Rightarrow> pydict \<Rightarrow> nat" where
  "exact_priority query exact_terms rows row =
     (let memory_id = py_casefold (row_id row); t = py_casefold (row_text row) in
      if memory_id \<noteq> [] \<and> has_sub memory_id (py_casefold query) then 0
      else if list_ex (\<lambda>term. py_strip term \<noteq> [] \<and> has_sub (py_casefold (py_strip term)) t) exact_terms then 1
      else if list_ex (\<lambda>term. term \<in> set (rank_tokens t)) (rare_exact_terms query rows) then 2
      else 3)"

section \<open>The external reranker\<close>

record candidate =
  cd_key :: string
  cd_memory :: string
  cd_chunk :: int
  cd_role :: string
  cd_text :: string
  cd_source :: string
  cd_timestamp :: string
  cd_tags :: "string list"

definition candidate_tags :: "pydict \<Rightarrow> string list" where
  "candidate_tags meta =
     (case dget_or meta ''tags'' (PList []) of
        PList tags \<Rightarrow> take 20 (map (\<lambda>t. take 128 (py_str t)) (filter (\<lambda>t. py_str t \<noteq> []) tags))
      | _ \<Rightarrow> [])"

definition dict_or_empty :: "pyval \<Rightarrow> pydict" where
  "dict_or_empty v = (case v of PDict d \<Rightarrow> d | _ \<Rightarrow> [])"

definition candidate_projection :: "nat \<Rightarrow> pydict \<Rightarrow> candidate result" where
  "candidate_projection text_limit row =
     (let c = dict_or_empty (dget_none row ''conversation'');
          str = (\<lambda>d k. py_str (dget_or d k (PStr [])))
      in bind_result (candidate_key row) (\<lambda>key.
         bind_result (row_chunk row) (\<lambda>chunk.
         Inr \<lparr>cd_key = key, cd_memory = row_id row, cd_chunk = chunk, cd_role = take 32 (str row ''role''),
              cd_text = take text_limit (redact_secrets (row_text row)), cd_source = take 128 (str c ''source''),
              cd_timestamp = take 64 (str c ''timestamp''),
              cd_tags = candidate_tags (dict_or_empty (dget_none c ''metadata''))\<rparr>)))"

text \<open>
  What comes back within the timeout: nothing, an exception, a value that is no mapping, or a mapping
  with its keys as \<open>str\<close> makes them.
\<close>

datatype rerank_outcome =
    RerankTimeout
  | RerankRaised
  | RerankNoMapping
  | RerankScores "(string \<times> pyval) list"

type_synonym reranker = "string \<Rightarrow> candidate list \<Rightarrow> rerank_outcome"

definition token_overlap_rerank :: "float_env \<Rightarrow> reranker" where
  "token_overlap_rerank fe query cs =
     (let qs = remdups (rank_tokens query) in
      RerankScores (map (\<lambda>c. (cd_key c,
        PFloat (if qs = [] then ''0.0''
          else fl_div fe (int_flt (int (length (filter (\<lambda>q. q \<in> set (rank_tokens (cd_text c))) qs))),
                          int_flt (int (length qs)))))) cs))"

definition fallback_scores :: "candidate list \<Rightarrow> (string \<times> flt) list" where
  "fallback_scores cs = fold (\<lambda>c. AList.update (cd_key c) ''0.0'') cs []"

text \<open>\<open>None\<close>: the output is refused. \<open>float\<close> may raise an \<open>OverflowError\<close>, which nobody catches.\<close>

definition parse_score ::
    "float_env \<Rightarrow> string list \<Rightarrow> string \<times> pyval \<Rightarrow> (string \<times> flt) list option \<Rightarrow>
     (string \<times> flt) list option result" where
  "parse_score fe allowed kv acc =
     (case acc of
        None \<Rightarrow> Inr None
      | Some parsed \<Rightarrow>
          if fst kv \<notin> set allowed \<or> (case snd kv of PBool b \<Rightarrow> True | _ \<Rightarrow> False) then Inr None
          else (case py_float fe (snd kv) of
                  Inl (TypeError e) \<Rightarrow> Inr None
                | Inl (ValueError e) \<Rightarrow> Inr None
                | Inl e \<Rightarrow> Inl e
                | Inr s \<Rightarrow> (if s \<in> set [''inf'', ''-inf'', ''nan''] then Inr None
                           else Inr (Some (AList.update (fst kv) s parsed)))))"

definition reranker_scores ::
    "float_env \<Rightarrow> string \<Rightarrow> candidate list \<Rightarrow> reranker option \<Rightarrow> flt \<Rightarrow> ((string \<times> flt) list \<times> string) result" where
  "reranker_scores fe query cs reranker timeout =
     (case reranker of
        None \<Rightarrow> Inr (fallback_scores cs, ''deterministic_fallback'')
      | Some rerank \<Rightarrow>
          if fl_rank fe timeout \<le> fl_rank fe ''0.0''
          then Inl (ValueError ''reranker_timeout_seconds must be positive'')
          else (case rerank query cs of
              RerankTimeout \<Rightarrow> Inr (fallback_scores cs, ''timeout_fallback'')
            | RerankRaised \<Rightarrow> Inr (fallback_scores cs, ''error_fallback'')
            | RerankNoMapping \<Rightarrow> Inr (fallback_scores cs, ''error_fallback'')
            | RerankScores kvs \<Rightarrow>
                bind_result (fold_result (parse_score fe (map cd_key cs)) kvs (Some [])) (\<lambda>parsed.
                Inr (case parsed of
                       None \<Rightarrow> (fallback_scores cs, ''invalid_output_fallback'')
                     | Some scores \<Rightarrow> (scores, ''semantic'')))))"

section \<open>The ranking\<close>

record rank_config =
  rc_weights :: "(string \<times> flt) list"
  rc_fusion_k :: int
  rc_exact_terms :: "string list"
  rc_reranker :: "reranker option"
  rc_timeout :: flt
  rc_limit :: int
  rc_text_limit :: int
  rc_boosts :: "(string \<times> flt) list"

definition keyed_priority ::
    "string \<Rightarrow> string list \<Rightarrow> pydict list \<Rightarrow> pydict \<Rightarrow> (string \<times> nat) list \<Rightarrow> (string \<times> nat) list result" where
  "keyed_priority query exact_terms rows row acc =
     bind_result (candidate_key row) (\<lambda>key.
     Inr (AList.update key (exact_priority query exact_terms rows row) acc))"

definition priority_of :: "(string \<times> nat) list \<Rightarrow> pydict \<Rightarrow> nat result" where
  "priority_of priorities row =
     bind_result (candidate_key row) (\<lambda>key.
     case map_of priorities key of None \<Rightarrow> Inl (KeyError key) | Some p \<Rightarrow> Inr p)"

definition exact_key :: "float_env \<Rightarrow> (string \<times> nat) list \<Rightarrow> pydict \<Rightarrow> (nat \<times> int \<times> string \<times> int \<times> string) result" where
  "exact_key fe priorities row =
     bind_result (priority_of priorities row) (\<lambda>p.
     bind_result (fusion_key fe row) (\<lambda>k. Inr (p, k)))"

definition score_in :: "(string \<times> flt) list \<Rightarrow> string \<Rightarrow> flt" where
  "score_in scores key = (case map_of scores key of None \<Rightarrow> ''0.0'' | Some s \<Rightarrow> s)"

definition rank_key ::
    "float_env \<Rightarrow> (string \<times> nat) list \<Rightarrow> string list \<Rightarrow> (string \<times> flt) list \<Rightarrow> (string \<times> flt) list \<Rightarrow> pydict \<Rightarrow>
     (nat \<times> nat \<times> int \<times> int \<times> int \<times> string \<times> int \<times> string) result" where
  "rank_key fe priorities reranked scores boosts row =
     bind_result (priority_of priorities row) (\<lambda>p.
     bind_result (candidate_key row) (\<lambda>key.
     bind_result (fusion_key fe row) (\<lambda>k.
     Inr (p, if key \<in> set reranked then 0 else 1, - fl_rank fe (score_in scores key),
          - fl_rank fe (score_in boosts key), k))))"

definition mark_ranked ::
    "float_env \<Rightarrow> (string \<times> nat) list \<Rightarrow> (string \<times> flt) list \<Rightarrow> (string \<times> flt) list \<Rightarrow> nat \<times> pydict \<Rightarrow> pydict result" where
  "mark_ranked fe priorities scores boosts nr =
     (let row = snd nr; rank = int (fst nr) in
      bind_result (candidate_key row) (\<lambda>key.
      bind_result (priority_of priorities row) (\<lambda>p.
      bind_result (fusion_score fe row) (\<lambda>s.
      Inr (dupdate row
        [(''_exact_priority'', PInt (int p)), (''_reranker_score'', PFloat (score_in scores key)),
         (''_deterministic_boost'', PFloat (score_in boosts key)), (''_ranking_score'', PFloat (int_flt rank)),
         (''_ranking_position'', PInt rank), (''_ranking_boost'', PFloat s)])))))"

definition rank_arguments_ok :: "rank_config \<Rightarrow> unit result" where
  "rank_arguments_ok cfg =
     bind_result (guard_result (1 \<le> rc_fusion_k cfg) (ValueError ''fusion_k must be positive'')) (\<lambda>_.
     bind_result (guard_result (1 \<le> rc_limit cfg) (ValueError ''reranker_candidate_limit must be positive'')) (\<lambda>_.
     guard_result (1 \<le> rc_text_limit cfg) (ValueError ''projection_text_limit must be positive'')))"

text \<open>The projections, their scores and the mode: a single row is never sent out.\<close>

definition rerank_step ::
    "float_env \<Rightarrow> rank_config \<Rightarrow> string \<Rightarrow> pydict list \<Rightarrow> (candidate list \<times> (string \<times> flt) list \<times> string) result" where
  "rerank_step fe cfg query bounded =
     (if length bounded \<le> 1 then Inr ([], [], ''insufficient_candidates'')
      else
        bind_result (map_result (candidate_projection (nat (rc_text_limit cfg))) bounded) (\<lambda>cs.
        bind_result (reranker_scores fe (take (nat (rc_text_limit cfg)) (redact_secrets query)) cs
            (rc_reranker cfg) (rc_timeout cfg)) (\<lambda>(scores, mode).
        Inr (cs, scores, mode))))"

definition rank_diagnostics ::
    "rank_config \<Rightarrow> (string \<times> nat) list \<Rightarrow> pydict list \<Rightarrow> string \<Rightarrow> pydict list \<Rightarrow> pydict" where
  "rank_diagnostics cfg counts fused mode bounded =
     [(''method'', PStr ''reciprocal_rank_fusion''), (''fusion_k'', PInt (rc_fusion_k cfg)),
      (''source_candidate_counts'', PDict (map (\<lambda>(s, n). (s, PInt (int n))) counts)),
      (''fused_candidate_count'', PInt (int (length fused))), (''reranker'', PStr mode),
      (''reranker_candidate_count'', PInt (int (length bounded))),
      (''reranker_candidate_limit'', PInt (rc_limit cfg)), (''projection_text_limit'', PInt (rc_text_limit cfg))]"

text \<open>The rows before the scores are written into them.\<close>

definition ranked_order ::
    "float_env \<Rightarrow> rank_config \<Rightarrow> (string \<times> nat) list \<Rightarrow> pydict list \<Rightarrow>
     candidate list \<times> (string \<times> flt) list \<times> string \<Rightarrow> pydict list result" where
  "ranked_order fe cfg priorities rows rr =
     (let (cs, scores, mode) = rr;
          reranked = (if mode = ''semantic'' then map cd_key cs else [])
      in sorted_by (rank_key fe priorities reranked scores (rc_boosts cfg)) rows)"

definition rank_candidate_lists ::
    "float_env \<Rightarrow> rank_config \<Rightarrow> string \<Rightarrow> (string \<times> pydict list) list \<Rightarrow> (pydict list \<times> pydict) result" where
  "rank_candidate_lists fe cfg query lsts =
     bind_result (rank_arguments_ok cfg) (\<lambda>_.
     bind_result (reciprocal_rank_fusion fe lsts (rc_weights cfg) (rc_fusion_k cfg)) (\<lambda>(fused, counts).
     bind_result (fold_result (keyed_priority query (rc_exact_terms cfg) fused) fused []) (\<lambda>priorities.
     bind_result (sorted_by (exact_key fe priorities) fused) (\<lambda>exact_ordered.
     let bounded = take (nat (rc_limit cfg)) exact_ordered in
     bind_result (rerank_step fe cfg query bounded) (\<lambda>rr.
     bind_result (ranked_order fe cfg priorities exact_ordered rr) (\<lambda>ranked.
     bind_result (map_result (mark_ranked fe priorities (fst (snd rr)) (rc_boosts cfg))
         (List.enumerate 0 ranked)) (\<lambda>rows.
     Inr (rows, rank_diagnostics cfg counts fused (snd (snd rr)) bounded))))))))"

end
