(* ===== verification/RankingProperties.thy ===== *)
theory RankingProperties
  imports Ranking "HOL-Library.Multiset"
begin

text \<open>
  What the ranking promises: every candidate comes back once and unchanged, exact matches stay in
  front of everything a reranker may say, and a reranker that fails changes nothing.
\<close>

section \<open>The public part of a row\<close>

definition internal_key :: "string \<Rightarrow> bool" where
  "internal_key k \<longleftrightarrow> (case k of [] \<Rightarrow> False | c # cs \<Rightarrow> c = CHR ''_'')"

definition public_row :: "pydict \<Rightarrow> pydict" where
  "public_row row = filter (\<lambda>kv. \<not> internal_key (fst kv)) row"

lemma public_dset [simp]: "internal_key k \<Longrightarrow> public_row (dset row k v) = public_row row"
  by (induction row k v rule: dset.induct) (auto simp: public_row_def)

lemma public_dupdate:
  "list_all (\<lambda>kv. internal_key (fst kv)) upd \<Longrightarrow> public_row (dupdate row upd) = public_row row"
  unfolding dupdate_def by (induction upd arbitrary: row) auto

lemma dget_public: "\<not> internal_key k \<Longrightarrow> dget (public_row row) k = dget row k"
  by (induction row) (auto simp: public_row_def dget_def)

lemma dget_or_public: "\<not> internal_key k \<Longrightarrow> dget_or (public_row row) k v = dget_or row k v"
  by (simp add: dget_or_def dget_public)

lemma public_keys [simp]: "\<not> internal_key ''id''" "\<not> internal_key ''text''" "\<not> internal_key ''chunk_index''"
  "\<not> internal_key ''conversation''"
  by (simp_all add: internal_key_def)

lemma internal_keys [simp]:
  "internal_key ''_fusion_score''" "internal_key ''_candidate_sources''" "internal_key ''_exact_priority''"
  "internal_key ''_reranker_score''" "internal_key ''_deterministic_boost''" "internal_key ''_ranking_score''"
  "internal_key ''_ranking_position''" "internal_key ''_ranking_boost''"
  by (simp_all add: internal_key_def)

lemma row_id_public: "row_id (public_row row) = row_id row"
  by (simp add: row_id_def dget_or_public)

lemma row_text_public: "row_text (public_row row) = row_text row"
  by (simp add: row_text_def dget_or_public)

lemma candidate_key_public: "candidate_key (public_row row) = candidate_key row"
  by (simp add: candidate_key_def row_chunk_def row_id_public dget_or_public)

section \<open>Sorting with keys that can raise\<close>

lemma sorted_by_keys:
  assumes "sorted_by key xs = Inr ys"
  shows "mset ys = mset xs \<and> (\<exists>ks. map key ys = map Inr ks \<and> sorted ks)"
proof -
  obtain kxs where kxs: "map_result (\<lambda>x. bind_result (key x) (\<lambda>k. Inr (k, x))) xs = Inr kxs"
    and ys: "ys = map snd (sort_key fst kxs)"
    using assms by (auto simp: sorted_by_def result_simps)
  have all: "list_all2 (\<lambda>x kx. snd kx = x \<and> key x = Inr (fst kx)) xs kxs"
    using kxs unfolding map_result_Inr_list_all2 by (rule list_all2_mono) (auto simp: result_simps)
  then have "map snd kxs = xs" by (induction) auto
  then have "mset ys = mset xs" using ys by (metis mset_map mset_sort)
  moreover have "key (snd kx) = Inr (fst kx)" if "kx \<in> set kxs" for kx
    using all that by (auto simp: list_all2_conv_all_nth in_set_conv_nth)
  then have "map key ys = map Inr (map fst (sort_key fst kxs))" using ys by auto
  ultimately show ?thesis by (metis sorted_sort_key)
qed

section \<open>Fusion\<close>

definition keys_of :: "pydict list \<Rightarrow> string set" where
  "keys_of rows = {k. k \<noteq> [] \<and> (\<exists>r\<in>set rows. candidate_key r = Inr k)}"

lemma keys_of_simps [simp]:
  "keys_of [] = {}" "keys_of (xs @ ys) = keys_of xs \<union> keys_of ys"
  by (auto simp: keys_of_def)

text \<open>The fused rows carry each key once, and each is a row of \<open>R\<close>.\<close>

definition covers :: "fusion \<Rightarrow> string set \<Rightarrow> pydict set \<Rightarrow> bool" where
  "covers st K R \<longleftrightarrow> distinct (map fst (fu_rows st)) \<and> fst ` set (fu_rows st) = K
     \<and> (\<forall>k r. (k, r) \<in> set (fu_rows st) \<longrightarrow> candidate_key r = Inr k \<and> r \<in> R)"

lemma covers_mono: "covers st K R \<Longrightarrow> R \<subseteq> R' \<Longrightarrow> covers st K R'"
  by (auto simp: covers_def)

lemma covers_fuse:
  assumes "covers st K R" "candidate_key row = Inr k"
  shows "covers (fuse_candidate fe w fk s n row k st) (insert k K) (insert row R)"
  using assms unfolding covers_def fuse_candidate_def
  by (auto simp: map_of_eq_None_iff dest: map_of_SomeD image_eqI [of _ fst])

lemma covers_row:
  assumes "covers st K R" "set seen \<subseteq> K" "fuse_row fe w fk s (n, row) (seen, st) = Inr (seen', st')"
  shows "covers st' (K \<union> keys_of [row]) (insert row R) \<and> set seen' \<subseteq> K \<union> keys_of [row]"
proof -
  obtain k where k: "candidate_key row = Inr k" using assms(3) by (auto simp: fuse_row_def result_simps)
  have keys: "keys_of [row] = (if k = [] then {} else {k})" using k by (auto simp: keys_of_def)
  show ?thesis
  proof (cases "k = [] \<or> k \<in> set seen")
    case True
    then have "st' = st" "seen' = seen" "K \<union> keys_of [row] = K" using assms(2,3) k keys
      by (auto simp: fuse_row_def)
    then show ?thesis using covers_mono [OF assms(1), of "insert row R"] assms(2) by auto
  next
    case False
    then have "seen' = seen @ [k]" "st' = fuse_candidate fe w fk s (int n) row k st"
      using assms(3) k by (auto simp: fuse_row_def)
    then show ?thesis using covers_fuse [OF assms(1) k] assms(2) keys False by auto
  qed
qed

lemma covers_rows:
  assumes "fold_result (fuse_row fe w fk s) nrs (seen, st) = Inr (seen', st')" "covers st K R" "set seen \<subseteq> K"
  shows "covers st' (K \<union> keys_of (map snd nrs)) (R \<union> snd ` set nrs)"
  using assms
proof (induction nrs arbitrary: seen st K R)
  case (Cons nr nrs)
  obtain n row where nr: "nr = (n, row)" by (cases nr)
  obtain seen1 st1 where step: "fuse_row fe w fk s (n, row) (seen, st) = Inr (seen1, st1)"
    and rest: "fold_result (fuse_row fe w fk s) nrs (seen1, st1) = Inr (seen', st')"
    using Cons.prems(1) nr by (auto simp: result_simps)
  have "covers st' ((K \<union> keys_of [row]) \<union> keys_of (map snd nrs)) (insert row R \<union> snd ` set nrs)"
    using covers_row [OF Cons.prems(2,3) step] by (intro Cons.IH [OF rest]) auto
  moreover have "keys_of (map snd (nr # nrs)) = keys_of [row] \<union> keys_of (map snd nrs)"
    by (auto simp: nr keys_of_def)
  ultimately show ?case by (simp add: nr Un_assoc)
qed simp

lemma map_snd_enumerate: "map snd (List.enumerate n xs) = xs"
  by (simp add: enumerate_eq_zip)

lemma covers_sources:
  assumes "fold_result (fuse_source fe ws fk) lsts (st, counts) = Inr (st', counts')" "covers st K R"
  shows "covers st' (K \<union> keys_of (concat (map snd lsts))) (R \<union> set (concat (map snd lsts)))"
  using assms
proof (induction lsts arbitrary: st counts K R)
  case (Cons sr lsts)
  obtain acc where first: "fuse_source fe ws fk sr (st, counts) = Inr acc"
    and rest: "fold_result (fuse_source fe ws fk) lsts acc = Inr (st', counts')"
    using Cons.prems(1) by (auto simp: result_simps)
  obtain st1 seen where step: "fold_result (fuse_row fe (source_weight fe ws (fst sr)) fk (fst sr))
        (List.enumerate 1 (snd sr)) ([], st) = Inr (seen, st1)"
    and acc: "acc = (st1, AList.update (fst sr) (length seen) counts)"
    using first unfolding fuse_source_def by (auto simp only: result_simps fst_conv snd_conv sum.inject)
  have "covers st1 (K \<union> keys_of (snd sr)) (R \<union> set (snd sr))"
    using covers_rows [OF step Cons.prems(2)] map_snd_enumerate [of 1 "snd sr"]
    by (metis empty_subsetI list.set(1) list.set_map)
  from Cons.IH [OF rest [unfolded acc] this] show ?case by (simp add: Un_assoc)
qed simp

lemma fused_public: "fused_row st kr = Inr row \<Longrightarrow> public_row row = public_row (snd kr)"
  by (auto simp: fused_row_def split: option.splits)

lemma map_result_public:
  "map_result f xs = Inr ys \<Longrightarrow> (\<And>x y. f x = Inr y \<Longrightarrow> g y = h x) \<Longrightarrow> map g ys = map h xs"
  by (induction xs arbitrary: ys) (auto simp: result_simps)

lemma mset_public: "mset xs = mset ys \<Longrightarrow> mset (map public_row xs) = mset (map public_row ys)"
  by (simp only: mset_map)

lemma fusion_rows:
  assumes "reciprocal_rank_fusion fe lsts ws fk = Inr (fused, counts)"
  obtains st where "covers st (keys_of (concat (map snd lsts))) (set (concat (map snd lsts)))"
    "mset (map public_row fused) = mset (map (\<lambda>kr. public_row (snd kr)) (fu_rows st))"
proof -
  obtain st rows where folded: "fold_result (fuse_source fe ws fk) lsts
        (\<lparr>fu_rows = [], fu_scores = [], fu_sources = []\<rparr>, []) = Inr (st, counts)"
    and rows: "map_result (fused_row st) (fu_rows st) = Inr rows"
    and fused: "sorted_by (fusion_key fe) rows = Inr fused"
    using assms by (auto simp: reciprocal_rank_fusion_def result_simps)
  have "covers \<lparr>fu_rows = [], fu_scores = [], fu_sources = []\<rparr> {} {}" by (simp add: covers_def)
  from covers_sources [OF folded this]
  have "covers st (keys_of (concat (map snd lsts))) (set (concat (map snd lsts)))" by simp
  moreover have "map public_row rows = map (\<lambda>kr. public_row (snd kr)) (fu_rows st)"
    using map_result_public [OF rows, of public_row "\<lambda>kr. public_row (snd kr)"] fused_public by blast
  then have "mset (map public_row fused) = mset (map (\<lambda>kr. public_row (snd kr)) (fu_rows st))"
    using mset_public [of fused rows] sorted_by_keys [OF fused] by simp
  ultimately show ?thesis by (rule that)
qed

section \<open>The ranking\<close>

lemma mark_public: "mark_ranked fe ps sc bs nr = Inr row \<Longrightarrow> public_row row = public_row (snd nr)"
  by (auto simp: mark_ranked_def Let_def result_simps intro!: public_dupdate)

lemma ranking_steps:
  assumes "rank_candidate_lists fe cfg query lsts = Inr (rows, d)"
  obtains fused counts ps ordered rr ranked where
    "reciprocal_rank_fusion fe lsts (rc_weights cfg) (rc_fusion_k cfg) = Inr (fused, counts)"
    "fold_result (keyed_priority query (rc_exact_terms cfg) fused) fused [] = Inr ps"
    "sorted_by (exact_key fe ps) fused = Inr ordered"
    "rerank_step fe cfg query (take (nat (rc_limit cfg)) ordered) = Inr rr"
    "ranked_order fe cfg ps ordered rr = Inr ranked"
    "map_result (mark_ranked fe ps (fst (snd rr)) (rc_boosts cfg)) (List.enumerate 0 ranked) = Inr rows"
    "d = rank_diagnostics cfg counts fused (snd (snd rr)) (take (nat (rc_limit cfg)) ordered)"
    "rank_arguments_ok cfg = Inr ()"
  using assms by (auto simp: rank_candidate_lists_def result_simps Let_def)

lemma ranked_public:
  assumes "map_result (mark_ranked fe ps sc bs) (List.enumerate 0 ranked) = Inr rows"
  shows "map public_row rows = map public_row ranked"
proof -
  have "map public_row rows = map (\<lambda>nr. public_row (snd nr)) (List.enumerate 0 ranked)"
    using map_result_public [OF assms, of public_row "\<lambda>nr. public_row (snd nr)"] mark_public by blast
  also have "\<dots> = map public_row (map snd (List.enumerate 0 ranked))" by (simp only: map_map comp_def)
  finally show ?thesis by (simp only: map_snd_enumerate)
qed

lemma ranked_perm: "ranked_order fe cfg ps xs rr = Inr ys \<Longrightarrow> mset ys = mset xs"
  using sorted_by_keys by (fastforce simp: ranked_order_def Let_def split: prod.splits)

lemma ranking_public:
  assumes "rank_candidate_lists fe cfg query lsts = Inr (rows, d)"
  obtains st where "covers st (keys_of (concat (map snd lsts))) (set (concat (map snd lsts)))"
    "mset (map public_row rows) = mset (map (\<lambda>kr. public_row (snd kr)) (fu_rows st))"
proof -
  from assms obtain fused counts ps ordered rr ranked where
    f: "reciprocal_rank_fusion fe lsts (rc_weights cfg) (rc_fusion_k cfg) = Inr (fused, counts)"
    and o1: "sorted_by (exact_key fe ps) fused = Inr ordered"
    and r: "ranked_order fe cfg ps ordered rr = Inr ranked"
    and m: "map_result (mark_ranked fe ps (fst (snd rr)) (rc_boosts cfg)) (List.enumerate 0 ranked) = Inr rows"
    by (rule ranking_steps) blast
  from fusion_rows [OF f] obtain st where st: "covers st (keys_of (concat (map snd lsts))) (set (concat (map snd lsts)))"
    "mset (map public_row fused) = mset (map (\<lambda>kr. public_row (snd kr)) (fu_rows st))" .
  have "mset ranked = mset fused" using ranked_perm [OF r] sorted_by_keys [OF o1] by simp
  then have "mset (map public_row rows) = mset (map public_row fused)"
    using ranked_public [OF m] by (metis mset_public)
  then show ?thesis using st that by simp
qed

lemma fused_keys:
  assumes cov: "covers st K R" and pub: "mset (map public_row xs) = mset (map (\<lambda>kr. public_row (snd kr)) (fu_rows st))"
  shows "\<exists>keys. map candidate_key xs = map Inr keys \<and> distinct keys \<and> set keys = K"
proof -
  have "mset (map candidate_key (map public_row xs))
      = mset (map candidate_key (map (\<lambda>kr. public_row (snd kr)) (fu_rows st)))"
    using pub by (metis mset_map)
  also have "map candidate_key (map (\<lambda>kr. public_row (snd kr)) (fu_rows st)) = map Inr (map fst (fu_rows st))"
    using cov by (auto simp: covers_def candidate_key_public)
  finally have ks: "mset (map candidate_key xs) = mset (map Inr (map fst (fu_rows st)))"
    by (simp add: candidate_key_public comp_def)
  define keys where "keys = map (\<lambda>r. case candidate_key r of Inr k \<Rightarrow> k | Inl e \<Rightarrow> []) xs"
  have "\<exists>k. candidate_key r = Inr k" if "r \<in> set xs" for r
  proof -
    have "candidate_key r \<in> set (map Inr (map fst (fu_rows st)))"
      using mset_eq_setD [OF ks] that by (metis image_eqI list.set_map)
    then show ?thesis by auto
  qed
  then have inr: "map candidate_key xs = map Inr keys" by (force simp: keys_def)
  have "image_mset Inr (mset keys) = image_mset (Inr :: _ \<Rightarrow> py_error + _) (mset (map fst (fu_rows st)))"
    using ks inr by (simp only: mset_map)
  then have m: "mset keys = mset (map fst (fu_rows st))"
    by (rule injD [OF multiset.inj_map [OF inj_Inr]])
  have "distinct keys" "set keys = K"
    using cov mset_eq_imp_distinct_iff [OF m] mset_eq_setD [OF m] by (simp_all add: covers_def)
  with inr show ?thesis by blast
qed

text \<open>
  The ranking neither loses, doubles nor invents a candidate: every row that has an id comes back
  exactly once under its key, and each ranked row has the public fields of a row that went in.
\<close>

lemma ranking_complete:
  assumes "rank_candidate_lists fe cfg query lsts = Inr (rows, d)"
  shows "\<exists>keys. map candidate_key rows = map Inr keys \<and> distinct keys
    \<and> set keys = {k. k \<noteq> [] \<and> (\<exists>sr\<in>set lsts. \<exists>r\<in>set (snd sr). candidate_key r = Inr k)}
    \<and> (\<forall>row\<in>set rows. \<exists>sr\<in>set lsts. \<exists>r\<in>set (snd sr). public_row row = public_row r)"
proof -
  from assms obtain st where cov: "covers st (keys_of (concat (map snd lsts))) (set (concat (map snd lsts)))"
    and pub: "mset (map public_row rows) = mset (map (\<lambda>kr. public_row (snd kr)) (fu_rows st))"
    by (rule ranking_public)
  have "\<exists>sr\<in>set lsts. \<exists>r\<in>set (snd sr). public_row row = public_row r" if "row \<in> set rows" for row
  proof -
    have "public_row row \<in> set (map (\<lambda>kr. public_row (snd kr)) (fu_rows st))"
      using mset_eq_setD [OF pub] that by (metis image_eqI list.set_map)
    then show ?thesis using cov by (fastforce simp: covers_def)
  qed
  then show ?thesis using fused_keys [OF cov pub] by (auto simp: keys_of_def)
qed

section \<open>Exact matches\<close>

lemma length_filter_public:
  assumes "mset (map public_row xs) = mset (map public_row ys)" "\<And>r. P (public_row r) = P r"
  shows "length (filter P xs) = length (filter P ys)"
proof -
  have "length (filter P zs) = size (filter_mset P (mset (map public_row zs)))" for zs
    by (induction zs) (simp_all add: assms(2))
  then show ?thesis using assms(1) by simp
qed

lemma rare_public:
  assumes "mset (map public_row xs) = mset (map public_row ys)"
  shows "rare_exact_terms q xs = rare_exact_terms q ys"
proof -
  have "length xs = length ys" using assms by (metis length_map mset_eq_length)
  moreover have "length (filter (\<lambda>row. t \<in> set (rank_tokens (row_text row))) xs)
      = length (filter (\<lambda>row. t \<in> set (rank_tokens (row_text row))) ys)" for t
    by (rule length_filter_public [OF assms]) (simp add: row_text_public)
  ultimately show ?thesis by (simp add: rare_exact_terms_def)
qed

lemma priority_public:
  assumes "mset (map public_row xs) = mset (map public_row ys)" "public_row r = public_row r'"
  shows "exact_priority q ts xs r = exact_priority q ts ys r'"
proof -
  have "row_id r = row_id r'" "row_text r = row_text r'"
    using assms(2) by (metis row_id_public, metis row_text_public)
  then show ?thesis using rare_public [OF assms(1), of q] by (simp only: exact_priority_def)
qed

lemma priorities_lookup:
  assumes "fold_result (keyed_priority q ts rows) xs acc = Inr ps"
    and "map candidate_key xs = map Inr keys" "distinct keys"
  shows "(\<forall>r\<in>set xs. priority_of ps r = Inr (exact_priority q ts rows r))
    \<and> (\<forall>k. k \<notin> set keys \<longrightarrow> map_of ps k = map_of acc k)"
  using assms
proof (induction xs arbitrary: acc keys)
  case (Cons x xs)
  obtain k ks where keys: "keys = k # ks" "candidate_key x = Inr k" "map candidate_key xs = map Inr ks"
    using Cons.prems(2) by (cases keys) auto
  have "fold_result (keyed_priority q ts rows) xs (AList.update k (exact_priority q ts rows x) acc) = Inr ps"
    using Cons.prems(1) keys(2) by (simp add: keyed_priority_def [of q ts rows x])
  from Cons.IH [OF this keys(3)] Cons.prems(3) keys(1)
  have ih: "\<forall>r\<in>set xs. priority_of ps r = Inr (exact_priority q ts rows r)"
    "\<forall>j. j \<notin> set ks \<longrightarrow> map_of ps j = map_of (AList.update k (exact_priority q ts rows x) acc) j" by auto
  then have "map_of ps k = Some (exact_priority q ts rows x)"
    using Cons.prems(3) keys(1) by (simp add: update_conv')
  then have "priority_of ps x = Inr (exact_priority q ts rows x)" by (simp add: priority_of_def keys(2))
  then show ?case using ih keys(1) by (auto simp: update_conv')
qed simp

text \<open>The lexicographic order starts with the priority.\<close>

lemma fst_mono: "p \<le> q \<Longrightarrow> fst p \<le> fst q" for p q :: "'a::linorder \<times> 'b::linorder"
  by (auto simp: less_eq_prod_def)

lemma ranked_priorities:
  assumes "ranked_order fe cfg ps xs rr = Inr ys"
  shows "\<exists>prios. map (priority_of ps) ys = map Inr prios \<and> sorted prios"
proof -
  obtain cs scores mode where rr: "rr = (cs, scores, mode)" by (cases rr)
  obtain ks where ks: "map (rank_key fe ps (if mode = ''semantic'' then map cd_key cs else []) scores (rc_boosts cfg)) ys
      = map Inr ks" "sorted ks"
    using sorted_by_keys assms by (force simp: ranked_order_def rr Let_def)
  have "sorted (map fst ks)"
    using ks(2) by (auto simp: sorted_iff_nth_mono intro: fst_mono)
  moreover have "map (priority_of ps) ys = map Inr (map fst ks)"
    using ks(1) by (induction ys arbitrary: ks) (auto simp: rank_key_def result_simps split: sum.splits)
  ultimately show ?thesis by blast
qed

text \<open>
  Exact matches stay in front: whatever the external reranker answers, the ranked rows are sorted by
  their exact-match priority (a memory id named in the query, a quoted term, a rare identifier, the rest),
  so no score can put a worse match before a better one.
\<close>

lemma exact_matches_first:
  assumes "rank_candidate_lists fe cfg query lsts = Inr (rows, d)"
  shows "sorted (map (exact_priority query (rc_exact_terms cfg) rows) rows)"
proof -
  let ?p = "exact_priority query (rc_exact_terms cfg)"
  from assms obtain fused counts ps ordered rr ranked where
    f: "reciprocal_rank_fusion fe lsts (rc_weights cfg) (rc_fusion_k cfg) = Inr (fused, counts)"
    and p: "fold_result (keyed_priority query (rc_exact_terms cfg) fused) fused [] = Inr ps"
    and o1: "sorted_by (exact_key fe ps) fused = Inr ordered"
    and r: "ranked_order fe cfg ps ordered rr = Inr ranked"
    and m: "map_result (mark_ranked fe ps (fst (snd rr)) (rc_boosts cfg)) (List.enumerate 0 ranked) = Inr rows"
    by (rule ranking_steps) blast
  from fusion_rows [OF f] obtain st where cov: "covers st (keys_of (concat (map snd lsts))) (set (concat (map snd lsts)))"
    and pub: "mset (map public_row fused) = mset (map (\<lambda>kr. public_row (snd kr)) (fu_rows st))" .
  obtain keys where keys: "map candidate_key fused = map Inr keys" "distinct keys"
    using fused_keys [OF cov pub] by blast
  have perm: "mset ranked = mset fused" using ranked_perm [OF r] sorted_by_keys [OF o1] by simp
  obtain prios where prios: "map (priority_of ps) ranked = map Inr prios" "sorted prios"
    using ranked_priorities [OF r] by blast
  have "map (priority_of ps) ranked = map Inr (map (?p fused) ranked)"
    using priorities_lookup [OF p keys] mset_eq_setD [OF perm] by auto
  then have "prios = map (?p fused) ranked" using prios(1) by (metis inj_Inr inj_map_eq_map)
  moreover have "map (?p rows) rows = map (?p fused) ranked"
  proof -
    have "mset (map public_row rows) = mset (map public_row fused)"
      using ranked_public [OF m] mset_public [OF perm] by simp
    from priority_public [OF this, of _ _ query "rc_exact_terms cfg"] ranked_public [OF m]
    show ?thesis by (auto simp: list_eq_iff_nth_eq map_eq_conv)
  qed
  ultimately show ?thesis using prios(2) by simp
qed

text \<open>
  C29. When it answers, the ranking neither loses, doubles nor invents a candidate, and exact matches stay in
  front: every row
  that has an id comes back exactly once under its key, each ranked row has the public fields of a row that
  went in, and whatever the external reranker answers, the rows are sorted by their exact-match priority (a
  memory id named in the query, a quoted term, a rare identifier, the rest), so that no score can put a worse
  match before a better one.
\<close>

theorem ranking_complete_and_sorted:
  assumes "rank_candidate_lists fe cfg query lsts = Inr (rows, d)"
  shows "\<exists>keys. map candidate_key rows = map Inr keys \<and> distinct keys
    \<and> set keys = {k. k \<noteq> [] \<and> (\<exists>sr\<in>set lsts. \<exists>r\<in>set (snd sr). candidate_key r = Inr k)}
    \<and> (\<forall>row\<in>set rows. \<exists>sr\<in>set lsts. \<exists>r\<in>set (snd sr). public_row row = public_row r)
    \<and> sorted (map (exact_priority query (rc_exact_terms cfg) rows) rows)"
  using ranking_complete [OF assms] exact_matches_first [OF assms] by blast

section \<open>A reranker that fails\<close>

lemma not_semantic:
  assumes "reranker_scores fe q cs reranker t = Inr (scores, mode)" "mode \<noteq> ''semantic''"
  shows "scores = fallback_scores cs"
proof (cases reranker)
  case (Some r)
  then show ?thesis using assms
    by (cases "r q cs") (auto simp: reranker_scores_def result_simps split: if_splits option.splits)
qed (use assms in \<open>auto simp: reranker_scores_def\<close>)

text \<open>
  A reranker that times out, raises, answers no mapping or answers invalid scores is harmless: the
  rows are those of the deterministic ranking, score fields included; only the diagnostics differ.
\<close>

lemma failed_reranker_harmless:
  assumes "rank_candidate_lists fe cfg query lsts = Inr (rows, d)" "dget d ''reranker'' \<noteq> Some (PStr ''semantic'')"
  shows "\<exists>d'. rank_candidate_lists fe (cfg\<lparr>rc_reranker := None\<rparr>) query lsts = Inr (rows, d')"
proof -
  from assms(1) obtain fused counts ps ordered rr ranked where
    f: "reciprocal_rank_fusion fe lsts (rc_weights cfg) (rc_fusion_k cfg) = Inr (fused, counts)"
    and p: "fold_result (keyed_priority query (rc_exact_terms cfg) fused) fused [] = Inr ps"
    and o1: "sorted_by (exact_key fe ps) fused = Inr ordered"
    and s: "rerank_step fe cfg query (take (nat (rc_limit cfg)) ordered) = Inr rr"
    and r: "ranked_order fe cfg ps ordered rr = Inr ranked"
    and m: "map_result (mark_ranked fe ps (fst (snd rr)) (rc_boosts cfg)) (List.enumerate 0 ranked) = Inr rows"
    and d: "d = rank_diagnostics cfg counts fused (snd (snd rr)) (take (nat (rc_limit cfg)) ordered)"
    and ok: "rank_arguments_ok cfg = Inr ()"
    by (rule ranking_steps) blast
  obtain cs scores mode where rr: "rr = (cs, scores, mode)" by (cases rr)
  have mode: "mode \<noteq> ''semantic''" using assms(2) d rr by (simp add: rank_diagnostics_def)
  let ?cfg = "cfg\<lparr>rc_reranker := None\<rparr>"
  obtain mode' where s': "rerank_step fe ?cfg query (take (nat (rc_limit cfg)) ordered) = Inr (cs, scores, mode')"
    and mode': "mode' \<noteq> ''semantic''"
  proof (cases "length (take (nat (rc_limit cfg)) ordered) \<le> 1")
    case True
    then have "rerank_step fe ?cfg query (take (nat (rc_limit cfg)) ordered) = Inr rr"
      using s by (simp add: rerank_step_def)
    then show ?thesis using rr mode by (intro that [of mode]) auto
  next
    case False
    then have "map_result (candidate_projection (nat (rc_text_limit cfg))) (take (nat (rc_limit cfg)) ordered) = Inr cs"
      "scores = fallback_scores cs"
      using s rr mode not_semantic by (auto simp: rerank_step_def result_simps)
    then show ?thesis using False that [of "''deterministic_fallback''"]
      by (simp add: rerank_step_def reranker_scores_def)
  qed
  have r': "ranked_order fe ?cfg ps ordered (cs, scores, mode') = Inr ranked"
    using r rr mode mode' by (simp add: ranked_order_def)
  show ?thesis
    using f p o1 s' r' m ok rr by (auto simp: rank_candidate_lists_def Let_def rank_arguments_ok_def)
qed

section \<open>Witnesses\<close>

text \<open>A reranker that prefers the second memory, and candidates of which one is named by the query.\<close>

definition demo_row_of :: "string \<Rightarrow> string \<Rightarrow> pydict" where
  "demo_row_of i t = [(''id'', PStr i), (''chunk_index'', PInt 0), (''text'', PStr t)]"

definition demo_candidates :: "(string \<times> pydict list) list" where
  "demo_candidates = [(''dense'', [demo_row_of ''p'' ''x'', demo_row_of ''q'' ''y'']),
     (''lexical'', [demo_row_of ''r'' ''a1'', demo_row_of ''p'' ''x''])]"

definition demo_rank_config :: "reranker option \<Rightarrow> rank_config" where
  "demo_rank_config r =
     \<lparr>rc_weights = [], rc_fusion_k = 60, rc_exact_terms = [], rc_reranker = r, rc_timeout = ''1'', rc_limit = 25,
      rc_text_limit = 100, rc_boosts = []\<rparr>"

text \<open>Integers stand for the floats: larger ones rank higher.\<close>

definition demo_rank_floats :: float_env where
  "demo_rank_floats =
     \<lparr>fl_of = (\<lambda>v. Inl (TypeError [])), fl_add = (\<lambda>(x, y). int_str (int (digits_val x) + int (digits_val y))),
      fl_sub = fst, fl_mul = fst, fl_div = (\<lambda>(x, y). ''1''), fl_sqrt = id, fl_rank = (\<lambda>x. int (digits_val x))\<rparr>"

definition demo_reranker :: reranker where
  "demo_reranker query cs = RerankScores [(''q:0'', PFloat ''9'')]"

abbreviation demo_ranking :: "reranker option \<Rightarrow> (pydict list \<times> pydict) result" where
  "demo_ranking r \<equiv> rank_candidate_lists demo_rank_floats (demo_rank_config r) ''a1'' demo_candidates"

definition row_ids :: "(pydict list \<times> pydict) result \<Rightarrow> string list option" where
  "row_ids r = (case r of Inr rd \<Rightarrow> Some (map row_id (fst rd)) | Inl e \<Rightarrow> None)"

lemma row_ids_Some: "row_ids r = Some ids \<Longrightarrow> \<exists>rows d. r = Inr (rows, d) \<and> map row_id rows = ids"
  by (auto simp: row_ids_def split: sum.splits)

text \<open>A reranker that ranks \<open>q\<close> before \<open>p\<close> is followed, but not before the row the query names.\<close>

theorem ranking_complete_and_sorted_witness:
  "\<exists>rows d keys. demo_ranking (Some demo_reranker) = Inr (rows, d) \<and> map row_id rows = [''r'', ''q'', ''p'']
     \<and> map candidate_key rows = map Inr keys \<and> distinct keys
     \<and> sorted (map (exact_priority ''a1'' (rc_exact_terms (demo_rank_config (Some demo_reranker))) rows) rows)"
proof -
  have ids: "row_ids (demo_ranking (Some demo_reranker)) = Some [''r'', ''q'', ''p'']" by code_simp
  from row_ids_Some [OF ids] obtain rows d where r: "demo_ranking (Some demo_reranker) = Inr (rows, d)"
      "map row_id rows = [''r'', ''q'', ''p'']"
    by (elim exE conjE) (rule that)
  from ranking_complete_and_sorted [OF r(1)] obtain keys where keys: "map candidate_key rows = map Inr keys"
      "distinct keys" "sorted (map (exact_priority ''a1'' (rc_exact_terms (demo_rank_config (Some demo_reranker))) rows) rows)"
    by (elim exE conjE) (rule that)
  show ?thesis by (intro exI conjI) (rule r keys)+
qed

lemma failed_reranker_harmless_example:
  "\<exists>rows d d'. demo_ranking (Some (\<lambda>q cs. RerankTimeout)) = Inr (rows, d)
     \<and> dget d ''reranker'' = Some (PStr ''timeout_fallback'') \<and> demo_ranking None = Inr (rows, d')"
proof -
  have "(case demo_ranking (Some (\<lambda>q cs. RerankTimeout)) of Inr rd \<Rightarrow> dget (snd rd) ''reranker'' = Some (PStr ''timeout_fallback'')
      | Inl e \<Rightarrow> False)" by code_simp
  then obtain rows d where r: "demo_ranking (Some (\<lambda>q cs. RerankTimeout)) = Inr (rows, d)"
      "dget d ''reranker'' = Some (PStr ''timeout_fallback'')" by (auto split: sum.splits)
  then have "dget d ''reranker'' \<noteq> Some (PStr ''semantic'')" by simp
  from failed_reranker_harmless [OF r(1) this] obtain d' where "demo_ranking None = Inr (rows, d')"
    by (auto simp: demo_rank_config_def)
  with r show ?thesis by (intro exI conjI)
qed

end
