(* ===== verification/Spec2Isabelle.thy ===== *)
theory Spec2Isabelle
  imports FactProperties HandoffStore LineageProperties NormalizeProperties SensitiveProperties ChunkingProperties
    VectorProperties IndexProperties ConnectProperties RankingProperties
begin

text \<open>
  A verification development of ai-memory-hub, a Python service that stores conversations of coding agents,
  indexes them for retrieval and guards them with projects, tokens and an OAuth server.

  \<^bold>\<open>The program and how its parts interact.\<close> A request passes the HTTP gate (\<^verbatim>\<open>memory/auth.py\<close>), which
  checks a bearer token, a token the hub signed, or a browser session against the metadata store
  (\<^verbatim>\<open>memory/backend/metadata_store.py\<close>). Accounts, tokens, sessions and the state of OAuth live in that
  store; the authorization server (\<^verbatim>\<open>memory/api/oauth_authorization.py\<close>) and the logins
  (\<^verbatim>\<open>memory/api/connect_oauth.py\<close>, \<^verbatim>\<open>memory/api/connect_service.py\<close>) write it in several transactions
  per request. Behind the gate the ingestion runtime (\<^verbatim>\<open>memory/ingestion/mvp_ingestion.py\<close>) normalises a
  conversation, scans it for secrets, decides between a new memory, an append and a duplicate, writes the
  conversation with its messages and chunks, embeds the chunks, stores the vectors and marks the chunks;
  memories can be held back for review. Facts, handoff records, summaries and an audit log are further
  tables. Retrieval fuses and ranks candidates (\<^verbatim>\<open>memory/ingestion/retrieval_ranking.py\<close>).

  \<^bold>\<open>Which theory models what.\<close>
  \<^item> Shared ground. \<open>Prelude\<close>: results (an error or a value), strings as Python reads them, tables keyed by a
    column with upserts (the locale \<open>keyed_table\<close>). \<open>PyValue\<close>: Python values and dictionaries. \<open>Regex\<close>: a
    backtracking matcher for the patterns of the code. \<open>Effects\<close>: actions, a state passed through with errors
    as values. \<open>OneTime\<close>: the interfaces of things that can be revoked or used once.
  \<^item> The metadata store. \<open>StoreValidators\<close>, \<open>StoreTables\<close> (one record per table), \<open>AuthStore\<close>, \<open>OAuthStore\<close>,
    \<open>ProjectStore\<close>, \<open>ConversationStore\<close>, \<open>ChunkState\<close>, \<open>FactStore\<close>, \<open>HandoffStore\<close>, \<open>AuditStore\<close>: one definition per
    method of \<open>SQLiteMetadataStore\<close>, a function of the tables and the texts the clock gave, which answers an
    error (the transaction is rolled back) or a value and the new tables. \<open>CredentialMachine\<close> has every
    operation on the accounts as a constructor, so that other requests are lists of operations.
  \<^item> The gate and the servers. \<open>HttpAuth\<close>, \<open>HttpGate\<close> (\<^verbatim>\<open>memory/auth.py\<close>, \<^verbatim>\<open>memory/api/connect_security.py\<close>),
    \<open>RedirectUris\<close>, \<open>OAuthServer\<close>, \<open>ConnectLogin\<close>. A handler takes what others do before each of its
    transactions as an argument (\<open>ca_others\<close>), so its theorems hold for every interleaving of transactions.
  \<^item> Ingestion. \<open>ThreadModels\<close>, \<open>MemoryAccess\<close>, \<open>AppendDelta\<close>, \<open>Normalize\<close>, \<open>SensitiveScan\<close>, \<open>Enrichment\<close>,
    \<open>Chunking\<close>, \<open>VectorStore\<close>, \<open>IndexRepair\<close>, \<open>Summaries\<close>, \<open>Pipeline\<close> (the runtime: a state of tables, vectors,
    audit log, facts and summaries), \<open>Ingest\<close> (ingestion, validation, pending review, quarantine, approval,
    rejection) and \<open>LogSafety\<close> (redaction). \<open>Ranking\<close> models the ranking of candidates.

  \<^bold>\<open>What the lemmas show.\<close>
  \<^item> \<open>AuthInvariant\<close>, \<open>AuthProperties\<close>, \<open>CredentialOnce\<close>, \<open>CredentialSafety\<close>: keys and unique indexes of the
    accounts in every reachable database; codes, states and refresh tokens are used once, revoked families,
    tokens and sessions stay revoked (interpretations of \<open>one_time\<close> and \<open>revocable\<close>); quotas.
  \<^item> \<open>GateProperties\<close>, \<open>TokenAcceptance\<close>: who passes the gate, and which tokens the hub accepts.
  \<^item> \<open>OAuthLaws\<close>, \<open>OAuthProperties\<close>, \<open>OAuthRedirects\<close>, \<open>ConnectProperties\<close>: one token per code, replay ends a
    family, redirects go to URIs registered for the client that is named, logins and logouts.
  \<^item> \<open>ConversationInvariant\<close>, \<open>ConversationProperties\<close>: the invariant of the conversation tables, reading back,
    idempotence, compare-and-swap of appends, agreement of the two copies of the index state.
  \<^item> \<open>NormalizeProperties\<close>, \<open>AppendProperties\<close>, \<open>SensitiveProperties\<close>, \<open>ChunkingProperties\<close>, \<open>VectorProperties\<close>,
    \<open>LineageProperties\<close>, \<open>RankingProperties\<close>: functional properties of the pure parts (normal forms, prefix
    order of snapshots, exactness of the scan, windows and batches, nearest rows, finite lineages, ranking).
  \<^item> \<open>PipelineLaws\<close>, \<open>IngestProperties\<close>, \<open>ReviewProperties\<close>, \<open>IndexProperties\<close>: whatever a primitive action keeps,
    the pipeline keeps (the locales \<open>hub_frame\<close> to \<open>hub_pipeline\<close>); denied callers and validation write
    nothing, quarantine, finality of rejection, agreement of chunk rows, manifest and vectors.
  \<^item> \<open>FactProperties\<close>, \<open>HandoffStore\<close>, \<open>AuditStore\<close>: corrections, isolation of projects, supersession once and
    without cycles, an append-only log.

  \<^bold>\<open>Bounds.\<close> They are those of the code: an append is tried 3 times and then gives up with an error
  (\<open>MAX_APPEND_ATTEMPTS\<close>; the loop has no other end, so this is its meaning and not a cut), a lineage is
  walked 1024 steps for validation and 16 for its view, a scan reports 16 findings, and the quotas and
  lifetimes of clients, states, codes and sessions are constants of the theories. The recursions have no other
  fuel: each terminates by its structure or by a measure (windows, batches, the regular expressions).

  \<^bold>\<open>Parameters.\<close> What is not the code of the repository is an argument: hash functions, HMAC, base64, JSON
  reading, the signing library and its answers, \<open>ipaddress\<close>, \<open>datetime\<close>, token encodings, embedders, floating
  point (opaque numerals with their operations), models of third-party validation, HTTP answers of identity
  providers, random secrets and the readings of the clock. Strings are sequences of the characters up to 255.

  \<^bold>\<open>Not modelled.\<close> Search, ask and retrieve with their query planning; the extraction of facts and graphs from
  prose; the stores over PostgreSQL and MongoDB and the adapters of vector databases; the FastAPI and MCP
  surfaces, the rendered pages, importers, configuration, command line, benchmarks and observability: input
  and output, third-party clients, or declarative data around the parts above.

  \<^bold>\<open>Limits worth knowing.\<close> Expiry is what the store does: a comparison of texts. A theorem that calls a
  credential live says no more than that; \<open>iso_expiry_not_enforced_same_day\<close> shows what it means for the texts
  the hub writes.
\<close>

end
